(* ===== verification/Prelude.thy ===== *)
theory Prelude
  imports Main "HOL-Library.AList" "HOL-Library.Sublist" "HOL-Library.List_Lexorder"
    "HOL-Library.Char_ord"
begin

text \<open>
  Shared vocabulary of the development: time, the Go string functions the server calls
  (\<^verbatim>\<open>strings.TrimSpace\<close>, \<^verbatim>\<open>strings.ToLower\<close>, \<^verbatim>\<open>strconv.ParseInt\<close>, \<^verbatim>\<open>strconv.Itoa\<close>,
  \<^verbatim>\<open>hex.EncodeToString\<close>), the SQL statements the server sends to SQLite as functions on
  lists of rows, and Go maps as association lists.  A Go string is a sequence of bytes, so it is
  a \<^typ>\<open>string\<close> and \<^const>\<open>length\<close> is Go's \<^verbatim>\<open>len\<close>.
\<close>

named_theorems sql_simps \<open>equations on SQL statements and association lists\<close>
named_theorems handler_defs \<open>the defining equations of the message handlers\<close>

section \<open>Time\<close>

text \<open>
  \<^verbatim>\<open>time.Time\<close> and \<^verbatim>\<open>time.Duration\<close> are integers counting nanoseconds.  SQLite's
  \<^verbatim>\<open>CURRENT_TIMESTAMP\<close> has a resolution of one second.  A Go time is stored as text whose first
  19 characters are the second and which goes on after them, so comparing it as text with
  \<^verbatim>\<open>CURRENT_TIMESTAMP\<close> (exactly 19 characters) compares the seconds and, when they are
  equal, the stored value is the greater one.
\<close>

type_synonym time = int

definition second :: time where "second = 1000000000"
definition minute :: time where "minute = 60 * second"
definition hour :: time where "hour = 60 * minute"
definition day :: time where "day = 24 * hour"

lemmas duration_defs = second_def minute_def hour_def day_def

definition sqlNow :: "time \<Rightarrow> time" where
  "sqlNow t = (t div second) * second"

definition textAfterNow :: "time \<Rightarrow> time \<Rightarrow> bool" where
  "textAfterNow stored t \<longleftrightarrow> t div second \<le> stored div second"

definition textBeforeNow :: "time \<Rightarrow> time \<Rightarrow> bool" where
  "textBeforeNow stored t \<longleftrightarrow> stored div second < t div second"

text \<open>
  A time formatted with \<^verbatim>\<open>time.RFC3339\<close> has a \<^verbatim>\<open>T\<close> where \<^verbatim>\<open>CURRENT_TIMESTAMP\<close> has a space, a smaller
  character.  Compared as text, such a value is greater exactly when its UTC day is not an earlier one.
\<close>

definition rfcAfterNow :: "time \<Rightarrow> time \<Rightarrow> bool" where
  "rfcAfterNow stored t \<longleftrightarrow> t div day \<le> stored div day"

lemma textBefore_iff_not_after: "textBeforeNow a t \<longleftrightarrow> \<not> textAfterNow a t"
  by (auto simp: textBeforeNow_def textAfterNow_def)

lemma sqlNow_le: "sqlNow t \<le> t"
  by (simp add: sqlNow_def second_def)

lemma not_textAfter_expired: "\<not> textAfterNow e t \<Longrightarrow> e < t"
proof -
  assume "\<not> textAfterNow e t"
  then have "e div second < t div second" by (simp add: textAfterNow_def)
  then show "e < t"
    by (metis linorder_not_le second_def zdiv_mono1 zero_less_numeral)
qed

section \<open>Go strings\<close>

abbreviation chr :: "nat \<Rightarrow> char" where "chr n \<equiv> char_of n"

text \<open>The UTF-8 encodings of the code points for which \<^verbatim>\<open>unicode.IsSpace\<close> holds.\<close>

definition goSpaces :: "string list" where
  "goSpaces =
     map (\<lambda>n. [chr n]) [32, 9, 10, 11, 12, 13] @
     [[chr 194, chr 133], [chr 194, chr 160], [chr 225, chr 154, chr 128],
      [chr 226, chr 128, chr 168], [chr 226, chr 128, chr 169], [chr 226, chr 128, chr 175],
      [chr 226, chr 129, chr 159], [chr 227, chr 128, chr 128]] @
     map (\<lambda>n. [chr 226, chr 128, chr n]) [128, 129, 130, 131, 132, 133, 134, 135, 136, 137, 138]"

lemma goSpaces_nonempty: "p \<in> set goSpaces \<Longrightarrow> p \<noteq> []"
  by (auto simp: goSpaces_def)

function TrimLeft :: "string \<Rightarrow> string" where
  "TrimLeft s = (case find (\<lambda>p. prefix p s) goSpaces of
      None \<Rightarrow> s
    | Some p \<Rightarrow> TrimLeft (drop (length p) s))"
  by pat_completeness auto
termination
proof (relation "measure length")
  fix s p
  assume "find (\<lambda>p. prefix p s) goSpaces = Some p"
  then have "p \<in> set goSpaces" "prefix p s"
    by (auto simp: find_Some_iff)
  then show "(drop (length p) s, s) \<in> measure length"
    using goSpaces_nonempty [of p] by (auto simp: prefix_def)
qed simp

function TrimRight :: "string \<Rightarrow> string" where
  "TrimRight s = (case find (\<lambda>p. suffix p s) goSpaces of
      None \<Rightarrow> s
    | Some p \<Rightarrow> TrimRight (take (length s - length p) s))"
  by pat_completeness auto
termination
proof (relation "measure length")
  fix s p
  assume "find (\<lambda>p. suffix p s) goSpaces = Some p"
  then have "p \<in> set goSpaces" "suffix p s"
    by (auto simp: find_Some_iff)
  then show "(take (length s - length p) s, s) \<in> measure length"
    using goSpaces_nonempty [of p] by (auto simp: suffix_def)
qed simp

declare TrimLeft.simps [simp del] TrimRight.simps [simp del]

definition TrimSpace :: "string \<Rightarrow> string" where
  "TrimSpace s = TrimRight (TrimLeft s)"

lemma length_TrimLeft: "length (TrimLeft s) \<le> length s"
proof (induction s rule: TrimLeft.induct)
  case (1 s)
  show ?case
  proof (cases "find (\<lambda>p. prefix p s) goSpaces")
    case None
    then show ?thesis by (subst TrimLeft.simps) simp
  next
    case (Some p)
    have "length (TrimLeft (drop (length p) s)) \<le> length (drop (length p) s)"
      by (rule 1 [OF Some])
    with Some show ?thesis by (subst TrimLeft.simps) simp
  qed
qed

lemma length_TrimRight: "length (TrimRight s) \<le> length s"
proof (induction s rule: TrimRight.induct)
  case (1 s)
  show ?case
  proof (cases "find (\<lambda>p. suffix p s) goSpaces")
    case None
    then show ?thesis by (subst TrimRight.simps) simp
  next
    case (Some p)
    have "length (TrimRight (take (length s - length p) s)) \<le> length (take (length s - length p) s)"
      by (rule 1 [OF Some])
    with Some show ?thesis by (subst TrimRight.simps) simp
  qed
qed

lemma length_TrimSpace: "length (TrimSpace s) \<le> length s"
  unfolding TrimSpace_def using length_TrimRight length_TrimLeft order_trans by blast

text \<open>A trimmed string ends in no space, and trimming twice changes nothing on the right.\<close>

lemma TrimRight_no_suffix: "find (\<lambda>p. suffix p (TrimRight s)) goSpaces = None"
proof (induction s rule: TrimRight.induct)
  case (1 s)
  show ?case
  proof (cases "find (\<lambda>p. suffix p s) goSpaces")
    case None
    then show ?thesis by (subst TrimRight.simps) simp
  next
    case (Some p)
    have "find (\<lambda>q. suffix q (TrimRight (take (length s - length p) s))) goSpaces = None"
      by (rule 1 [OF Some])
    with Some show ?thesis by (subst TrimRight.simps) simp
  qed
qed

lemma TrimRight_idem: "TrimRight (TrimRight s) = TrimRight s"
  by (subst TrimRight.simps) (simp add: TrimRight_no_suffix)

definition isASCII :: "string \<Rightarrow> bool" where
  "isASCII s \<longleftrightarrow> list_all (\<lambda>c. of_char c < (128 :: nat)) s"

definition asciiLower :: "char \<Rightarrow> char" where
  "asciiLower c = (if 65 \<le> (of_char c :: nat) \<and> (of_char c :: nat) \<le> 90
                   then char_of ((of_char c :: nat) + 32) else c)"

text \<open>
  \<^verbatim>\<open>strings.ToLower\<close> takes a fast path on ASCII text; the Unicode tables it consults otherwise
  are the parameter \<open>uni\<close>.
\<close>

definition ToLower :: "(string \<Rightarrow> string) \<Rightarrow> string \<Rightarrow> string" where
  "ToLower uni s = (if isASCII s then map asciiLower s else uni s)"

text \<open>
  \<^verbatim>\<open>strings.HasPrefix\<close>, \<^verbatim>\<open>HasSuffix\<close>, \<^verbatim>\<open>Contains\<close>, \<^verbatim>\<open>TrimPrefix\<close>, \<^verbatim>\<open>Split\<close> at a separator of one byte and
  \<^verbatim>\<open>LastIndex\<close> of a byte; \<^verbatim>\<open>None\<close> is the index -1.  \<open>cutLast\<close> is the text after the last occurrence.
\<close>

definition hasPrefix :: "string \<Rightarrow> string \<Rightarrow> bool" where
  "hasPrefix s p \<longleftrightarrow> prefix p s"

definition hasSuffix :: "string \<Rightarrow> string \<Rightarrow> bool" where
  "hasSuffix s p \<longleftrightarrow> suffix p s"

definition strContains :: "string \<Rightarrow> string \<Rightarrow> bool" where
  "strContains s sub \<longleftrightarrow> sublist sub s"

definition TrimPrefix :: "string \<Rightarrow> string \<Rightarrow> string" where
  "TrimPrefix s p = (if prefix p s then drop (length p) s else s)"

fun strSplit :: "char \<Rightarrow> string \<Rightarrow> string list" where
  "strSplit sep [] = [[]]"
| "strSplit sep (c # cs) =
     (if c = sep then [] # strSplit sep cs
      else case strSplit sep cs of [] \<Rightarrow> [[c]] | w # ws \<Rightarrow> (c # w) # ws)"

definition cutLast :: "char \<Rightarrow> string \<Rightarrow> string option" where
  "cutLast sep s = (if sep \<in> set s then Some (last (strSplit sep s)) else None)"

lemma strSplit_nonempty [simp]: "strSplit sep s \<noteq> []"
  by (cases s) (auto split: list.splits)

lemma strSplit_no_sep: "w \<in> set (strSplit sep s) \<Longrightarrow> sep \<notin> set w"
  by (induction s arbitrary: w) (auto split: list.splits if_splits)

lemma strSplit_single: "sep \<notin> set s \<Longrightarrow> strSplit sep s = [s]"
  by (induction s) auto

definition isDigitC :: "char \<Rightarrow> bool" where
  "isDigitC c \<longleftrightarrow> 48 \<le> (of_char c :: nat) \<and> (of_char c :: nat) \<le> 57"

definition isLowerC :: "char \<Rightarrow> bool" where
  "isLowerC c \<longleftrightarrow> 97 \<le> (of_char c :: nat) \<and> (of_char c :: nat) \<le> 122"

definition isAlphaC :: "char \<Rightarrow> bool" where
  "isAlphaC c \<longleftrightarrow> isLowerC c \<or> (65 \<le> (of_char c :: nat) \<and> (of_char c :: nat) \<le> 90)"

definition digitVal :: "char \<Rightarrow> int" where
  "digitVal c = of_char c - 48"

fun digitsVal :: "string \<Rightarrow> int \<Rightarrow> int" where
  "digitsVal [] acc = acc"
| "digitsVal (c # cs) acc = digitsVal cs (acc * 10 + digitVal c)"

text \<open>\<^verbatim>\<open>strconv.ParseInt(s, 10, 64)\<close>: an optional sign, at least one digit, 64-bit range.\<close>

definition ParseInt :: "string \<Rightarrow> int option" where
  "ParseInt s =
     (let neg = (s \<noteq> [] \<and> hd s = CHR ''-'');
          ds = (if s \<noteq> [] \<and> (hd s = CHR ''-'' \<or> hd s = CHR ''+'') then tl s else s)
      in if ds = [] \<or> \<not> list_all isDigitC ds then None
         else let v = (if neg then - digitsVal ds 0 else digitsVal ds 0)
              in if - (2 ^ 63) \<le> v \<and> v < 2 ^ 63 then Some v else None)"

fun digitsOf :: "nat \<Rightarrow> string" where
  "digitsOf n = (if n < 10 then [char_of (48 + n)] else digitsOf (n div 10) @ [char_of (48 + n mod 10)])"

declare digitsOf.simps [simp del]

definition Itoa :: "int \<Rightarrow> string" where
  "Itoa i = (if i < 0 then CHR ''-'' # digitsOf (nat (- i)) else digitsOf (nat i))"

definition hexDigit :: "nat \<Rightarrow> char" where
  "hexDigit n = (if n < 10 then char_of (48 + n) else char_of (87 + n))"

definition hexEncode :: "nat list \<Rightarrow> string" where
  "hexEncode bs = concat (map (\<lambda>b. [hexDigit (b div 16), hexDigit (b mod 16)]) bs)"

lemma length_hexEncode: "length (hexEncode bs) = 2 * length bs"
  by (induction bs) (auto simp: hexEncode_def)

section \<open>SQL statements on lists of rows\<close>

text \<open>
  A table is the list of its rows in rowid order.  \<open>sql_update P f\<close> is
  \<^verbatim>\<open>UPDATE t SET f WHERE P\<close>, \<open>sql_delete P\<close> is \<^verbatim>\<open>DELETE FROM t WHERE P\<close>,
  \<open>sql_row P\<close> is a \<^verbatim>\<open>QueryRow\<close> (the first row, or \<^verbatim>\<open>sql.ErrNoRows\<close>), and the three
  insertions differ in what they do when the unique key \<open>K\<close> of the new row is already present:
  \<^verbatim>\<open>INSERT\<close> fails, \<^verbatim>\<open>INSERT OR IGNORE\<close> does nothing, \<^verbatim>\<open>INSERT \<dots> ON CONFLICT DO UPDATE\<close>
  changes the row that is there.
\<close>

definition sql_update :: "('r \<Rightarrow> bool) \<Rightarrow> ('r \<Rightarrow> 'r) \<Rightarrow> 'r list \<Rightarrow> 'r list" where
  "sql_update P f t = map (\<lambda>r. if P r then f r else r) t"

definition sql_delete :: "('r \<Rightarrow> bool) \<Rightarrow> 'r list \<Rightarrow> 'r list" where
  "sql_delete P t = filter (\<lambda>r. \<not> P r) t"

definition sql_row :: "('r \<Rightarrow> bool) \<Rightarrow> 'r list \<Rightarrow> 'r option" where
  "sql_row P t = find P t"

definition sql_count :: "('r \<Rightarrow> bool) \<Rightarrow> 'r list \<Rightarrow> nat" where
  "sql_count P t = length (filter P t)"

definition sql_has :: "('r \<Rightarrow> 'k) \<Rightarrow> 'k \<Rightarrow> 'r list \<Rightarrow> bool" where
  "sql_has K k t = list_ex (\<lambda>r. K r = k) t"

definition sql_insert :: "('r \<Rightarrow> 'k) \<Rightarrow> 'r \<Rightarrow> 'r list \<Rightarrow> 'r list option" where
  "sql_insert K r t = (if sql_has K (K r) t then None else Some (t @ [r]))"

definition sql_insert_ignore :: "('r \<Rightarrow> 'k) \<Rightarrow> 'r \<Rightarrow> 'r list \<Rightarrow> 'r list" where
  "sql_insert_ignore K r t = (if sql_has K (K r) t then t else t @ [r])"

definition sql_upsert :: "('r \<Rightarrow> 'k) \<Rightarrow> ('r \<Rightarrow> 'r) \<Rightarrow> 'r \<Rightarrow> 'r list \<Rightarrow> 'r list" where
  "sql_upsert K f r t =
     (if sql_has K (K r) t then sql_update (\<lambda>x. K x = K r) f t else t @ [r])"

text \<open>\<^verbatim>\<open>ORDER BY id DESC LIMIT n\<close> of rows held in id order.\<close>

definition sql_last_desc :: "nat \<Rightarrow> 'r list \<Rightarrow> 'r list" where
  "sql_last_desc n t = take n (rev t)"

definition uniq :: "('r \<Rightarrow> 'k) \<Rightarrow> 'r list \<Rightarrow> bool" where
  "uniq K t \<longleftrightarrow> distinct (map K t)"

lemma set_sql_update [sql_simps]:
  "set (sql_update P f t) = (\<lambda>r. if P r then f r else r) ` set t"
  by (simp add: sql_update_def)

lemma bex_sql_update:
  "(\<exists>r \<in> set (sql_update P f t). Q r) \<longleftrightarrow> (\<exists>r \<in> set t. if P r then Q (f r) else Q r)"
  by (induction t) (auto simp: sql_update_def)

lemma ball_sql_update:
  "(\<forall>r \<in> set (sql_update P f t). Q r) \<longleftrightarrow> (\<forall>r \<in> set t. if P r then Q (f r) else Q r)"
  by (induction t) (auto simp: sql_update_def)

lemma set_sql_delete [sql_simps]: "set (sql_delete P t) = {r \<in> set t. \<not> P r}"
  by (simp add: sql_delete_def)

lemma length_sql_update [simp]: "length (sql_update P f t) = length t"
  by (simp add: sql_update_def)

lemma sql_has_iff [sql_simps]: "sql_has K k t \<longleftrightarrow> k \<in> K ` set t"
  by (auto simp: sql_has_def list_ex_iff)

lemma set_sql_insert_ignore:
  "set (sql_insert_ignore K r t) = (if K r \<in> K ` set t then set t else insert r (set t))"
  by (auto simp: sql_insert_ignore_def sql_has_iff)

lemma key_sql_insert_ignore [sql_simps]:
  "K ` set (sql_insert_ignore K r t) = insert (K r) (K ` set t)"
  by (auto simp: sql_insert_ignore_def sql_has_iff)

lemma key_sql_upsert:
  assumes "\<And>x. K (f x) = K x"
  shows "K ` set (sql_upsert K f r t) = insert (K r) (K ` set t)"
proof -
  have "K ` set (sql_update P f t) = K ` set t" for P
  proof -
    have "map K (sql_update P f t) = map K t"
      using assms by (simp add: sql_update_def)
    then show ?thesis by (metis list.set_map)
  qed
  then show ?thesis
    by (auto simp: sql_upsert_def sql_has_iff)
qed

lemma uniq_Nil [simp]: "uniq K []"
  by (simp add: uniq_def)

lemma uniq_sql_insert: "uniq K t \<Longrightarrow> sql_insert K r t = Some t' \<Longrightarrow> uniq K t'"
  by (auto simp: uniq_def sql_insert_def sql_has_iff split: if_splits)

lemma uniq_sql_insert_ignore: "uniq K t \<Longrightarrow> uniq K (sql_insert_ignore K r t)"
  by (auto simp: uniq_def sql_insert_ignore_def sql_has_iff)

lemma uniq_sql_delete: "uniq K t \<Longrightarrow> uniq K (sql_delete P t)"
  by (simp add: uniq_def sql_delete_def distinct_map_filter)

lemma uniq_sql_update: "uniq K t \<Longrightarrow> (\<And>r. K (f r) = K r) \<Longrightarrow> uniq K (sql_update P f t)"
  by (simp add: uniq_def sql_update_def comp_def if_distrib cong: if_cong)

lemma uniq_sql_upsert: "uniq K t \<Longrightarrow> (\<And>r. K (f r) = K r) \<Longrightarrow> uniq K (sql_upsert K f r t)"
  using uniq_sql_update [of K t f] by (auto simp: sql_upsert_def sql_has_iff uniq_def)

lemmas uniq_intros = uniq_sql_insert_ignore uniq_sql_delete uniq_sql_update uniq_sql_upsert

lemma sql_row_None [sql_simps]: "sql_row P t = None \<longleftrightarrow> (\<forall>r \<in> set t. \<not> P r)"
  by (auto simp: sql_row_def find_None_iff)

lemma sql_row_SomeD: "sql_row P t = Some r \<Longrightarrow> r \<in> set t \<and> P r"
  by (auto simp: sql_row_def find_Some_iff)

lemma sql_row_unique:
  assumes "uniq K t" and "r \<in> set t" and "K r = k"
  shows "sql_row (\<lambda>x. K x = k) t = Some r"
proof -
  obtain r' where r': "sql_row (\<lambda>x. K x = k) t = Some r'"
    using assms by (cases "sql_row (\<lambda>x. K x = k) t") (auto simp: sql_row_None)
  from sql_row_SomeD [OF this] have "r' \<in> set t" "K r' = K r" using assms by auto
  with assms have "r' = r" by (auto simp: uniq_def distinct_map dest: inj_onD)
  with r' show ?thesis by simp
qed

lemma sql_row_append_new:
  "k \<notin> K ` set t \<Longrightarrow> K r = k \<Longrightarrow> sql_row (\<lambda>x. K x = k) (t @ [r]) = Some r"
  by (induction t) (auto simp: sql_row_def)

lemma uniq_count: "uniq K t \<Longrightarrow> sql_count (\<lambda>r. K r = k) t \<le> 1"
  by (induction t) (auto simp: uniq_def sql_count_def filter_empty_conv image_iff)

lemma sql_row_update_key:
  assumes "\<And>x. K (f x) = K x"
  shows "sql_row (\<lambda>x. K x = k) (sql_update P f t) =
         map_option (\<lambda>r. if P r then f r else r) (sql_row (\<lambda>x. K x = k) t)"
  using assms by (induction t) (auto simp: sql_row_def sql_update_def)

lemma sql_count_pos: "0 < sql_count P t \<longleftrightarrow> (\<exists>r \<in> set t. P r)"
  by (auto simp: sql_count_def filter_empty_conv)

lemma sql_count_delete_other: "(\<And>r. P r \<Longrightarrow> \<not> Q r) \<Longrightarrow> sql_count P (sql_delete Q t) = sql_count P t"
  by (auto simp: sql_count_def sql_delete_def intro!: arg_cong [where f = length] filter_cong)

lemma sql_count_append [simp]: "sql_count P (t @ u) = sql_count P t + sql_count P u"
  by (simp add: sql_count_def)

section \<open>Go maps as association lists\<close>

text \<open>
  \<open>aget d m k\<close> is Go's \<^verbatim>\<open>m[k]\<close> with the zero value \<open>d\<close>.  Ranging over a map visits the
  entries in the order of the list, one of the orders Go allows.
\<close>

definition aget :: "'v \<Rightarrow> ('k \<times> 'v) list \<Rightarrow> 'k \<Rightarrow> 'v" where
  "aget d m k = (case map_of m k of None \<Rightarrow> d | Some v \<Rightarrow> v)"

abbreviation aput :: "'k \<Rightarrow> 'v \<Rightarrow> ('k \<times> 'v) list \<Rightarrow> ('k \<times> 'v) list" where
  "aput \<equiv> AList.update"

abbreviation adel :: "'k \<Rightarrow> ('k \<times> 'v) list \<Rightarrow> ('k \<times> 'v) list" where
  "adel \<equiv> AList.delete"

abbreviation akeys :: "('k \<times> 'v) list \<Rightarrow> 'k list" where
  "akeys m \<equiv> map fst m"

lemma aget_aput [simp]: "aget d (aput k v m) k' = (if k' = k then v else aget d m k')"
  by (simp add: aget_def update_conv)

lemma aget_adel [simp]: "aget d (adel k m) k' = (if k' = k then d else aget d m k')"
  by (simp add: aget_def delete_conv')

lemma map_of_aput [simp]: "map_of (aput k v m) k' = (if k' = k then Some v else map_of m k')"
  by (simp add: update_conv)

lemma map_of_adel [simp]: "map_of (adel k m) k' = (if k' = k then None else map_of m k')"
  by (simp add: delete_conv')

lemma set_akeys_aput [simp]: "fst ` set (aput k v m) = insert k (fst ` set m)"
  using dom_update [of k v m] by (auto simp: dom_map_of_conv_image_fst)

lemma set_akeys_adel [simp]: "fst ` set (adel k m) = fst ` set m - {k}"
  by (auto simp: AList.delete_eq)

lemma distinct_aput: "distinct (akeys m) \<Longrightarrow> distinct (akeys (aput k v m))"
  by (rule distinct_update)

lemma distinct_adel: "distinct (akeys m) \<Longrightarrow> distinct (akeys (adel k m))"
  by (rule distinct_delete)

lemma map_of_filter_key:
  "distinct (akeys m) \<Longrightarrow>
   map_of (filter (\<lambda>(k, v). Q k v) m) k =
     (case map_of m k of None \<Rightarrow> None | Some v \<Rightarrow> if Q k v then Some v else None)"
  by (induction m) (auto split: option.splits simp: map_of_eq_None_iff image_iff)

section \<open>Counting\<close>

lemma length_filter_remove1_le: "length (filter P (remove1 x xs)) \<le> length (filter P xs)"
  by (metis filter_remove1 length_remove1 diff_le_self order_refl)

end
