(* ===== verification/Messages.thy ===== *)
theory Messages
  imports Prelude
begin

text \<open>
  The wire protocol: the Go structs of \<^verbatim>\<open>nexus_server/main.go\<close> that carry data to and from a
  client.  Every field of \<^verbatim>\<open>NexusMessage\<close> is a field of the record \<open>NexusMessage\<close>, with the
  prefix \<open>m\<close>; a composite literal of the source, which leaves the fields it does not name at
  their zero values, is an update of \<open>msg0\<close>.  Go maps are association lists, a nil map or slice
  is the empty list and a pointer is an option.
\<close>

record ServerSummary =
  ssID :: string
  ssName :: string
  ssDescription :: string
  ssIcon :: string
  ssOwner :: string
  ssVisibility :: string
  ssRole :: string
  ssInviteCode :: string
  ssMemberCount :: nat
  ssIsMember :: bool

record ChannelInfo =
  ciID :: string
  ciServerID :: string
  ciName :: string
  ciTopic :: string
  ciKind :: string
  ciPosition :: int

record ChannelMsg =
  cmID :: int
  cmChannelID :: string
  cmSender :: string
  cmBody :: string
  cmCreatedAt :: time
  cmEdited :: bool
  cmDeleted :: bool
  cmPinned :: bool
  cmReactions :: "(string \<times> string list) list"

record KeyBackupPayload =
  kbCiphertext :: string
  kbSalt :: string
  kbIterations :: int
  kbCreatedAt :: time

record DMMessage =
  dmMsgID :: string
  dmSender :: string
  dmRecipient :: string
  dmBody :: string
  dmEdited :: bool
  dmDeleted :: bool
  dmCreatedAt :: time
  dmReactions :: "(string \<times> string list) list"

record TurnConfig =
  tcURL :: string
  tcURLs :: "string list"
  tcUsername :: string
  tcPassword :: string

record SessionInfo =
  siToken :: string
  siFullToken :: string
  siDevice :: string
  siCreatedAt :: time

record NexusMessage =
  mType :: string
  mSender :: string
  mRecipient :: string
  mBody :: string
  mStatus :: string
  mResults :: "string list"
  mSDP :: string
  mCandidate :: string
  mRoomID :: string
  mToken :: string
  mError :: string
  mEmail :: string
  mMood :: string
  mDisplayName :: string
  mSupporter :: bool
  mPerks :: "(string \<times> string list) list"
  mItems :: "string list"
  mItem :: string
  mCrates :: nat
  mShards :: int
  mShardsGained :: nat
  mDupe :: bool
  mCosts :: "(string \<times> nat) list"
  mConvoID :: string
  mConvoName :: string
  mMembers :: "string list"
  mCreator :: string
  mContactGroups :: "(string \<times> string) list"
  mTurnConfig :: "TurnConfig option"
  mTOTPCode :: string
  mTOTPURI :: string
  mQRToken :: string
  mQRData :: string
  mDeviceInfo :: string
  mRefBy :: string
  mMsgID :: string
  mReaction :: string
  mEnvelopes :: "(string \<times> string) list"
  mPublicKey :: string
  mKeyFingerprint :: string
  mServerID :: string
  mChannelID :: string
  mServerName :: string
  mChannelName :: string
  mTopic :: string
  mKind :: string
  mRole :: string
  mVisibility :: string
  mInviteCode :: string
  mServers :: "ServerSummary list"
  mChannels :: "ChannelInfo list"
  mMessages :: "ChannelMsg list"
  mHistoryFrom :: int
  mDMHistory :: "DMMessage list"
  mKeyBackup :: "KeyBackupPayload option"
  mBackupCodes :: "string list"
  mTs :: int
  mDuration :: int
  mChallengeID :: int
  mDeviceID :: string
  mStroke :: string
  mStrokes :: "string list"
  mStrokeID :: int
  mStrokeUID :: string
  mSessions :: "SessionInfo list"

text \<open>
  \<open>mSessions\<close> stands for the JSON text that the \<^verbatim>\<open>list_sessions\<close> handler puts into \<^verbatim>\<open>Body\<close>.
\<close>

definition msg0 :: NexusMessage where
  "msg0 = \<lparr> mType = '''', mSender = '''', mRecipient = '''', mBody = '''', mStatus = '''',
     mResults = [], mSDP = '''', mCandidate = '''', mRoomID = '''', mToken = '''', mError = '''',
     mEmail = '''', mMood = '''', mDisplayName = '''', mSupporter = False, mPerks = [],
     mItems = [], mItem = '''', mCrates = 0, mShards = 0, mShardsGained = 0, mDupe = False,
     mCosts = [], mConvoID = '''', mConvoName = '''', mMembers = [], mCreator = '''',
     mContactGroups = [], mTurnConfig = None, mTOTPCode = '''', mTOTPURI = '''', mQRToken = '''',
     mQRData = '''', mDeviceInfo = '''', mRefBy = '''', mMsgID = '''', mReaction = '''',
     mEnvelopes = [], mPublicKey = '''', mKeyFingerprint = '''', mServerID = '''',
     mChannelID = '''', mServerName = '''', mChannelName = '''', mTopic = '''', mKind = '''',
     mRole = '''', mVisibility = '''', mInviteCode = '''', mServers = [], mChannels = [],
     mMessages = [], mHistoryFrom = 0, mDMHistory = [], mKeyBackup = None, mBackupCodes = [],
     mTs = 0, mDuration = 0, mChallengeID = 0, mDeviceID = '''', mStroke = '''', mStrokes = [],
     mStrokeID = 0, mStrokeUID = '''', mSessions = [] \<rparr>"

definition channelMsg0 :: ChannelMsg where
  "channelMsg0 = \<lparr> cmID = 0, cmChannelID = '''', cmSender = '''', cmBody = '''', cmCreatedAt = 0,
     cmEdited = False, cmDeleted = False, cmPinned = False, cmReactions = [] \<rparr>"

lemma msg0_fields [simp]:
  "mType msg0 = ''''" "mSender msg0 = ''''" "mRecipient msg0 = ''''" "mBody msg0 = ''''"
  "mStatus msg0 = ''''" "mError msg0 = ''''" "mResults msg0 = []" "mMembers msg0 = []"
  "mQRToken msg0 = ''''" "mToken msg0 = ''''" "mConvoID msg0 = ''''" "mChannelID msg0 = ''''"
  "mServerID msg0 = ''''" "mMsgID msg0 = ''''" "mReaction msg0 = ''''" "mRoomID msg0 = ''''"
  "mStroke msg0 = ''''" "mStrokeUID msg0 = ''''" "mChallengeID msg0 = 0" "mDeviceInfo msg0 = ''''"
  "mDMHistory msg0 = []" "mSDP msg0 = ''''" "mCandidate msg0 = ''''" "mItem msg0 = ''''"
  "mPublicKey msg0 = ''''" "mInviteCode msg0 = ''''" "mHistoryFrom msg0 = 0"
  "mTOTPCode msg0 = ''''" "mEmail msg0 = ''''" "mKeyBackup msg0 = None" "mConvoName msg0 = ''''"
  by (simp_all add: msg0_def)

end
