(* ===== verification/Store.thy ===== *)
theory Store
  imports Messages
begin

text \<open>
  The SQLite database: the schema of \<^verbatim>\<open>initDB\<close> and \<^verbatim>\<open>initRewardsDB\<close>, one record per row type
  and one field per table.  A nullable column the code can leave \<^verbatim>\<open>NULL\<close> is an option, a column
  of 0/1 values is a \<^typ>\<open>bool\<close>, and \<open>sqlite_sequence\<close> holds the largest id ever given out by each
  table with an \<^verbatim>\<open>AUTOINCREMENT\<close> key.  The unique keys of the schema are the functions
  \<open>\<dots>_key\<close>.  Columns no modelled operation reads are left out: \<^verbatim>\<open>salt\<close>,
  \<^verbatim>\<open>first_seen\<close>, \<^verbatim>\<open>used_at\<close>, \<^verbatim>\<open>supporter_since\<close>, the \<^verbatim>\<open>email\<close> of an imported contact and the ids of
  the tables whose rows are never named by id.  A query without \<^verbatim>\<open>ORDER BY\<close> returns the rows in rowid order, one of the
  orders SQLite may choose; rows with equal sort keys stay in that order.
\<close>

section \<open>Rows\<close>

record user_row =
  u_username :: string
  u_email :: string
  u_mood :: string
  u_display_name :: string
  u_password_hash :: string
  u_is_verified :: bool
  u_verification_code :: "string option"
  u_phone_number :: "string option"
  u_phone_verified :: bool
  u_phone_code :: "string option"
  u_created_at :: time
  u_totp_secret :: string
  u_totp_enabled :: bool
  u_is_admin :: bool
  u_role :: string
  u_is_banned :: bool
  u_ban_reason :: string
  u_banned_at :: "time option"
  u_fcm_token :: string
  u_last_ip :: string
  u_last_login_at :: "time option"
  u_signup_ip :: string
  u_status :: string
  u_supporter :: bool
  u_referred_by :: string

record friend_row =
  fr_user_a :: string
  fr_user_b :: string
  fr_status :: string

record contact_group_row =
  cg_owner :: string
  cg_contact :: string
  cg_group_name :: string

record offline_row =
  of_id :: int
  of_sender :: string
  of_recipient :: string
  of_body :: string
  of_msg_type :: string
  of_convo :: string
  of_msg_id :: string
  of_created_at :: time

record convo_row =
  cv_id :: string
  cv_name :: string
  cv_created_by :: string

record convo_msg_row =
  vm_convo_id :: string
  vm_sender :: string
  vm_body :: string
  vm_sent_at :: time

record block_row =
  bl_blocker :: string
  bl_blocked :: string
  bl_created_at :: time

record report_row =
  rp_id :: int
  rp_reporter :: string
  rp_subject :: string
  rp_reason :: string
  rp_body :: string
  rp_status :: string
  rp_resolved_by :: string
  rp_resolved_at :: "time option"
  rp_created_at :: time

record session_row =
  se_token :: string
  se_username :: string
  se_device_info :: string
  se_created_at :: time
  se_expires_at :: time
  se_revoked :: bool
  se_pending_device :: bool

record reset_row =
  pr_token :: string
  pr_username :: string
  pr_expires_at :: time
  pr_used :: bool

record qr_row =
  qr_token :: string
  qr_username :: string
  qr_session_token :: string
  qr_device_info :: string
  qr_expires_at :: time
  qr_approved :: bool

record server_row =
  sv_id :: string
  sv_name :: string
  sv_description :: string
  sv_icon :: string
  sv_owner :: string
  sv_visibility :: string
  sv_invite_code :: string
  sv_created_at :: time

record channel_row =
  ch_id :: string
  ch_server_id :: string
  ch_name :: string
  ch_topic :: string
  ch_kind :: string
  ch_position :: int

record member_row =
  sm_server_id :: string
  sm_username :: string
  sm_role :: string
  sm_joined_at :: time

record channel_msg_row =
  cr_id :: int
  cr_channel_id :: string
  cr_sender :: string
  cr_body :: string
  cr_created_at :: time
  cr_edited :: bool
  cr_deleted :: bool
  cr_pinned :: bool

record channel_reaction_row =
  rx_msg_id :: int
  rx_emoji :: string
  rx_username :: string

record story_row =
  st_id :: int
  st_author :: string
  st_media_url :: string
  st_media_kind :: string
  st_caption :: string
  st_created_at :: time
  st_expires_at :: time

record setting_row =
  ust_username :: string
  ust_key :: string
  ust_value :: string

record push_row =
  ps_username :: string
  ps_endpoint :: string
  ps_p256dh :: string
  ps_auth :: string

record invite_row =
  iv_code :: string
  iv_inviter :: string
  iv_email :: string

record dm_row =
  dr_id :: int
  dr_msg_id :: string
  dr_sender :: string
  dr_recipient :: string
  dr_body :: string
  dr_edited :: bool
  dr_deleted :: bool
  dr_created_at :: time

record dm_reaction_row =
  dx_msg_id :: string
  dx_username :: string
  dx_emoji :: string

record key_backup_row =
  kr_username :: string
  kr_ciphertext :: string
  kr_salt :: string
  kr_iterations :: int
  kr_created_at :: time

record backup_code_row =
  bc_username :: string
  bc_code_hash :: string
  bc_used :: bool

record device_row =
  kd_username :: string
  kd_device_id :: string
  kd_label :: string
  kd_last_seen :: time
  kd_last_ip :: string

record challenge_row =
  dc_id :: int
  dc_username :: string
  dc_device_id :: string
  dc_session_token :: string
  dc_code :: string
  dc_label :: string
  dc_ip :: string
  dc_attempts :: nat
  dc_approved :: bool
  dc_consumed :: bool
  dc_expires_at :: time

record stroke_row =
  sk_id :: int
  sk_channel_id :: string
  sk_author :: string
  sk_uid :: string
  sk_stroke :: string

record call_row =
  cl_id :: int
  cl_caller :: string
  cl_callee :: string
  cl_kind :: string
  cl_started_at :: time
  cl_answered :: bool
  cl_duration_s :: int

record crate_row =
  rc_id :: int
  rc_owner :: string
  rc_source :: string
  rc_item :: "string option"
  rc_shards :: nat
  rc_created_at :: time
  rc_opened_at :: time

record craft_row =
  rf_owner :: string
  rf_item :: string
  rf_cost :: nat

record supporter_row =
  sp_id :: int
  sp_username :: string
  sp_name :: string
  sp_email :: string
  sp_status :: string
  sp_created_at :: time

record payment_row =
  bp_id :: int
  bp_supporter_name :: string
  bp_supporter_email :: string
  bp_amount :: string
  bp_message :: string
  bp_matched_username :: string
  bp_created_at :: time

record skype_msg_row =
  ki_username :: string
  ki_conversation_id :: string
  ki_conversation_display :: string
  ki_sender_display :: string
  ki_body :: string
  ki_sent_at :: string

record skype_contact_row =
  kc_username :: string
  kc_skype_id :: string
  kc_display_name :: string
  kc_phaze_username :: "string option"
  kc_invite_sent :: bool

section \<open>The database\<close>

record database =
  users :: "user_row list"
  friends :: "friend_row list"
  contact_groups :: "contact_group_row list"
  offline_messages :: "offline_row list"
  conversations :: "convo_row list"
  conversation_members :: "(string \<times> string) list"
  convo_messages :: "convo_msg_row list"
  blocks :: "block_row list"
  abuse_reports :: "report_row list"
  session_tokens :: "session_row list"
  password_resets :: "reset_row list"
  qr_login_tokens :: "qr_row list"
  servers :: "server_row list"
  channels :: "channel_row list"
  server_members :: "member_row list"
  channel_messages :: "channel_msg_row list"
  channel_reactions :: "channel_reaction_row list"
  stories :: "story_row list"
  story_views :: "(int \<times> string) list"
  user_settings :: "setting_row list"
  push_subscriptions :: "push_row list"
  invite_codes :: "invite_row list"
  dm_messages :: "dm_row list"
  dm_reactions :: "dm_reaction_row list"
  key_backups :: "key_backup_row list"
  totp_backup_codes :: "backup_code_row list"
  blocked_ips :: "string list"
  known_devices :: "device_row list"
  device_challenges :: "challenge_row list"
  whiteboard_strokes :: "stroke_row list"
  calls :: "call_row list"
  reward_crates :: "crate_row list"
  reward_crafts :: "craft_row list"
  supporter_requests :: "supporter_row list"
  bmc_payments :: "payment_row list"
  skype_import_messages :: "skype_msg_row list"
  skype_import_contacts :: "skype_contact_row list"
  sqlite_sequence :: "string \<Rightarrow> int"

definition emptyDB :: database where
  "emptyDB = \<lparr> users = [], friends = [], contact_groups = [], offline_messages = [],
     conversations = [], conversation_members = [], convo_messages = [], blocks = [],
     abuse_reports = [], session_tokens = [], password_resets = [], qr_login_tokens = [],
     servers = [], channels = [], server_members = [], channel_messages = [],
     channel_reactions = [], stories = [], story_views = [], user_settings = [],
     push_subscriptions = [], invite_codes = [], dm_messages = [], dm_reactions = [],
     key_backups = [], totp_backup_codes = [], blocked_ips = [], known_devices = [],
     device_challenges = [], whiteboard_strokes = [], calls = [], reward_crates = [],
     reward_crafts = [], supporter_requests = [], bmc_payments = [], skype_import_messages = [],
     skype_import_contacts = [], sqlite_sequence = (\<lambda>_. 0) \<rparr>"

text \<open>The next value of an \<^verbatim>\<open>AUTOINCREMENT\<close> key, and the database with the value taken.\<close>

definition nextID :: "string \<Rightarrow> database \<Rightarrow> int" where
  "nextID t d = sqlite_sequence d t + 1"

definition takeID :: "string \<Rightarrow> database \<Rightarrow> database" where
  "takeID t d = d\<lparr>sqlite_sequence := (sqlite_sequence d)(t := nextID t d)\<rparr>"

lemma takeID_tables [simp]:
  "users (takeID t d) = users d" "friends (takeID t d) = friends d"
  "offline_messages (takeID t d) = offline_messages d"
  "session_tokens (takeID t d) = session_tokens d"
  "device_challenges (takeID t d) = device_challenges d"
  "channel_messages (takeID t d) = channel_messages d"
  "dm_messages (takeID t d) = dm_messages d"
  "whiteboard_strokes (takeID t d) = whiteboard_strokes d"
  "calls (takeID t d) = calls d" "reward_crates (takeID t d) = reward_crates d"
  "reward_crafts (takeID t d) = reward_crafts d" "blocks (takeID t d) = blocks d"
  "server_members (takeID t d) = server_members d" "channels (takeID t d) = channels d"
  "sqlite_sequence (takeID t d) = (sqlite_sequence d)(t := sqlite_sequence d t + 1)"
  by (simp_all add: takeID_def nextID_def)

section \<open>The unique keys of the schema\<close>

definition bl_key :: "block_row \<Rightarrow> string \<times> string" where
  "bl_key r = (bl_blocker r, bl_blocked r)"

definition cg_key :: "contact_group_row \<Rightarrow> string \<times> string" where
  "cg_key r = (cg_owner r, cg_contact r)"

definition fr_key :: "friend_row \<Rightarrow> string \<times> string" where
  "fr_key r = (fr_user_a r, fr_user_b r)"

definition sm_key :: "member_row \<Rightarrow> string \<times> string" where
  "sm_key r = (sm_server_id r, sm_username r)"

definition rx_key :: "channel_reaction_row \<Rightarrow> int \<times> string \<times> string" where
  "rx_key r = (rx_msg_id r, rx_emoji r, rx_username r)"

definition dx_key :: "dm_reaction_row \<Rightarrow> string \<times> string \<times> string" where
  "dx_key r = (dx_msg_id r, dx_username r, dx_emoji r)"

definition kd_key :: "device_row \<Rightarrow> string \<times> string" where
  "kd_key r = (kd_username r, kd_device_id r)"

definition ust_table_key :: "setting_row \<Rightarrow> string \<times> string" where
  "ust_table_key r = (ust_username r, ust_key r)"

definition rf_key :: "craft_row \<Rightarrow> string \<times> string" where
  "rf_key r = (rf_owner r, rf_item r)"

definition ki_key :: "skype_msg_row \<Rightarrow> string \<times> string \<times> string \<times> string" where
  "ki_key r = (ki_username r, ki_conversation_id r, ki_sent_at r, ki_body r)"

definition kc_key :: "skype_contact_row \<Rightarrow> string \<times> string" where
  "kc_key r = (kc_username r, kc_skype_id r)"

lemmas key_defs = bl_key_def cg_key_def fr_key_def sm_key_def rx_key_def dx_key_def kd_key_def
  ust_table_key_def rf_key_def ki_key_def kc_key_def

end
