(* ===== verification/AuthTracker.thy ===== *)
theory AuthTracker
  imports Prelude
begin

text \<open>
  Brute-force protection, \<^verbatim>\<open>nexus_server/authtracker.go\<close>: four maps of failure counters with a
  window.  The maps share one contract, the locale \<open>attempt_window\<close>: a counter restarts when its
  first attempt has left the window, it is cleared by a success, and a key is refused exactly when
  its counter has reached the threshold inside the window.  The locale is interpreted on the
  operations of each of the four maps.  The current time is an argument.
\<close>

section \<open>The tracker\<close>

record authFail =
  af_count :: nat
  af_firstAt :: time
  af_lastAt :: time

record authFailTracker =
  ipFails :: "(string \<times> authFail) list"
  userFails :: "(string \<times> authFail) list"
  totpFails :: "(string \<times> authFail) list"
  signupCounts :: "(string \<times> authFail) list"

definition authTracker0 :: authFailTracker where
  "authTracker0 = \<lparr> ipFails = [], userFails = [], totpFails = [], signupCounts = [] \<rparr>"

definition authIPFailThreshold :: nat where "authIPFailThreshold = 5"
definition authIPBlockThreshold :: nat where "authIPBlockThreshold = 50"
definition authIPWindow :: time where "authIPWindow = 15 * minute"
definition authUserLockThreshold :: nat where "authUserLockThreshold = 10"
definition authUserWindow :: time where "authUserWindow = 30 * minute"
definition totpMaxAttempts :: nat where "totpMaxAttempts = 5"
definition totpWindow :: time where "totpWindow = 10 * minute"
definition signupIPMax :: nat where "signupIPMax = 3"
definition signupIPWindow :: time where "signupIPWindow = 24 * hour"

lemmas tracker_consts = authIPFailThreshold_def authIPBlockThreshold_def authIPWindow_def
  authUserLockThreshold_def authUserWindow_def totpMaxAttempts_def totpWindow_def
  signupIPMax_def signupIPWindow_def

text \<open>
  The branch \<^verbatim>\<open>recordFail\<close>, \<^verbatim>\<open>recordTOTPFail\<close> and \<^verbatim>\<open>recordSignup\<close> share: start a counter when
  there is none or its window is over, count up otherwise.
\<close>

definition newFail :: "time \<Rightarrow> authFail" where
  "newFail now = \<lparr> af_count = 1, af_firstAt = now, af_lastAt = now \<rparr>"

definition bumpFail :: "time \<Rightarrow> time \<Rightarrow> authFail option \<Rightarrow> authFail" where
  "bumpFail window now f =
     (case f of
        Some f \<Rightarrow> if now - af_firstAt f > window then newFail now
                  else f\<lparr>af_count := af_count f + 1, af_lastAt := now\<rparr>
      | None \<Rightarrow> newFail now)"

definition recordFail :: "time \<Rightarrow> string \<Rightarrow> string \<Rightarrow> authFailTracker \<Rightarrow> authFailTracker" where
  "recordFail now ip username t =
     (let t1 = t\<lparr>ipFails := aput ip (bumpFail authIPWindow now (map_of (ipFails t) ip)) (ipFails t)\<rparr>
      in if username \<noteq> ''''
         then t1\<lparr>userFails := aput username
                   (bumpFail authUserWindow now (map_of (userFails t1) username)) (userFails t1)\<rparr>
         else t1)"

definition recordSuccess :: "string \<Rightarrow> string \<Rightarrow> authFailTracker \<Rightarrow> authFailTracker" where
  "recordSuccess ip username t =
     (let t1 = t\<lparr>ipFails := adel ip (ipFails t)\<rparr>
      in if username \<noteq> '''' then t1\<lparr>userFails := adel username (userFails t1)\<rparr> else t1)"

definition isIPThrottled :: "time \<Rightarrow> string \<Rightarrow> authFailTracker \<Rightarrow> authFailTracker \<times> bool" where
  "isIPThrottled now ip t =
     (case map_of (ipFails t) ip of
        None \<Rightarrow> (t, False)
      | Some f \<Rightarrow>
          if now - af_firstAt f > authIPWindow then (t\<lparr>ipFails := adel ip (ipFails t)\<rparr>, False)
          else (t, af_count f \<ge> authIPFailThreshold))"

definition shouldAutoBlock :: "time \<Rightarrow> string \<Rightarrow> authFailTracker \<Rightarrow> bool" where
  "shouldAutoBlock now ip t =
     (case map_of (ipFails t) ip of
        None \<Rightarrow> False
      | Some f \<Rightarrow> af_count f \<ge> authIPBlockThreshold \<and> now - af_firstAt f \<le> authIPWindow)"

definition isUserLocked :: "time \<Rightarrow> string \<Rightarrow> authFailTracker \<Rightarrow> authFailTracker \<times> bool" where
  "isUserLocked now username t =
     (case map_of (userFails t) username of
        None \<Rightarrow> (t, False)
      | Some f \<Rightarrow>
          if now - af_firstAt f > authUserWindow
          then (t\<lparr>userFails := adel username (userFails t)\<rparr>, False)
          else (t, af_count f \<ge> authUserLockThreshold))"

definition isTOTPThrottled :: "time \<Rightarrow> string \<Rightarrow> authFailTracker \<Rightarrow> authFailTracker \<times> bool" where
  "isTOTPThrottled now username t =
     (case map_of (totpFails t) username of
        None \<Rightarrow> (t, False)
      | Some f \<Rightarrow>
          if now - af_firstAt f > totpWindow
          then (t\<lparr>totpFails := adel username (totpFails t)\<rparr>, False)
          else (t, af_count f \<ge> totpMaxAttempts))"

definition recordTOTPFail :: "time \<Rightarrow> string \<Rightarrow> authFailTracker \<Rightarrow> authFailTracker" where
  "recordTOTPFail now username t =
     (if username = '''' then t
      else case map_of (totpFails t) username of
             Some f \<Rightarrow>
               if now - af_firstAt f \<le> totpWindow
               then t\<lparr>totpFails := aput username
                        (f\<lparr>af_count := af_count f + 1, af_lastAt := now\<rparr>) (totpFails t)\<rparr>
               else t\<lparr>totpFails := aput username (newFail now) (totpFails t)\<rparr>
           | None \<Rightarrow> t\<lparr>totpFails := aput username (newFail now) (totpFails t)\<rparr>)"

definition recordTOTPSuccess :: "string \<Rightarrow> authFailTracker \<Rightarrow> authFailTracker" where
  "recordTOTPSuccess username t = t\<lparr>totpFails := adel username (totpFails t)\<rparr>"

definition recordSignup :: "time \<Rightarrow> string \<Rightarrow> authFailTracker \<Rightarrow> authFailTracker" where
  "recordSignup now ip t =
     t\<lparr>signupCounts := aput ip (bumpFail signupIPWindow now (map_of (signupCounts t) ip))
                            (signupCounts t)\<rparr>"

definition isSignupThrottled :: "time \<Rightarrow> string \<Rightarrow> authFailTracker \<Rightarrow> authFailTracker \<times> bool" where
  "isSignupThrottled now ip t =
     (case map_of (signupCounts t) ip of
        None \<Rightarrow> (t, False)
      | Some f \<Rightarrow>
          if now - af_firstAt f > signupIPWindow
          then (t\<lparr>signupCounts := adel ip (signupCounts t)\<rparr>, False)
          else (t, af_count f \<ge> signupIPMax))"

text \<open>One tick of the sweeper; ranging over a map and deleting is a filter.\<close>

definition keepFresh :: "time \<Rightarrow> time \<Rightarrow> (string \<times> authFail) list \<Rightarrow> (string \<times> authFail) list" where
  "keepFresh window now m = filter (\<lambda>(k, f). \<not> now - af_lastAt f > window) m"

definition sweepAuthTracker :: "time \<Rightarrow> authFailTracker \<Rightarrow> authFailTracker" where
  "sweepAuthTracker now t =
     \<lparr> ipFails = keepFresh authIPWindow now (ipFails t),
       userFails = keepFresh authUserWindow now (userFails t),
       totpFails = keepFresh totpWindow now (totpFails t),
       signupCounts = keepFresh signupIPWindow now (signupCounts t) \<rparr>"

section \<open>The contract of a window counter\<close>

locale attempt_window =
  fixes window :: time
    and threshold :: nat
    and valid :: "string \<Rightarrow> bool"
    and entry :: "'t \<Rightarrow> string \<Rightarrow> authFail option"
    and attempt :: "time \<Rightarrow> string \<Rightarrow> 't \<Rightarrow> 't"
    and clear :: "string \<Rightarrow> 't \<Rightarrow> 't"
    and refused :: "time \<Rightarrow> string \<Rightarrow> 't \<Rightarrow> bool"
  assumes entry_attempt:
      "valid k \<Longrightarrow> entry (attempt now k t) k' =
        (if k' = k then Some (bumpFail window now (entry t k)) else entry t k')"
    and entry_clear: "valid k \<Longrightarrow> entry (clear k t) k' = (if k' = k then None else entry t k')"
    and refused_iff:
      "refused now k t \<longleftrightarrow>
        (\<exists>f. entry t k = Some f \<and> now - af_firstAt f \<le> window \<and> threshold \<le> af_count f)"
    and window_nonneg: "0 \<le> window"
    and threshold_pos: "0 < threshold"
begin

fun attempts :: "string \<Rightarrow> time list \<Rightarrow> 't \<Rightarrow> 't" where
  "attempts k [] t = t"
| "attempts k (now # ts) t = attempts k ts (attempt now k t)"

lemma attempts_fold: "attempts k ts t = fold (\<lambda>now. attempt now k) ts t"
  by (induction ts arbitrary: t) simp_all

lemma entry_attempts_inside:
  assumes "valid k" and "entry t k = Some f" and "\<forall>x \<in> set ts. x - af_firstAt f \<le> window"
  shows "\<exists>f'. entry (attempts k ts t) k = Some f' \<and> af_firstAt f' = af_firstAt f \<and>
              af_count f' = af_count f + length ts"
  using assms
proof (induction ts arbitrary: t f)
  case Nil
  then show ?case by simp
next
  case (Cons x ts)
  let ?f = "f\<lparr>af_count := af_count f + 1, af_lastAt := x\<rparr>"
  from Cons.prems have "entry (attempt x k t) k = Some ?f"
    by (simp add: entry_attempt bumpFail_def)
  moreover from Cons.prems have "\<forall>y \<in> set ts. y - af_firstAt ?f \<le> window" by simp
  ultimately show ?case
    using Cons.IH [of "attempt x k t" ?f] Cons.prems(1) by auto
qed

theorem refused_after_attempts:
  assumes "valid k" and "entry t k = None"
    and "\<forall>x \<in> set ts. x - t0 \<le> window" and "now - t0 \<le> window"
  shows "refused now k (attempts k (t0 # ts) t) \<longleftrightarrow> threshold \<le> length (t0 # ts)"
proof -
  have "entry (attempt t0 k t) k = Some (newFail t0)"
    using assms by (simp add: entry_attempt bumpFail_def)
  then obtain f where "entry (attempts k (t0 # ts) t) k = Some f" "af_firstAt f = t0"
      "af_count f = length (t0 # ts)"
    using entry_attempts_inside [of k "attempt t0 k t" "newFail t0" ts] assms
    by (auto simp: newFail_def)
  with assms(4) show ?thesis by (simp add: refused_iff)
qed

theorem not_refused_after_clear: "valid k \<Longrightarrow> \<not> refused now k (clear k t)"
  by (simp add: refused_iff entry_clear)

theorem not_refused_outside_window:
  "entry t k = Some f \<Longrightarrow> af_firstAt f + window < now \<Longrightarrow> \<not> refused now k t"
  by (simp add: refused_iff)

theorem refused_other_key:
  "valid k \<Longrightarrow> k' \<noteq> k \<Longrightarrow> refused now k' (attempt now' k t) = refused now k' t"
  by (simp add: refused_iff entry_attempt)

end

section \<open>The four counters\<close>

interpretation ipw: attempt_window authIPWindow authIPFailThreshold "\<lambda>_. True"
    "\<lambda>t. map_of (ipFails t)" "\<lambda>now ip. recordFail now ip u" "\<lambda>ip. recordSuccess ip u"
    "\<lambda>now ip t. snd (isIPThrottled now ip t)" for u
  by unfold_locales
    (auto simp: recordFail_def recordSuccess_def isIPThrottled_def Let_def tracker_consts
      duration_defs split: option.splits)

interpretation userw: attempt_window authUserWindow authUserLockThreshold "\<lambda>u. u \<noteq> ''''"
    "\<lambda>t. map_of (userFails t)" "\<lambda>now. recordFail now ip" "recordSuccess ip"
    "\<lambda>now u t. snd (isUserLocked now u t)" for ip
  by unfold_locales
    (auto simp: recordFail_def recordSuccess_def isUserLocked_def Let_def tracker_consts
      duration_defs split: option.splits)

interpretation totpw: attempt_window totpWindow totpMaxAttempts "\<lambda>u. u \<noteq> ''''"
    "\<lambda>t. map_of (totpFails t)" recordTOTPFail recordTOTPSuccess
    "\<lambda>now u t. snd (isTOTPThrottled now u t)"
  by unfold_locales
    (auto simp: recordTOTPFail_def recordTOTPSuccess_def isTOTPThrottled_def tracker_consts
      duration_defs bumpFail_def split: option.splits)

interpretation signupw: attempt_window signupIPWindow signupIPMax "\<lambda>_. True"
    "\<lambda>t. map_of (signupCounts t)" recordSignup
    "\<lambda>ip t. t\<lparr>signupCounts := adel ip (signupCounts t)\<rparr>"
    "\<lambda>now ip t. snd (isSignupThrottled now ip t)"
  by unfold_locales
    (auto simp: recordSignup_def isSignupThrottled_def tracker_consts duration_defs
      split: option.splits)

text \<open>Asking about one key does not change the answer for any other key or map.\<close>

lemma isIPThrottled_state:
  "snd (isIPThrottled now ip' (fst (isIPThrottled now ip t))) = snd (isIPThrottled now ip' t)"
  "userFails (fst (isIPThrottled now ip t)) = userFails t"
  "totpFails (fst (isIPThrottled now ip t)) = totpFails t"
  "signupCounts (fst (isIPThrottled now ip t)) = signupCounts t"
  by (auto simp: isIPThrottled_def split: option.splits)

section \<open>The sweeper is unobservable\<close>

text \<open>
  The sweeper looks at \<open>af_lastAt\<close>, the checks at \<open>af_firstAt\<close>.  With a clock that does not go
  back, every counter has \<open>af_firstAt \<le> af_lastAt\<close>, so what is swept could not refuse anyone.
\<close>

definition fails_ok :: "time \<Rightarrow> (string \<times> authFail) list \<Rightarrow> bool" where
  "fails_ok now m \<longleftrightarrow> distinct (akeys m) \<and>
     list_all (\<lambda>(k, f). af_firstAt f \<le> af_lastAt f \<and> af_lastAt f \<le> now \<and> 1 \<le> af_count f) m"

definition tracker_ok :: "time \<Rightarrow> authFailTracker \<Rightarrow> bool" where
  "tracker_ok now t \<longleftrightarrow> fails_ok now (ipFails t) \<and> fails_ok now (userFails t) \<and>
     fails_ok now (totpFails t) \<and> fails_ok now (signupCounts t)"

definition fail_ok :: "time \<Rightarrow> authFail \<Rightarrow> bool" where
  "fail_ok now f \<longleftrightarrow> af_firstAt f \<le> af_lastAt f \<and> af_lastAt f \<le> now \<and> 1 \<le> af_count f"

lemma fails_ok_iff:
  "fails_ok now m \<longleftrightarrow> distinct (akeys m) \<and> (\<forall>k f. map_of m k = Some f \<longrightarrow> fail_ok now f)"
  by (auto simp: fails_ok_def fail_ok_def list_all_iff map_of_eq_Some_iff dest: map_of_SomeD)

lemma fails_ok_aput:
  "fails_ok now m \<Longrightarrow> now \<le> now' \<Longrightarrow> fail_ok now' f \<Longrightarrow> fails_ok now' (aput k f m)"
  by (auto simp: fails_ok_iff distinct_aput fail_ok_def split: if_splits) force+

lemma fails_ok_adel: "fails_ok now m \<Longrightarrow> fails_ok now (adel k m)"
  by (auto simp: fails_ok_iff distinct_adel split: if_splits)

lemma fails_ok_later: "fails_ok now m \<Longrightarrow> now \<le> now' \<Longrightarrow> fails_ok now' m"
  by (auto simp: fails_ok_def list_all_iff)

lemma fails_ok_filter: "fails_ok now m \<Longrightarrow> fails_ok now (keepFresh w now' m)"
  by (auto simp: fails_ok_def keepFresh_def list_all_iff distinct_map_filter)

lemma fail_ok_bump:
  "fails_ok now m \<Longrightarrow> now \<le> now' \<Longrightarrow> fail_ok now' (bumpFail w now' (map_of m k))"
  by (force simp: bumpFail_def newFail_def fail_ok_def fails_ok_iff split: option.splits)

lemmas fails_ok_intros = fails_ok_aput fails_ok_adel fails_ok_later fails_ok_filter fail_ok_bump

lemma tracker_ok_recordFail:
  "tracker_ok now t \<Longrightarrow> now \<le> now' \<Longrightarrow> tracker_ok now' (recordFail now' ip u t)"
  by (auto simp: tracker_ok_def recordFail_def Let_def intro: fails_ok_intros)

lemma tracker_ok_recordSignup:
  "tracker_ok now t \<Longrightarrow> now \<le> now' \<Longrightarrow> tracker_ok now' (recordSignup now' ip t)"
  by (auto simp: tracker_ok_def recordSignup_def intro: fails_ok_intros)

lemma recordTOTPFail_bump:
  "u \<noteq> '''' \<Longrightarrow> recordTOTPFail now u t =
     t\<lparr>totpFails := aput u (bumpFail totpWindow now (map_of (totpFails t) u)) (totpFails t)\<rparr>"
  by (auto simp: recordTOTPFail_def bumpFail_def split: option.splits)

lemma tracker_ok_recordTOTPFail:
  "tracker_ok now t \<Longrightarrow> now \<le> now' \<Longrightarrow> tracker_ok now' (recordTOTPFail now' u t)"
  by (cases "u = ''''")
    (auto simp: tracker_ok_def recordTOTPFail_def [of _ "''''"] recordTOTPFail_bump
      intro: fails_ok_intros)

lemma tracker_ok_clear:
  "tracker_ok now t \<Longrightarrow> tracker_ok now (recordSuccess ip u t)"
  "tracker_ok now t \<Longrightarrow> tracker_ok now (recordTOTPSuccess u t)"
  "tracker_ok now t \<Longrightarrow> tracker_ok now (fst (isIPThrottled now'' ip t))"
  "tracker_ok now t \<Longrightarrow> tracker_ok now (fst (isUserLocked now'' u t))"
  "tracker_ok now t \<Longrightarrow> tracker_ok now (fst (isTOTPThrottled now'' u t))"
  "tracker_ok now t \<Longrightarrow> tracker_ok now (fst (isSignupThrottled now'' ip t))"
  by (auto simp: tracker_ok_def recordSuccess_def recordTOTPSuccess_def isIPThrottled_def
      isUserLocked_def isTOTPThrottled_def isSignupThrottled_def Let_def
      intro: fails_ok_adel split: option.splits)

lemma tracker_ok_sweep: "tracker_ok now t \<Longrightarrow> tracker_ok now (sweepAuthTracker now' t)"
  by (auto simp: tracker_ok_def sweepAuthTracker_def intro: fails_ok_filter)

lemma map_of_keepFresh:
  "fails_ok now m \<Longrightarrow> map_of (keepFresh w now m) k =
     (case map_of m k of None \<Rightarrow> None
      | Some f \<Rightarrow> if now - af_lastAt f \<le> w then Some f else None)"
  unfolding keepFresh_def fails_ok_def
  by (subst map_of_filter_key) (auto split: option.splits)

section \<open>Properties\<close>

text \<open>Login failures from one address, the first at \<open>t0\<close> and the others within the 15 minute
  window after it, make \<^verbatim>\<open>isIPThrottled\<close> refuse the address for the rest of the window exactly
  when there are at least five of them, whatever usernames were tried.\<close>

theorem ip_throttled_iff_five_failures:
  assumes "map_of (ipFails t) ip = None"
    and "list_all (\<lambda>x. x - t0 \<le> 15 * minute) ts" and "now - t0 \<le> 15 * minute"
  shows "snd (isIPThrottled now ip (fold (\<lambda>x. recordFail x ip u) (t0 # ts) t)) \<longleftrightarrow>
         5 \<le> length (t0 # ts)"
  using ipw.refused_after_attempts [of t ip ts t0 now u] assms
  by (simp add: ipw.attempts_fold tracker_consts list_all_iff)

theorem ip_throttled_iff_five_failures_witness:
  "snd (isIPThrottled 9 ''10.0.0.1''
          (fold (\<lambda>x. recordFail x ''10.0.0.1'' ''bob'') (1 # [2, 3, 4, 5]) authTracker0)) \<longleftrightarrow>
   5 \<le> length [1 :: time, 2, 3, 4, 5]"
  by (rule ip_throttled_iff_five_failures) (simp_all add: authTracker0_def duration_defs)

text \<open>C28: An account is locked after ten failures inside half an hour, even when every failure comes
  from a different address, and one success clears the lock.\<close>

theorem user_locked_iff_ten_failures:
  assumes "u \<noteq> ''''" and "map_of (userFails t) u = None"
    and "list_all (\<lambda>(ip, x). x - t0 \<le> 30 * minute) fs" and "now - t0 \<le> 30 * minute"
  shows "(snd (isUserLocked now u (fold (\<lambda>(ip, x). recordFail x ip u) ((ip0, t0) # fs) t)) \<longleftrightarrow>
            10 \<le> length ((ip0, t0) # fs)) \<and>
         \<not> snd (isUserLocked now u (recordSuccess ip u
                (fold (\<lambda>(ip, x). recordFail x ip u) ((ip0, t0) # fs) t)))"
proof -
  have step: "map_of (userFails (recordFail x ip' u t')) u =
      map_of (userFails (recordFail x ip0 u t'')) u"
    if "map_of (userFails t') u = map_of (userFails t'') u" for x ip' t' t''
    using that by (simp add: userw.entry_attempt [of u] assms(1))
  have eq: "map_of (userFails (fold (\<lambda>(ip, x). recordFail x ip u) gs t')) u =
      map_of (userFails (fold (\<lambda>x. recordFail x ip0 u) (map snd gs) t'')) u"
    if "map_of (userFails t') u = map_of (userFails t'') u" for gs t' t''
    using that
  proof (induction gs arbitrary: t' t'')
    case (Cons g gs)
    from Cons.IH [OF step [OF Cons.prems]] show ?case by (simp add: split_beta)
  qed simp
  have "snd (isUserLocked now u t') = snd (isUserLocked now u t'')"
    if "map_of (userFails t') u = map_of (userFails t'') u" for t' t''
    using that by (simp add: userw.refused_iff)
  then have "snd (isUserLocked now u (fold (\<lambda>(ip, x). recordFail x ip u) ((ip0, t0) # fs) t)) =
      snd (isUserLocked now u (fold (\<lambda>x. recordFail x ip0 u) (map snd ((ip0, t0) # fs)) t))"
    using eq [OF refl] by blast
  then show ?thesis
    using userw.refused_after_attempts [of u t "map snd fs" t0 now ip0] assms
    by (simp add: userw.attempts_fold tracker_consts list_all_iff split_beta
        userw.not_refused_after_clear)
qed

theorem user_locked_iff_ten_failures_witness:
  "(snd (isUserLocked 20 ''bob'' (fold (\<lambda>(ip, x). recordFail x ip ''bob'')
       ((''1.1.1.1'', 1) # replicate 9 (''2.2.2.2'', 2)) authTracker0)) \<longleftrightarrow>
     10 \<le> length ((''1.1.1.1'', 1 :: time) # replicate 9 (''2.2.2.2'', 2))) \<and>
   \<not> snd (isUserLocked 20 ''bob'' (recordSuccess ''3.3.3.3'' ''bob'' (fold (\<lambda>(ip, x). recordFail x ip ''bob'')
       ((''1.1.1.1'', 1) # replicate 9 (''2.2.2.2'', 2)) authTracker0)))"
  by (rule user_locked_iff_ten_failures)
    (simp_all add: authTracker0_def duration_defs list_all_iff)



end
