(* ===== verification/Nexus.thy ===== *)
theory Nexus
  imports Store AuthTracker
begin

text \<open>
  The server process: \<^verbatim>\<open>type NexusServer\<close>, \<^verbatim>\<open>type Client\<close> and the connection registry of
  \<^verbatim>\<open>nexus_server/clients.go\<close>.  A \<^verbatim>\<open>*Client\<close> is an address (\<open>cid\<close>) into the heap \<open>conns\<close>, so that
  two entries of the registry can be the same connection, as in the code.  What leaves the process
  is logged: \<open>outbox\<close> holds the frames written to each connection in order, \<open>pushes\<close> the push
  notifications and \<open>mails\<close> the e-mails, text messages and phone calls that were started.

  Code that is not in the repository is in the record \<open>env\<close>: the clock, the random source, the
  WebSocket transport (\<open>e_writable\<close>: a write to that connection succeeds), bcrypt, SHA-256, the
  TOTP library, the address parser, the JSON codec, the text the database driver gives for a
  time, the token-bucket limiters of \<^verbatim>\<open>golang.org/x/time/rate\<close>, Unicode tables, TURN credentials and
  the environment variables (\<open>e_getenv\<close>).  \<open>e_cloudflare\<close> is what the Cloudflare credential cache of
  theory \<open>Turn\<close> returns at that moment.
\<close>

section \<open>Environment\<close>

type_synonym cid = nat

record wbStroke =
  ws_ID :: string
  ws_Tool :: string
  ws_Color :: string
  ws_Width :: int
  ws_Points :: nat

text \<open>
  Of the points of a stroke the server reads only their number.  \<open>ws_Width\<close> is the width in units
  of the least positive double, so that the comparisons with 0 and with 200 are those on floats.
\<close>

definition widthUnit :: int where "widthUnit = 2 ^ 1074"

text \<open>
  The answers of the services the sign-up checks ask: the MX lookup (\<^verbatim>\<open>net.LookupMX\<close>), where only a
  not-found error is told from the others; proxycheck.io, whose reply has a status and, per address,
  the field \<^verbatim>\<open>proxy\<close> (\<^verbatim>\<open>None\<close> when the reply lacks it or it is not a string); and ip-api.com.  \<open>None\<close>
  in place of a whole reply is a failed request or a body that is not JSON.
\<close>

datatype mxAnswer = MXNotFound | MXError | MXRecords nat

record proxycheckReply =
  pxStatus :: "string option"
  pxProxy :: "string \<Rightarrow> string option"

record ipAPIResponse =
  iaStatus :: string
  iaProxy :: bool
  iaHosting :: bool
  iaISP :: string
  iaOrg :: string
  iaAS :: string

record env =
  e_getenv :: "string \<Rightarrow> string"
  e_now :: time
  e_randBytes :: "nat \<Rightarrow> nat \<Rightarrow> nat list option"
  e_randInt :: "nat \<Rightarrow> nat \<Rightarrow> nat option"
  e_writable :: "cid \<Rightarrow> bool"
  e_bcryptHash :: "string \<Rightarrow> string option"
  e_bcryptCompare :: "string \<Rightarrow> string \<Rightarrow> bool"
  e_sha256 :: "string \<Rightarrow> string"
  e_totpValidate :: "string \<Rightarrow> string \<Rightarrow> bool"
  e_totpGenerate :: "string \<Rightarrow> (string \<times> string) option"
  e_parseAddress :: "string \<Rightarrow> bool"
  e_uniLower :: "string \<Rightarrow> string"
  e_timeText :: "time \<Rightarrow> string"
  e_uniServerName :: "string \<Rightarrow> bool"
  e_queryEscape :: "string \<Rightarrow> string"
  e_lookupMX :: "string \<Rightarrow> mxAnswer"
  e_proxycheck :: "string \<Rightarrow> proxycheckReply option"
  e_ipAPI :: "string \<Rightarrow> ipAPIResponse option"
  e_strokeDecode :: "string \<Rightarrow> wbStroke option"
  e_strokeEncode :: "wbStroke \<Rightarrow> string"
  e_pushDecode :: "string \<Rightarrow> (string \<times> string \<times> string) option"
  e_settingDecode :: "string \<Rightarrow> (string \<times> string) option"
  e_backupDecode :: "string \<Rightarrow> string + KeyBackupPayload"
  e_backupEncode :: "KeyBackupPayload \<Rightarrow> string"
  e_limiter :: "string \<Rightarrow> string \<Rightarrow> bool"
  e_cloudflare :: "TurnConfig option"
  e_hmacSHA1 :: "string \<Rightarrow> string \<Rightarrow> string"
  e_fcm :: bool
  e_fcmUnregistered :: "string \<Rightarrow> bool"
  e_mailOk :: bool
  e_twilio :: "string \<Rightarrow> string option"

text \<open>Settings the server reads from its environment.\<close>

definition mailRelayURL :: "env \<Rightarrow> string" where
  "mailRelayURL e = TrimSpace (e_getenv e ''PHAZE_MAIL_RELAY'')"

definition mailConfigured :: "env \<Rightarrow> bool" where
  "mailConfigured e \<longleftrightarrow>
     (mailRelayURL e \<noteq> '''' \<or> e_getenv e ''RESEND_API_KEY'' \<noteq> '''' \<or> e_getenv e ''BREVO_API_KEY'' \<noteq> '''') \<or>
     (e_getenv e ''SMTP_HOST'' \<noteq> '''' \<and> e_getenv e ''SMTP_USER'' \<noteq> '''' \<and> e_getenv e ''SMTP_PASS'' \<noteq> '''')"

definition pstnBridgeEnabled :: "env \<Rightarrow> bool" where
  "pstnBridgeEnabled e \<longleftrightarrow> map asciiLower (e_getenv e ''PHAZE_ENABLE_PSTN'') = ''true''"

definition envInt :: "env \<Rightarrow> string \<Rightarrow> int \<Rightarrow> int" where
  "envInt e key d =
     (if e_getenv e key \<noteq> '''' then case ParseInt (e_getenv e key) of Some n \<Rightarrow> n | None \<Rightarrow> d else d)"

definition deviceVerificationEnabled :: "env \<Rightarrow> bool" where
  "deviceVerificationEnabled e \<longleftrightarrow> TrimSpace (e_getenv e ''PHAZE_DEVICE_VERIFICATION'') \<noteq> ''0''"

section \<open>The server state\<close>

record Client =
  cUsername :: string
  cStatus :: string
  cIP :: string
  cInCall :: bool
  cCallPartner :: string
  cPendingCallRoom :: string
  cPendingCallID :: int
  cPendingCallStarted :: time
  cPendingCallRTC :: bool
  cPendingCallAnswered :: bool
  cLocalUser :: string
  cClosed :: bool

text \<open>
  \<open>cLocalUser\<close> is the variable \<^verbatim>\<open>username\<close> of the connection's own goroutine in
  \<^verbatim>\<open>handleConnections\<close> and \<open>cClosed\<close> says that its socket has been closed by the server.  The field
  \<^verbatim>\<open>SessionToken\<close>, which no code reads or writes, is left out.  \<open>live\<close> lists the connections whose
  \<^verbatim>\<open>handleConnections\<close> has not returned.
\<close>

definition client0 :: "string \<Rightarrow> Client" where
  "client0 ip = \<lparr> cUsername = '''', cStatus = '''', cIP = ip, cInCall = False, cCallPartner = '''',
     cPendingCallRoom = '''', cPendingCallID = 0, cPendingCallStarted = 0, cPendingCallRTC = False,
     cPendingCallAnswered = False, cLocalUser = '''', cClosed = False \<rparr>"

record liveStream =
  ls_Title :: string
  ls_Viewers :: "string list"

record remoteCodeEntry =
  rce_Username :: string
  rce_CreatedAt :: time

datatype mail =
    MailVerification string string string string
  | MailResendCode string string
  | MailPasswordReset string string string
  | MailInvite string string string
  | MailDeviceCode string string string string
  | MailSupporter string string
  | SMSCode string string
  | TwilioCall string

record NexusServer =
  DB :: database
  Clients :: "(string \<times> cid list) list"
  conns :: "cid \<Rightarrow> Client"
  VoiceRooms :: "(string \<times> string list) list"
  Streams :: "(string \<times> liveStream) list"
  RemoteCodes :: "(string \<times> remoteCodeEntry) list"
  wsConnCount :: "(string \<times> nat) list"
  blockedIPs :: "string list"
  authTracker :: authFailTracker
  totpUsedCodes :: "(string \<times> time) list"
  ipCheckCache :: "(string \<times> bool) list"
  live :: "cid list"
  rng :: nat
  outbox :: "(cid \<times> NexusMessage) list"
  pushes :: "(string \<times> string \<times> string) list"
  mails :: "mail list"

definition nexus0 :: NexusServer where
  "nexus0 = \<lparr> DB = emptyDB, Clients = [], conns = (\<lambda>_. client0 ''''), VoiceRooms = [],
     Streams = [], RemoteCodes = [], wsConnCount = [], blockedIPs = [], authTracker = authTracker0,
     totpUsedCodes = [], ipCheckCache = [], live = [], rng = 0, outbox = [], pushes = [], mails = [] \<rparr>"

abbreviation withDB :: "(database \<Rightarrow> database) \<Rightarrow> NexusServer \<Rightarrow> NexusServer" where
  "withDB f s \<equiv> s\<lparr>DB := f (DB s)\<rparr>"

definition withConn :: "cid \<Rightarrow> (Client \<Rightarrow> Client) \<Rightarrow> NexusServer \<Rightarrow> NexusServer" where
  "withConn c f s = s\<lparr>conns := (conns s)(c := f (conns s c))\<rparr>"

section \<open>Random values\<close>

text \<open>
  \<^verbatim>\<open>randHex(n)\<close> and \<^verbatim>\<open>randDigits(n)\<close>.  The state counts the reads of the random source, so that
  two reads are two values; \<^verbatim>\<open>None\<close> is the error return.
\<close>

definition randHex :: "env \<Rightarrow> nat \<Rightarrow> NexusServer \<Rightarrow> NexusServer \<times> string option" where
  "randHex e n s = (s\<lparr>rng := rng s + 1\<rparr>, map_option hexEncode (e_randBytes e (rng s) n))"

fun randDigits :: "env \<Rightarrow> nat \<Rightarrow> NexusServer \<Rightarrow> NexusServer \<times> string option" where
  "randDigits e 0 s = (s, Some [])"
| "randDigits e (Suc n) s =
     (case e_randInt e (rng s) 10 of
        None \<Rightarrow> (s\<lparr>rng := rng s + 1\<rparr>, None)
      | Some v \<Rightarrow>
          let (s', r) = randDigits e n (s\<lparr>rng := rng s + 1\<rparr>)
          in (s', map_option (\<lambda>ds. char_of (48 + v) # ds) r))"

lemma randDigits_length: "randDigits e n s = (s', Some ds) \<Longrightarrow> length ds = n"
  by (induction n arbitrary: s s' ds) (auto split: option.splits prod.splits)

lemma randDigits_digits:
  assumes "\<And>k v. e_randInt e k 10 = Some v \<Longrightarrow> v < 10"
  shows "randDigits e n s = (s', Some ds) \<Longrightarrow> list_all isDigitC ds"
proof (induction n arbitrary: s s' ds)
  case (Suc n)
  from Suc.prems obtain v ds' s1 where v: "e_randInt e (rng s) 10 = Some v"
    and r: "randDigits e n (s\<lparr>rng := rng s + 1\<rparr>) = (s1, Some ds')"
    and ds: "ds = char_of (48 + v) # ds'"
    by (auto split: option.splits prod.splits)
  have "v < 10" using v by (rule assms)
  then have "isDigitC (char_of (48 + v))" by (simp add: isDigitC_def)
  with Suc.IH [OF r] ds show ?case by simp
qed simp

lemma randDigits_state: "fst (randDigits e n s) = s\<lparr>rng := rng (fst (randDigits e n s))\<rparr>"
proof (induction n arbitrary: s)
  case (Suc n)
  from Suc.IH [of "s\<lparr>rng := rng s + 1\<rparr>"] show ?case
    by (auto simp: split_beta split: option.splits)
qed simp

lemma randDigits_frame [simp]:
  "DB (fst (randDigits e n s)) = DB s" "Clients (fst (randDigits e n s)) = Clients s"
  "conns (fst (randDigits e n s)) = conns s" "outbox (fst (randDigits e n s)) = outbox s"
  "authTracker (fst (randDigits e n s)) = authTracker s"
  by (subst randDigits_state, simp)+

lemma randDigits_same:
  "randDigits e n s = (s', r) \<Longrightarrow> DB s' = DB s \<and> Clients s' = Clients s \<and> conns s' = conns s \<and>
     outbox s' = outbox s \<and> authTracker s' = authTracker s"
  using randDigits_frame [where e = e and n = n and s = s] by simp

section \<open>Writing to a connection\<close>

definition sendOk :: "env \<Rightarrow> NexusServer \<Rightarrow> cid \<Rightarrow> bool" where
  "sendOk e s c \<longleftrightarrow> e_writable e c \<and> \<not> cClosed (conns s c)"

definition Send :: "env \<Rightarrow> cid \<Rightarrow> NexusMessage \<Rightarrow> NexusServer \<Rightarrow> NexusServer" where
  "Send e c m s = (if sendOk e s c then s\<lparr>outbox := outbox s @ [(c, m)]\<rparr> else s)"

fun SendAll :: "env \<Rightarrow> cid list \<Rightarrow> NexusMessage \<Rightarrow> NexusServer \<Rightarrow> NexusServer" where
  "SendAll e [] m s = s"
| "SendAll e (c # cs) m s = SendAll e cs m (Send e c m s)"

section \<open>The registry\<close>

definition clientsOf :: "string \<Rightarrow> NexusServer \<Rightarrow> cid list" where
  "clientsOf username s = aget [] (Clients s) username"

definition sendTo :: "env \<Rightarrow> string \<Rightarrow> NexusMessage \<Rightarrow> NexusServer \<Rightarrow> NexusServer \<times> bool" where
  "sendTo e username m s =
     (SendAll e (clientsOf username s) m s, list_ex (sendOk e s) (clientsOf username s))"

definition sendToOthers :: "env \<Rightarrow> string \<Rightarrow> cid \<Rightarrow> NexusMessage \<Rightarrow> NexusServer \<Rightarrow> NexusServer" where
  "sendToOthers e username except m s =
     SendAll e (filter (\<lambda>c. c \<noteq> except) (clientsOf username s)) m s"

definition isOnline :: "string \<Rightarrow> NexusServer \<Rightarrow> bool" where
  "isOnline username s \<longleftrightarrow> clientsOf username s \<noteq> []"

definition addClient :: "string \<Rightarrow> cid \<Rightarrow> NexusServer \<Rightarrow> NexusServer" where
  "addClient username c s =
     s\<lparr>Clients := aput username (aget [] (Clients s) username @ [c]) (Clients s)\<rparr>"

text \<open>The loop deletes the first occurrence only and stops: \<^const>\<open>remove1\<close>.\<close>

definition removeClient :: "string \<Rightarrow> cid \<Rightarrow> NexusServer \<Rightarrow> NexusServer \<times> nat" where
  "removeClient username c s =
     (let cs = remove1 c (aget [] (Clients s) username)
      in if cs = [] then (s\<lparr>Clients := adel username (Clients s)\<rparr>, 0)
         else (s\<lparr>Clients := aput username cs (Clients s)\<rparr>, length cs))"

fun closeAll :: "env \<Rightarrow> cid list \<Rightarrow> NexusMessage \<Rightarrow> NexusServer \<Rightarrow> NexusServer" where
  "closeAll e [] m s = s"
| "closeAll e (c # cs) m s =
     closeAll e cs m (withConn c (\<lambda>cl. cl\<lparr>cClosed := True\<rparr>) (Send e c m s))"

definition dropAllClients :: "env \<Rightarrow> string \<Rightarrow> NexusMessage \<Rightarrow> NexusServer \<Rightarrow> NexusServer" where
  "dropAllClients e username reason s =
     closeAll e (clientsOf username s) reason (s\<lparr>Clients := adel username (Clients s)\<rparr>)"

definition onlineUsernames :: "NexusServer \<Rightarrow> string list" where
  "onlineUsernames s = akeys (Clients s)"

definition onlineUserCount :: "NexusServer \<Rightarrow> nat" where
  "onlineUserCount s = length (Clients s)"

definition connectionCount :: "NexusServer \<Rightarrow> nat" where
  "connectionCount s = sum_list (map (\<lambda>(u, cs). length cs) (Clients s))"

definition broadcastAll :: "env \<Rightarrow> NexusMessage \<Rightarrow> NexusServer \<Rightarrow> NexusServer" where
  "broadcastAll e m s = SendAll e (concat (map snd (Clients s))) m s"

definition anyClientInCall :: "string \<Rightarrow> NexusServer \<Rightarrow> cid option" where
  "anyClientInCall username s = find (\<lambda>c. cInCall (conns s c)) (clientsOf username s)"

definition callPeer :: "string \<Rightarrow> string \<Rightarrow> NexusServer \<Rightarrow> cid option" where
  "callPeer peer wth s =
     find (\<lambda>c. cInCall (conns s c) \<and> cCallPartner (conns s c) = wth) (clientsOf peer s)"

definition ringingClients :: "string \<Rightarrow> NexusServer \<Rightarrow> cid list" where
  "ringingClients username s = clientsOf username s"

definition pendingCaller :: "string \<Rightarrow> NexusServer \<Rightarrow> cid option" where
  "pendingCaller caller s =
     find (\<lambda>c. cPendingCallRoom (conns s c) \<noteq> '''' \<or> cPendingCallID (conns s c) \<noteq> 0)
       (clientsOf caller s)"

text \<open>Sending one message to each user of a list, a loop of the source in many handlers.\<close>

fun sendToEach :: "env \<Rightarrow> string list \<Rightarrow> NexusMessage \<Rightarrow> NexusServer \<Rightarrow> NexusServer" where
  "sendToEach e [] m s = s"
| "sendToEach e (u # us) m s = sendToEach e us m (fst (sendTo e u m s))"

section \<open>What sending changes\<close>

text \<open>
  A write changes the outbox and nothing else.  The equations below normalise every kind of send to
  an append to the outbox, after which the record simplifier discharges frame conditions.
\<close>

lemma sendOk_outbox [simp]: "sendOk e (s\<lparr>outbox := ob\<rparr>) = sendOk e s"
  by (simp add: sendOk_def fun_eq_iff)

lemma Send_eq: "Send e c m s = s\<lparr>outbox := outbox s @ (if sendOk e s c then [(c, m)] else [])\<rparr>"
  by (simp add: Send_def)

lemma SendAll_eq:
  "SendAll e cs m s = s\<lparr>outbox := outbox s @ map (\<lambda>c. (c, m)) (filter (sendOk e s) cs)\<rparr>"
proof (induction cs arbitrary: s)
  case (Cons c cs)
  show ?case by (simp add: Cons.IH Send_eq)
qed simp

definition deliveries :: "env \<Rightarrow> NexusServer \<Rightarrow> string \<Rightarrow> NexusMessage \<Rightarrow> (cid \<times> NexusMessage) list" where
  "deliveries e s u m = map (\<lambda>c. (c, m)) (filter (sendOk e s) (clientsOf u s))"

lemma clientsOf_outbox [simp]: "clientsOf u (s\<lparr>outbox := ob\<rparr>) = clientsOf u s"
  by (simp add: clientsOf_def)

lemma deliveries_outbox [simp]: "deliveries e (s\<lparr>outbox := ob\<rparr>) u m = deliveries e s u m"
  by (simp add: deliveries_def)

lemma sendTo_eq:
  "sendTo e u m s = (s\<lparr>outbox := outbox s @ deliveries e s u m\<rparr>, deliveries e s u m \<noteq> [])"
  by (auto simp: sendTo_def SendAll_eq deliveries_def list_ex_iff filter_empty_conv)

lemma sendToEach_eq:
  "sendToEach e us m s = s\<lparr>outbox := outbox s @ concat (map (\<lambda>u. deliveries e s u m) us)\<rparr>"
proof (induction us arbitrary: s)
  case (Cons u us)
  show ?case by (simp add: Cons.IH sendTo_eq)
qed simp

lemma broadcastAll_eq:
  "broadcastAll e m s = s\<lparr>outbox := outbox s @
     map (\<lambda>c. (c, m)) (filter (sendOk e s) (concat (map snd (Clients s))))\<rparr>"
  by (simp add: broadcastAll_def SendAll_eq)

lemmas send_eqs = Send_eq SendAll_eq sendTo_eq sendToEach_eq broadcastAll_eq sendToOthers_def

lemma withConn_simps [simp]:
  "DB (withConn c f s) = DB s" "Clients (withConn c f s) = Clients s"
  "conns (withConn c f s) = (conns s)(c := f (conns s c))" "outbox (withConn c f s) = outbox s"
  "authTracker (withConn c f s) = authTracker s" "VoiceRooms (withConn c f s) = VoiceRooms s"
  "Streams (withConn c f s) = Streams s" "RemoteCodes (withConn c f s) = RemoteCodes s"
  by (simp_all add: withConn_def)

lemma clientsOf_withConn [simp]: "clientsOf u (withConn c f s) = clientsOf u s"
  by (simp add: clientsOf_def)

lemma mem_deliveries: "(c, m') \<in> set (deliveries e s u m) \<longleftrightarrow> m' = m \<and> c \<in> set (clientsOf u s) \<and> sendOk e s c"
  by (auto simp: deliveries_def)

section \<open>The registry as a map of connection lists\<close>

definition registry_ok :: "NexusServer \<Rightarrow> bool" where
  "registry_ok s \<longleftrightarrow> distinct (akeys (Clients s)) \<and> list_all (\<lambda>(u, cs). cs \<noteq> []) (Clients s)"

lemma registry_ok_iff:
  "registry_ok s \<longleftrightarrow> distinct (akeys (Clients s)) \<and> (\<forall>u. map_of (Clients s) u \<noteq> Some [])"
  by (fastforce simp: registry_ok_def list_all_iff map_of_eq_Some_iff dest: map_of_SomeD)

lemma clientsOf_addClient [simp]:
  "clientsOf u (addClient v c s) = (if u = v then clientsOf v s @ [c] else clientsOf u s)"
  by (simp add: clientsOf_def addClient_def)

lemma clientsOf_removeClient [simp]:
  "clientsOf u (fst (removeClient v c s)) =
     (if u = v then remove1 c (clientsOf v s) else clientsOf u s)"
  by (simp add: clientsOf_def removeClient_def Let_def)

lemma snd_removeClient: "snd (removeClient v c s) = length (remove1 c (clientsOf v s))"
  by (simp add: clientsOf_def removeClient_def Let_def)

lemma registry_ok_addClient: "registry_ok s \<Longrightarrow> registry_ok (addClient u c s)"
  by (auto simp: registry_ok_iff addClient_def distinct_aput simp del: map_of_eq_Some_iff)

lemma registry_ok_removeClient: "registry_ok s \<Longrightarrow> registry_ok (fst (removeClient u c s))"
  by (auto simp: registry_ok_iff removeClient_def Let_def distinct_aput distinct_adel
      simp del: map_of_eq_Some_iff)

lemma closeAll_Clients [simp]: "Clients (closeAll e cs m s) = Clients s"
  by (induction cs arbitrary: s) (simp_all add: Send_eq)

lemma registry_ok_dropAllClients: "registry_ok s \<Longrightarrow> registry_ok (dropAllClients e u m s)"
  by (auto simp: registry_ok_iff dropAllClients_def distinct_adel simp del: map_of_eq_Some_iff)

lemma isOnline_iff:
  "registry_ok s \<Longrightarrow> isOnline u s \<longleftrightarrow> u \<in> set (onlineUsernames s)"
  by (auto simp: registry_ok_iff isOnline_def clientsOf_def aget_def onlineUsernames_def
      map_of_eq_None_iff split: option.splits) (metis map_of_eq_None_iff option.distinct(1) fst_conv image_eqI)

lemma closeAll_closed: "c \<in> set cs \<Longrightarrow> cClosed (conns (closeAll e cs m s) c)"
proof (induction cs arbitrary: s)
  case (Cons x cs)
  have keep: "cClosed (conns s' c) \<Longrightarrow> cClosed (conns (closeAll e cs m s') c)" for s'
    by (induction cs arbitrary: s') (simp_all add: Send_eq)
  show ?case
  proof (cases "c = x")
    case True
    show ?thesis unfolding closeAll.simps by (rule keep) (simp add: True)
  next
    case False
    with Cons show ?thesis by simp
  qed
qed simp

end
