(* ===== verification/Accounts.thy ===== *)
theory Accounts
  imports Nexus
begin

text \<open>
  Accounts, \<^verbatim>\<open>nexus_server/main.go\<close>: registration, e-mail verification, password checks, roles and
  bans, user search and erasure.  \<open>nerr\<close> has one constructor per error value the functions return
  and \<open>errText\<close> the text the client is shown.
\<close>

datatype nerr =
    ErrBadUsername | ErrEmailRequired | ErrBadEmail | ErrShortPassword | ErrResetInvalid
  | ErrQRInvalid | ErrRand | ErrBcrypt | ErrUnique string | ErrNoRows | ErrInvalidBlock
  | ErrMissingFields | ErrFriendBlocked | ErrFriendDuplicate | ErrNoPending string

fun errText :: "nerr \<Rightarrow> string" where
  "errText ErrBadUsername = ''invalid username (3-32 chars, a-z A-Z 0-9 . _ -)''"
| "errText ErrEmailRequired = ''email is required''"
| "errText ErrBadEmail = ''invalid email address''"
| "errText ErrShortPassword = ''password must be at least 8 characters''"
| "errText ErrResetInvalid = ''password reset token invalid or expired''"
| "errText ErrQRInvalid = ''qr login token invalid or expired''"
| "errText ErrRand = ''rand''"
| "errText ErrBcrypt = ''bcrypt''"
| "errText (ErrUnique c) = ''UNIQUE constraint failed: '' @ c"
| "errText ErrNoRows = ''sql: no rows in result set''"
| "errText ErrInvalidBlock = ''invalid block''"
| "errText ErrMissingFields = ''missing fields''"
| "errText ErrFriendBlocked = ''blocked''"
| "errText ErrFriendDuplicate = ''already friends or request pending''"
| "errText (ErrNoPending u) = ''no pending request from '' @ u"

section \<open>Reading and updating one user\<close>

definition userRow :: "string \<Rightarrow> database \<Rightarrow> user_row option" where
  "userRow username d = sql_row (\<lambda>u. u_username u = username) (users d)"

definition updUser :: "string \<Rightarrow> (user_row \<Rightarrow> user_row) \<Rightarrow> database \<Rightarrow> database" where
  "updUser username f d = d\<lparr>users := sql_update (\<lambda>u. u_username u = username) f (users d)\<rparr>"

lemma userRow_updUser:
  assumes "\<And>r. u_username (f r) = u_username r"
  shows "userRow v (updUser u f d) = (if v = u then map_option f (userRow v d) else userRow v d)"
proof (cases "v = u")
  case True
  then show ?thesis
    using sql_row_update_key [of u_username f v "\<lambda>r. u_username r = u" "users d"] assms
    by (cases "userRow v d")
      (auto simp: userRow_def updUser_def dest: sql_row_SomeD)
next
  case False
  then show ?thesis
    using sql_row_update_key [of u_username f v "\<lambda>r. u_username r = u" "users d"] assms
    by (cases "userRow v d")
      (auto simp: userRow_def updUser_def dest: sql_row_SomeD)
qed

lemma updUser_tables [simp]:
  "friends (updUser u f d) = friends d" "session_tokens (updUser u f d) = session_tokens d"
  "server_members (updUser u f d) = server_members d" "blocks (updUser u f d) = blocks d"
  "totp_backup_codes (updUser u f d) = totp_backup_codes d"
  "device_challenges (updUser u f d) = device_challenges d"
  "sqlite_sequence (updUser u f d) = sqlite_sequence d"
  by (simp_all add: updUser_def)

section \<open>Roles, bans, badges\<close>

definition roleRank :: "string \<Rightarrow> nat" where
  "roleRank role =
     aget 0 [(''user'', 0), (''helper'', 1), (''moderator'', 2), (''admin'', 3), (''super_admin'', 4)] role"

definition userRole :: "string \<Rightarrow> database \<Rightarrow> string" where
  "userRole username d =
     (case userRow username d of
        None \<Rightarrow> ''user''
      | Some u \<Rightarrow> if u_role u = '''' then ''user'' else u_role u)"

definition roleAtLeast :: "string \<Rightarrow> string \<Rightarrow> database \<Rightarrow> bool" where
  "roleAtLeast username minRole d \<longleftrightarrow> roleRank (userRole username d) \<ge> roleRank minRole"

definition userBanInfo :: "string \<Rightarrow> database \<Rightarrow> bool \<times> string" where
  "userBanInfo username d =
     (case userRow username d of None \<Rightarrow> (False, '''') | Some u \<Rightarrow> (u_is_banned u, u_ban_reason u))"

definition userIsAdmin :: "string \<Rightarrow> database \<Rightarrow> bool" where
  "userIsAdmin username d = (case userRow username d of None \<Rightarrow> False | Some u \<Rightarrow> u_is_admin u)"

definition isSupporter :: "string \<Rightarrow> database \<Rightarrow> bool" where
  "isSupporter username d = (case userRow username d of None \<Rightarrow> False | Some u \<Rightarrow> u_supporter u)"

section \<open>Registration\<close>

definition usernameChar :: "char \<Rightarrow> bool" where
  "usernameChar c \<longleftrightarrow> isAlphaC c \<or> isDigitC c \<or> c = CHR ''_'' \<or> c = CHR ''.'' \<or> c = CHR ''-''"

definition validUsername :: "string \<Rightarrow> bool" where
  "validUsername u \<longleftrightarrow> 3 \<le> length u \<and> length u \<le> 32 \<and> list_all usernameChar u"

definition validEmail :: "env \<Rightarrow> string \<Rightarrow> bool" where
  "validEmail e addr \<longleftrightarrow> addr \<noteq> '''' \<and> e_parseAddress e addr"

definition newUser :: "time \<Rightarrow> string \<Rightarrow> string \<Rightarrow> string \<Rightarrow> string \<Rightarrow> string \<Rightarrow> user_row" where
  "newUser now username email mood hash code =
     \<lparr> u_username = username, u_email = email, u_mood = mood, u_display_name = '''',
       u_password_hash = hash, u_is_verified = False, u_verification_code = Some code,
       u_phone_number = None, u_phone_verified = False, u_phone_code = None,
       u_created_at = sqlNow now, u_totp_secret = '''', u_totp_enabled = False,
       u_is_admin = False, u_role = ''user'', u_is_banned = False, u_ban_reason = '''', u_banned_at = None,
       u_fcm_token = '''', u_last_ip = '''', u_last_login_at = None, u_signup_ip = '''',
       u_status = ''Online'', u_supporter = False, u_referred_by = '''' \<rparr>"

definition registerUser ::
  "env \<Rightarrow> string \<Rightarrow> string \<Rightarrow> string \<Rightarrow> string \<Rightarrow> NexusServer \<Rightarrow> NexusServer \<times> (nerr + string)" where
  "registerUser e username email mood password s =
     (if \<not> validUsername username then (s, Inl ErrBadUsername)
      else if email = '''' then (s, Inl ErrEmailRequired)
      else if \<not> validEmail e email then (s, Inl ErrBadEmail)
      else if length password < 8 then (s, Inl ErrShortPassword)
      else case e_bcryptHash e (e_sha256 e password) of
             None \<Rightarrow> (s, Inl ErrBcrypt)
           | Some hash \<Rightarrow>
               (case randDigits e 6 s of
                  (s1, None) \<Rightarrow> (s1, Inl ErrRand)
                | (s1, Some code) \<Rightarrow>
                    (case sql_insert u_username (newUser (e_now e) username email mood hash code)
                            (users (DB s1)) of
                       None \<Rightarrow> (s1, Inl (ErrUnique ''users.username''))
                     | Some t \<Rightarrow> (withDB (\<lambda>d. d\<lparr>users := t\<rparr>) s1, Inr code))))"

definition verifyUser :: "string \<Rightarrow> string \<Rightarrow> database \<Rightarrow> database \<times> bool" where
  "verifyUser username code d =
     (case userRow username d of
        None \<Rightarrow> (d, False)
      | Some u \<Rightarrow>
          (case u_verification_code u of
             None \<Rightarrow> (d, False)
           | Some dbCode \<Rightarrow>
               if dbCode = '''' \<or> code = '''' \<or> dbCode \<noteq> code then (d, False)
               else (updUser username (\<lambda>r. r\<lparr>u_is_verified := True, u_verification_code := None\<rparr>) d, True)))"

definition authenticateUser :: "env \<Rightarrow> string \<Rightarrow> string \<Rightarrow> database \<Rightarrow> database \<times> bool" where
  "authenticateUser e username password d =
     (case userRow username d of
        None \<Rightarrow> (d, False)
      | Some u \<Rightarrow>
          if \<not> u_is_verified u then (d, False)
          else if e_bcryptCompare e (u_password_hash u) (e_sha256 e password) then (d, True)
          else if e_bcryptCompare e (u_password_hash u) password
          then (case e_bcryptHash e (e_sha256 e password) of
                  None \<Rightarrow> (d, True)
                | Some newHash \<Rightarrow> (updUser username (\<lambda>r. r\<lparr>u_password_hash := newHash\<rparr>) d, True))
          else (d, False))"

section \<open>Search\<close>

text \<open>SQLite's \<^verbatim>\<open>LIKE\<close>: \<^verbatim>\<open>%\<close> is any sequence, \<^verbatim>\<open>_\<close> any character, ASCII case is ignored.\<close>

fun sqlLike :: "string \<Rightarrow> string \<Rightarrow> bool" where
  "sqlLike [] s = (s = [])"
| "sqlLike (p # ps) s =
     (if p = CHR ''%'' then sqlLike ps s \<or> (case s of [] \<Rightarrow> False | _ # s' \<Rightarrow> sqlLike (p # ps) s')
      else case s of [] \<Rightarrow> False
           | c # s' \<Rightarrow> (p = CHR ''_'' \<or> asciiLower p = asciiLower c) \<and> sqlLike ps s')"

definition searchUsers :: "env \<Rightarrow> string \<Rightarrow> string \<Rightarrow> database \<Rightarrow> string list" where
  "searchUsers e query excludeUser d =
     (let q = ToLower (e_uniLower e) (TrimSpace query)
      in if q = '''' then []
         else take 20 (map u_username
           (filter (\<lambda>u. sqlLike (''%'' @ q @ ''%'') (map asciiLower (u_username u)) \<and>
                        u_username u \<noteq> excludeUser) (users d))))"

section \<open>Erasure\<close>

definition deleteAccount :: "string \<Rightarrow> database \<Rightarrow> database" where
  "deleteAccount username d =
     d\<lparr> friends := sql_delete (\<lambda>r. fr_user_a r = username \<or> fr_user_b r = username) (friends d),
        offline_messages := sql_delete (\<lambda>r. of_sender r = username \<or> of_recipient r = username)
          (offline_messages d),
        dm_messages := sql_delete (\<lambda>r. dr_sender r = username \<or> dr_recipient r = username)
          (dm_messages d),
        dm_reactions := sql_delete (\<lambda>r. dx_username r = username) (dm_reactions d),
        conversation_members := sql_delete (\<lambda>r. snd r = username) (conversation_members d),
        conversations := sql_delete (\<lambda>r. cv_created_by r = username) (conversations d),
        blocks := sql_delete (\<lambda>r. bl_blocker r = username \<or> bl_blocked r = username) (blocks d),
        abuse_reports := sql_delete (\<lambda>r. rp_reporter r = username) (abuse_reports d),
        server_members := sql_delete (\<lambda>r. sm_username r = username) (server_members d),
        channel_messages := sql_delete (\<lambda>r. cr_sender r = username) (channel_messages d),
        channel_reactions := sql_delete (\<lambda>r. rx_username r = username) (channel_reactions d),
        story_views := sql_delete (\<lambda>r. snd r = username) (story_views d),
        stories := sql_delete (\<lambda>r. st_author r = username) (stories d),
        user_settings := sql_delete (\<lambda>r. ust_username r = username) (user_settings d),
        push_subscriptions := sql_delete (\<lambda>r. ps_username r = username) (push_subscriptions d),
        key_backups := sql_delete (\<lambda>r. kr_username r = username) (key_backups d),
        totp_backup_codes := sql_delete (\<lambda>r. bc_username r = username) (totp_backup_codes d),
        session_tokens := sql_delete (\<lambda>r. se_username r = username) (session_tokens d),
        password_resets := sql_delete (\<lambda>r. pr_username r = username) (password_resets d),
        qr_login_tokens := sql_delete (\<lambda>r. qr_username r = username) (qr_login_tokens d),
        users := sql_delete (\<lambda>r. u_username r = username) (users d) \<rparr>"

section \<open>Lemmas\<close>

lemma userRow_None: "userRow v d = None \<longleftrightarrow> v \<notin> u_username ` set (users d)"
  by (auto simp: userRow_def sql_row_None)

lemma userRow_SomeD: "userRow v d = Some u \<Longrightarrow> u \<in> set (users d) \<and> u_username u = v"
  by (auto simp: userRow_def dest: sql_row_SomeD)

text \<open>What a successful registration does, in one equation.\<close>

lemma registerUser_ok:
  "registerUser e username email mood password s = (s', Inr code) \<Longrightarrow>
   \<exists>hash. validUsername username \<and> validEmail e email \<and> 8 \<le> length password \<and>
     e_bcryptHash e (e_sha256 e password) = Some hash \<and> length code = 6 \<and>
     username \<notin> u_username ` set (users (DB s)) \<and>
     DB s' = (DB s)\<lparr>users := users (DB s) @ [newUser (e_now e) username email mood hash code]\<rparr>"
  by (auto simp: registerUser_def sql_insert_def sql_has_iff newUser_def
      split: if_splits option.splits prod.splits dest: randDigits_length randDigits_same)

lemma registerUser_err:
  "registerUser e username email mood password s = (s', Inl err) \<Longrightarrow> DB s' = DB s"
  by (auto simp: registerUser_def split: if_splits option.splits prod.splits
      dest: randDigits_same)

lemma authenticateUser_users:
  "uniq u_username (users d) \<Longrightarrow> uniq u_username (users (fst (authenticateUser e u p d)))"
  by (auto simp: authenticateUser_def updUser_def intro: uniq_sql_update split: option.splits)

lemma verifyUser_users:
  "uniq u_username (users d) \<Longrightarrow> uniq u_username (users (fst (verifyUser u c d)))"
  by (auto simp: verifyUser_def updUser_def intro: uniq_sql_update split: option.splits)

lemma authenticateUser_frame [simp]:
  "friends (fst (authenticateUser e u p d)) = friends d"
  "session_tokens (fst (authenticateUser e u p d)) = session_tokens d"
  by (auto simp: authenticateUser_def split: option.splits)

section \<open>Properties\<close>


text \<open>C31: The sign-up path works end to end: after a successful registration, entering the code that
  was mailed verifies the account, exactly that password is then accepted, and the same code is
  refused a second time.  bcrypt is assumed to accept the password a hash was made from.\<close>

theorem register_verify_login:
  assumes "registerUser e username email mood password s = (s', Inr code)"
    and "\<And>p h. e_bcryptHash e p = Some h \<Longrightarrow> e_bcryptCompare e h p"
    and "verifyUser username code (DB s') = (d, ok)"
  shows "ok \<and> snd (authenticateUser e username password d) \<and> \<not> snd (verifyUser username c d)"
proof -
  obtain hash where h: "length code = 6" "username \<notin> u_username ` set (users (DB s))"
    "e_bcryptHash e (e_sha256 e password) = Some hash"
    "DB s' = (DB s)\<lparr>users := users (DB s) @ [newUser (e_now e) username email mood hash code]\<rparr>"
    using registerUser_ok [OF assms(1)] by blast
  let ?f = "\<lambda>r. r\<lparr>u_is_verified := True, u_verification_code := None\<rparr>"
  have row: "userRow username (DB s') = Some (newUser (e_now e) username email mood hash code)"
    using h by (simp add: userRow_def sql_row_append_new [where K = u_username] newUser_def)
  have "code \<noteq> ''''" using h(1) by auto
  with row assms(3) have ok: "ok" and d: "d = updUser username ?f (DB s')"
    by (auto simp: verifyUser_def newUser_def)
  then have "userRow username d = Some (?f (newUser (e_now e) username email mood hash code))"
    using row by (simp add: userRow_updUser)
  with ok assms(2) [OF h(3)] show ?thesis
    by (simp add: authenticateUser_def verifyUser_def newUser_def)
qed

definition env0 :: env where
  "env0 = \<lparr> e_getenv = (\<lambda>k. if k = ''RESEND_API_KEY'' \<or> k = ''VAPID_PUBLIC_KEY'' \<or> k = ''VAPID_PRIVATE_KEY'' then ''key'' else ''''),
     e_now = 1000 * second, e_randBytes = (\<lambda>k n. Some (replicate n (k mod 256))),
     e_randInt = (\<lambda>k n. Some (k mod n)), e_writable = (\<lambda>_. True),
     e_bcryptHash = (\<lambda>p. Some (''$'' @ p)), e_bcryptCompare = (\<lambda>h p. h = ''$'' @ p),
     e_sha256 = (\<lambda>p. ''#'' @ p), e_totpValidate = (\<lambda>c k. c = ''000000''),
     e_totpGenerate = (\<lambda>u. Some (''otpauth'', ''SECRET'')), e_parseAddress = (\<lambda>_. True),
     e_uniLower = id, e_timeText = Itoa, e_uniServerName = (\<lambda>_. False), e_queryEscape = id,
     e_lookupMX = (\<lambda>_. MXRecords 1), e_proxycheck = (\<lambda>_. None), e_ipAPI = (\<lambda>_. None),
     e_strokeDecode = (\<lambda>r. Some \<lparr> ws_ID = r, ws_Tool = ''pen'', ws_Color = '''', ws_Width = 1,
       ws_Points = 1 \<rparr>),
     e_strokeEncode = ws_ID, e_pushDecode = (\<lambda>_. None), e_settingDecode = (\<lambda>b. Some (b, b)),
     e_backupDecode = (\<lambda>_. Inl ''syntax''), e_backupEncode = kbCiphertext, e_limiter = (\<lambda>_ _. True),
     e_cloudflare = None, e_hmacSHA1 = (\<lambda>k m. k @ m), e_fcm = False, e_fcmUnregistered = (\<lambda>_. False),
     e_mailOk = True, e_twilio = (\<lambda>_. None) \<rparr>"

lemma env0_simps [simp]:
  "e_now env0 = 1000 * second" "e_writable env0 c" "e_bcryptHash env0 p = Some (''$'' @ p)"
  "e_bcryptCompare env0 h p \<longleftrightarrow> h = ''$'' @ p" "e_sha256 env0 p = ''#'' @ p"
  "e_parseAddress env0 p" "e_randInt env0 k n = Some (k mod n)"
  "e_randBytes env0 k n = Some (replicate n (k mod 256))" "e_limiter env0 l ip" "mailConfigured env0"
  "e_mailOk env0" "e_totpValidate env0 cd sec \<longleftrightarrow> cd = ''000000''" "e_cloudflare env0 = None"
  "e_lookupMX env0 host = MXRecords 1"
  "e_getenv env0 v = (if v = ''RESEND_API_KEY'' \<or> v = ''VAPID_PUBLIC_KEY'' \<or> v = ''VAPID_PRIVATE_KEY'' then ''key'' else '''')"
  by (simp_all add: env0_def mailConfigured_def)


lemma register_bob:
  "registerUser env0 ''bob'' ''b@x'' '''' ''hunter22'' nexus0 =
     (nexus0\<lparr>DB := emptyDB\<lparr>users := [newUser (1000 * second) ''bob'' ''b@x'' '''' ''$#hunter22'' ''012345'']\<rparr>,
        rng := 6\<rparr>, Inr ''012345'')"
proof -
  have "snd (randDigits env0 6 nexus0) = Some ''012345''" and "rng (fst (randDigits env0 6 nexus0)) = 6"
    by code_simp+
  then have r: "randDigits env0 6 nexus0 = (nexus0\<lparr>rng := 6\<rparr>, Some ''012345'')"
    using randDigits_state [of env0 6 nexus0] by (metis prod.collapse)
  have v: "validUsername ''bob''" by code_simp
  show ?thesis
    by (simp add: registerUser_def validEmail_def r v)
      (simp add: nexus0_def emptyDB_def sql_insert_def sql_has_def)
qed

theorem register_verify_login_witness:
  "snd (verifyUser ''bob'' ''012345'' (DB (fst (registerUser env0 ''bob'' ''b@x'' '''' ''hunter22'' nexus0)))) \<and>
   snd (authenticateUser env0 ''bob'' ''hunter22''
     (fst (verifyUser ''bob'' ''012345'' (DB (fst (registerUser env0 ''bob'' ''b@x'' '''' ''hunter22'' nexus0))))))"
  using register_verify_login [OF register_bob, of
      "fst (verifyUser ''bob'' ''012345'' (DB (fst (registerUser env0 ''bob'' ''b@x'' '''' ''hunter22'' nexus0))))"
      "snd (verifyUser ''bob'' ''012345'' (DB (fst (registerUser env0 ''bob'' ''b@x'' '''' ''hunter22'' nexus0))))"]
  by (simp add: register_bob)



end
