(* ===== verification/Interfaces.thy ===== *)
theory Interfaces
  imports Prelude
begin

text \<open>
  Contracts that several components of the server share.  \<open>one_shot\<close>: a credential that works at
  most once (password resets, backup codes, device challenges, crates).  \<open>membership\<close>: who is
  in which group (conversations, voice rooms, spaces), with its refinement to a set of
  pairs.  \<open>invariant_machine\<close>: a step function that keeps an invariant.  The components interpret
  them on their own operations.
\<close>

section \<open>Running a list of operations\<close>

fun runOps :: "('i \<Rightarrow> 'd \<Rightarrow> 'd \<times> 'b) \<Rightarrow> 'i list \<Rightarrow> 'd \<Rightarrow> 'd \<times> 'b list" where
  "runOps f [] d = (d, [])"
| "runOps f (i # is) d =
     (let (d1, b) = f i d; (d2, bs) = runOps f is d1 in (d2, b # bs))"

definition successes :: "('i \<Rightarrow> bool) \<Rightarrow> ('i \<Rightarrow> 'd \<Rightarrow> 'd \<times> bool) \<Rightarrow> 'i list \<Rightarrow> 'd \<Rightarrow> nat" where
  "successes sel f is d = length (filter (\<lambda>(i, b). sel i \<and> b) (zip is (snd (runOps f is d))))"

lemma successes_Nil [simp]: "successes sel f [] d = 0"
  by (simp add: successes_def)

lemma successes_Cons [simp]:
  "successes sel f (i # is) d =
     (if sel i \<and> snd (f i d) then 1 else 0) + successes sel f is (fst (f i d))"
  by (simp add: successes_def split_beta Let_def)

section \<open>Credentials that work once\<close>

locale one_shot =
  fixes consume :: "'i \<Rightarrow> 'd \<Rightarrow> 'd \<times> bool"
    and tok :: "'i \<Rightarrow> 'k"
    and live :: "'k \<Rightarrow> 'd \<Rightarrow> bool"
  assumes success_live: "snd (consume i d) \<Longrightarrow> live (tok i) d"
    and success_dead: "snd (consume i d) \<Longrightarrow> \<not> live (tok i) (fst (consume i d))"
    and dead_stays: "\<not> live k d \<Longrightarrow> \<not> live k (fst (consume i d))"
begin

lemma no_success_when_dead: "\<not> live k d \<Longrightarrow> successes (\<lambda>i. tok i = k) consume is d = 0"
  by (induction "is" arbitrary: d) (auto dest: success_live dead_stays)

theorem at_most_once: "successes (\<lambda>i. tok i = k) consume is d \<le> 1"
proof (induction "is" arbitrary: d)
  case (Cons i "is")
  show ?case
  proof (cases "tok i = k \<and> snd (consume i d)")
    case True
    then have "\<not> live k (fst (consume i d))" using success_dead by blast
    then show ?thesis by (simp add: no_success_when_dead)
  next
    case False
    then show ?thesis using Cons.IH [of "fst (consume i d)"] by auto
  qed
qed simp

end

section \<open>Membership\<close>

datatype ('g, 'u) member_op = MJoin 'g 'u | MLeave 'g 'u

fun set_op :: "('g, 'u) member_op \<Rightarrow> ('g \<times> 'u) set \<Rightarrow> ('g \<times> 'u) set" where
  "set_op (MJoin g u) A = insert (g, u) A"
| "set_op (MLeave g u) A = A - {(g, u)}"

locale membership =
  fixes mem :: "'g \<Rightarrow> 'u \<Rightarrow> 'd \<Rightarrow> bool"
    and join :: "'g \<Rightarrow> 'u \<Rightarrow> 'd \<Rightarrow> 'd"
    and leave :: "'g \<Rightarrow> 'u \<Rightarrow> 'd \<Rightarrow> 'd"
    and inv :: "'d \<Rightarrow> bool"
  assumes mem_join: "inv d \<Longrightarrow> mem g u (join g' u' d) \<longleftrightarrow> (g, u) = (g', u') \<or> mem g u d"
    and mem_leave: "inv d \<Longrightarrow> mem g u (leave g' u' d) \<longleftrightarrow> (g, u) \<noteq> (g', u') \<and> mem g u d"
    and inv_join: "inv d \<Longrightarrow> inv (join g u d)"
    and inv_leave: "inv d \<Longrightarrow> inv (leave g u d)"
begin

definition members_abs :: "'d \<Rightarrow> ('g \<times> 'u) set" where
  "members_abs d = {(g, u). mem g u d}"

fun apply_op :: "('g, 'u) member_op \<Rightarrow> 'd \<Rightarrow> 'd" where
  "apply_op (MJoin g u) d = join g u d"
| "apply_op (MLeave g u) d = leave g u d"

lemma apply_op_abs: "inv d \<Longrightarrow> members_abs (apply_op p d) = set_op p (members_abs d)"
  by (cases p) (auto simp: members_abs_def mem_join mem_leave)

lemma apply_op_inv: "inv d \<Longrightarrow> inv (apply_op p d)"
  by (cases p) (auto intro: inv_join inv_leave)

lemma fold_inv: "inv d \<Longrightarrow> inv (fold apply_op ps d)"
  by (induction ps arbitrary: d) (auto intro: apply_op_inv)

theorem fold_refines: "inv d \<Longrightarrow> members_abs (fold apply_op ps d) = fold set_op ps (members_abs d)"
  by (induction ps arbitrary: d) (auto simp: apply_op_abs apply_op_inv)

theorem mem_after:
  "inv d \<Longrightarrow> mem g u (fold apply_op ps d) \<longleftrightarrow> (g, u) \<in> fold set_op ps {(g, u). mem g u d}"
  using fold_refines [of d ps] by (auto simp: members_abs_def)

end

section \<open>Machines with an invariant\<close>

locale invariant_machine =
  fixes step :: "'i \<Rightarrow> 's \<Rightarrow> 's" and inv :: "'s \<Rightarrow> bool"
  assumes step_inv: "inv s \<Longrightarrow> inv (step i s)"
begin

theorem run_inv: "inv s \<Longrightarrow> inv (fold step is s)"
  by (induction "is" arbitrary: s) (auto intro: step_inv)

end

end
