(* ===== verification/Sessions.thy ===== *)
theory Sessions
  imports Accounts Interfaces
begin

text \<open>
  Credentials other than the password: session tokens (\<^verbatim>\<open>session.go\<close>), password resets and QR
  logins (\<^verbatim>\<open>main.go\<close>), new-device verification (\<^verbatim>\<open>devices.go\<close>) and TOTP with its backup codes
  (\<^verbatim>\<open>totp.go\<close>).
\<close>

section \<open>Session tokens\<close>

definition sessionRow :: "string \<Rightarrow> database \<Rightarrow> session_row option" where
  "sessionRow token d = sql_row (\<lambda>r. se_token r = token) (session_tokens d)"

definition newSession :: "env \<Rightarrow> time \<Rightarrow> string \<Rightarrow> string \<Rightarrow> string \<Rightarrow> session_row" where
  "newSession e ttl tok username device =
     \<lparr> se_token = tok, se_username = username, se_device_info = device,
       se_created_at = sqlNow (e_now e), se_expires_at = e_now e + ttl, se_revoked = False,
       se_pending_device = False \<rparr>"

definition insertSession ::
  "env \<Rightarrow> time \<Rightarrow> string \<Rightarrow> string \<Rightarrow> NexusServer \<Rightarrow> NexusServer \<times> string \<times> nerr option" where
  "insertSession e ttl username device s =
     (case randHex e 32 s of
        (s1, None) \<Rightarrow> (s1, '''', Some ErrRand)
      | (s1, Some tok) \<Rightarrow>
          (case sql_insert se_token (newSession e ttl tok username device) (session_tokens (DB s1)) of
             None \<Rightarrow> (s1, tok, Some (ErrUnique ''session_tokens.token''))
           | Some t \<Rightarrow> (withDB (\<lambda>d. d\<lparr>session_tokens := t\<rparr>) s1, tok, None)))"

definition issueSessionToken ::
  "env \<Rightarrow> string \<Rightarrow> string \<Rightarrow> NexusServer \<Rightarrow> NexusServer \<times> string \<times> nerr option" where
  "issueSessionToken e username device s = insertSession e (30 * 24 * hour) username device s"

definition issueAdminSessionToken ::
  "env \<Rightarrow> string \<Rightarrow> NexusServer \<Rightarrow> NexusServer \<times> string \<times> nerr option" where
  "issueAdminSessionToken e username s = insertSession e (4 * hour) username ''admin-portal'' s"

definition sessionState :: "time \<Rightarrow> string \<Rightarrow> database \<Rightarrow> string \<times> bool" where
  "sessionState now token d =
     (if token = '''' then ('''', False)
      else case sessionRow token d of
             None \<Rightarrow> ('''', False)
           | Some r \<Rightarrow> if se_revoked r \<or> now > se_expires_at r then ('''', False)
                       else (se_username r, se_pending_device r))"

definition sessionUsername :: "time \<Rightarrow> string \<Rightarrow> database \<Rightarrow> string" where
  "sessionUsername now token d =
     (let (u, pending) = sessionState now token d in if pending then '''' else u)"

definition updSession :: "(session_row \<Rightarrow> bool) \<Rightarrow> (session_row \<Rightarrow> session_row) \<Rightarrow> database \<Rightarrow> database" where
  "updSession P f d = d\<lparr>session_tokens := sql_update P f (session_tokens d)\<rparr>"

definition markSessionPendingDevice :: "string \<Rightarrow> database \<Rightarrow> database" where
  "markSessionPendingDevice token d =
     updSession (\<lambda>r. se_token r = token) (\<lambda>r. r\<lparr>se_pending_device := True\<rparr>) d"

definition revokeSession :: "string \<Rightarrow> database \<Rightarrow> database" where
  "revokeSession token d = updSession (\<lambda>r. se_token r = token) (\<lambda>r. r\<lparr>se_revoked := True\<rparr>) d"

definition listSessions :: "time \<Rightarrow> string \<Rightarrow> database \<Rightarrow> SessionInfo list" where
  "listSessions now username d =
     map (\<lambda>r. \<lparr> siToken = take 8 (se_token r) @ [chr 226, chr 128, chr 166],
                siFullToken = se_token r, siDevice = se_device_info r,
                siCreatedAt = se_created_at r \<rparr>)
       (sort_key (\<lambda>r. - se_created_at r)
         (filter (\<lambda>r. se_username r = username \<and> \<not> se_revoked r \<and> textAfterNow (se_expires_at r) now)
           (session_tokens d)))"

lemma updSession_tables [simp]:
  "users (updSession P f d) = users d" "device_challenges (updSession P f d) = device_challenges d"
  "known_devices (updSession P f d) = known_devices d" "friends (updSession P f d) = friends d"
  "password_resets (updSession P f d) = password_resets d"
  by (simp_all add: updSession_def)

lemma sessionRow_updSession:
  "(\<And>r. se_token (f r) = se_token r) \<Longrightarrow>
   sessionRow t (updSession P f d) = map_option (\<lambda>r. if P r then f r else r) (sessionRow t d)"
  by (simp add: sessionRow_def updSession_def sql_row_update_key [where K = se_token])

lemma sessionRow_token: "sessionRow t d = Some r \<Longrightarrow> se_token r = t"
  by (auto simp: sessionRow_def dest: sql_row_SomeD)

lemma sessionUsername_row:
  "sessionUsername now token d =
     (case sessionRow token d of
        None \<Rightarrow> ''''
      | Some r \<Rightarrow> if token \<noteq> '''' \<and> \<not> se_revoked r \<and> now \<le> se_expires_at r \<and> \<not> se_pending_device r
                  then se_username r else '''')"
  by (auto simp: sessionUsername_def sessionState_def split: option.splits)

section \<open>Password resets\<close>

definition createPasswordReset ::
  "env \<Rightarrow> string \<Rightarrow> NexusServer \<Rightarrow> NexusServer \<times> (nerr + string \<times> string)" where
  "createPasswordReset e email s =
     (case sql_row (\<lambda>u. u_email u = email) (users (DB s)) of
        None \<Rightarrow> (s, Inl ErrNoRows)
      | Some u \<Rightarrow>
          (case randHex e 24 s of
             (s1, None) \<Rightarrow> (s1, Inl ErrRand)
           | (s1, Some tok) \<Rightarrow>
               (case sql_insert pr_token \<lparr> pr_token = tok, pr_username = u_username u,
                         pr_expires_at = e_now e + hour, pr_used = False \<rparr> (password_resets (DB s1)) of
                  None \<Rightarrow> (s1, Inl (ErrUnique ''password_resets.token''))
                | Some t \<Rightarrow> (withDB (\<lambda>d. d\<lparr>password_resets := t\<rparr>) s1, Inr (tok, u_username u)))))"

definition consumePasswordReset ::
  "env \<Rightarrow> string \<Rightarrow> string \<Rightarrow> database \<Rightarrow> database \<times> nerr option" where
  "consumePasswordReset e token newPassword d =
     (if length newPassword < 8 then (d, Some ErrShortPassword)
      else case sql_row (\<lambda>r. pr_token r = token) (password_resets d) of
             None \<Rightarrow> (d, Some ErrNoRows)
           | Some r \<Rightarrow>
               if pr_used r \<or> e_now e > pr_expires_at r then (d, Some ErrResetInvalid)
               else case e_bcryptHash e (e_sha256 e newPassword) of
                      None \<Rightarrow> (d, Some ErrBcrypt)
                    | Some hash \<Rightarrow>
                        (let d1 = updUser (pr_username r) (\<lambda>u. u\<lparr>u_password_hash := hash\<rparr>) d;
                             d2 = d1\<lparr>password_resets := sql_update (\<lambda>x. pr_token x = token)
                                       (\<lambda>x. x\<lparr>pr_used := True\<rparr>) (password_resets d1)\<rparr>
                         in (updSession (\<lambda>x. se_username x = pr_username r)
                               (\<lambda>x. x\<lparr>se_revoked := True\<rparr>) d2, None)))"

section \<open>QR login\<close>

definition createQRLogin :: "env \<Rightarrow> NexusServer \<Rightarrow> NexusServer \<times> (nerr + string)" where
  "createQRLogin e s =
     (case randHex e 16 s of
        (s1, None) \<Rightarrow> (s1, Inl ErrRand)
      | (s1, Some tok) \<Rightarrow>
          (case sql_insert qr_token \<lparr> qr_token = tok, qr_username = '''', qr_session_token = '''',
                    qr_device_info = '''', qr_expires_at = e_now e + 5 * minute, qr_approved = False \<rparr>
                  (qr_login_tokens (DB s1)) of
             None \<Rightarrow> (s1, Inl (ErrUnique ''qr_login_tokens.token''))
           | Some t \<Rightarrow> (withDB (\<lambda>d. d\<lparr>qr_login_tokens := t\<rparr>) s1, Inr tok)))"

definition qrApprovable :: "time \<Rightarrow> string \<Rightarrow> qr_row \<Rightarrow> bool" where
  "qrApprovable now token r \<longleftrightarrow>
     qr_token r = token \<and> \<not> qr_approved r \<and> textAfterNow (qr_expires_at r) now"

definition approveQRLogin ::
  "env \<Rightarrow> string \<Rightarrow> string \<Rightarrow> string \<Rightarrow> NexusServer \<Rightarrow> NexusServer \<times> nerr option" where
  "approveQRLogin e token username device s =
     (case issueSessionToken e username device s of
        (s1, _, Some err) \<Rightarrow> (s1, Some err)
      | (s1, sess, None) \<Rightarrow>
          (let n = sql_count (qrApprovable (e_now e) token) (qr_login_tokens (DB s1));
               s2 = withDB (\<lambda>d. d\<lparr>qr_login_tokens := sql_update (qrApprovable (e_now e) token)
                      (\<lambda>r. r\<lparr>qr_username := username, qr_session_token := sess,
                            qr_device_info := device, qr_approved := True\<rparr>) (qr_login_tokens d)\<rparr>) s1
           in if n = 0 then (s2, Some ErrQRInvalid) else (s2, None)))"

definition checkQRLogin :: "time \<Rightarrow> string \<Rightarrow> database \<Rightarrow> string \<times> string \<times> bool \<times> bool" where
  "checkQRLogin now token d =
     (case sql_row (\<lambda>r. qr_token r = token) (qr_login_tokens d) of
        None \<Rightarrow> ('''', '''', False, False)
      | Some r \<Rightarrow> if now > qr_expires_at r then ('''', '''', False, True)
                  else (qr_username r, qr_session_token r, qr_approved r, True))"

section \<open>New-device verification\<close>

definition deviceChallengeTTL :: time where "deviceChallengeTTL = 15 * minute"
definition maxDeviceChallengeAttempts :: nat where "maxDeviceChallengeAttempts = 5"

datatype deviceErr = ErrNoChallenge | ErrChallengeExpired | ErrTooManyAttempts | ErrBadCode


definition deviceLabel :: "env \<Rightarrow> string \<Rightarrow> string \<Rightarrow> string" where
  "deviceLabel e userAgent fallback =
     (let ua = ToLower (e_uniLower e) userAgent;
          browser =
            (if strContains ua ''edg/'' then ''Edge''
             else if strContains ua ''opr/'' \<or> strContains ua ''opera'' then ''Opera''
             else if strContains ua ''firefox'' then ''Firefox''
             else if strContains ua ''chrome'' \<or> strContains ua ''chromium'' then ''Chrome''
             else if strContains ua ''safari'' then ''Safari'' else ''Unknown browser'');
          os =
            (if strContains ua ''android'' then ''Android''
             else if strContains ua ''iphone'' \<or> strContains ua ''ipad'' then ''iOS''
             else if strContains ua ''windows'' then ''Windows''
             else if strContains ua ''mac os'' \<or> strContains ua ''macintosh'' then ''macOS''
             else if strContains ua ''linux'' then ''Linux'' else ''unknown OS'')
      in if ua = '''' then (if fallback \<noteq> '''' then fallback else ''Unknown device'')
         else browser @ '' on '' @ os)"

definition isKnownDevice :: "string \<Rightarrow> string \<Rightarrow> database \<Rightarrow> bool" where
  "isKnownDevice username deviceID d \<longleftrightarrow>
     deviceID \<noteq> '''' \<and>
     sql_count (\<lambda>r. kd_username r = username \<and> kd_device_id r = deviceID) (known_devices d) > 0"

definition rememberDevice ::
  "time \<Rightarrow> string \<Rightarrow> string \<Rightarrow> string \<Rightarrow> string \<Rightarrow> database \<Rightarrow> database" where
  "rememberDevice now username deviceID label ip d =
     (if deviceID = '''' then d
      else d\<lparr>known_devices := sql_upsert kd_key
               (\<lambda>r. r\<lparr>kd_last_seen := sqlNow now, kd_last_ip := ip\<rparr>)
               \<lparr> kd_username = username, kd_device_id = deviceID, kd_label = label,
                 kd_last_seen = sqlNow now, kd_last_ip = ip \<rparr> (known_devices d)\<rparr>)"

definition touchDevice :: "time \<Rightarrow> string \<Rightarrow> string \<Rightarrow> string \<Rightarrow> database \<Rightarrow> database" where
  "touchDevice now username deviceID ip d =
     d\<lparr>known_devices := sql_update (\<lambda>r. kd_username r = username \<and> kd_device_id r = deviceID)
         (\<lambda>r. r\<lparr>kd_last_seen := sqlNow now, kd_last_ip := ip\<rparr>) (known_devices d)\<rparr>"

definition emailOf :: "string \<Rightarrow> database \<Rightarrow> string" where
  "emailOf username d = (case userRow username d of None \<Rightarrow> '''' | Some u \<Rightarrow> u_email u)"

definition canDeliverChallenge :: "env \<Rightarrow> string \<Rightarrow> NexusServer \<Rightarrow> bool" where
  "canDeliverChallenge e username s \<longleftrightarrow>
     isOnline username s \<or> (mailConfigured e \<and> emailOf username (DB s) \<noteq> '''')"

definition createDeviceChallenge ::
  "env \<Rightarrow> string \<Rightarrow> string \<Rightarrow> string \<Rightarrow> string \<Rightarrow> string \<Rightarrow> NexusServer \<Rightarrow> NexusServer \<times> int \<times> bool" where
  "createDeviceChallenge e username deviceID sessionToken label ip s =
     (case randDigits e 6 s of
        (s1, None) \<Rightarrow> (s1, 0, False)
      | (s1, Some code) \<Rightarrow>
          (let chID = nextID ''device_challenges'' (DB s1);
               row = \<lparr> dc_id = chID, dc_username = username, dc_device_id = deviceID,
                       dc_session_token = sessionToken, dc_code = code, dc_label = label, dc_ip = ip,
                       dc_attempts = 0, dc_approved = False, dc_consumed = False,
                       dc_expires_at = e_now e + deviceChallengeTTL \<rparr>;
               s2 = withDB (\<lambda>d. (takeID ''device_challenges'' d)\<lparr>device_challenges :=
                              device_challenges d @ [row]\<rparr>) s1;
               s3 = fst (sendTo e username (msg0\<lparr>mType := ''device_challenge'', mSender := username,
                      mBody := label, mChallengeID := chID, mDeviceID := deviceID, mStatus := ip,
                      mTs := e_now e div 1000000\<rparr>) s2);
               email = emailOf username (DB s3)
           in if email = '''' then (s3, chID, False)
              else if \<not> mailConfigured e then (s3, chID, False)
              else if \<not> e_mailOk e then (s3, chID, False)
              else (s3\<lparr>mails := mails s3 @ [MailDeviceCode email label ip code]\<rparr>, chID, True)))"

definition updChallenge :: "int \<Rightarrow> (challenge_row \<Rightarrow> challenge_row) \<Rightarrow> database \<Rightarrow> database" where
  "updChallenge chID f d =
     d\<lparr>device_challenges := sql_update (\<lambda>r. dc_id r = chID) f (device_challenges d)\<rparr>"

definition approveDeviceChallenge ::
  "time \<Rightarrow> int \<Rightarrow> string \<Rightarrow> string \<Rightarrow> string \<Rightarrow> string \<Rightarrow> string \<Rightarrow> database \<Rightarrow> database" where
  "approveDeviceChallenge now chID username deviceID sessionToken label ip d =
     (let d1 = updChallenge chID (\<lambda>r. r\<lparr>dc_consumed := True, dc_approved := True\<rparr>) d;
          d2 = updSession (\<lambda>r. se_token r = sessionToken) (\<lambda>r. r\<lparr>se_pending_device := False\<rparr>) d1
      in rememberDevice now username deviceID label ip d2)"

definition denyDeviceChallenge :: "int \<Rightarrow> string \<Rightarrow> string \<Rightarrow> database \<Rightarrow> database" where
  "denyDeviceChallenge chID username sessionToken d =
     (let d1 = updChallenge chID (\<lambda>r. r\<lparr>dc_consumed := True, dc_approved := False\<rparr>) d
      in updSession (\<lambda>r. se_token r = sessionToken) (\<lambda>r. r\<lparr>se_revoked := True\<rparr>) d1)"

text \<open>\<^verbatim>\<open>ORDER BY id DESC LIMIT 1\<close>: the last row of the session's challenges.\<close>

definition latestChallenge :: "string \<Rightarrow> database \<Rightarrow> challenge_row option" where
  "latestChallenge sessionToken d =
     sql_row (\<lambda>r. dc_session_token r = sessionToken) (rev (device_challenges d))"

definition verifyDeviceChallenge ::
  "time \<Rightarrow> string \<Rightarrow> string \<Rightarrow> database \<Rightarrow> database \<times> (deviceErr + string)" where
  "verifyDeviceChallenge now sessionToken code d =
     (case latestChallenge sessionToken d of
        None \<Rightarrow> (d, Inl ErrNoChallenge)
      | Some r \<Rightarrow>
          if dc_consumed r then (d, Inl ErrNoChallenge)
          else if now > dc_expires_at r then (d, Inl ErrChallengeExpired)
          else if dc_attempts r \<ge> maxDeviceChallengeAttempts then (d, Inl ErrTooManyAttempts)
          else if TrimSpace code \<noteq> dc_code r
          then (updChallenge (dc_id r) (\<lambda>x. x\<lparr>dc_attempts := dc_attempts x + 1\<rparr>) d, Inl ErrBadCode)
          else (approveDeviceChallenge now (dc_id r) (dc_username r) (dc_device_id r) sessionToken
                  (dc_label r) (dc_ip r) d, Inr (dc_username r)))"

definition lookupDeviceChallenge ::
  "int \<Rightarrow> string \<Rightarrow> database \<Rightarrow> (string \<times> string \<times> string \<times> string) option" where
  "lookupDeviceChallenge chID username d =
     (case sql_row (\<lambda>r. dc_id r = chID \<and> dc_username r = username) (device_challenges d) of
        None \<Rightarrow> None
      | Some r \<Rightarrow> if dc_consumed r then None
                  else Some (dc_device_id r, dc_session_token r, dc_label r, dc_ip r))"

definition purgeExpiredDeviceChallenges :: "time \<Rightarrow> database \<Rightarrow> database" where
  "purgeExpiredDeviceChallenges now d =
     d\<lparr>device_challenges :=
         sql_delete (\<lambda>r. dc_consumed r \<or> textBeforeNow (dc_expires_at r) now) (device_challenges d)\<rparr>"

section \<open>TOTP\<close>

definition totpStatus :: "string \<Rightarrow> database \<Rightarrow> string \<times> bool" where
  "totpStatus username d =
     (case userRow username d of None \<Rightarrow> ('''', False) | Some u \<Rightarrow> (u_totp_secret u, u_totp_enabled u))"

definition enableTOTP :: "env \<Rightarrow> string \<Rightarrow> string \<Rightarrow> string \<Rightarrow> database \<Rightarrow> database \<times> bool" where
  "enableTOTP e username secret code d =
     (if \<not> e_totpValidate e code secret then (d, False)
      else (updUser username (\<lambda>u. u\<lparr>u_totp_secret := secret, u_totp_enabled := True\<rparr>) d, True))"

definition disableTOTP :: "string \<Rightarrow> database \<Rightarrow> database" where
  "disableTOTP username d =
     (let d1 = updUser username (\<lambda>u. u\<lparr>u_totp_secret := '''', u_totp_enabled := False\<rparr>) d
      in d1\<lparr>totp_backup_codes := sql_delete (\<lambda>r. bc_username r = username) (totp_backup_codes d1)\<rparr>)"

definition sha256Hex :: "env \<Rightarrow> string \<Rightarrow> string" where
  "sha256Hex e p = hexEncode (map of_char (e_sha256 e p))"

fun genBackupCodes :: "env \<Rightarrow> string \<Rightarrow> nat \<Rightarrow> NexusServer \<Rightarrow> NexusServer \<times> string list option" where
  "genBackupCodes e username 0 s = (s, Some [])"
| "genBackupCodes e username (Suc n) s =
     (case randHex e 5 s of
        (s1, None) \<Rightarrow> (s1, None)
      | (s1, Some plain) \<Rightarrow>
          (let s2 = withDB (\<lambda>d. d\<lparr>totp_backup_codes := totp_backup_codes d @
                      [\<lparr> bc_username = username, bc_code_hash = sha256Hex e plain, bc_used = False \<rparr>]\<rparr>) s1;
               (s3, r) = genBackupCodes e username n s2
           in (s3, map_option (\<lambda>cs. (take 5 plain @ ''-'' @ drop 5 plain) # cs) r)))"

definition generateBackupCodes :: "env \<Rightarrow> string \<Rightarrow> NexusServer \<Rightarrow> NexusServer \<times> string list option" where
  "generateBackupCodes e username s =
     genBackupCodes e username 8
       (withDB (\<lambda>d. d\<lparr>totp_backup_codes :=
                       sql_delete (\<lambda>r. bc_username r = username) (totp_backup_codes d)\<rparr>) s)"

definition backupMatch :: "env \<Rightarrow> string \<Rightarrow> string \<Rightarrow> backup_code_row \<Rightarrow> bool" where
  "backupMatch e username code r \<longleftrightarrow>
     bc_username r = username \<and> bc_code_hash r = sha256Hex e (filter (\<lambda>c. c \<noteq> CHR ''-'') code) \<and>
     \<not> bc_used r"

definition consumeBackupCode :: "env \<Rightarrow> string \<Rightarrow> string \<Rightarrow> database \<Rightarrow> database \<times> bool" where
  "consumeBackupCode e username code d =
     (d\<lparr>totp_backup_codes := sql_update (backupMatch e username code) (\<lambda>r. r\<lparr>bc_used := True\<rparr>)
          (totp_backup_codes d)\<rparr>,
      sql_count (backupMatch e username code) (totp_backup_codes d) > 0)"

definition verifyTOTP :: "env \<Rightarrow> string \<Rightarrow> string \<Rightarrow> NexusServer \<Rightarrow> NexusServer \<times> bool" where
  "verifyTOTP e username code s =
     (let (secret, enabled) = totpStatus username (DB s)
      in if \<not> enabled \<or> secret = '''' then (s, True)
         else if \<not> e_totpValidate e code secret then (s, False)
         else let key = username @ '':'' @ code
              in case map_of (totpUsedCodes s) key of
                   Some _ \<Rightarrow> (s, False)
                 | None \<Rightarrow> (s\<lparr>totpUsedCodes := aput key (e_now e + 60 * second) (totpUsedCodes s)\<rparr>, True))"

text \<open>One tick of the goroutine that forgets used codes.\<close>

definition sweepTOTPUsed :: "time \<Rightarrow> NexusServer \<Rightarrow> NexusServer" where
  "sweepTOTPUsed now s = s\<lparr>totpUsedCodes := filter (\<lambda>(k, exp). \<not> exp < now) (totpUsedCodes s)\<rparr>"

lemma isKnownDevice_iff:
  "isKnownDevice u dev d \<longleftrightarrow> dev \<noteq> '''' \<and> (u, dev) \<in> kd_key ` set (known_devices d)"
  by (auto simp: isKnownDevice_def sql_count_pos kd_key_def)

lemma isKnownDevice_rememberDevice:
  "dev \<noteq> '''' \<Longrightarrow> isKnownDevice u dev (rememberDevice now u dev l ip d)"
  using key_sql_upsert [of kd_key "\<lambda>r. r\<lparr>kd_last_seen := sqlNow now, kd_last_ip := ip\<rparr>"
      "\<lparr> kd_username = u, kd_device_id = dev, kd_label = l, kd_last_seen = sqlNow now, kd_last_ip = ip \<rparr>"]
  by (simp add: isKnownDevice_iff rememberDevice_def) (simp add: kd_key_def)

section \<open>Credentials that work once\<close>

definition resetOp :: "env \<times> string \<times> string \<Rightarrow> database \<Rightarrow> database \<times> bool" where
  "resetOp = (\<lambda>(e, token, pw) d.
     (fst (consumePasswordReset e token pw d), snd (consumePasswordReset e token pw d) = None))"

definition backupOp :: "env \<times> string \<times> string \<Rightarrow> database \<Rightarrow> database \<times> bool" where
  "backupOp = (\<lambda>(e, username, code) d. consumeBackupCode e username code d)"

definition deviceOp :: "time \<times> string \<times> string \<Rightarrow> database \<Rightarrow> database \<times> bool" where
  "deviceOp = (\<lambda>(now, sess, code) d.
     (fst (verifyDeviceChallenge now sess code d), \<not> isl (snd (verifyDeviceChallenge now sess code d))))"

lemma consumePasswordReset_ok:
  assumes "consumePasswordReset e token pw d = (d', None)"
  shows "\<exists>r hash. sql_row (\<lambda>r. pr_token r = token) (password_resets d) = Some r \<and>
    \<not> pr_used r \<and> e_now e \<le> pr_expires_at r \<and> e_bcryptHash e (e_sha256 e pw) = Some hash \<and>
    d' = updSession (\<lambda>x. se_username x = pr_username r) (\<lambda>x. x\<lparr>se_revoked := True\<rparr>)
      ((updUser (pr_username r) (\<lambda>u. u\<lparr>u_password_hash := hash\<rparr>) d)
        \<lparr>password_resets := sql_update (\<lambda>x. pr_token x = token) (\<lambda>x. x\<lparr>pr_used := True\<rparr>)
           (password_resets (updUser (pr_username r) (\<lambda>u. u\<lparr>u_password_hash := hash\<rparr>) d))\<rparr>)"
  using assms by (auto simp: consumePasswordReset_def Let_def split: option.splits if_splits)

lemma consumePasswordReset_password_resets:
  "password_resets (fst (consumePasswordReset e t p d)) =
     (if snd (consumePasswordReset e t p d) = None
      then sql_update (\<lambda>x. pr_token x = t) (\<lambda>x. x\<lparr>pr_used := True\<rparr>) (password_resets d)
      else password_resets d)"
  by (auto simp: consumePasswordReset_def Let_def updUser_def split: option.splits)

interpretation resets: one_shot resetOp "\<lambda>(e, token, pw). token"
    "\<lambda>token d. \<exists>r \<in> set (password_resets d). pr_token r = token \<and> \<not> pr_used r"
proof (unfold_locales, goal_cases)
  case (1 i d)
  obtain e t p where i: "i = (e, t, p)" by (cases i)
  from 1 have "snd (consumePasswordReset e t p d) = None"
    by (simp add: i resetOp_def)
  then have "consumePasswordReset e t p d = (fst (consumePasswordReset e t p d), None)"
    by (metis prod.collapse)
  from consumePasswordReset_ok [OF this] obtain r where
      "sql_row (\<lambda>r. pr_token r = t) (password_resets d) = Some r" "\<not> pr_used r" by blast
  with sql_row_SomeD [of "\<lambda>r. pr_token r = t" "password_resets d" r] show ?case by (auto simp: i)
next
  case (2 i d)
  then show ?case
    by (cases i) (auto simp: resetOp_def consumePasswordReset_password_resets bex_sql_update)
next
  case (3 k d i)
  then show ?case
    by (cases i) (simp add: resetOp_def consumePasswordReset_password_resets bex_sql_update ball_sql_update)
qed

lemma consumeBackupCode_dead:
  "(\<exists>r \<in> set (totp_backup_codes (fst (consumeBackupCode e u c d))). bc_username r = u \<and>
     bc_code_hash r = sha256Hex e (filter (\<lambda>x. x \<noteq> CHR ''-'') c) \<and> \<not> bc_used r) \<longleftrightarrow> False"
  unfolding consumeBackupCode_def backupMatch_def
  by (auto simp: bex_sql_update)

interpretation backups: one_shot backupOp
    "\<lambda>(e, u, code). (u, sha256Hex e (filter (\<lambda>c. c \<noteq> CHR ''-'') code))"
    "\<lambda>(u, h) d. \<exists>r \<in> set (totp_backup_codes d). bc_username r = u \<and> bc_code_hash r = h \<and> \<not> bc_used r"
proof (unfold_locales, goal_cases)
  case (1 i d)
  then show ?case
    by (cases i) (auto simp: backupOp_def consumeBackupCode_def sql_count_pos backupMatch_def)
next
  case (2 i d)
  then show ?case
    by (cases i) (simp only: backupOp_def split fst_conv consumeBackupCode_dead, simp)
next
  case (3 k d i)
  then show ?case
    by (cases i; cases k) (auto simp: backupOp_def consumeBackupCode_def bex_sql_update split: if_splits)
qed

lemma approveDeviceChallenge_challenges [simp]:
  "device_challenges (approveDeviceChallenge now i u dev sess l ip d) =
     device_challenges (updChallenge i (\<lambda>r. r\<lparr>dc_consumed := True, dc_approved := True\<rparr>) d)"
  by (simp add: approveDeviceChallenge_def Let_def rememberDevice_def)

lemma latestChallenge_upd:
  assumes "\<And>r. dc_session_token (f r) = dc_session_token r"
  shows "latestChallenge t (updChallenge i f d) =
         map_option (\<lambda>r. if dc_id r = i then f r else r) (latestChallenge t d)"
  using sql_row_update_key [of dc_session_token f t "\<lambda>r. dc_id r = i" "rev (device_challenges d)"] assms
  by (simp add: latestChallenge_def updChallenge_def sql_update_def rev_map)

lemma latestChallenge_approve:
  "latestChallenge t (approveDeviceChallenge now i u dev sess l ip d) =
   map_option (\<lambda>r. if dc_id r = i then r\<lparr>dc_consumed := True, dc_approved := True\<rparr> else r)
     (latestChallenge t d)"
  using latestChallenge_upd [of "\<lambda>r. r\<lparr>dc_consumed := True, dc_approved := True\<rparr>" t i d]
  by (simp add: latestChallenge_def)

interpretation devs: one_shot deviceOp "\<lambda>(now, sess, code). sess"
    "\<lambda>sess d. \<exists>r. latestChallenge sess d = Some r \<and> \<not> dc_consumed r"
proof (unfold_locales, goal_cases)
  case (1 i d)
  then show ?case
    by (cases i) (auto simp: deviceOp_def verifyDeviceChallenge_def split: option.splits if_splits)
next
  case (2 i d)
  then show ?case
    by (cases i) (auto simp: deviceOp_def verifyDeviceChallenge_def latestChallenge_approve
        split: option.splits if_splits)
next
  case (3 k d i)
  then show ?case
    by (cases i) (auto simp: deviceOp_def verifyDeviceChallenge_def latestChallenge_approve
        latestChallenge_upd split: option.splits if_splits)
qed

section \<open>Properties\<close>


text \<open>A TOTP backup code works at most once, whether it is typed with or without its dash.\<close>

theorem backup_code_at_most_once:
  "successes (\<lambda>(e', u, c). e' = e \<and> u = username \<and> filter (\<lambda>x. x \<noteq> CHR ''-'') c = plain)
     backupOp attempts d \<le> 1"
proof -
  have mono: "successes P f is d' \<le> successes Q f is d'" if "\<And>i. P i \<Longrightarrow> Q i"
    for P Q and f :: "'i \<Rightarrow> 'd \<Rightarrow> 'd \<times> bool" and "is" d'
    using that by (induction "is" arbitrary: d') (auto intro: le_SucI)
  have "successes (\<lambda>(e', u, c). e' = e \<and> u = username \<and> filter (\<lambda>x. x \<noteq> CHR ''-'') c = plain)
     backupOp attempts d \<le>
     successes (\<lambda>i. (case i of (e, u, c) \<Rightarrow> (u, sha256Hex e (filter (\<lambda>x. x \<noteq> CHR ''-'') c))) =
       (username, sha256Hex e plain)) backupOp attempts d"
    by (rule mono) auto
  with backups.at_most_once [of "(username, sha256Hex e plain)" attempts d] show ?thesis
    by (meson order_trans)
qed

text \<open>A successful password reset stores the new hash and revokes every session the account had:
  no token issued before authenticates the account afterwards, at any later time.  Other accounts'
  sessions are untouched.\<close>

theorem password_reset_revokes_sessions:
  assumes "consumePasswordReset e token pw d = (d', None)" and "uniq u_username (users d)"
    and "uniq pr_token (password_resets d)"
  shows "\<exists>r hash. r \<in> set (password_resets d) \<and> pr_token r = token \<and> \<not> pr_used r \<and>
           e_now e \<le> pr_expires_at r \<and> e_bcryptHash e (e_sha256 e pw) = Some hash \<and>
           map_option u_password_hash (userRow (pr_username r) d') =
             map_option (\<lambda>_. hash) (userRow (pr_username r) d) \<and>
           (\<forall>now t. sessionUsername now t d' \<noteq> '''' \<longrightarrow>
              sessionUsername now t d' \<noteq> pr_username r \<and> sessionUsername now t d' = sessionUsername now t d)"
proof -
  from assms(1) obtain r hash where r: "sql_row (\<lambda>r. pr_token r = token) (password_resets d) = Some r"
    "\<not> pr_used r" "e_now e \<le> pr_expires_at r" "e_bcryptHash e (e_sha256 e pw) = Some hash"
    and d': "d' = updSession (\<lambda>x. se_username x = pr_username r) (\<lambda>x. x\<lparr>se_revoked := True\<rparr>)
      ((updUser (pr_username r) (\<lambda>u. u\<lparr>u_password_hash := hash\<rparr>) d)
        \<lparr>password_resets := sql_update (\<lambda>x. pr_token x = token) (\<lambda>x. x\<lparr>pr_used := True\<rparr>)
           (password_resets (updUser (pr_username r) (\<lambda>u. u\<lparr>u_password_hash := hash\<rparr>) d))\<rparr>)"
    using consumePasswordReset_ok by blast
  have same: "sessionRow t (x\<lparr>password_resets := y\<rparr>) = sessionRow t x" for t x y
    by (simp add: sessionRow_def)
  have sess: "sessionRow t d' = map_option (\<lambda>x. if se_username x = pr_username r
      then x\<lparr>se_revoked := True\<rparr> else x) (sessionRow t d)" for t
    by (simp add: d' sessionRow_updSession same) (simp add: sessionRow_def)
  have usr: "userRow v d' = userRow v (updUser (pr_username r) (\<lambda>u. u\<lparr>u_password_hash := hash\<rparr>) d)" for v
    by (simp add: d' userRow_def)
  have "\<forall>now t. sessionUsername now t d' \<noteq> '''' \<longrightarrow>
      sessionUsername now t d' \<noteq> pr_username r \<and> sessionUsername now t d' = sessionUsername now t d"
    by (auto simp: sessionUsername_row sess split: option.splits if_splits)
  with r sql_row_SomeD [OF r(1)] show ?thesis
    by (intro exI [of _ r] exI [of _ hash])
      (simp add: usr userRow_updUser option.map_comp comp_def)
qed

definition dbReset :: database where
  "dbReset = emptyDB\<lparr>
     users := [newUser 0 ''bob'' ''b@x'' '''' ''old'' ''111111''],
     session_tokens := [\<lparr> se_token = ''s1'', se_username = ''bob'', se_device_info = '''',
       se_created_at = 0, se_expires_at = 2000 * second, se_revoked = False, se_pending_device = False \<rparr>],
     password_resets := [\<lparr> pr_token = ''r1'', pr_username = ''bob'', pr_expires_at = 1001 * second,
       pr_used = False \<rparr>]\<rparr>"

theorem password_reset_revokes_sessions_witness:
  "sessionUsername 0 ''s1'' dbReset = ''bob'' \<and>
   sessionUsername 0 ''s1'' (fst (consumePasswordReset env0 ''r1'' ''hunter22'' dbReset)) = ''''"
proof -
  have ok: "consumePasswordReset env0 ''r1'' ''hunter22'' dbReset =
      (fst (consumePasswordReset env0 ''r1'' ''hunter22'' dbReset), None)"
    by (simp add: consumePasswordReset_def dbReset_def emptyDB_def sql_row_def duration_defs Let_def)
  have "uniq u_username (users dbReset)" "uniq pr_token (password_resets dbReset)"
    by (simp_all add: dbReset_def uniq_def)
  from password_reset_revokes_sessions [OF ok this] obtain r where
      r: "r \<in> set (password_resets dbReset)"
        "sessionUsername 0 ''s1'' (fst (consumePasswordReset env0 ''r1'' ''hunter22'' dbReset)) \<noteq> '''' \<Longrightarrow>
         sessionUsername 0 ''s1'' (fst (consumePasswordReset env0 ''r1'' ''hunter22'' dbReset)) \<noteq> pr_username r \<and>
         sessionUsername 0 ''s1'' (fst (consumePasswordReset env0 ''r1'' ''hunter22'' dbReset)) =
           sessionUsername 0 ''s1'' dbReset"
    by blast
  have "sessionUsername 0 ''s1'' dbReset = ''bob''"
    by (simp add: sessionUsername_row sessionRow_def dbReset_def sql_row_def duration_defs)
  with r show ?thesis by (auto simp: dbReset_def)
qed


definition dbDevice :: database where
  "dbDevice = emptyDB\<lparr>
     session_tokens := [\<lparr> se_token = ''s1'', se_username = ''bob'', se_device_info = '''',
       se_created_at = 0, se_expires_at = 9000, se_revoked = False, se_pending_device = True \<rparr>],
     device_challenges := [\<lparr> dc_id = 1, dc_username = ''bob'', dc_device_id = ''dev'',
       dc_session_token = ''s1'', dc_code = ''123456'', dc_label = ''L'', dc_ip = ''ip'', dc_attempts = 0,
       dc_approved = False, dc_consumed = False, dc_expires_at = 900 \<rparr>]\<rparr>"

lemma dbDevice_rows:
  "sessionRow ''s1'' dbDevice = Some (hd (session_tokens dbDevice))"
  "latestChallenge ''s1'' dbDevice = Some (hd (device_challenges dbDevice))"
  by (simp_all add: dbDevice_def sessionRow_def latestChallenge_def sql_row_def)

lemma trim_123456: "TrimSpace '' 123456'' = ''123456''"
  by code_simp


section \<open>Guessing a device code\<close>

definition guess :: "string \<Rightarrow> time \<times> string \<Rightarrow> database \<Rightarrow> database" where
  "guess sess g d = fst (verifyDeviceChallenge (fst g) sess (snd g) d)"

lemma guess_wrong:
  assumes "latestChallenge sess d = Some ch" and "\<not> dc_consumed ch" and "dc_attempts ch < 5"
    and "fst g \<le> dc_expires_at ch" and "TrimSpace (snd g) \<noteq> dc_code ch"
  shows "latestChallenge sess (guess sess g d) = Some (ch\<lparr>dc_attempts := dc_attempts ch + 1\<rparr>)"
    and "session_tokens (guess sess g d) = session_tokens d"
  using assms
  by (simp_all add: guess_def verifyDeviceChallenge_def maxDeviceChallengeAttempts_def
      latestChallenge_upd) (simp add: updChallenge_def)

lemma guesses_wrong:
  assumes "latestChallenge sess d = Some ch" and "\<not> dc_consumed ch"
    and "dc_attempts ch + length gs \<le> 5"
    and "list_all (\<lambda>(t, c). t \<le> dc_expires_at ch \<and> TrimSpace c \<noteq> dc_code ch) gs"
  shows "latestChallenge sess (fold (guess sess) gs d) =
           Some (ch\<lparr>dc_attempts := dc_attempts ch + length gs\<rparr>) \<and>
         session_tokens (fold (guess sess) gs d) = session_tokens d"
  using assms
proof (induction gs arbitrary: d ch)
  case (Cons g gs)
  let ?ch = "ch\<lparr>dc_attempts := dc_attempts ch + 1\<rparr>"
  have g: "fst g \<le> dc_expires_at ch" "TrimSpace (snd g) \<noteq> dc_code ch"
    using Cons.prems(4) by (auto simp: split_beta)
  have "latestChallenge sess (guess sess g d) = Some ?ch"
    using Cons.prems g by (intro guess_wrong) auto
  moreover have "session_tokens (guess sess g d) = session_tokens d"
    using Cons.prems g by (intro guess_wrong) auto
  ultimately show ?case
    using Cons.IH [of "guess sess g d" ?ch] Cons.prems by simp
qed simp

text \<open>Five wrong codes burn a device challenge: after them every further code, the right one
  included, is answered with \<^verbatim>\<open>errTooManyAttempts\<close> until the challenge expires, and the session
  stays held.\<close>

theorem device_code_five_guesses:
  assumes "latestChallenge sess d = Some ch" and "\<not> dc_consumed ch" and "dc_attempts ch = 0"
    and "length gs = 5"
    and "list_all (\<lambda>(t, c). t \<le> dc_expires_at ch \<and> TrimSpace c \<noteq> dc_code ch) gs"
    and "now \<le> dc_expires_at ch"
  shows "verifyDeviceChallenge now sess code (fold (guess sess) gs d) =
           (fold (guess sess) gs d, Inl ErrTooManyAttempts) \<and>
         sessionUsername now' sess (fold (guess sess) gs d) = sessionUsername now' sess d"
  using guesses_wrong [OF assms(1,2) _ assms(5)] assms
  by (simp add: verifyDeviceChallenge_def maxDeviceChallengeAttempts_def sessionUsername_row
      sessionRow_def)

lemma trim_wrong: "TrimSpace ''000000'' = ''000000''"
  by code_simp

theorem device_code_five_guesses_witness:
  "snd (verifyDeviceChallenge 9 ''s1'' ''123456''
     (fold (guess ''s1'') (replicate 5 (7, ''000000'')) dbDevice)) = Inl ErrTooManyAttempts"
proof -
  have "verifyDeviceChallenge 9 ''s1'' ''123456''
        (fold (guess ''s1'') (replicate 5 (7, ''000000'')) dbDevice) =
      (fold (guess ''s1'') (replicate 5 (7, ''000000'')) dbDevice, Inl ErrTooManyAttempts) \<and>
      sessionUsername 0 ''s1'' (fold (guess ''s1'') (replicate 5 (7, ''000000'')) dbDevice) =
      sessionUsername 0 ''s1'' dbDevice"
    by (rule device_code_five_guesses [OF dbDevice_rows(2)])
      (simp_all add: dbDevice_def list_all_iff trim_wrong)
  then show ?thesis by simp
qed

text \<open>The in-app approval does not look at the expiry of a challenge.  For every challenge that
  the code path already answers with "that code has expired", \<^verbatim>\<open>lookupDeviceChallenge\<close> still
  returns it and approving it releases the session.\<close>

theorem expired_challenge_approvable:
  assumes "latestChallenge sess d = Some ch" and "uniq dc_id (device_challenges d)"
    and "\<not> dc_consumed ch" and "now > dc_expires_at ch"
    and "sessionRow sess d = Some r" and "sess \<noteq> ''''" and "\<not> se_revoked r" and "now \<le> se_expires_at r"
  shows "snd (verifyDeviceChallenge now sess code d) = Inl ErrChallengeExpired \<and>
         lookupDeviceChallenge (dc_id ch) (dc_username ch) d =
           Some (dc_device_id ch, sess, dc_label ch, dc_ip ch) \<and>
         sessionUsername now sess (approveDeviceChallenge now (dc_id ch) (dc_username ch)
           (dc_device_id ch) sess (dc_label ch) (dc_ip ch) d) = se_username r"
proof -
  have ch: "ch \<in> set (device_challenges d)" "dc_session_token ch = sess"
    using assms(1) by (auto simp: latestChallenge_def dest: sql_row_SomeD)
  have "sql_row (\<lambda>r. dc_id r = dc_id ch) (device_challenges d) = Some ch"
    using sql_row_unique [OF assms(2) ch(1)] by simp
  moreover have "dc_id x = dc_id ch \<and> dc_username x = dc_username ch \<longleftrightarrow> dc_id x = dc_id ch"
    if "x \<in> set (device_challenges d)" for x
    using assms(2) ch(1) that by (auto simp: uniq_def distinct_map dest: inj_onD)
  ultimately have "sql_row (\<lambda>r. dc_id r = dc_id ch \<and> dc_username r = dc_username ch)
      (device_challenges d) = Some ch"
    by (simp add: sql_row_def cong: find_cong)
  moreover have "sessionRow sess (approveDeviceChallenge now i u dev sess l ip d) =
      Some (r\<lparr>se_pending_device := False\<rparr>)" for i u dev l ip
    using sessionRow_token [OF assms(5)] assms(5)
    by (simp add: approveDeviceChallenge_def Let_def rememberDevice_def updSession_def
        updChallenge_def sessionRow_def sql_row_update_key [where K = se_token])
  ultimately show ?thesis
    using assms ch by (simp add: verifyDeviceChallenge_def lookupDeviceChallenge_def sessionUsername_row)
qed

theorem expired_challenge_approvable_witness:
  "sessionUsername 1000 ''s1'' (approveDeviceChallenge 1000 1 ''bob'' ''dev'' ''s1'' ''L'' ''ip'' dbDevice) = ''bob''"
proof -
  have "snd (verifyDeviceChallenge 1000 ''s1'' ''123456'' dbDevice) = Inl ErrChallengeExpired \<and>
     lookupDeviceChallenge (dc_id (hd (device_challenges dbDevice)))
       (dc_username (hd (device_challenges dbDevice))) dbDevice =
       Some (dc_device_id (hd (device_challenges dbDevice)), ''s1'', dc_label (hd (device_challenges dbDevice)),
             dc_ip (hd (device_challenges dbDevice))) \<and>
     sessionUsername 1000 ''s1'' (approveDeviceChallenge 1000 (dc_id (hd (device_challenges dbDevice)))
       (dc_username (hd (device_challenges dbDevice))) (dc_device_id (hd (device_challenges dbDevice))) ''s1''
       (dc_label (hd (device_challenges dbDevice))) (dc_ip (hd (device_challenges dbDevice))) dbDevice) =
       se_username (hd (session_tokens dbDevice))"
    by (rule expired_challenge_approvable [OF dbDevice_rows(2) _ _ _ dbDevice_rows(1)])
      (simp_all add: dbDevice_def uniq_def)
  then show ?thesis by (simp add: dbDevice_def)
qed

section \<open>QR login and TOTP\<close>

lemma insertSession_ok:
  assumes "insertSession e ttl u dev s = (s', tok, None)"
  shows "tok \<notin> se_token ` set (session_tokens (DB s)) \<and>
     DB s' = (DB s)\<lparr>session_tokens := session_tokens (DB s) @ [newSession e ttl tok u dev]\<rparr> \<and>
     map_option hexEncode (e_randBytes e (rng s) 32) = Some tok"
  using assms
  by (auto simp: insertSession_def randHex_def sql_insert_def sql_has_iff newSession_def
      split: option.splits if_splits)

text \<open>A QR sign-in works end to end: once a signed-in user has approved a fresh QR token, checking
  that token yields the user and a session token, and that session token authenticates the user.\<close>

theorem qr_login_roundtrip:
  assumes "sql_row (\<lambda>r. qr_token r = qt) (qr_login_tokens (DB s)) = Some r" and "\<not> qr_approved r"
    and "e_now e \<le> qr_expires_at r" and "uniq qr_token (qr_login_tokens (DB s))"
    and "approveQRLogin e qt u dev s = (s', None)"
    and "\<And>k n bs. e_randBytes e k n = Some bs \<Longrightarrow> length bs = n"
  shows "\<exists>sess. checkQRLogin (e_now e) qt (DB s') = (u, sess, True, True) \<and>
                sessionUsername (e_now e) sess (DB s') = u"
proof -
  from assms(5) obtain s1 sess where i: "insertSession e (30 * 24 * hour) u dev s = (s1, sess, None)"
    by (auto simp: approveQRLogin_def issueSessionToken_def Let_def split: prod.splits option.splits if_splits)
  let ?f = "\<lambda>r. r\<lparr>qr_username := u, qr_session_token := sess, qr_device_info := dev, qr_approved := True\<rparr>"
  have s': "s' = withDB (\<lambda>d. d\<lparr>qr_login_tokens := sql_update (qrApprovable (e_now e) qt) ?f (qr_login_tokens d)\<rparr>) s1"
    using assms(5) i by (auto simp: approveQRLogin_def issueSessionToken_def Let_def split: if_splits)
  note ok = insertSession_ok [OF i]
  obtain bs where bs: "e_randBytes e (rng s) 32 = Some bs" "sess = hexEncode bs" using ok by auto
  have "length sess = 64" using bs assms(6) [OF bs(1)] by (simp add: length_hexEncode)
  then have ne: "sess \<noteq> ''''" by auto
  have "qrApprovable (e_now e) qt r"
    using assms(1-3) by (auto simp: qrApprovable_def textAfterNow_def second_def zdiv_mono1 dest: sql_row_SomeD)
  then have "sql_row (\<lambda>r. qr_token r = qt) (qr_login_tokens (DB s')) = Some (?f r)"
    using assms(1) ok
      sql_row_update_key [of qr_token ?f qt "qrApprovable (e_now e) qt" "qr_login_tokens (DB s)"]
    by (simp add: s')
  moreover have "sessionRow sess (DB s') = Some (newSession e (30 * 24 * hour) sess u dev)"
    using ok by (simp add: s' sessionRow_def sql_row_append_new [where K = se_token] newSession_def)
  ultimately show ?thesis
    using assms(3) ne
    by (intro exI [of _ sess]) (simp add: checkQRLogin_def sessionUsername_row newSession_def duration_defs)
qed

definition nexusQR :: NexusServer where
  "nexusQR = nexus0\<lparr>DB := emptyDB\<lparr>qr_login_tokens := [\<lparr> qr_token = ''q'', qr_username = '''',
     qr_session_token = '''', qr_device_info = '''', qr_expires_at = 1001 * second, qr_approved = False \<rparr>]\<rparr>\<rparr>"

theorem qr_login_roundtrip_witness:
  "\<exists>sess. checkQRLogin (e_now env0) ''q'' (DB (fst (approveQRLogin env0 ''q'' ''bob'' ''tv'' nexusQR))) =
     (''bob'', sess, True, True)"
proof -
  let ?r = "hd (qr_login_tokens (DB nexusQR))"
  have "approveQRLogin env0 ''q'' ''bob'' ''tv'' nexusQR =
      (fst (approveQRLogin env0 ''q'' ''bob'' ''tv'' nexusQR), None)"
    by (simp add: approveQRLogin_def issueSessionToken_def insertSession_def randHex_def nexusQR_def
        nexus0_def emptyDB_def sql_insert_def sql_has_def sql_count_def qrApprovable_def textAfterNow_def
        duration_defs Let_def)
  from qr_login_roundtrip [OF _ _ _ _ this, of ?r] show ?thesis
    by (auto simp: nexusQR_def sql_row_def uniq_def duration_defs)
qed

text \<open>Approving a QR token that does not exist, has expired or was already approved returns
  \<^verbatim>\<open>errQRInvalid\<close>, yet leaves behind a new session for the approving user that is valid for thirty
  days: the session is issued before the token is looked at.\<close>

theorem qr_approve_invalid_leaves_session:
  assumes "\<not> list_ex (qrApprovable (e_now e) qt) (qr_login_tokens (DB s))"
    and "e_randBytes e (rng s) 32 = Some bs" and "length bs = 32"
    and "hexEncode bs \<notin> se_token ` set (session_tokens (DB s))"
    and "now \<le> e_now e + 30 * 24 * hour"
  shows "snd (approveQRLogin e qt u dev s) = Some ErrQRInvalid \<and>
         sessionUsername now (hexEncode bs) (DB (fst (approveQRLogin e qt u dev s))) = u"
proof -
  let ?row = "newSession e (30 * 24 * hour) (hexEncode bs) u dev"
  have i: "insertSession e (30 * 24 * hour) u dev s =
      (s\<lparr>rng := rng s + 1, DB := (DB s)\<lparr>session_tokens := session_tokens (DB s) @ [?row]\<rparr>\<rparr>, hexEncode bs, None)"
    using assms(2,4) by (simp add: insertSession_def randHex_def sql_insert_def sql_has_iff newSession_def)
  have c: "sql_count (qrApprovable (e_now e) qt) (qr_login_tokens (DB s)) = 0"
    using assms(1) by (auto simp: sql_count_def filter_empty_conv list_ex_iff)
  have "hexEncode bs \<noteq> ''''" using assms(3) by (metis length_hexEncode list.size(3) mult_eq_0_iff zero_neq_numeral)
  then show ?thesis
    using assms(4,5) c unfolding approveQRLogin_def issueSessionToken_def i
    by (simp add: Let_def sessionUsername_row sessionRow_def sql_row_append_new [where K = se_token] newSession_def)
qed

theorem qr_approve_invalid_leaves_session_witness:
  "snd (approveQRLogin env0 ''nope'' ''bob'' ''tv'' nexus0) = Some ErrQRInvalid \<and>
   sessionUsername (2000 * second) (hexEncode (replicate 32 0))
     (DB (fst (approveQRLogin env0 ''nope'' ''bob'' ''tv'' nexus0))) = ''bob''"
  by (rule qr_approve_invalid_leaves_session)
    (simp_all add: nexus0_def emptyDB_def duration_defs)

text \<open>A TOTP code that was accepted is refused for the following sixty seconds, also after the
  sweeper has run in between: replaying an observed code does not sign in.\<close>

theorem totp_no_replay:
  assumes "totpStatus u (DB s) = (secret, True)" and "secret \<noteq> ''''"
    and "verifyTOTP e u code s = (s1, True)" and "e_now e' \<le> e_now e + 60 * second"
    and "t \<le> e_now e + 60 * second" and "distinct (akeys (totpUsedCodes s))"
  shows "\<not> snd (verifyTOTP e' u code (sweepTOTPUsed t s1)) \<and> DB s1 = DB s"
proof -
  from assms(1-3) have s1: "s1 = s\<lparr>totpUsedCodes := aput (u @ '':'' @ code) (e_now e + 60 * second) (totpUsedCodes s)\<rparr>"
    by (auto simp: verifyTOTP_def Let_def split: if_splits option.splits)
  have d: "distinct (akeys (totpUsedCodes s1))" using assms(6) by (simp add: s1 distinct_aput)
  have "map_of (totpUsedCodes (sweepTOTPUsed t s1)) (u @ '':'' @ code) = Some (e_now e + 60 * second)"
    using map_of_filter_key [OF d, of "\<lambda>k exp. \<not> exp < t"] assms(5) by (simp add: sweepTOTPUsed_def s1)
  moreover have "DB (sweepTOTPUsed t s1) = DB s" by (simp add: sweepTOTPUsed_def s1)
  ultimately show ?thesis
    using assms(1,2) by (simp add: verifyTOTP_def s1)
qed

definition nexusTOTP :: NexusServer where
  "nexusTOTP = nexus0\<lparr>DB := emptyDB\<lparr>users := [(newUser 0 ''bob'' ''b@x'' '''' ''h'' ''c'')
     \<lparr>u_totp_secret := ''S'', u_totp_enabled := True\<rparr>]\<rparr>\<rparr>"

theorem totp_no_replay_witness:
  "snd (verifyTOTP env0 ''bob'' ''000000'' nexusTOTP) \<and>
   \<not> snd (verifyTOTP env0 ''bob'' ''000000'' (sweepTOTPUsed 0 (fst (verifyTOTP env0 ''bob'' ''000000'' nexusTOTP))))"
proof -
  have st: "totpStatus ''bob'' (DB nexusTOTP) = (''S'', True)"
    by (simp add: totpStatus_def userRow_def sql_row_def nexusTOTP_def newUser_def)
  have ok: "verifyTOTP env0 ''bob'' ''000000'' nexusTOTP =
      (fst (verifyTOTP env0 ''bob'' ''000000'' nexusTOTP), True)"
    by (simp add: verifyTOTP_def st) (simp add: nexusTOTP_def nexus0_def)
  have "\<not> snd (verifyTOTP env0 ''bob'' ''000000'' (sweepTOTPUsed 0 (fst (verifyTOTP env0 ''bob'' ''000000'' nexusTOTP)))) \<and>
      DB (fst (verifyTOTP env0 ''bob'' ''000000'' nexusTOTP)) = DB nexusTOTP"
    by (rule totp_no_replay [OF st _ ok]) (simp_all add: duration_defs nexusTOTP_def nexus0_def)
  then show ?thesis using ok by (simp add: prod_eq_iff)
qed

end
