(* ===== verification/Social.thy ===== *)
theory Social
  imports Sessions
begin

text \<open>
  People and what they may do to each other, \<^verbatim>\<open>nexus_server/main.go\<close> and \<^verbatim>\<open>presence.go\<close>: friend
  requests, contact groups, blocks, abuse reports and presence.
\<close>

section \<open>Blocks and reports\<close>

definition isBlocked :: "string \<Rightarrow> string \<Rightarrow> database \<Rightarrow> bool" where
  "isBlocked blocker blocked d \<longleftrightarrow>
     sql_row (\<lambda>r. bl_blocker r = blocker \<and> bl_blocked r = blocked) (blocks d) \<noteq> None"

definition blockUser :: "time \<Rightarrow> string \<Rightarrow> string \<Rightarrow> database \<Rightarrow> database \<times> nerr option" where
  "blockUser now blocker blocked d =
     (if blocker = '''' \<or> blocked = '''' \<or> blocker = blocked then (d, Some ErrInvalidBlock)
      else (d\<lparr>blocks := sql_insert_ignore bl_key
               \<lparr> bl_blocker = blocker, bl_blocked = blocked, bl_created_at = sqlNow now \<rparr> (blocks d)\<rparr>, None))"

definition unblockUser :: "string \<Rightarrow> string \<Rightarrow> database \<Rightarrow> database" where
  "unblockUser blocker blocked d =
     d\<lparr>blocks := sql_delete (\<lambda>r. bl_blocker r = blocker \<and> bl_blocked r = blocked) (blocks d)\<rparr>"

definition listBlocks :: "string \<Rightarrow> database \<Rightarrow> string list" where
  "listBlocks blocker d =
     map bl_blocked (sort_key (\<lambda>r. - bl_created_at r) (filter (\<lambda>r. bl_blocker r = blocker) (blocks d)))"

definition recordAbuseReport ::
  "time \<Rightarrow> string \<Rightarrow> string \<Rightarrow> string \<Rightarrow> string \<Rightarrow> database \<Rightarrow> database \<times> nerr option" where
  "recordAbuseReport now reporter subject reason body d =
     (if reporter = '''' \<or> subject = '''' \<or> reason = '''' then (d, Some ErrMissingFields)
      else ((takeID ''abuse_reports'' d)\<lparr>abuse_reports := abuse_reports d @
              [\<lparr> rp_id = nextID ''abuse_reports'' d, rp_reporter = reporter, rp_subject = subject,
                 rp_reason = reason, rp_body = body, rp_status = ''pending'', rp_resolved_by = '''',
                 rp_resolved_at = None, rp_created_at = sqlNow now \<rparr>]\<rparr>, None))"

section \<open>Friends\<close>

definition betweenPair :: "string \<Rightarrow> string \<Rightarrow> friend_row \<Rightarrow> bool" where
  "betweenPair a b r \<longleftrightarrow>
     (fr_user_a r = a \<and> fr_user_b r = b) \<or> (fr_user_a r = b \<and> fr_user_b r = a)"

definition getFriends :: "string \<Rightarrow> database \<Rightarrow> string list" where
  "getFriends username d =
     map (\<lambda>r. if fr_user_a r = username then fr_user_b r else fr_user_a r)
       (filter (\<lambda>r. (fr_user_a r = username \<or> fr_user_b r = username) \<and> fr_status r = ''accepted'')
         (friends d))"

definition sendFriendRequest :: "string \<Rightarrow> string \<Rightarrow> database \<Rightarrow> database \<times> nerr option" where
  "sendFriendRequest from to d =
     (if isBlocked to from d \<or> isBlocked from to d then (d, Some ErrFriendBlocked)
      else if sql_count (betweenPair from to) (friends d) > 0 then (d, Some ErrFriendDuplicate)
      else case sql_insert fr_key \<lparr> fr_user_a = from, fr_user_b = to, fr_status = ''pending'' \<rparr> (friends d) of
             None \<Rightarrow> (d, Some (ErrUnique ''friends.user_a, friends.user_b''))
           | Some t \<Rightarrow> (d\<lparr>friends := t\<rparr>, None))"

definition pendingFrom :: "string \<Rightarrow> string \<Rightarrow> friend_row \<Rightarrow> bool" where
  "pendingFrom from to r \<longleftrightarrow> fr_user_a r = from \<and> fr_user_b r = to \<and> fr_status r = ''pending''"

definition acceptFriendRequest :: "string \<Rightarrow> string \<Rightarrow> database \<Rightarrow> database \<times> nerr option" where
  "acceptFriendRequest from to d =
     (d\<lparr>friends := sql_update (pendingFrom from to) (\<lambda>r. r\<lparr>fr_status := ''accepted''\<rparr>) (friends d)\<rparr>,
      if sql_count (pendingFrom from to) (friends d) = 0 then Some (ErrNoPending from) else None)"

definition rejectFriendRequest :: "string \<Rightarrow> string \<Rightarrow> database \<Rightarrow> database" where
  "rejectFriendRequest from to d = d\<lparr>friends := sql_delete (pendingFrom from to) (friends d)\<rparr>"

definition areFriends :: "string \<Rightarrow> string \<Rightarrow> database \<Rightarrow> bool" where
  "areFriends a b d \<longleftrightarrow>
     sql_count (\<lambda>r. fr_status r = ''accepted'' \<and> betweenPair a b r) (friends d) > 0"

definition removeFriend :: "string \<Rightarrow> string \<Rightarrow> database \<Rightarrow> database" where
  "removeFriend a b d = d\<lparr>friends := sql_delete (betweenPair a b) (friends d)\<rparr>"

definition getPendingRequests :: "string \<Rightarrow> database \<Rightarrow> string list" where
  "getPendingRequests username d =
     map fr_user_a (filter (\<lambda>r. fr_user_b r = username \<and> fr_status r = ''pending'') (friends d))"

section \<open>Contact groups\<close>

definition getContactGroups :: "string \<Rightarrow> database \<Rightarrow> (string \<times> string) list" where
  "getContactGroups owner d =
     foldl (\<lambda>m r. aput (cg_contact r) (cg_group_name r) m) []
       (filter (\<lambda>r. cg_owner r = owner) (contact_groups d))"

definition setContactGroup :: "string \<Rightarrow> string \<Rightarrow> string \<Rightarrow> database \<Rightarrow> database" where
  "setContactGroup owner contact groupName d =
     (if groupName = ''''
      then d\<lparr>contact_groups := sql_delete (\<lambda>r. cg_owner r = owner \<and> cg_contact r = contact) (contact_groups d)\<rparr>
      else d\<lparr>contact_groups := sql_upsert cg_key (\<lambda>r. r\<lparr>cg_group_name := groupName\<rparr>)
               \<lparr> cg_owner = owner, cg_contact = contact, cg_group_name = groupName \<rparr> (contact_groups d)\<rparr>)"

section \<open>Presence\<close>

definition settableStatuses :: "string list" where
  "settableStatuses =
     [''Online'', ''Away'', ''Do Not Disturb'', ''Invisible'', ''Skype Me'', ''Not Available'']"

definition validStatus :: "string \<Rightarrow> bool" where
  "validStatus st \<longleftrightarrow> st \<in> set settableStatuses"

definition publicStatus :: "string \<Rightarrow> string" where
  "publicStatus st = (if st = ''Invisible'' then ''Offline'' else if st = '''' then ''Online'' else st)"

definition presenceMsg :: "string \<Rightarrow> string \<Rightarrow> NexusServer \<Rightarrow> NexusMessage" where
  "presenceMsg username status s =
     msg0\<lparr>mType := ''presence'', mSender := username, mStatus := publicStatus status,
          mSupporter := isSupporter username (DB s)\<rparr>"

definition broadcastPresence :: "env \<Rightarrow> string \<Rightarrow> string \<Rightarrow> NexusServer \<Rightarrow> NexusServer" where
  "broadcastPresence e username status s =
     sendToEach e (getFriends username (DB s)) (presenceMsg username status s) s"

fun setStatuses :: "string \<Rightarrow> cid list \<Rightarrow> NexusServer \<Rightarrow> NexusServer" where
  "setStatuses st [] s = s"
| "setStatuses st (c # cs) s = setStatuses st cs (withConn c (\<lambda>cl. cl\<lparr>cStatus := st\<rparr>) s)"

definition announcePresence :: "env \<Rightarrow> string \<Rightarrow> NexusServer \<Rightarrow> NexusServer" where
  "announcePresence e username s =
     (let st = (case userRow username (DB s) of None \<Rightarrow> ''Online'' | Some u \<Rightarrow> u_status u)
      in broadcastPresence e username st (setStatuses st (clientsOf username s) s))"

definition broadcastProfileUpdate :: "env \<Rightarrow> string \<Rightarrow> string \<Rightarrow> string \<Rightarrow> NexusServer \<Rightarrow> NexusServer" where
  "broadcastProfileUpdate e username displayName mood s =
     SendAll e (concat (map snd (filter (\<lambda>(u, cs). u \<noteq> username) (Clients s))))
       (msg0\<lparr>mType := ''profile_update'', mSender := username, mDisplayName := displayName,
             mMood := mood\<rparr>) s"

section \<open>Lemmas\<close>

lemma isBlocked_iff: "isBlocked a b d \<longleftrightarrow> (a, b) \<in> bl_key ` set (blocks d)"
  by (auto simp: isBlocked_def bl_key_def sql_row_None image_iff)

lemma areFriends_iff:
  "areFriends a b d \<longleftrightarrow> (\<exists>r \<in> set (friends d). fr_status r = ''accepted'' \<and> betweenPair a b r)"
  by (auto simp: areFriends_def sql_count_pos)

lemma areFriends_sym: "areFriends a b d \<longleftrightarrow> areFriends b a d"
  by (auto simp: areFriends_iff betweenPair_def)

lemma getFriends_iff: "b \<in> set (getFriends a d) \<longleftrightarrow> areFriends a b d"
  by (auto simp: getFriends_def areFriends_iff betweenPair_def image_iff split: if_splits)

lemma broadcastPresence_frame [simp]:
  "DB (broadcastPresence e u st s) = DB s" "Clients (broadcastPresence e u st s) = Clients s"
  "conns (broadcastPresence e u st s) = conns s" "rng (broadcastPresence e u st s) = rng s"
  "VoiceRooms (broadcastPresence e u st s) = VoiceRooms s" "Streams (broadcastPresence e u st s) = Streams s"
  "RemoteCodes (broadcastPresence e u st s) = RemoteCodes s" "wsConnCount (broadcastPresence e u st s) = wsConnCount s"
  by (simp_all add: broadcastPresence_def sendToEach_eq)

lemma setStatuses_frame [simp]:
  "DB (setStatuses st cs s) = DB s" "Clients (setStatuses st cs s) = Clients s"
  "rng (setStatuses st cs s) = rng s" "outbox (setStatuses st cs s) = outbox s"
  "wsConnCount (setStatuses st cs s) = wsConnCount s"
  by (induction cs arbitrary: s) (simp_all add: withConn_def)

section \<open>Friendship needs both sides\<close>

text \<open>
  The four operations on the friends table as data: a request by \<open>a\<close> to \<open>b\<close>, its acceptance or
  refusal by \<open>b\<close>, and the removal of a contact by either side.
\<close>

datatype friend_op = FRequest string string | FAccept string string | FReject string string
  | FRemove string string

fun applyFriendOp :: "friend_op \<Rightarrow> database \<Rightarrow> database" where
  "applyFriendOp (FRequest a b) d = fst (sendFriendRequest a b d)"
| "applyFriendOp (FAccept a b) d = fst (acceptFriendRequest a b d)"
| "applyFriendOp (FReject a b) d = rejectFriendRequest a b d"
| "applyFriendOp (FRemove a b) d = removeFriend a b d"

definition fr_pair :: "friend_row \<Rightarrow> string set" where
  "fr_pair r = {fr_user_a r, fr_user_b r}"

definition friends_ok :: "database \<Rightarrow> bool" where
  "friends_ok d \<longleftrightarrow> uniq fr_pair (friends d) \<and>
     list_all (\<lambda>r. fr_status r \<in> {''pending'', ''accepted''}) (friends d)"

lemma betweenPair_iff: "betweenPair a b r \<longleftrightarrow> fr_pair r = {a, b}"
  by (auto simp: betweenPair_def fr_pair_def doubleton_eq_iff)

lemma friends_ok_iff:
  "friends_ok d \<longleftrightarrow> uniq fr_pair (friends d) \<and>
     (\<forall>r \<in> set (friends d). fr_status r \<in> {''pending'', ''accepted''})"
  by (simp add: friends_ok_def list_all_iff)

lemma friends_ok_op: "friends_ok d \<Longrightarrow> friends_ok (applyFriendOp p d)"
proof (cases p)
  case (FRequest a b)
  assume ok: "friends_ok d"
  show ?thesis
  proof (cases "friends (applyFriendOp p d) = friends d")
    case True
    then show ?thesis using ok by (simp add: friends_ok_def)
  next
    case False
    then have no: "sql_count (betweenPair a b) (friends d) = 0"
      and new: "friends (applyFriendOp p d) =
        friends d @ [\<lparr> fr_user_a = a, fr_user_b = b, fr_status = ''pending'' \<rparr>]"
      using FRequest by (auto simp: sendFriendRequest_def sql_insert_def split: if_splits option.splits)
    have "{a, b} \<notin> fr_pair ` set (friends d)"
      using no sql_count_pos [of "betweenPair a b" "friends d"] by (auto simp: betweenPair_iff)
    then show ?thesis using ok new by (auto simp: friends_ok_iff uniq_def fr_pair_def)
  qed
next
  case (FAccept a b)
  assume "friends_ok d"
  then show ?thesis
    using FAccept by (auto simp: friends_ok_iff acceptFriendRequest_def ball_sql_update fr_pair_def
        intro!: uniq_sql_update)
next
  case (FReject a b)
  assume "friends_ok d"
  then show ?thesis
    using FReject by (auto simp: friends_ok_iff rejectFriendRequest_def set_sql_delete intro: uniq_sql_delete)
next
  case (FRemove a b)
  assume "friends_ok d"
  then show ?thesis
    using FRemove by (auto simp: friends_ok_iff removeFriend_def set_sql_delete intro: uniq_sql_delete)
qed

interpretation friendm: invariant_machine applyFriendOp friends_ok
  by unfold_locales (rule friends_ok_op)

text \<open>Every row of the table has the history that its status claims.\<close>

definition historyOK :: "friend_op list \<Rightarrow> friend_row \<Rightarrow> bool" where
  "historyOK ops r \<longleftrightarrow>
     (if fr_status r = ''accepted''
      then subseq [FRequest (fr_user_a r) (fr_user_b r), FAccept (fr_user_a r) (fr_user_b r)] ops
      else FRequest (fr_user_a r) (fr_user_b r) \<in> set ops)"

lemma historyOK_mono: "historyOK ops r \<Longrightarrow> historyOK (ops @ [p]) r"
  by (auto simp: historyOK_def split: if_splits)

lemma historyOK_step:
  assumes "\<forall>r \<in> set (friends d). historyOK ops r"
  shows "\<forall>r \<in> set (friends (applyFriendOp p d)). historyOK (ops @ [p]) r"
proof (cases p)
  case (FRequest a b)
  have new: "historyOK (ops @ [FRequest a b]) \<lparr> fr_user_a = a, fr_user_b = b, fr_status = ''pending'' \<rparr>"
    by (simp add: historyOK_def)
  show ?thesis
    using assms new FRequest
    by (auto simp: sendFriendRequest_def sql_insert_def intro: historyOK_mono split: if_splits option.splits)
next
  case (FAccept a b)
  have acc: "historyOK (ops @ [FAccept a b]) (r\<lparr>fr_status := ''accepted''\<rparr>)"
    if "historyOK ops r" "pendingFrom a b r" for r
  proof -
    have "subseq [FRequest a b] ops" using that by (auto simp: historyOK_def pendingFrom_def subseq_singleton_left)
    then have "subseq ([FRequest a b] @ [FAccept a b]) (ops @ [FAccept a b])"
      by (rule list_emb_append_mono) simp
    then show ?thesis using that by (simp add: historyOK_def pendingFrom_def)
  qed
  show ?thesis
    using assms FAccept
    by (simp add: acceptFriendRequest_def ball_sql_update) (auto intro: historyOK_mono acc)
next
  case (FReject a b)
  then show ?thesis using assms by (auto simp: rejectFriendRequest_def set_sql_delete intro: historyOK_mono)
next
  case (FRemove a b)
  then show ?thesis using assms by (auto simp: removeFriend_def set_sql_delete intro: historyOK_mono)
qed

lemma historyOK_run:
  "friends d = [] \<Longrightarrow> \<forall>r \<in> set (friends (fold applyFriendOp ops d)). historyOK ops r"
proof (induction ops rule: rev_induct)
  case (snoc p ops)
  then show ?case using historyOK_step [of "fold applyFriendOp ops d" ops p] by simp
qed simp

text \<open>C16: Friendship needs both sides.  After any sequence of friend operations on an empty contact
  table, two users are friends only if one of them sent a request and the other later accepted that
  very request; the relation is symmetric, agrees with \<^verbatim>\<open>getFriends\<close>, and the table never holds two
  rows for the same two people.\<close>

theorem friendship_needs_consent:
  assumes "friends d = []"
  shows "let d' = fold applyFriendOp ops d in
     (areFriends a b d' \<longrightarrow> subseq [FRequest a b, FAccept a b] ops \<or> subseq [FRequest b a, FAccept b a] ops) \<and>
     areFriends a b d' = areFriends b a d' \<and>
     (b \<in> set (getFriends a d')) = areFriends a b d' \<and>
     sql_count (betweenPair a b) (friends d') \<le> 1"
proof -
  let ?d = "fold applyFriendOp ops d"
  have ok: "friends_ok ?d" by (rule friendm.run_inv) (simp add: friends_ok_iff assms)
  then have "sql_count (\<lambda>r. fr_pair r = {a, b}) (friends ?d) \<le> 1"
    using uniq_count [of fr_pair "friends ?d" "{a, b}"] by (simp only: friends_ok_iff)
  moreover have "betweenPair a b = (\<lambda>r. fr_pair r = {a, b})" by (simp add: fun_eq_iff betweenPair_iff)
  ultimately have one: "sql_count (betweenPair a b) (friends ?d) \<le> 1" by simp
  have "areFriends a b ?d \<longrightarrow> subseq [FRequest a b, FAccept a b] ops \<or> subseq [FRequest b a, FAccept b a] ops"
    using historyOK_run [OF assms, of ops]
    by (auto simp: areFriends_iff historyOK_def betweenPair_def)
  with one show ?thesis
    using areFriends_sym [of a b ?d] getFriends_iff [of b a ?d] by (simp add: Let_def)
qed

theorem friendship_needs_consent_witness:
  "areFriends ''amy'' ''bob'' (fold applyFriendOp [FRequest ''amy'' ''bob'', FAccept ''amy'' ''bob''] emptyDB) \<and>
   \<not> areFriends ''amy'' ''bob'' (fold applyFriendOp [FAccept ''amy'' ''bob'', FRequest ''amy'' ''bob''] emptyDB)"
proof -
  have "areFriends ''amy'' ''bob'' (fold applyFriendOp [FRequest ''amy'' ''bob'', FAccept ''amy'' ''bob''] emptyDB)"
    by (simp add: areFriends_iff sendFriendRequest_def isBlocked_def emptyDB_def sql_row_def sql_count_def
        sql_insert_def sql_has_def acceptFriendRequest_def sql_update_def pendingFrom_def betweenPair_def)
  moreover have "\<not> subseq [FRequest ''amy'' ''bob'', FAccept ''amy'' ''bob''] [FAccept ''amy'' ''bob'', FRequest ''amy'' ''bob'']"
    "\<not> subseq [FRequest ''bob'' ''amy'', FAccept ''bob'' ''amy''] [FAccept ''amy'' ''bob'', FRequest ''amy'' ''bob'']"
    by simp_all
  ultimately show ?thesis
    using friendship_needs_consent [of emptyDB "[FAccept ''amy'' ''bob'', FRequest ''amy'' ''bob'']" "''amy''" "''bob''"]
    by (simp add: Let_def emptyDB_def)
qed

end
