(* ===== verification/Messaging.thy ===== *)
theory Messaging
  imports Social
begin

text \<open>
  Direct messages, the offline queue, push notifications and group conversations,
  \<^verbatim>\<open>nexus_server/main.go\<close>.
\<close>

section \<open>Push notifications\<close>


definition pushPreview :: "nat \<Rightarrow> string \<Rightarrow> string" where
  "pushPreview n preview =
     (if hasPrefix preview ''E2EE:'' \<or> hasPrefix preview ''phaze-file:'' then ''New encrypted message''
      else if length preview > n then take n preview @ [chr 226, chr 128, chr 166] else preview)"

definition sendWebPush :: "env \<Rightarrow> string \<Rightarrow> string \<Rightarrow> string \<Rightarrow> NexusServer \<Rightarrow> NexusServer" where
  "sendWebPush e recipient sender preview s =
     (if e_getenv e ''VAPID_PUBLIC_KEY'' = '''' \<or> e_getenv e ''VAPID_PRIVATE_KEY'' = '''' then s
      else s\<lparr>pushes := pushes s @ map (\<lambda>r. (ps_endpoint r, sender, pushPreview 80 preview))
               (filter (\<lambda>r. ps_username r = recipient) (push_subscriptions (DB s)))\<rparr>)"

definition clearFCM :: "string \<Rightarrow> string \<Rightarrow> database \<Rightarrow> database" where
  "clearFCM recipient token d =
     d\<lparr>users := sql_update (\<lambda>u. u_username u = recipient \<and> u_fcm_token u = token)
         (\<lambda>u. u\<lparr>u_fcm_token := ''''\<rparr>) (users d)\<rparr>"

definition sendFCMPush :: "env \<Rightarrow> string \<Rightarrow> string \<Rightarrow> string \<Rightarrow> NexusServer \<Rightarrow> NexusServer" where
  "sendFCMPush e recipient sender preview s =
     (if \<not> e_fcm e then s
      else let tokens = map u_fcm_token
                 (filter (\<lambda>u. u_username u = recipient \<and> u_fcm_token u \<noteq> '''') (users (DB s)))
           in s\<lparr>pushes := pushes s @ map (\<lambda>t. (t, sender, pushPreview 100 preview)) tokens,
                DB := fold (clearFCM recipient) (filter (e_fcmUnregistered e) tokens) (DB s)\<rparr>)"

definition pushBoth :: "env \<Rightarrow> string \<Rightarrow> string \<Rightarrow> string \<Rightarrow> NexusServer \<Rightarrow> NexusServer" where
  "pushBoth e recipient sender preview s =
     sendFCMPush e recipient sender preview (sendWebPush e recipient sender preview s)"

section \<open>The offline queue\<close>

definition queueOffline ::
  "time \<Rightarrow> string \<Rightarrow> string \<Rightarrow> string \<Rightarrow> string \<Rightarrow> string \<Rightarrow> string \<Rightarrow> database \<Rightarrow> database" where
  "queueOffline now sender recipient body msgType convo msgID d =
     (takeID ''offline_messages'' d)\<lparr>offline_messages := offline_messages d @
        [\<lparr> of_id = nextID ''offline_messages'' d, of_sender = sender, of_recipient = recipient,
          of_body = body, of_msg_type = msgType, of_convo = convo, of_msg_id = msgID,
          of_created_at = sqlNow now \<rparr>]\<rparr>"

definition storeOfflineMessage ::
  "env \<Rightarrow> string \<Rightarrow> string \<Rightarrow> string \<Rightarrow> string \<Rightarrow> string \<Rightarrow> NexusServer \<Rightarrow> NexusServer" where
  "storeOfflineMessage e sender recipient body msgType msgID s =
     pushBoth e recipient sender body
       (withDB (queueOffline (e_now e) sender recipient body msgType '''' msgID) s)"

definition offlineFrame :: "env \<Rightarrow> offline_row \<Rightarrow> NexusMessage" where
  "offlineFrame e r =
     msg0\<lparr>mType := of_msg_type r, mSender := of_sender r, mBody := of_body r, mMsgID := of_msg_id r,
          mStatus := ''offline:'' @ e_timeText e (of_created_at r)\<rparr>"

definition offlineQueue :: "string \<Rightarrow> database \<Rightarrow> offline_row list" where
  "offlineQueue username d =
     sort_key of_created_at (filter (\<lambda>r. of_recipient r = username) (offline_messages d))"

fun sendRows :: "env \<Rightarrow> cid \<Rightarrow> offline_row list \<Rightarrow> NexusServer \<Rightarrow> NexusServer" where
  "sendRows e c [] s = s"
| "sendRows e c (r # rs) s = sendRows e c rs (Send e c (offlineFrame e r) s)"

definition deleteOffline :: "int \<Rightarrow> database \<Rightarrow> database" where
  "deleteOffline i d = d\<lparr>offline_messages := sql_delete (\<lambda>r. of_id r = i) (offline_messages d)\<rparr>"

definition deliverOfflineMessages :: "env \<Rightarrow> string \<Rightarrow> cid \<Rightarrow> NexusServer \<Rightarrow> NexusServer" where
  "deliverOfflineMessages e username c s =
     (let rows = offlineQueue username (DB s);
          s1 = sendRows e c rows s
      in withDB (fold deleteOffline (map of_id rows)) s1)"

section \<open>Direct messages\<close>

definition persistDM :: "time \<Rightarrow> string \<Rightarrow> string \<Rightarrow> string \<Rightarrow> string \<Rightarrow> database \<Rightarrow> database" where
  "persistDM now msgID sender recipient body d =
     (if msgID = '''' \<or> sender = '''' \<or> recipient = '''' then d
      else if sql_has dr_msg_id msgID (dm_messages d) then d
      else (takeID ''dm_messages'' d)\<lparr>dm_messages := dm_messages d @
             [\<lparr> dr_id = nextID ''dm_messages'' d, dr_msg_id = msgID, dr_sender = sender,
               dr_recipient = recipient, dr_body = body, dr_edited = False, dr_deleted = False,
               dr_created_at = sqlNow now \<rparr>]\<rparr>)"

definition editDM :: "string \<Rightarrow> string \<Rightarrow> string \<Rightarrow> database \<Rightarrow> database" where
  "editDM msgID sender newBody d =
     d\<lparr>dm_messages := sql_update (\<lambda>r. dr_msg_id r = msgID \<and> dr_sender r = sender \<and> \<not> dr_deleted r)
         (\<lambda>r. r\<lparr>dr_body := newBody, dr_edited := True\<rparr>) (dm_messages d)\<rparr>"

definition deleteDM :: "string \<Rightarrow> string \<Rightarrow> database \<Rightarrow> database" where
  "deleteDM msgID sender d =
     d\<lparr>dm_messages := sql_update (\<lambda>r. dr_msg_id r = msgID \<and> dr_sender r = sender)
         (\<lambda>r. r\<lparr>dr_body := '''', dr_deleted := True\<rparr>) (dm_messages d)\<rparr>"

definition toggleReaction :: "string \<Rightarrow> string \<Rightarrow> string \<Rightarrow> database \<Rightarrow> database \<times> bool" where
  "toggleReaction msgID user emoji d =
     (if sql_count (\<lambda>r. dx_key r = (msgID, user, emoji)) (dm_reactions d) > 0
      then (d\<lparr>dm_reactions := sql_delete (\<lambda>r. dx_key r = (msgID, user, emoji)) (dm_reactions d)\<rparr>, False)
      else (d\<lparr>dm_reactions := sql_insert_ignore dx_key
               \<lparr> dx_msg_id = msgID, dx_username = user, dx_emoji = emoji \<rparr> (dm_reactions d)\<rparr>, True))"

definition addReactor :: "string \<Rightarrow> string \<Rightarrow> (string \<times> string list) list \<Rightarrow> (string \<times> string list) list" where
  "addReactor emoji user m = aput emoji (aget [] m emoji @ [user]) m"

definition dmReactionMap :: "string \<Rightarrow> database \<Rightarrow> (string \<times> string list) list" where
  "dmReactionMap mid d =
     foldl (\<lambda>m r. addReactor (dx_emoji r) (dx_username r) m) []
       (filter (\<lambda>r. dx_msg_id r = mid) (dm_reactions d))"

definition dmBetween :: "string \<Rightarrow> string \<Rightarrow> int \<Rightarrow> dm_row \<Rightarrow> bool" where
  "dmBetween a b beforeID r \<longleftrightarrow>
     ((dr_sender r = a \<and> dr_recipient r = b) \<or> (dr_sender r = b \<and> dr_recipient r = a)) \<and>
     (beforeID > 0 \<longrightarrow> dr_id r < beforeID)"

definition dmView :: "database \<Rightarrow> dm_row \<Rightarrow> DMMessage" where
  "dmView d r =
     \<lparr> dmMsgID = dr_msg_id r, dmSender = dr_sender r, dmRecipient = dr_recipient r,
       dmBody = (if dr_deleted r then '''' else dr_body r), dmEdited = dr_edited r,
       dmDeleted = dr_deleted r, dmCreatedAt = dr_created_at r,
       dmReactions = dmReactionMap (dr_msg_id r) d \<rparr>"

definition fetchDMHistory :: "string \<Rightarrow> string \<Rightarrow> int \<Rightarrow> int \<Rightarrow> database \<Rightarrow> DMMessage list" where
  "fetchDMHistory a b beforeID limit d =
     (let lim = (if limit \<le> 0 \<or> limit > 200 then 100 else limit);
          rows = sql_last_desc (nat lim) (filter (dmBetween a b beforeID) (dm_messages d))
      in rev (map (dmView d) rows))"

section \<open>Group conversations\<close>

definition insertMember :: "string \<Rightarrow> string \<Rightarrow> database \<Rightarrow> database" where
  "insertMember convoID m d =
     d\<lparr>conversation_members := sql_insert_ignore (\<lambda>r. r) (convoID, m) (conversation_members d)\<rparr>"

fun insertUnseen :: "string \<Rightarrow> string list \<Rightarrow> string list \<Rightarrow> database \<Rightarrow> database" where
  "insertUnseen convoID seen [] d = d"
| "insertUnseen convoID seen (m # ms) d =
     (if m \<in> set seen then insertUnseen convoID seen ms d
      else insertUnseen convoID (m # seen) ms (insertMember convoID m d))"

definition createConversation ::
  "string \<Rightarrow> string \<Rightarrow> string \<Rightarrow> string list \<Rightarrow> database \<Rightarrow> database \<times> nerr option" where
  "createConversation cid name creator members d =
     (case sql_insert cv_id \<lparr> cv_id = cid, cv_name = name, cv_created_by = creator \<rparr> (conversations d) of
        None \<Rightarrow> (d, Some (ErrUnique ''conversations.id''))
      | Some t \<Rightarrow> (insertUnseen cid [] (creator # members) (d\<lparr>conversations := t\<rparr>), None))"

definition conversationMembers :: "string \<Rightarrow> database \<Rightarrow> string list" where
  "conversationMembers cid d = map snd (filter (\<lambda>r. fst r = cid) (conversation_members d))"

definition isConvoMember :: "string \<Rightarrow> string \<Rightarrow> database \<Rightarrow> bool" where
  "isConvoMember cid username d \<longleftrightarrow>
     sql_row (\<lambda>r. fst r = cid \<and> snd r = username) (conversation_members d) \<noteq> None"

definition userConversations :: "string \<Rightarrow> database \<Rightarrow> NexusMessage list" where
  "userConversations username d =
     map (\<lambda>c. msg0\<lparr>mConvoID := cv_id c, mConvoName := cv_name c, mCreator := cv_created_by c,
                   mMembers := conversationMembers (cv_id c) d\<rparr>)
       (concat (map (\<lambda>c. map (\<lambda>_. c) (filter (\<lambda>r. fst r = cv_id c \<and> snd r = username)
          (conversation_members d))) (conversations d)))"

definition conversationCreator :: "string \<Rightarrow> database \<Rightarrow> string option" where
  "conversationCreator cid d =
     map_option cv_created_by (sql_row (\<lambda>c. cv_id c = cid) (conversations d))"

definition conversationName :: "string \<Rightarrow> database \<Rightarrow> string" where
  "conversationName cid d =
     (case sql_row (\<lambda>c. cv_id c = cid) (conversations d) of None \<Rightarrow> '''' | Some c \<Rightarrow> cv_name c)"

definition addConversationMembers :: "string \<Rightarrow> string list \<Rightarrow> database \<Rightarrow> database" where
  "addConversationMembers cid members d = fold (insertMember cid) members d"

definition renameConversation :: "string \<Rightarrow> string \<Rightarrow> database \<Rightarrow> database" where
  "renameConversation cid name d =
     d\<lparr>conversations := sql_update (\<lambda>c. cv_id c = cid) (\<lambda>c. c\<lparr>cv_name := name\<rparr>) (conversations d)\<rparr>"

definition leaveConversation :: "string \<Rightarrow> string \<Rightarrow> database \<Rightarrow> database" where
  "leaveConversation cid username d =
     d\<lparr>conversation_members :=
         sql_delete (\<lambda>r. fst r = cid \<and> snd r = username) (conversation_members d)\<rparr>"

section \<open>Delivery of the offline queue\<close>

lemma pushBoth_frame [simp]:
  "outbox (pushBoth e r sd p s) = outbox s" "Clients (pushBoth e r sd p s) = Clients s"
  "conns (pushBoth e r sd p s) = conns s" "rng (pushBoth e r sd p s) = rng s"
  "wsConnCount (pushBoth e r sd p s) = wsConnCount s"
  by (simp_all add: pushBoth_def sendFCMPush_def sendWebPush_def Let_def)

lemma fold_clearFCM_frame:
  "offline_messages (fold (clearFCM r) ts d) = offline_messages d"
  "dm_messages (fold (clearFCM r) ts d) = dm_messages d"
  "convo_messages (fold (clearFCM r) ts d) = convo_messages d"
  "conversation_members (fold (clearFCM r) ts d) = conversation_members d"
  "friends (fold (clearFCM r) ts d) = friends d" "blocks (fold (clearFCM r) ts d) = blocks d"
  by (induction ts arbitrary: d) (simp_all add: clearFCM_def)

lemma pushBoth_tables [simp]:
  "offline_messages (DB (pushBoth e r sd p s)) = offline_messages (DB s)"
  "dm_messages (DB (pushBoth e r sd p s)) = dm_messages (DB s)"
  "convo_messages (DB (pushBoth e r sd p s)) = convo_messages (DB s)"
  "conversation_members (DB (pushBoth e r sd p s)) = conversation_members (DB s)"
  "friends (DB (pushBoth e r sd p s)) = friends (DB s)" "blocks (DB (pushBoth e r sd p s)) = blocks (DB s)"
  by (simp_all add: pushBoth_def sendFCMPush_def sendWebPush_def Let_def fold_clearFCM_frame)

lemma sendRows_eq:
  "sendRows e c rows s =
     s\<lparr>outbox := outbox s @ (if sendOk e s c then map (\<lambda>r. (c, offlineFrame e r)) rows else [])\<rparr>"
  by (induction rows arbitrary: s) (auto simp: Send_eq)

lemma fold_deleteOffline:
  "fold deleteOffline is d = d\<lparr>offline_messages := filter (\<lambda>r. of_id r \<notin> set is) (offline_messages d)\<rparr>"
  by (induction "is" arbitrary: d) (simp_all add: deleteOffline_def sql_delete_def conj_commute)

lemma deliverOffline_eq:
  assumes "uniq of_id (offline_messages (DB s))"
  shows "deliverOfflineMessages e u c s =
     s\<lparr>outbox := outbox s @ (if sendOk e s c then map (\<lambda>r. (c, offlineFrame e r)) (offlineQueue u (DB s)) else []),
       DB := (DB s)\<lparr>offline_messages := filter (\<lambda>r. of_recipient r \<noteq> u) (offline_messages (DB s))\<rparr>\<rparr>"
proof -
  have "filter (\<lambda>r. of_id r \<notin> of_id ` {x \<in> set (offline_messages (DB s)). of_recipient x = u})
          (offline_messages (DB s)) = filter (\<lambda>r. of_recipient r \<noteq> u) (offline_messages (DB s))"
    using assms by (intro filter_cong) (auto simp: uniq_def distinct_map dest: inj_onD)
  then show ?thesis
    by (simp add: deliverOfflineMessages_def Let_def sendRows_eq fold_deleteOffline offlineQueue_def)
qed

text \<open>When a user signs in, the queued messages are written to the new connection in the order
  they were queued, each exactly once, and the queue of nobody else changes.  The rows are deleted
  whether or not the writes succeed: on a connection that cannot be written to, the queued messages
  are lost.\<close>

theorem offline_delivery:
  assumes "uniq of_id (offline_messages (DB s))"
  shows "outbox (deliverOfflineMessages e u c s) = outbox s @
           (if sendOk e s c then map (\<lambda>r. (c, offlineFrame e r)) (offlineQueue u (DB s)) else []) \<and>
         sorted (map of_created_at (offlineQueue u (DB s))) \<and>
         set (offlineQueue u (DB s)) = {r \<in> set (offline_messages (DB s)). of_recipient r = u} \<and>
         distinct (offlineQueue u (DB s)) \<and>
         offlineQueue u (DB (deliverOfflineMessages e u c s)) = [] \<and>
         (v \<noteq> u \<longrightarrow> offlineQueue v (DB (deliverOfflineMessages e u c s)) = offlineQueue v (DB s))"
proof -
  have "distinct (offline_messages (DB s))" using assms by (simp add: uniq_def distinct_map)
  moreover have other: "v \<noteq> u \<Longrightarrow> filter (\<lambda>r. of_recipient r \<noteq> u \<and> of_recipient r = v) t = filter (\<lambda>r. of_recipient r = v) t" for t
    by (induction t) auto
  ultimately show ?thesis
    by (simp add: deliverOffline_eq [OF assms] offlineQueue_def filter_empty_conv) (auto simp: other)
qed

definition nexusQueue :: NexusServer where
  "nexusQueue = withDB (queueOffline 0 ''amy'' ''bob'' ''hi'' ''msg'' '''' ''m1'') nexus0"

theorem offline_delivery_witness:
  "outbox (deliverOfflineMessages env0 ''bob'' 7 nexusQueue) =
     [(7, msg0\<lparr>mType := ''msg'', mSender := ''amy'', mBody := ''hi'', mMsgID := ''m1'',
              mStatus := ''offline:0''\<rparr>)] \<and>
   offlineQueue ''bob'' (DB (deliverOfflineMessages env0 ''bob'' 7 nexusQueue)) = []"
proof -
  have u: "uniq of_id (offline_messages (DB nexusQueue))"
    by (simp add: nexusQueue_def nexus0_def emptyDB_def queueOffline_def uniq_def)
  have "Itoa 0 = ''0''" by code_simp
  then show ?thesis
    using offline_delivery [OF u, of env0 "''bob''" 7]
    by (simp add: nexusQueue_def nexus0_def emptyDB_def queueOffline_def nextID_def offlineQueue_def
        offlineFrame_def sendOk_def client0_def env0_def sqlNow_def)
qed

section \<open>Integrity of the message history\<close>

text \<open>The operations on the durable history, each with the user who performs it.\<close>

datatype dm_op = DMPersist time string string string string | DMEdit string string string | DMDelete string string

fun dmActor :: "dm_op \<Rightarrow> string" where
  "dmActor (DMPersist now mid u rcpt body) = u"
| "dmActor (DMEdit mid u body) = u"
| "dmActor (DMDelete mid u) = u"

fun applyDM :: "dm_op \<Rightarrow> database \<Rightarrow> database" where
  "applyDM (DMPersist now mid u rcpt body) d = persistDM now mid u rcpt body d"
| "applyDM (DMEdit mid u body) d = editDM mid u body d"
| "applyDM (DMDelete mid u) d = deleteDM mid u d"

lemma applyDM_other:
  "r \<in> set (dm_messages d) \<Longrightarrow> dmActor p \<noteq> dr_sender r \<Longrightarrow> r \<in> set (dm_messages (applyDM p d))"
  by (cases p) (force simp: persistDM_def editDM_def deleteDM_def sql_update_def)+

definition allGone :: "string \<Rightarrow> database \<Rightarrow> bool" where
  "allGone mid d \<longleftrightarrow> sql_has dr_msg_id mid (dm_messages d) \<and>
     (\<forall>r \<in> set (dm_messages d). dr_msg_id r = mid \<longrightarrow> dr_deleted r \<and> dr_body r = '''')"

lemma sql_has_update:
  assumes "\<And>r. K (f r) = K r"
  shows "sql_has K k (sql_update P f t) = sql_has K k t"
  using assms by (simp add: sql_has_def list_ex_iff bex_sql_update if_distrib)

lemma allGone_step: "allGone mid d \<Longrightarrow> allGone mid (applyDM p d)"
proof (cases p)
  case (DMPersist now m u rcpt body)
  assume "allGone mid d"
  then show ?thesis using DMPersist by (auto simp: allGone_def persistDM_def sql_has_iff)
next
  case (DMEdit m u body)
  assume "allGone mid d"
  then show ?thesis using DMEdit by (auto simp: allGone_def editDM_def sql_has_update ball_sql_update)
next
  case (DMDelete m u)
  assume "allGone mid d"
  then show ?thesis using DMDelete by (simp add: allGone_def deleteDM_def sql_has_update ball_sql_update)
qed



section \<open>Membership of group conversations\<close>

lemma isConvoMember_iff: "isConvoMember g u d \<longleftrightarrow> (g, u) \<in> set (conversation_members d)"
  by (force simp: isConvoMember_def sql_row_None)

lemma insertMember_members: "set (conversation_members (insertMember g u d)) = insert (g, u) (set (conversation_members d))"
  by (auto simp: insertMember_def set_sql_insert_ignore)

lemma leaveConversation_members:
  "set (conversation_members (leaveConversation g u d)) = set (conversation_members d) - {(g, u)}"
  by (auto simp: leaveConversation_def set_sql_delete)

lemma conversationMembers_iff: "u \<in> set (conversationMembers g d) \<longleftrightarrow> isConvoMember g u d"
  by (force simp: conversationMembers_def isConvoMember_iff)

fun convoOp :: "(string, string) member_op \<Rightarrow> database \<Rightarrow> database" where
  "convoOp (MJoin g u) d = addConversationMembers g [u] d"
| "convoOp (MLeave g u) d = leaveConversation g u d"

interpretation convo: membership isConvoMember "\<lambda>g u. addConversationMembers g [u]" leaveConversation "\<lambda>_. True"
  by unfold_locales
    (auto simp: isConvoMember_iff addConversationMembers_def insertMember_members leaveConversation_members)

lemma convoOp_apply: "convoOp = convo.apply_op"
proof (intro ext)
  show "convoOp p d = convo.apply_op p d" for p d by (cases p) simp_all
qed

lemma insertUnseen_members:
  "set (conversation_members (insertUnseen g seen ms d)) =
     set (conversation_members d) \<union> Pair g ` (set ms - set seen)"
  by (induction g seen ms d rule: insertUnseen.induct) (auto simp: insertMember_members)

text \<open>Group membership behaves as a set of pairs.  After any sequence of additions and departures
  a user is in a group exactly if the same sequence on the set says so, and a conversation created
  under a fresh id has exactly its creator and the listed people as members.\<close>

theorem conversation_membership:
  assumes "\<forall>u. \<not> isConvoMember cid u d" and "createConversation cid name creator ms d = (d1, None)"
  shows "set (conversationMembers cid d1) = insert creator (set ms) \<and>
         (g \<noteq> cid \<longrightarrow> set (conversationMembers g d1) = set (conversationMembers g d)) \<and>
         conversationCreator cid d1 = Some creator \<and>
         (u \<in> set (conversationMembers g (fold convoOp ops d1)) \<longleftrightarrow>
            (g, u) \<in> fold set_op ops {(g, u). u \<in> set (conversationMembers g d1)})"
proof -
  from assms(2) have new: "cid \<notin> cv_id ` set (conversations d)"
    and d1: "d1 = insertUnseen cid [] (creator # ms) (d\<lparr>conversations := conversations d @
       [\<lparr> cv_id = cid, cv_name = name, cv_created_by = creator \<rparr>]\<rparr>)"
    by (auto simp: createConversation_def sql_insert_def sql_has_iff split: option.splits if_splits)
  have "conversations (insertUnseen g seen ms d) = conversations d" for g seen ms d
    by (induction g seen ms d rule: insertUnseen.induct) (auto simp: insertMember_def)
  then have "conversationCreator cid d1 = Some creator"
    using new unfolding conversationCreator_def d1
    by (simp add: sql_row_append_new [where K = cv_id] del: insertUnseen.simps)
  moreover have "set (conversation_members d1) = set (conversation_members d) \<union> Pair cid ` insert creator (set ms)"
    by (simp add: d1 insertUnseen_members del: insertUnseen.simps)
  ultimately show ?thesis
    using assms(1) convo.mem_after [of g u ops d1]
    by (auto simp: set_eq_iff conversationMembers_iff isConvoMember_iff convoOp_apply)
qed

theorem conversation_membership_witness:
  "set (conversationMembers ''c'' (fst (createConversation ''c'' ''Trip'' ''amy'' [''bob''] emptyDB))) = {''amy'', ''bob''}"
  using conversation_membership [of "''c''" emptyDB "''Trip''" "''amy''" "[''bob'']"
      "fst (createConversation ''c'' ''Trip'' ''amy'' [''bob''] emptyDB)"]
  by (simp add: isConvoMember_iff emptyDB_def createConversation_def sql_insert_def sql_has_def)


end
