(* ===== verification/Rewards.thy ===== *)
theory Rewards
  imports Messaging
begin

text \<open>
  Reward crates (\<^verbatim>\<open>nexus_server/rewards.go\<close>) and the referrals that earn them
  (\<^verbatim>\<open>referrals.go\<close>).  \<open>openCrate\<close> and \<open>craftReward\<close> are split where another connection can run
  in between: a read of the database, then one SQL statement that writes it.
\<close>

section \<open>The catalogue\<close>

record rewardItem =
  ri_ID :: string
  ri_Kind :: string
  ri_Rarity :: string

definition item :: "string \<Rightarrow> string \<Rightarrow> string \<Rightarrow> rewardItem" where
  "item i k r = \<lparr> ri_ID = i, ri_Kind = k, ri_Rarity = r \<rparr>"

definition rewardCatalog :: "rewardItem list" where
  "rewardCatalog =
     [item ''squad'' ''emoticon'' ''common'', item ''cheers'' ''emoticon'' ''common'',
      item ''boba'' ''emoticon'' ''common'', item ''sticker-hello'' ''sticker'' ''common'',
      item ''sticker-gg'' ''sticker'' ''common'',
      item ''comet'' ''emoticon'' ''rare'', item ''rocket'' ''emoticon'' ''rare'',
      item ''sticker-cat'' ''sticker'' ''rare'', item ''fx-confetti'' ''effect'' ''rare'',
      item ''fx-hearts'' ''effect'' ''rare'',
      item ''crown'' ''emoticon'' ''epic'', item ''diamond'' ''emoticon'' ''epic'',
      item ''sticker-cosmic'' ''sticker'' ''epic'', item ''fx-fireworks'' ''effect'' ''epic'',
      item ''legend'' ''emoticon'' ''legendary'', item ''fx-aurora'' ''effect'' ''legendary'']"

definition rarityOrder :: "string list" where
  "rarityOrder = [''common'', ''rare'', ''epic'', ''legendary'']"

definition rarityWeight :: "string \<Rightarrow> nat" where
  "rarityWeight r = aget 0 [(''common'', 60), (''rare'', 28), (''epic'', 10), (''legendary'', 2)] r"

definition pityRareAfter :: nat where "pityRareAfter = 3"
definition pityEpicAfter :: nat where "pityEpicAfter = 9"

definition shardsForDuplicate :: "string \<Rightarrow> nat" where
  "shardsForDuplicate r = aget 0 [(''common'', 10), (''rare'', 30), (''epic'', 80), (''legendary'', 250)] r"

definition craftCosts :: "(string \<times> nat) list" where
  "craftCosts = [(''common'', 30), (''rare'', 90), (''epic'', 250), (''legendary'', 700)]"

definition craftCost :: "string \<Rightarrow> nat" where
  "craftCost r = aget 0 craftCosts r"

definition maxCratesPerSignupIP :: nat where "maxCratesPerSignupIP = 2"
definition maxCratesPerDay :: nat where "maxCratesPerDay = 5"

fun indexFrom :: "nat \<Rightarrow> string list \<Rightarrow> string \<Rightarrow> nat" where
  "indexFrom i [] r = 0"
| "indexFrom i (x # xs) r = (if x = r then i else indexFrom (i + 1) xs r)"

definition rarityRank :: "string \<Rightarrow> nat" where
  "rarityRank r = indexFrom 0 rarityOrder r"

definition rewardByID :: "string \<Rightarrow> rewardItem option" where
  "rewardByID i = find (\<lambda>it. ri_ID it = i) rewardCatalog"

section \<open>Rolling\<close>

fun pityLoop :: "string list \<Rightarrow> nat \<Rightarrow> nat \<Rightarrow> nat \<times> nat" where
  "pityLoop [] sinceRare sinceEpic = (sinceRare, sinceEpic)"
| "pityLoop (i # is) sinceRare sinceEpic =
     (case rewardByID i of
        None \<Rightarrow> pityLoop is sinceRare sinceEpic
      | Some it \<Rightarrow> pityLoop is
          (if rarityRank (ri_Rarity it) \<ge> 1 then 0 else sinceRare + 1)
          (if rarityRank (ri_Rarity it) \<ge> 2 then 0 else sinceEpic + 1))"

definition pityCounters :: "string list \<Rightarrow> nat \<times> nat" where
  "pityCounters opened = pityLoop opened 0 0"

definition pityFloor :: "nat \<Rightarrow> nat \<Rightarrow> nat" where
  "pityFloor sinceRare sinceEpic =
     (if sinceEpic \<ge> pityEpicAfter then 2 else if sinceRare \<ge> pityRareAfter then 1 else 0)"

definition totalWeight :: "nat \<Rightarrow> nat" where
  "totalWeight flr = sum_list (map rarityWeight (filter (\<lambda>r. rarityRank r \<ge> flr) rarityOrder))"

fun pickRarity :: "nat \<Rightarrow> string list \<Rightarrow> nat \<Rightarrow> string \<Rightarrow> string" where
  "pickRarity flr [] n dflt = dflt"
| "pickRarity flr (r # rs) n dflt =
     (if rarityRank r < flr then pickRarity flr rs n dflt
      else if n < rarityWeight r then r
      else pickRarity flr rs (n - rarityWeight r) dflt)"

definition ofRarity :: "string \<Rightarrow> rewardItem list" where
  "ofRarity rarity = filter (\<lambda>c. ri_Rarity c = rarity) rewardCatalog"

text \<open>
  \<open>intn k n\<close> is the \<open>k\<close>-th call of the injected \<^verbatim>\<open>intn\<close>, \<open>None\<close> its panic.
\<close>

definition rollReward ::
  "string list \<Rightarrow> nat \<Rightarrow> nat \<Rightarrow> (nat \<Rightarrow> nat \<Rightarrow> nat option) \<Rightarrow> (rewardItem \<times> bool) option" where
  "rollReward owned sinceRare sinceEpic intn =
     (let flr = pityFloor sinceRare sinceEpic
      in case intn 0 (totalWeight flr) of
           None \<Rightarrow> None
         | Some n \<Rightarrow>
             (let rarity = pickRarity flr rarityOrder n (rarityOrder ! flr);
                  all = ofRarity rarity;
                  fresh = filter (\<lambda>c. ri_ID c \<notin> set owned) all
              in if fresh \<noteq> [] then map_option (\<lambda>i. (fresh ! i, False)) (intn 1 (length fresh))
                 else map_option (\<lambda>i. (all ! i, True)) (intn 1 (length all))))"

section \<open>Crates in the database\<close>

definition cratesOf :: "string \<Rightarrow> database \<Rightarrow> crate_row list" where
  "cratesOf owner d = filter (\<lambda>r. rc_owner r = owner) (reward_crates d)"

definition insertCrate :: "time \<Rightarrow> string \<Rightarrow> string \<Rightarrow> database \<Rightarrow> database" where
  "insertCrate now owner source d =
     (if sql_has rc_source source (reward_crates d) then d
      else (takeID ''reward_crates'' d)\<lparr>reward_crates := reward_crates d @
             [\<lparr> rc_id = nextID ''reward_crates'' d, rc_owner = owner, rc_source = source, rc_item = None,
               rc_shards = 0, rc_created_at = sqlNow now, rc_opened_at = 0 \<rparr>]\<rparr>)"

definition cratesToday :: "time \<Rightarrow> string \<Rightarrow> database \<Rightarrow> nat" where
  "cratesToday now owner d =
     sql_count (\<lambda>r. rc_owner r = owner \<and> rc_created_at r > sqlNow now - day) (reward_crates d)"

definition cratesFromIP :: "string \<Rightarrow> string \<Rightarrow> database \<Rightarrow> nat" where
  "cratesFromIP owner ip d =
     length (concat (map (\<lambda>rc. filter (\<lambda>u. u_username u = rc_source rc \<and> u_signup_ip u = ip) (users d))
       (cratesOf owner d)))"

fun grantCrates :: "time \<Rightarrow> string \<Rightarrow> user_row list \<Rightarrow> database \<Rightarrow> database \<times> nat" where
  "grantCrates now owner [] d = (d, 0)"
| "grantCrates now owner (c # cs) d =
     (if cratesToday now owner d \<ge> maxCratesPerDay then (d, 0)
      else if u_signup_ip c \<noteq> '''' \<and> cratesFromIP owner (u_signup_ip c) d \<ge> maxCratesPerSignupIP
      then grantCrates now owner cs d
      else let ins = \<not> sql_has rc_source (u_username c) (reward_crates d);
               (d', n) = grantCrates now owner cs (insertCrate now owner (u_username c) d)
           in (d', (if ins then n + 1 else n)))"

definition crateCandidates :: "string \<Rightarrow> database \<Rightarrow> user_row list" where
  "crateCandidates owner d =
     sort_key u_created_at (sort_key u_username
       (filter (\<lambda>u. u_referred_by u = owner \<and> u_is_verified u \<and>
                    \<not> sql_has rc_source (u_username u) (reward_crates d)) (users d)))"

definition syncCrates :: "time \<Rightarrow> string \<Rightarrow> database \<Rightarrow> database \<times> nat" where
  "syncCrates now owner d = grantCrates now owner (crateCandidates owner d) d"

definition unopenedCrates :: "string \<Rightarrow> database \<Rightarrow> nat" where
  "unopenedCrates owner d = sql_count (\<lambda>r. rc_owner r = owner \<and> rc_item r = None) (reward_crates d)"

definition rolledItems :: "string \<Rightarrow> database \<Rightarrow> string list" where
  "rolledItems owner d =
     map (\<lambda>r. the (rc_item r))
       (sort_key rc_opened_at (filter (\<lambda>r. rc_owner r = owner \<and> rc_item r \<noteq> None) (reward_crates d)))"

definition openedItems :: "string \<Rightarrow> database \<Rightarrow> string list" where
  "openedItems owner d =
     (let have = rolledItems owner d @ map rf_item (filter (\<lambda>r. rf_owner r = owner) (reward_crafts d))
      in filter (\<lambda>i. i \<in> set have) (map ri_ID rewardCatalog))"

definition shardBalance :: "string \<Rightarrow> database \<Rightarrow> int" where
  "shardBalance owner d =
     int (sum_list (map rc_shards (cratesOf owner d))) -
     int (sum_list (map rf_cost (filter (\<lambda>r. rf_owner r = owner) (reward_crafts d))))"

datatype rewardErr = ErrNoCrates | ErrUnknown | ErrOwned | ErrNotEnough | ErrBusy | PanicRand

fun rewardErrText :: "rewardErr \<Rightarrow> string" where
  "rewardErrText ErrNoCrates = ''You don'' @ [chr 39] @ ''t have any crates to open''"
| "rewardErrText ErrUnknown = ''Unknown reward''"
| "rewardErrText ErrOwned = ''You already own that''"
| "rewardErrText ErrNotEnough = ''Not enough shards''"
| "rewardErrText ErrBusy = ''Busy '' @ [chr 226, chr 128, chr 148] @ '' try again''"
| "rewardErrText PanicRand = ''crypto/rand''"

section \<open>Opening and crafting\<close>

definition openCommit :: "time \<times> int \<times> string \<times> nat \<Rightarrow> database \<Rightarrow> database \<times> bool" where
  "openCommit i d =
     (let (now, crateID, itm, shards) = i;
          P = (\<lambda>r. rc_id r = crateID \<and> rc_item r = None)
      in (d\<lparr>reward_crates := sql_update P
              (\<lambda>r. r\<lparr>rc_item := Some itm, rc_shards := shards, rc_opened_at := sqlNow now\<rparr>) (reward_crates d)\<rparr>,
          sql_count P (reward_crates d) = 1))"

definition openRoll :: "env \<Rightarrow> string \<Rightarrow> NexusServer \<Rightarrow> rewardErr + int \<times> rewardItem \<times> bool \<times> nat" where
  "openRoll e owner s =
     (case sql_row (\<lambda>r. rc_owner r = owner \<and> rc_item r = None) (reward_crates (DB s)) of
        None \<Rightarrow> Inl ErrNoCrates
      | Some crate \<Rightarrow>
          (let (sinceRare, sinceEpic) = pityCounters (rolledItems owner (DB s))
           in case rollReward (openedItems owner (DB s)) sinceRare sinceEpic
                     (\<lambda>k n. e_randInt e (rng s + k) n) of
                None \<Rightarrow> Inl PanicRand
              | Some (it, dupe) \<Rightarrow>
                  Inr (rc_id crate, it, dupe, if dupe then shardsForDuplicate (ri_Rarity it) else 0)))"

definition openCrate :: "env \<Rightarrow> string \<Rightarrow> NexusServer \<Rightarrow> NexusServer \<times> (rewardErr + rewardItem \<times> bool \<times> nat)" where
  "openCrate e owner s =
     (case openRoll e owner s of
        Inl err \<Rightarrow> (s, Inl err)
      | Inr (crateID, it, dupe, shards) \<Rightarrow>
          (let (d', ok) = openCommit (e_now e, crateID, ri_ID it, shards) (DB s);
               s' = s\<lparr>DB := d', rng := rng s + 2\<rparr>
           in if ok then (s', Inr (it, dupe, shards)) else (s', Inl ErrBusy)))"

definition craftCheck :: "string \<Rightarrow> string \<Rightarrow> database \<Rightarrow> rewardErr + rewardItem" where
  "craftCheck owner itemID d =
     (case rewardByID itemID of
        None \<Rightarrow> Inl ErrUnknown
      | Some it \<Rightarrow>
          if itemID \<in> set (openedItems owner d) then Inl ErrOwned
          else if shardBalance owner d < int (craftCost (ri_Rarity it)) then Inl ErrNotEnough
          else Inr it)"

definition craftInsert :: "string \<Rightarrow> rewardItem \<Rightarrow> database \<Rightarrow> database \<times> (rewardErr + rewardItem)" where
  "craftInsert owner it d =
     (case sql_insert rf_key \<lparr> rf_owner = owner, rf_item = ri_ID it, rf_cost = craftCost (ri_Rarity it) \<rparr>
             (reward_crafts d) of
        None \<Rightarrow> (d, Inl ErrOwned)
      | Some t \<Rightarrow> (d\<lparr>reward_crafts := t\<rparr>, Inr it))"

definition craftReward :: "string \<Rightarrow> string \<Rightarrow> database \<Rightarrow> database \<times> (rewardErr + rewardItem)" where
  "craftReward owner itemID d =
     (case craftCheck owner itemID d of Inl err \<Rightarrow> (d, Inl err) | Inr it \<Rightarrow> craftInsert owner it d)"

section \<open>Referrals\<close>

definition ambassadorAt :: nat where "ambassadorAt = 10"

definition verifiedReferralCount :: "string \<Rightarrow> database \<Rightarrow> nat" where
  "verifiedReferralCount username d =
     sql_count (\<lambda>u. u_referred_by u = username \<and> u_is_verified u) (users d)"

definition isAmbassador :: "string \<Rightarrow> database \<Rightarrow> bool" where
  "isAmbassador username d \<longleftrightarrow> verifiedReferralCount username d \<ge> ambassadorAt"

definition perksOf :: "string list \<Rightarrow> database \<Rightarrow> (string \<times> string list) list" where
  "perksOf us d =
     foldl (\<lambda>m u. let items = openedItems u d in if items \<noteq> [] then aput u items m else m) [] us"

definition sendReferralPerks :: "env \<Rightarrow> cid \<Rightarrow> string \<Rightarrow> string list \<Rightarrow> NexusServer \<Rightarrow> NexusServer" where
  "sendReferralPerks e c username frs s =
     Send e c (msg0\<lparr>mType := ''referral_perks'', mPerks := perksOf (username # frs) (DB s),
                     mCrates := unopenedCrates username (DB s)\<rparr>) s"

definition pushPerks :: "env \<Rightarrow> string \<Rightarrow> NexusServer \<Rightarrow> NexusServer" where
  "pushPerks e username s =
     (let m = msg0\<lparr>mType := ''referral_perks'', mPerks := [(username, openedItems username (DB s))]\<rparr>
      in sendToEach e (getFriends username (DB s)) m (fst (sendTo e username m s)))"

definition onReferralVerified :: "env \<Rightarrow> string \<Rightarrow> NexusServer \<Rightarrow> NexusServer" where
  "onReferralVerified e username s =
     (case userRow username (DB s) of
        None \<Rightarrow> s
      | Some u \<Rightarrow>
          if u_referred_by u = '''' then s
          else let ref = u_referred_by u;
                   count = Itoa (int (verifiedReferralCount ref (DB s)));
                   (d', granted) = syncCrates (e_now e) ref (DB s);
                   s1 = s\<lparr>DB := d'\<rparr>
               in if granted > 0
                  then fst (sendTo e ref (msg0\<lparr>mType := ''crate_earned'', mSender := username,
                         mToken := count, mCrates := unopenedCrates ref d'\<rparr>) s1)
                  else fst (sendTo e ref (msg0\<lparr>mType := ''referral_joined'', mSender := username,
                         mToken := count\<rparr>) s1))"

section \<open>What a roll gives\<close>

lemma catalog_facts:
  "distinct (map ri_ID rewardCatalog)"
  "\<forall>it \<in> set rewardCatalog. ri_Rarity it \<in> set rarityOrder"
  "\<forall>r \<in> set rarityOrder. ofRarity r \<noteq> [] \<and> rarityOrder ! rarityRank r = r \<and> rarityRank r < 4"
  by code_simp+

lemma totalWeight_values: "totalWeight 0 = 100" "totalWeight 1 = 40" "totalWeight 2 = 12"
  by code_simp+

lemma pickRarity_cases:
  "pickRarity flr rs n dflt = dflt \<or>
   (pickRarity flr rs n dflt \<in> set rs \<and> flr \<le> rarityRank (pickRarity flr rs n dflt))"
  by (induction flr rs n dflt rule: pickRarity.induct) auto

lemma pityFloor_le: "pityFloor sr se \<le> 2"
  by (simp add: pityFloor_def)

lemma floor_rarity:
  assumes "flr \<le> 2"
  shows "rarityOrder ! flr \<in> set rarityOrder \<and> rarityRank (rarityOrder ! flr) = flr"
proof -
  have "flr = 0 \<or> flr = 1 \<or> flr = 2" using assms by auto
  then show ?thesis by (auto simp: rarityOrder_def rarityRank_def)
qed

lemma pickRarity_floor:
  assumes "flr \<le> 2"
  shows "pickRarity flr rarityOrder n (rarityOrder ! flr) \<in> set rarityOrder \<and>
         flr \<le> rarityRank (pickRarity flr rarityOrder n (rarityOrder ! flr))"
  using pickRarity_cases [of flr rarityOrder n "rarityOrder ! flr"] floor_rarity [OF assms] by auto

definition goodIntn :: "(nat \<Rightarrow> nat \<Rightarrow> nat option) \<Rightarrow> bool" where
  "goodIntn intn \<longleftrightarrow> (\<forall>k n v. 0 < n \<longrightarrow> intn k n = Some v \<longrightarrow> v < n)"

lemma rollReward_Some:
  assumes "rollReward owned sr se intn = Some (it, dupe)" and "goodIntn intn"
  shows "it \<in> set rewardCatalog \<and> pityFloor sr se \<le> rarityRank (ri_Rarity it) \<and>
         (dupe \<longleftrightarrow> ri_ID it \<in> set owned) \<and>
         (dupe \<longrightarrow> (\<forall>c \<in> set (ofRarity (ri_Rarity it)). ri_ID c \<in> set owned))"
proof -
  from assms(1) obtain n where n: "intn 0 (totalWeight (pityFloor sr se)) = Some n"
    by (auto simp: rollReward_def Let_def split: option.splits)
  define rarity where "rarity = pickRarity (pityFloor sr se) rarityOrder n (rarityOrder ! pityFloor sr se)"
  define fresh where "fresh = filter (\<lambda>c. ri_ID c \<notin> set owned) (ofRarity rarity)"
  have ne: "ofRarity rarity \<noteq> []" using pickRarity_floor [OF pityFloor_le] catalog_facts(3) unfolding rarity_def by blast
  have eq: "Some (it, dupe) = (if fresh \<noteq> [] then map_option (\<lambda>i. (fresh ! i, False)) (intn 1 (length fresh))
      else map_option (\<lambda>i. (ofRarity rarity ! i, True)) (intn 1 (length (ofRarity rarity))))"
    using assms(1) unfolding rollReward_def Let_def n option.case fresh_def rarity_def by (rule sym)
  have "\<exists>i. (if fresh \<noteq> [] then i < length fresh \<and> it = fresh ! i \<and> \<not> dupe
      else i < length (ofRarity rarity) \<and> it = ofRarity rarity ! i \<and> dupe)"
    using eq [symmetric] assms(2) ne by (cases "fresh = []") (auto simp: goodIntn_def, (metis length_greater_0_conv)+)
  then have "it \<in> set (ofRarity rarity)" and d: "dupe \<longleftrightarrow> fresh = []" and f: "\<not> dupe \<longrightarrow> it \<in> set fresh"
    by (auto simp: fresh_def split: if_splits dest: nth_mem)
  then show ?thesis
    using pickRarity_floor [OF pityFloor_le, of sr se n]
    by (auto simp: ofRarity_def rarity_def fresh_def filter_empty_conv)
qed

lemma rollReward_total:
  assumes "\<And>k n. 0 < n \<Longrightarrow> \<exists>v. intn k n = Some v"
  shows "\<exists>it dupe. rollReward owned sr se intn = Some (it, dupe)"
proof -
  have "pityFloor sr se = 0 \<or> pityFloor sr se = 1 \<or> pityFloor sr se = 2" using pityFloor_le [of sr se] by auto
  then have "0 < totalWeight (pityFloor sr se)" using totalWeight_values by auto
  then obtain n where n: "intn 0 (totalWeight (pityFloor sr se)) = Some n" using assms by blast
  let ?r = "pickRarity (pityFloor sr se) rarityOrder n (rarityOrder ! pityFloor sr se)"
  have "ofRarity ?r \<noteq> []" using pickRarity_floor [OF pityFloor_le] catalog_facts(3) by blast
  then have "\<exists>v. intn 1 (length (ofRarity ?r)) = Some v" using assms by simp
  moreover have "\<exists>v. intn 1 (length xs) = Some v" if "xs \<noteq> []" for xs :: "rewardItem list"
    using assms that by simp
  ultimately show ?thesis using n
    by (auto simp: rollReward_def Let_def)
qed

text \<open>With a random source that answers within its bound, a crate always yields an item of the
  catalogue, never below the rarity that pity guarantees; it is a duplicate exactly when the user owns
  it already, which happens only when the user owns every item of that rarity.  Without pity, the
  hundred outcomes of the first draw give the advertised odds 60, 28, 10 and 2.\<close>

theorem crate_roll:
  assumes "\<And>k n. 0 < n \<Longrightarrow> \<exists>v < n. intn k n = Some v"
  shows "\<exists>it dupe. rollReward owned sr se intn = Some (it, dupe) \<and> it \<in> set rewardCatalog \<and>
           (se \<ge> 9 \<longrightarrow> 2 \<le> rarityRank (ri_Rarity it)) \<and> (sr \<ge> 3 \<longrightarrow> 1 \<le> rarityRank (ri_Rarity it)) \<and>
           (dupe \<longleftrightarrow> ri_ID it \<in> set owned) \<and>
           (dupe \<longrightarrow> (\<forall>c \<in> set rewardCatalog. ri_Rarity c = ri_Rarity it \<longrightarrow> ri_ID c \<in> set owned)) \<and>
         map (\<lambda>r. length (filter (\<lambda>n. pickRarity 0 rarityOrder n (rarityOrder ! 0) = r) [0..<totalWeight 0]))
           [''common'', ''rare'', ''epic'', ''legendary''] = [60, 28, 10, 2]"
proof -
  have g: "goodIntn intn"
    unfolding goodIntn_def using assms by (metis option.inject)
  have "\<exists>v. intn k n = Some v" if "0 < n" for k n using assms [OF that, of k] by blast
  then obtain it dupe where r: "rollReward owned sr se intn = Some (it, dupe)" using rollReward_total [of intn] by blast
  moreover have "map (\<lambda>r. length (filter (\<lambda>n. pickRarity 0 rarityOrder n (rarityOrder ! 0) = r) [0..<totalWeight 0]))
      [''common'', ''rare'', ''epic'', ''legendary''] = [60, 28, 10, 2]"
    by code_simp
  ultimately show ?thesis
    using r rollReward_Some [OF r g]
    by (intro exI [of _ it] exI [of _ dupe])
      (auto simp: pityFloor_def pityEpicAfter_def pityRareAfter_def ofRarity_def split: if_splits)
qed

theorem crate_roll_witness:
  "\<exists>it dupe. rollReward [''squad''] 3 0 (\<lambda>k n. if 0 < n then Some (n - 1) else None) = Some (it, dupe) \<and>
     1 \<le> rarityRank (ri_Rarity it)"
proof -
  have "\<exists>v < n. (if 0 < n then Some (n - 1) else None) = Some v" if "0 < n" for n :: nat
    using that by auto
  from crate_roll [of "\<lambda>k n. if 0 < n then Some (n - 1) else None" "[''squad'']" 3 0, OF this]
  show ?thesis by auto
qed

section \<open>A crate is opened once\<close>

definition unopened :: "int \<Rightarrow> database \<Rightarrow> bool" where
  "unopened crateID d \<longleftrightarrow> (\<exists>r \<in> set (reward_crates d). rc_id r = crateID \<and> rc_item r = None)"

interpretation crates: one_shot openCommit "\<lambda>(now, crateID, itm, shards). crateID" unopened
proof unfold_locales
  fix i :: "time \<times> int \<times> string \<times> nat" and d k
  obtain now crateID itm shards where i: "i = (now, crateID, itm, shards)" by (cases i)
  show "unopened (case i of (now, crateID, itm, shards) \<Rightarrow> crateID) d" if "snd (openCommit i d)"
    using that sql_count_pos [of "\<lambda>r. rc_id r = crateID \<and> rc_item r = None" "reward_crates d"]
    by (simp add: i openCommit_def Let_def unopened_def)
  show "\<not> unopened (case i of (now, crateID, itm, shards) \<Rightarrow> crateID) (fst (openCommit i d))"
    by (simp add: i openCommit_def Let_def unopened_def bex_sql_update)
  show "\<not> unopened k (fst (openCommit i d))" if "\<not> unopened k d"
    using that by (auto simp: i openCommit_def Let_def unopened_def bex_sql_update)
qed

text \<open>However many connections race to open crates, a crate is opened at most once: of all the
  conditional updates that name it, whatever each of them rolled, at most one reports success.\<close>

theorem crate_opened_at_most_once:
  "successes (\<lambda>(now, crateID, itm, shards). crateID = c) openCommit attempts d \<le> 1"
proof -
  have "(\<lambda>i. (case i of (now, crateID, itm, shards) \<Rightarrow> crateID) = c) =
      (\<lambda>(now, crateID, itm, shards). crateID = (c :: int))" for c by (auto simp: fun_eq_iff)
  with crates.at_most_once [of c attempts d] show ?thesis by metis
qed

section \<open>The shard balance\<close>

datatype reward_op = RSync time string | ROpen env string | RCraft string string

fun rewardStep :: "reward_op \<Rightarrow> NexusServer \<Rightarrow> NexusServer" where
  "rewardStep (RSync now owner) s = s\<lparr>DB := fst (syncCrates now owner (DB s))\<rparr>"
| "rewardStep (ROpen e owner) s = fst (openCrate e owner s)"
| "rewardStep (RCraft owner itm) s = s\<lparr>DB := fst (craftReward owner itm (DB s))\<rparr>"

definition shards_ok :: "NexusServer \<Rightarrow> bool" where
  "shards_ok s \<longleftrightarrow> (\<forall>r \<in> set (reward_crates (DB s)). rc_item r = None \<longrightarrow> rc_shards r = 0) \<and>
     (\<forall>owner. 0 \<le> shardBalance owner (DB s))"

lemma insertCrate_frame [simp]:
  "reward_crafts (insertCrate now owner src d) = reward_crafts d" "users (insertCrate now owner src d) = users d"
  by (simp_all add: insertCrate_def)

lemma shardBalance_insertCrate [simp]: "shardBalance v (insertCrate now owner src d) = shardBalance v d"
  by (simp add: shardBalance_def cratesOf_def insertCrate_def)

lemma grantCrates_shards:
  "shardBalance v (fst (grantCrates now owner cs d)) = shardBalance v d \<and>
   ((\<forall>r \<in> set (reward_crates d). rc_item r = None \<longrightarrow> rc_shards r = 0) \<longrightarrow>
    (\<forall>r \<in> set (reward_crates (fst (grantCrates now owner cs d))). rc_item r = None \<longrightarrow> rc_shards r = 0))"
proof (induction now owner cs d rule: grantCrates.induct)
  case (2 now owner c cs d)
  have "(\<forall>r \<in> set (reward_crates d). rc_item r = None \<longrightarrow> rc_shards r = 0) \<Longrightarrow>
      (\<forall>r \<in> set (reward_crates (insertCrate now owner (u_username c) d)). rc_item r = None \<longrightarrow> rc_shards r = 0)"
    by (auto simp: insertCrate_def)
  with 2 show ?case by (simp add: Let_def split_beta del: not_None_eq)
qed simp

lemmas grantCrates_balance = grantCrates_shards [THEN conjunct1]
lemmas grantCrates_unopened = grantCrates_shards [THEN conjunct2, THEN mp]

lemma openCommit_shards:
  assumes "\<forall>r \<in> set (reward_crates d). rc_item r = None \<longrightarrow> rc_shards r = 0"
  shows "shardBalance v d \<le> shardBalance v (fst (openCommit i d)) \<and>
    (\<forall>r \<in> set (reward_crates (fst (openCommit i d))). rc_item r = None \<longrightarrow> rc_shards r = 0)"
proof -
  obtain now crateID itm shards where i: "i = (now, crateID, itm, shards)" by (cases i)
  let ?P = "\<lambda>r. rc_id r = crateID \<and> rc_item r = None"
  let ?f = "\<lambda>r. r\<lparr>rc_item := Some itm, rc_shards := shards, rc_opened_at := sqlNow now\<rparr>"
  have "sum_list (map rc_shards (filter (\<lambda>r. rc_owner r = v) t)) \<le>
      sum_list (map rc_shards (filter (\<lambda>r. rc_owner r = v) (sql_update ?P ?f t)))"
    if "\<forall>r \<in> set t. rc_item r = None \<longrightarrow> rc_shards r = 0" for t :: "crate_row list"
    using that by (induction t) (auto simp: sql_update_def)
  from this [OF assms] show ?thesis
    using assms by (simp add: i openCommit_def Let_def shardBalance_def cratesOf_def ball_sql_update)
qed

lemma craftReward_shards:
  assumes "\<forall>v. 0 \<le> shardBalance v d"
  shows "0 \<le> shardBalance v (fst (craftReward owner itm d))"
  using spec [OF assms, of v]
  by (auto simp: craftReward_def craftCheck_def craftInsert_def sql_insert_def shardBalance_def cratesOf_def
      split: sum.splits option.splits if_splits)

lemma craftReward_crates [simp]: "reward_crates (fst (craftReward owner itm d)) = reward_crates d"
  by (auto simp: craftReward_def craftInsert_def split: sum.splits option.splits)

lemma openCrate_DB:
  "DB (fst (openCrate e owner s)) =
     (case openRoll e owner s of Inl err \<Rightarrow> DB s
      | Inr (crateID, it, dupe, shards) \<Rightarrow> fst (openCommit (e_now e, crateID, ri_ID it, shards) (DB s)))"
  by (auto simp: openCrate_def Let_def split: sum.splits prod.splits)

lemma shards_ok_step: "shards_ok s \<Longrightarrow> shards_ok (rewardStep p s)"
proof (cases p)
  case (RSync now owner)
  assume "shards_ok s"
  then show ?thesis
    using RSync grantCrates_unopened [of "DB s" now owner "crateCandidates owner (DB s)"]
    unfolding shards_ok_def by (simp add: syncCrates_def grantCrates_balance)
next
  case (ROpen e owner)
  assume "shards_ok s"
  then show ?thesis
    using ROpen openCommit_shards [of "DB s"]
    by (auto simp: shards_ok_def openCrate_DB split: sum.splits prod.splits) (meson order_trans)
next
  case (RCraft owner itm)
  assume "shards_ok s"
  then show ?thesis using RCraft craftReward_shards by (simp add: shards_ok_def)
qed

interpretation shardm: invariant_machine rewardStep shards_ok
  by unfold_locales (rule shards_ok_step)

text \<open>When requests are served one after the other, no sequence of syncs, openings and craftings by
  any users ever makes a shard balance negative.\<close>

theorem shard_balance_nonnegative:
  "reward_crates (DB s) = [] \<Longrightarrow> reward_crafts (DB s) = [] \<Longrightarrow>
   0 \<le> shardBalance owner (DB (fold rewardStep ops s))"
  using shardm.run_inv [of s ops] by (simp add: shards_ok_def shardBalance_def cratesOf_def)

theorem shard_balance_nonnegative_witness:
  "0 \<le> shardBalance ''bob'' (DB (fold rewardStep [RSync 0 ''bob'', RCraft ''bob'' ''boba''] nexus0))"
  by (rule shard_balance_nonnegative) (simp_all add: nexus0_def emptyDB_def)

text \<open>Crafting is not atomic.  If two connections of one user both pass the balance check before
  either inserts, both crafts succeed, and whenever the two costs together exceed the balance it
  becomes negative.\<close>

theorem craft_race:
  assumes "craftCheck owner i d = Inr a" and "craftCheck owner j d = Inr b" and "i \<noteq> j"
    and "(owner, i) \<notin> rf_key ` set (reward_crafts d)" and "(owner, j) \<notin> rf_key ` set (reward_crafts d)"
    and "shardBalance owner d < int (craftCost (ri_Rarity a)) + int (craftCost (ri_Rarity b))"
  shows "snd (craftInsert owner a d) = Inr a \<and>
         snd (craftInsert owner b (fst (craftInsert owner a d))) = Inr b \<and>
         shardBalance owner (fst (craftInsert owner b (fst (craftInsert owner a d)))) < 0"
proof -
  have id: "ri_ID a = i" "ri_ID b = j"
    using assms(1,2) by (auto simp: craftCheck_def rewardByID_def find_Some_iff split: option.splits if_splits)
  have "sql_insert rf_key \<lparr> rf_owner = owner, rf_item = ri_ID a, rf_cost = craftCost (ri_Rarity a) \<rparr> (reward_crafts d) =
      Some (reward_crafts d @ [\<lparr> rf_owner = owner, rf_item = ri_ID a, rf_cost = craftCost (ri_Rarity a) \<rparr>])"
    using assms(4) by (simp add: sql_insert_def sql_has_iff rf_key_def id)
  moreover have "sql_insert rf_key \<lparr> rf_owner = owner, rf_item = ri_ID b, rf_cost = craftCost (ri_Rarity b) \<rparr>
      (reward_crafts d @ [\<lparr> rf_owner = owner, rf_item = ri_ID a, rf_cost = craftCost (ri_Rarity a) \<rparr>]) =
      Some (reward_crafts d @ [\<lparr> rf_owner = owner, rf_item = ri_ID a, rf_cost = craftCost (ri_Rarity a) \<rparr>,
        \<lparr> rf_owner = owner, rf_item = ri_ID b, rf_cost = craftCost (ri_Rarity b) \<rparr>])"
    using assms(3,5) by (simp add: sql_insert_def sql_has_iff rf_key_def id)
  ultimately show ?thesis
    using assms(6) by (simp add: craftInsert_def shardBalance_def cratesOf_def)
qed

definition dbShards :: database where
  "dbShards = emptyDB\<lparr>reward_crates := [\<lparr> rc_id = 1, rc_owner = ''bob'', rc_source = ''zoe'',
     rc_item = Some ''squad'', rc_shards = 30, rc_created_at = 0, rc_opened_at = 0 \<rparr>]\<rparr>"

theorem craft_race_witness:
  "shardBalance ''bob'' (fst (craftInsert ''bob'' (item ''boba'' ''emoticon'' ''common'')
     (fst (craftInsert ''bob'' (item ''cheers'' ''emoticon'' ''common'') dbShards)))) < 0"
proof -
  have c: "craftCheck ''bob'' ''cheers'' dbShards = Inr (item ''cheers'' ''emoticon'' ''common'')"
    "craftCheck ''bob'' ''boba'' dbShards = Inr (item ''boba'' ''emoticon'' ''common'')"
    by (simp_all add: craftCheck_def dbShards_def emptyDB_def rewardByID_def rewardCatalog_def item_def
        openedItems_def rolledItems_def shardBalance_def cratesOf_def craftCost_def craftCosts_def aget_def Let_def)
  show ?thesis
    using craft_race [OF c] by (simp add: dbShards_def emptyDB_def shardBalance_def cratesOf_def craftCost_def craftCosts_def aget_def item_def)
qed

section \<open>Limits on earning\<close>

lemma insertCrate_crates:
  "reward_crates (insertCrate now owner src d) = reward_crates d \<or>
   (\<exists>i. reward_crates (insertCrate now owner src d) = reward_crates d @
      [\<lparr> rc_id = i, rc_owner = owner, rc_source = src, rc_item = None, rc_shards = 0,
        rc_created_at = sqlNow now, rc_opened_at = 0 \<rparr>])"
  by (auto simp: insertCrate_def)

definition caps_ok :: "time \<Rightarrow> string \<Rightarrow> database \<Rightarrow> bool" where
  "caps_ok now owner d \<longleftrightarrow> cratesToday now owner d \<le> maxCratesPerDay \<and>
     (\<forall>ip. ip \<noteq> '''' \<longrightarrow> cratesFromIP owner ip d \<le> maxCratesPerSignupIP)"

lemma caps_ok_insert:
  assumes "caps_ok now owner d" and "uniq u_username (users d)" and "c \<in> set (users d)"
    and "cratesToday now owner d < maxCratesPerDay"
    and "u_signup_ip c \<noteq> '''' \<Longrightarrow> cratesFromIP owner (u_signup_ip c) d < maxCratesPerSignupIP"
  shows "caps_ok now owner (insertCrate now owner (u_username c) d)"
proof -
  have same: "u = c" if "u \<in> set (users d)" "u_username u = u_username c" for u
    using assms(2,3) that by (auto simp: uniq_def distinct_map dest: inj_onD)
  have new: "length (filter (\<lambda>u. u_username u = u_username c \<and> u_signup_ip u = ip) (users d)) \<le>
      (if ip = u_signup_ip c then 1 else 0)" for ip
  proof (cases "ip = u_signup_ip c")
    case True
    have "filter (\<lambda>u. u_username u = u_username c \<and> u_signup_ip u = ip) (users d) =
        filter (\<lambda>u. u_username u = u_username c) (users d)"
      using same True by (intro filter_cong) auto
    then show ?thesis using True uniq_count [OF assms(2), of "u_username c"] by (simp add: sql_count_def)
  next
    case False
    then show ?thesis using same by (auto simp: filter_empty_conv)
  qed
  have ipc: "cratesFromIP owner ip (insertCrate now owner (u_username c) d) \<le>
      cratesFromIP owner ip d + (if ip = u_signup_ip c then 1 else 0)" for ip
    using insertCrate_crates [of now owner "u_username c" d] new [of ip]
    by (auto simp: cratesFromIP_def cratesOf_def)
  have td: "cratesToday now owner (insertCrate now owner (u_username c) d) \<le> cratesToday now owner d + 1"
    using insertCrate_crates [of now owner "u_username c" d]
    by (auto simp: cratesToday_def sql_count_def)
  show ?thesis
    unfolding caps_ok_def
  proof (intro conjI allI impI)
    show "cratesToday now owner (insertCrate now owner (u_username c) d) \<le> maxCratesPerDay"
      using td assms(4) by simp
  next
    fix ip :: string
    assume ip: "ip \<noteq> ''''"
    show "cratesFromIP owner ip (insertCrate now owner (u_username c) d) \<le> maxCratesPerSignupIP"
    proof (cases "ip = u_signup_ip c")
      case True
      then show ?thesis using ipc [of ip] assms(5) ip by simp
    next
      case False
      have "cratesFromIP owner ip d \<le> maxCratesPerSignupIP" using assms(1) ip by (simp add: caps_ok_def)
      with False show ?thesis using ipc [of ip] by simp
    qed
  qed
qed

lemma grantCrates_users [simp]: "users (fst (grantCrates now owner cs d)) = users d"
  by (induction now owner cs d rule: grantCrates.induct) (simp_all add: Let_def split_beta)

lemma grantCrates_caps:
  assumes "caps_ok now owner d" and "uniq u_username (users d)" and "set cs \<subseteq> set (users d)"
  shows "caps_ok now owner (fst (grantCrates now owner cs d))"
  using assms
proof (induction now owner cs d rule: grantCrates.induct)
  case (2 now owner c cs d)
  show ?case
  proof (cases "cratesToday now owner d \<ge> maxCratesPerDay \<or>
      u_signup_ip c \<noteq> '''' \<and> cratesFromIP owner (u_signup_ip c) d \<ge> maxCratesPerSignupIP")
    case True
    then show ?thesis using 2 by auto
  next
    case False
    then have "caps_ok now owner (insertCrate now owner (u_username c) d)"
      using 2 by (intro caps_ok_insert) auto
    with False 2 show ?thesis by (auto simp: Let_def split_beta)
  qed
qed simp

lemma grantCrates_new:
  assumes "r \<in> set (reward_crates (fst (grantCrates now owner cs d)))"
  shows "r \<in> set (reward_crates d) \<or> (rc_owner r = owner \<and> rc_item r = None \<and> rc_source r \<in> u_username ` set cs)"
  using assms
proof (induction now owner cs d rule: grantCrates.induct)
  case (2 now owner c cs d)
  have "x \<in> set (reward_crates (insertCrate now owner (u_username c) d)) \<Longrightarrow>
      x \<in> set (reward_crates d) \<or> (rc_owner x = owner \<and> rc_item x = None \<and> rc_source x = u_username c)" for x
    using insertCrate_crates [of now owner "u_username c" d] by auto
  with 2 show ?case by (auto simp: Let_def split_beta split: if_splits)
qed simp

text \<open>The anti-farming limits hold after every sync: at most five crates of a user were granted in
  the last day and at most two of them come from accounts that signed up at one address, and every
  crate a sync adds belongs to the user and was earned by a verified account that names the user as
  referrer.\<close>

theorem crate_limits:
  assumes "uniq u_username (users d)" and "cratesToday now owner d \<le> 5"
    and "\<forall>ip. ip \<noteq> '''' \<longrightarrow> cratesFromIP owner ip d \<le> 2"
  shows "let d' = fst (syncCrates now owner d) in
     cratesToday now owner d' \<le> 5 \<and> (\<forall>ip. ip \<noteq> '''' \<longrightarrow> cratesFromIP owner ip d' \<le> 2) \<and>
     (\<forall>r \<in> set (reward_crates d') - set (reward_crates d).
        rc_owner r = owner \<and> rc_item r = None \<and>
        (\<exists>u \<in> set (users d). u_username u = rc_source r \<and> u_is_verified u \<and> u_referred_by u = owner))"
proof -
  have "caps_ok now owner (fst (syncCrates now owner d))"
    using assms unfolding syncCrates_def
    by (intro grantCrates_caps)
      (auto simp: caps_ok_def maxCratesPerDay_def maxCratesPerSignupIP_def crateCandidates_def)
  moreover have "r \<in> set (reward_crates d) \<or> (rc_owner r = owner \<and> rc_item r = None \<and>
      rc_source r \<in> u_username ` set (crateCandidates owner d))"
    if "r \<in> set (reward_crates (fst (syncCrates now owner d)))" for r
    using that unfolding syncCrates_def by (rule grantCrates_new)
  ultimately show ?thesis
    by (fastforce simp: Let_def caps_ok_def maxCratesPerDay_def maxCratesPerSignupIP_def crateCandidates_def)
qed

definition dbReferral :: database where
  "dbReferral = emptyDB\<lparr>users := [newUser 0 ''bob'' ''b@x'' '''' ''h'' ''c'',
     (newUser 0 ''zoe'' ''z@x'' '''' ''h'' ''c'')\<lparr>u_is_verified := True, u_referred_by := ''bob'',
        u_signup_ip := ''1.2.3.4''\<rparr>]\<rparr>"

theorem crate_limits_witness:
  "cratesToday 0 ''bob'' (fst (syncCrates 0 ''bob'' dbReferral)) \<le> 5 \<and> snd (syncCrates 0 ''bob'' dbReferral) = 1"
proof -
  have "snd (syncCrates 0 ''bob'' dbReferral) = 1"
    by (simp add: syncCrates_def crateCandidates_def dbReferral_def emptyDB_def newUser_def sql_has_def
        cratesToday_def cratesFromIP_def cratesOf_def sql_count_def insertCrate_def maxCratesPerDay_def
        maxCratesPerSignupIP_def Let_def)
  then show ?thesis
    using crate_limits [of dbReferral 0 "''bob''"]
    by (simp add: dbReferral_def emptyDB_def newUser_def uniq_def cratesToday_def cratesFromIP_def cratesOf_def
        sql_count_def Let_def)
qed

section \<open>Pity\<close>

text \<open>
  \<open>rolls is\<close>: the items \<open>is\<close> can come out of a user's crates one after the other, each rolled with the
  counters of the ones before it, whatever the user owns and whatever the random source says.
\<close>

inductive rolls :: "string list \<Rightarrow> bool" where
  rolls_Nil: "rolls []"
| rolls_snoc: "rolls is \<Longrightarrow> goodIntn intn \<Longrightarrow>
     rollReward owned (fst (pityCounters is)) (snd (pityCounters is)) intn = Some (it, dupe) \<Longrightarrow>
     rolls (is @ [ri_ID it])"

lemma pityLoop_append: "pityLoop (xs @ ys) a b = (let (a', b') = pityLoop xs a b in pityLoop ys a' b')"
  by (induction xs a b rule: pityLoop.induct) (auto split: option.splits)

lemma rewardByID_catalog: "it \<in> set rewardCatalog \<Longrightarrow> rewardByID (ri_ID it) = Some it"
proof -
  assume it: "it \<in> set rewardCatalog"
  have "sql_row (\<lambda>x. ri_ID x = ri_ID it) rewardCatalog = Some it"
    using catalog_facts(1) it by (intro sql_row_unique) (auto simp: uniq_def)
  then show ?thesis by (simp add: rewardByID_def sql_row_def)
qed

lemma rolls_pity: "rolls is \<Longrightarrow> fst (pityCounters is) \<le> 3 \<and> snd (pityCounters is) \<le> 9"
proof (induction rule: rolls.induct)
  case (rolls_snoc "is" intn owned it dupe)
  from rollReward_Some [OF rolls_snoc(3,2)] have "it \<in> set rewardCatalog"
    and f: "pityFloor (fst (pityCounters is)) (snd (pityCounters is)) \<le> rarityRank (ri_Rarity it)" by auto
  then have "rewardByID (ri_ID it) = Some it" by (simp add: rewardByID_catalog)
  with f rolls_snoc.IH show ?case
    by (auto simp: pityCounters_def pityLoop_append split_beta pityFloor_def pityRareAfter_def
        pityEpicAfter_def Let_def split: if_splits)
qed (simp add: pityCounters_def)

text \<open>What is true of the crates of a user, kept in the order of their ids, at time \<open>now\<close>: the opened ones
  come first, in the order in which they were opened.\<close>

definition inOrder :: "crate_row \<Rightarrow> crate_row \<Rightarrow> bool" where
  "inOrder a b \<longleftrightarrow> (rc_item b \<noteq> None \<longrightarrow> rc_item a \<noteq> None \<and> rc_opened_at a \<le> rc_opened_at b)"

definition openRows :: "crate_row list \<Rightarrow> crate_row list" where
  "openRows rows = filter (\<lambda>r. rc_item r \<noteq> None) rows"

definition pity_ok :: "time \<Rightarrow> database \<Rightarrow> bool" where
  "pity_ok now d \<longleftrightarrow> uniq rc_id (reward_crates d) \<and>
     (\<forall>r \<in> set (reward_crates d). rc_id r \<le> sqlite_sequence d ''reward_crates'' \<and>
        (rc_item r \<noteq> None \<longrightarrow> rc_opened_at r \<le> sqlNow now)) \<and>
     (\<forall>owner. sorted_wrt inOrder (cratesOf owner d) \<and> rolls (rolledItems owner d))"

lemma sorted_openRows: "sorted_wrt inOrder rows \<Longrightarrow> sorted (map rc_opened_at (openRows rows))"
  by (induction rows) (auto simp: openRows_def inOrder_def)

lemma rolledItems_inOrder:
  assumes "sorted_wrt inOrder (cratesOf owner d)"
  shows "rolledItems owner d = map (\<lambda>r. the (rc_item r)) (openRows (cratesOf owner d))"
proof -
  have "filter (\<lambda>r. rc_owner r = owner \<and> rc_item r \<noteq> None) (reward_crates d) = openRows (cratesOf owner d)"
    by (simp add: openRows_def cratesOf_def conj_commute)
  moreover have "sort_key rc_opened_at (openRows (cratesOf owner d)) = openRows (cratesOf owner d)"
    using sorted_openRows [OF assms] by (simp add: sort_key_id_if_sorted)
  ultimately show ?thesis by (simp add: rolledItems_def)
qed

lemma first_unopened:
  assumes "sorted_wrt inOrder rows" and "find (\<lambda>r. rc_item r = None) rows = Some r"
  shows "\<exists>xs ys. rows = xs @ r # ys \<and> (\<forall>x \<in> set xs. rc_item x \<noteq> None) \<and> (\<forall>y \<in> set ys. rc_item y = None)"
proof -
  from assms(2) obtain i where i: "i < length rows" "rc_item (rows ! i) = None" "r = rows ! i"
    "\<forall>j < i. rc_item (rows ! j) \<noteq> None" by (auto simp: find_Some_iff)
  have "rows = take i rows @ r # drop (Suc i) rows" using i by (simp add: id_take_nth_drop)
  moreover have "\<forall>x \<in> set (take i rows). rc_item x \<noteq> None" using i by (auto simp: in_set_conv_nth)
  moreover have "\<forall>y \<in> set (drop (Suc i) rows). rc_item y = None"
  proof
    fix y assume "y \<in> set (drop (Suc i) rows)"
    then obtain k where "k < length rows" "i < k" "y = rows ! k"
      by (auto simp: in_set_conv_nth) (metis add_Suc_right less_add_Suc1 less_diff_conv add.commute)
    with assms(1) i have "inOrder (rows ! i) y" by (auto simp: sorted_wrt_iff_nth_less)
    with i show "rc_item y = None" by (auto simp: inOrder_def)
  qed
  ultimately show ?thesis by blast
qed

lemma find_conj_filter: "find (\<lambda>r. P r \<and> Q r) t = find Q (filter P t)"
  by (induction t) auto

lemma cratesOf_openCommit:
  assumes "uniq rc_id (reward_crates d)" and "r \<in> set (reward_crates d)" and "rc_owner r = owner"
    and "rc_item r = None" and "cratesOf owner d = xs @ r # ys" and "\<forall>x \<in> set xs. rc_item x \<noteq> None"
  shows "cratesOf v (fst (openCommit (t, rc_id r, itm, sh) d)) =
     (if v = owner then xs @ r\<lparr>rc_item := Some itm, rc_shards := sh, rc_opened_at := sqlNow t\<rparr> # ys
      else cratesOf v d)"
proof -
  let ?P = "\<lambda>x. rc_id x = rc_id r \<and> rc_item x = None"
  let ?f = "\<lambda>x. x\<lparr>rc_item := Some itm, rc_shards := sh, rc_opened_at := sqlNow t\<rparr>"
  let ?u = "\<lambda>x. if ?P x then ?f x else x"
  have upd: "cratesOf v (fst (openCommit (t, rc_id r, itm, sh) d)) = map ?u (cratesOf v d)" for v
  proof -
    have "filter (\<lambda>x. rc_owner x = v) (map ?u l) = map ?u (filter (\<lambda>x. rc_owner x = v) l)" for l :: "crate_row list"
      by (induction l) auto
    then show ?thesis by (simp add: cratesOf_def openCommit_def Let_def sql_update_def)
  qed
  have only: "x = r" if "x \<in> set (reward_crates d)" "rc_id x = rc_id r" for x
    using assms(1,2) that by (auto simp: uniq_def distinct_map dest: inj_onD)
  show ?thesis
  proof (cases "v = owner")
    case True
    have "distinct (cratesOf owner d)" using assms(1) by (simp add: cratesOf_def uniq_def distinct_map)
    then have new: "r \<notin> set xs" "r \<notin> set ys" using assms(5) by auto
    have sub: "set (xs @ r # ys) \<subseteq> set (reward_crates d)" using assms(5) by (metis cratesOf_def filter_is_subset)
    have no: "\<forall>x \<in> set xs \<union> set ys. \<not> (rc_id x = rc_id r \<and> rc_item x = None)"
    proof (intro ballI notI)
      fix x assume x: "x \<in> set xs \<union> set ys" and p: "rc_id x = rc_id r \<and> rc_item x = None"
      have "x \<in> set (reward_crates d)" using x sub by auto
      from only [OF this] p x new show False by auto
    qed
    have "map ?u xs = xs" using no by (intro map_idI) (metis UnCI)
    moreover have "map ?u ys = ys" using no by (intro map_idI) (metis UnCI)
    ultimately show ?thesis using True assms(4,5) upd [of owner] by simp
  next
    case False
    then have "map ?u (cratesOf v d) = cratesOf v d" using assms(3) by (auto simp: cratesOf_def intro!: map_idI dest!: only)
    then show ?thesis using False upd [of v] by simp
  qed
qed

lemma openCommit_rows:
  "x \<in> set (reward_crates (fst (openCommit (t, i, itm, sh) d))) \<Longrightarrow>
   \<exists>y \<in> set (reward_crates d). rc_id x = rc_id y \<and>
     (x = y \<or> rc_item y = None \<and> rc_opened_at x = sqlNow t)"
  by (auto simp: openCommit_def Let_def sql_update_def)

definition goodRand :: "env \<Rightarrow> bool" where
  "goodRand e \<longleftrightarrow> (\<forall>k n v. 0 < n \<longrightarrow> e_randInt e k n = Some v \<longrightarrow> v < n)"

lemma sqlNow_mono: "t \<le> t' \<Longrightarrow> sqlNow t \<le> sqlNow t'"
  by (simp add: sqlNow_def second_def zdiv_mono1)

lemma pity_ok_mono: "pity_ok now d \<Longrightarrow> now \<le> now' \<Longrightarrow> pity_ok now' d"
  using sqlNow_mono [of now now'] unfolding pity_ok_def by fastforce

lemma pity_ok_open:
  assumes ok: "pity_ok now (DB s)" and t: "now \<le> e_now e" and g: "goodRand e"
  shows "pity_ok (e_now e) (DB (fst (openCrate e owner s)))"
proof (cases "openRoll e owner s")
  case (Inl err)
  then show ?thesis using pity_ok_mono [OF ok t] by (simp add: openCrate_DB)
next
  case (Inr b)
  then obtain crate it dupe shards where
    c: "sql_row (\<lambda>r. rc_owner r = owner \<and> rc_item r = None) (reward_crates (DB s)) = Some crate"
    and roll: "rollReward (openedItems owner (DB s)) (fst (pityCounters (rolledItems owner (DB s))))
        (snd (pityCounters (rolledItems owner (DB s)))) (\<lambda>k n. e_randInt e (rng s + k) n) = Some (it, dupe)"
    and b: "openRoll e owner s = Inr (rc_id crate, it, dupe, shards)"
    by (auto simp: openRoll_def Let_def split: option.splits prod.splits)
  let ?d = "fst (openCommit (e_now e, rc_id crate, ri_ID it, shards) (DB s))"
  let ?f = "crate\<lparr>rc_item := Some (ri_ID it), rc_shards := shards, rc_opened_at := sqlNow (e_now e)\<rparr>"
  have crate: "crate \<in> set (reward_crates (DB s))" "rc_owner crate = owner" "rc_item crate = None"
    using sql_row_SomeD [OF c] by auto
  have sorted: "sorted_wrt inOrder (cratesOf v (DB s))" and r: "rolls (rolledItems v (DB s))"
    and u: "uniq rc_id (reward_crates (DB s))" for v
    using ok by (auto simp: pity_ok_def)
  from c have "find (\<lambda>r. rc_item r = None) (cratesOf owner (DB s)) = Some crate"
    by (simp add: sql_row_def find_conj_filter cratesOf_def)
  from first_unopened [OF sorted this] obtain xs ys where
    rows: "cratesOf owner (DB s) = xs @ crate # ys" and xs: "\<forall>x \<in> set xs. rc_item x \<noteq> None"
    and ys: "\<forall>y \<in> set ys. rc_item y = None" by blast
  note rows' = cratesOf_openCommit [OF u crate rows xs, of _ "e_now e" "ri_ID it" shards]
  have "set xs \<subseteq> set (reward_crates (DB s))"
    using rows filter_is_subset [of "\<lambda>r. rc_owner r = owner" "reward_crates (DB s)"] by (auto simp: cratesOf_def)
  then have le: "\<forall>x \<in> set xs. rc_opened_at x \<le> sqlNow (e_now e)"
    using ok xs sqlNow_mono [OF t] unfolding pity_ok_def by (meson order_trans subsetD)
  have new: "sorted_wrt inOrder (xs @ ?f # ys)"
    using sorted [of owner] xs ys le unfolding rows by (auto simp: sorted_wrt_append inOrder_def)
  have "openRows (xs @ ?f # ys) = openRows (xs @ crate # ys) @ [?f]"
    using ys crate(3) by (auto simp: openRows_def filter_empty_conv)
  then have "rolledItems owner ?d = rolledItems owner (DB s) @ [ri_ID it]"
    using new sorted [of owner] by (simp add: rolledItems_inOrder rows' rows)
  moreover have "goodIntn (\<lambda>k n. e_randInt e (rng s + k) n)" using g by (auto simp: goodIntn_def goodRand_def)
  ultimately have "rolls (rolledItems owner ?d)" using rolls_snoc [OF r _ roll] by simp
  moreover have "rolledItems v ?d = rolledItems v (DB s)" if "v \<noteq> owner" for v
    using that sorted [of v] by (simp add: rolledItems_inOrder rows')
  ultimately have "rolls (rolledItems v ?d)" for v using r by (cases "v = owner") auto
  moreover have "sorted_wrt inOrder (cratesOf v ?d)" for v using new sorted by (simp add: rows')
  moreover have "uniq rc_id (reward_crates ?d)"
    using u by (auto simp: openCommit_def Let_def intro!: uniq_sql_update)
  moreover have "sqlite_sequence ?d = sqlite_sequence (DB s)" by (simp add: openCommit_def Let_def)
  moreover have "rc_id x \<le> sqlite_sequence (DB s) ''reward_crates'' \<and> (rc_item x \<noteq> None \<longrightarrow> rc_opened_at x \<le> sqlNow (e_now e))"
    if x: "x \<in> set (reward_crates ?d)" for x
  proof -
    obtain y where y: "y \<in> set (reward_crates (DB s))" "rc_id x = rc_id y"
      "x = y \<or> rc_item y = None \<and> rc_opened_at x = sqlNow (e_now e)" using openCommit_rows [OF x] by blast
    have "rc_id y \<le> sqlite_sequence (DB s) ''reward_crates''" "rc_item y \<noteq> None \<longrightarrow> rc_opened_at y \<le> sqlNow (e_now e)"
      using pity_ok_mono [OF ok t] y(1) by (auto simp: pity_ok_def)
    with y show ?thesis by auto
  qed
  ultimately have "pity_ok (e_now e) ?d" by (simp add: pity_ok_def)
  then show ?thesis by (simp add: openCrate_DB b)
qed

lemma pity_ok_insertCrate:
  assumes "pity_ok now d"
  shows "pity_ok now (insertCrate t owner src d)"
proof (cases "sql_has rc_source src (reward_crates d)")
  case True
  then show ?thesis using assms by (simp add: insertCrate_def)
next
  case False
  let ?r = "\<lparr> rc_id = nextID ''reward_crates'' d, rc_owner = owner, rc_source = src, rc_item = None,
     rc_shards = 0, rc_created_at = sqlNow t, rc_opened_at = 0 \<rparr>"
  have rows: "reward_crates (insertCrate t owner src d) = reward_crates d @ [?r]"
    using False by (simp add: insertCrate_def)
  then have "rolledItems v (insertCrate t owner src d) = rolledItems v d" for v by (simp add: rolledItems_def)
  moreover have "cratesOf v (insertCrate t owner src d) = cratesOf v d @ (if v = owner then [?r] else [])" for v
    using rows by (simp add: cratesOf_def)
  moreover have "nextID ''reward_crates'' d \<notin> rc_id ` set (reward_crates d)"
    using assms by (force simp: pity_ok_def nextID_def)
  ultimately show ?thesis
    using assms False rows
    by (auto simp: pity_ok_def sorted_wrt_append inOrder_def uniq_def insertCrate_def nextID_def takeID_def)
qed

lemma pity_ok_grant: "pity_ok now d \<Longrightarrow> pity_ok now (fst (grantCrates t owner cs d))"
  by (induction t owner cs d rule: grantCrates.induct) (simp_all add: Let_def split_beta pity_ok_insertCrate)

lemma pity_ok_craft: "pity_ok now d \<Longrightarrow> pity_ok now (fst (craftReward owner itm d))"
proof -
  have "sqlite_sequence (fst (craftReward owner itm d)) = sqlite_sequence d"
    by (auto simp: craftReward_def craftInsert_def split: sum.splits option.splits)
  then show "pity_ok now d \<Longrightarrow> ?thesis" by (simp add: pity_ok_def cratesOf_def rolledItems_def)
qed

fun openTimes :: "reward_op \<Rightarrow> time list" where
  "openTimes (ROpen e owner) = [e_now e]"
| "openTimes p = []"

fun randOk :: "reward_op \<Rightarrow> bool" where
  "randOk (ROpen e owner) = goodRand e"
| "randOk p = True"

lemma pity_ok_run:
  assumes "pity_ok now (DB s)" and "sorted (now # concat (map openTimes ops))" and "list_all randOk ops"
  shows "\<exists>now'. pity_ok now' (DB (fold rewardStep ops s))"
  using assms
proof (induction ops arbitrary: now s)
  case (Cons p ops)
  show ?case
  proof (cases p)
    case (ROpen e owner)
    then have "pity_ok (e_now e) (DB (rewardStep p s))" using Cons.prems by (auto intro: pity_ok_open)
    then show ?thesis using Cons.IH [of "e_now e" "rewardStep p s"] Cons.prems ROpen by simp
  next
    case (RSync t owner)
    then have "pity_ok now (DB (rewardStep p s))" using Cons.prems by (simp add: syncCrates_def pity_ok_grant)
    then show ?thesis using Cons.IH [of now "rewardStep p s"] Cons.prems RSync by simp
  next
    case (RCraft owner itm)
    then have "pity_ok now (DB (rewardStep p s))" using Cons.prems by (simp add: pity_ok_craft)
    then show ?thesis using Cons.IH [of now "rewardStep p s"] Cons.prems RCraft by simp
  qed
qed auto

text \<open>C25: The pity promise holds of the stored crates.  Whatever users sync, open and craft, as long as
  the clock does not run backwards and the random source answers within its bounds, no user ever has
  more than three openings in a row below rare or more than nine in a row below epic.\<close>

theorem pity_guarantee:
  assumes "reward_crates (DB s) = []" and "sorted (concat (map openTimes ops))" and "list_all randOk ops"
  shows "fst (pityCounters (rolledItems owner (DB (fold rewardStep ops s)))) \<le> 3 \<and>
         snd (pityCounters (rolledItems owner (DB (fold rewardStep ops s)))) \<le> 9"
proof -
  let ?ts = "concat (map openTimes ops)"
  have "sorted (Min (insert 0 (set ?ts)) # ?ts)" using assms(2) by (auto intro: Min_le)
  moreover have "pity_ok t (DB s)" for t
    using assms(1) by (simp add: pity_ok_def cratesOf_def rolledItems_def rolls_Nil)
  ultimately obtain now where "pity_ok now (DB (fold rewardStep ops s))" using pity_ok_run assms(3) by blast
  then show ?thesis by (auto simp: pity_ok_def intro: rolls_pity [THEN conjunct1] rolls_pity [THEN conjunct2])
qed

theorem pity_guarantee_witness:
  "fst (pityCounters (rolledItems ''bob'' (DB (fold rewardStep [RSync 0 ''bob'', ROpen env0 ''bob'', ROpen env0 ''bob'']
     (nexus0\<lparr>DB := dbReferral\<rparr>))))) \<le> 3"
proof -
  have "goodRand env0" by (simp add: goodRand_def)
  then show ?thesis
    using pity_guarantee [of "nexus0\<lparr>DB := dbReferral\<rparr>" "[RSync 0 ''bob'', ROpen env0 ''bob'', ROpen env0 ''bob'']" "''bob''"]
    by (simp add: dbReferral_def emptyDB_def del: fold_simps)
qed

end
