(* ===== verification/Spaces.thy ===== *)
theory Spaces
  imports Rewards
begin

text \<open>
  Servers ("Spaces") and their channels, \<^verbatim>\<open>nexus_server/main.go\<close>: membership and roles, the
  directory, channel history with reactions, the fan-out of a channel message and the global hub.
\<close>

section \<open>Names\<close>

definition isAlnumC :: "char \<Rightarrow> bool" where
  "isAlnumC c \<longleftrightarrow> isAlphaC c \<or> isDigitC c"

text \<open>The letters and digits of the pattern are Unicode classes; on ASCII text they are these.\<close>

definition validServerName :: "env \<Rightarrow> string \<Rightarrow> bool" where
  "validServerName e name \<longleftrightarrow>
     (if isASCII name
      then 2 \<le> length name \<and> length name \<le> 64 \<and> isAlnumC (hd name) \<and>
           list_all (\<lambda>c. isAlnumC c \<or> c \<in> {CHR '' '', CHR ''_'', CHR ''-'', CHR ''.'', chr 39}) (tl name)
      else e_uniServerName e name)"

definition lowerAlnumC :: "char \<Rightarrow> bool" where
  "lowerAlnumC c \<longleftrightarrow> isLowerC c \<or> isDigitC c"

definition validChannelName :: "string \<Rightarrow> bool" where
  "validChannelName name \<longleftrightarrow>
     2 \<le> length name \<and> length name \<le> 32 \<and> lowerAlnumC (hd name) \<and>
     list_all (\<lambda>c. lowerAlnumC c \<or> c = CHR ''-'' \<or> c = CHR ''_'') (tl name)"

section \<open>Membership\<close>

definition memberRow :: "string \<Rightarrow> string \<Rightarrow> database \<Rightarrow> member_row option" where
  "memberRow sid u d = sql_row (\<lambda>r. sm_server_id r = sid \<and> sm_username r = u) (server_members d)"

definition userIsServerMember :: "string \<Rightarrow> string \<Rightarrow> database \<Rightarrow> bool" where
  "userIsServerMember sid u d \<longleftrightarrow> memberRow sid u d \<noteq> None"

definition isServerMember :: "string \<Rightarrow> string \<Rightarrow> database \<Rightarrow> bool" where
  "isServerMember sid u d \<longleftrightarrow> memberRow sid u d \<noteq> None"

definition userServerRole :: "string \<Rightarrow> string \<Rightarrow> database \<Rightarrow> string" where
  "userServerRole sid u d = (case memberRow sid u d of None \<Rightarrow> '''' | Some r \<Rightarrow> sm_role r)"

definition newMember :: "time \<Rightarrow> string \<Rightarrow> string \<Rightarrow> string \<Rightarrow> member_row" where
  "newMember now sid u role =
     \<lparr> sm_server_id = sid, sm_username = u, sm_role = role, sm_joined_at = sqlNow now \<rparr>"

definition joinServer :: "time \<Rightarrow> string \<Rightarrow> string \<Rightarrow> database \<Rightarrow> database" where
  "joinServer now sid u d =
     d\<lparr>server_members := sql_insert_ignore sm_key (newMember now sid u ''member'') (server_members d)\<rparr>"

definition leaveServer :: "string \<Rightarrow> string \<Rightarrow> database \<Rightarrow> database" where
  "leaveServer sid u d =
     d\<lparr>server_members := sql_delete (\<lambda>r. sm_server_id r = sid \<and> sm_username r = u) (server_members d)\<rparr>"

definition serverMembers :: "string \<Rightarrow> database \<Rightarrow> string list" where
  "serverMembers sid d = map sm_username (filter (\<lambda>r. sm_server_id r = sid) (server_members d))"

section \<open>Listings\<close>

definition listUserServers :: "string \<Rightarrow> database \<Rightarrow> ServerSummary list" where
  "listUserServers username d =
     map (\<lambda>(s, m). \<lparr> ssID = sv_id s, ssName = sv_name s, ssDescription = sv_description s,
            ssIcon = sv_icon s, ssOwner = sv_owner s, ssVisibility = sv_visibility s, ssRole = sm_role m,
            ssInviteCode = sv_invite_code s, ssMemberCount = 0, ssIsMember = False \<rparr>)
       (sort_key (\<lambda>(s, m). sm_joined_at m)
         (concat (map (\<lambda>s. map (Pair s) (filter (\<lambda>m. sm_server_id m = sv_id s \<and> sm_username m = username)
            (server_members d))) (servers d))))"

definition listPublicServers :: "string \<Rightarrow> database \<Rightarrow> ServerSummary list" where
  "listPublicServers forUser d =
     map (\<lambda>s. \<lparr> ssID = sv_id s, ssName = sv_name s, ssDescription = sv_description s,
            ssIcon = sv_icon s, ssOwner = sv_owner s, ssVisibility = sv_visibility s, ssRole = '''',
            ssInviteCode = '''', ssMemberCount = length (serverMembers (sv_id s) d),
            ssIsMember = isServerMember (sv_id s) forUser d \<rparr>)
       (take 100 (sort_key (\<lambda>s. - int (length (serverMembers (sv_id s) d)))
         (sort_key sv_created_at (filter (\<lambda>s. sv_visibility s = ''public'') (servers d)))))"

definition listServerChannels :: "string \<Rightarrow> database \<Rightarrow> ChannelInfo list" where
  "listServerChannels sid d =
     map (\<lambda>c. \<lparr> ciID = ch_id c, ciServerID = ch_server_id c, ciName = ch_name c, ciTopic = ch_topic c,
               ciKind = ch_kind c, ciPosition = ch_position c \<rparr>)
       (sort_key ch_position (sort_key ch_name (filter (\<lambda>c. ch_server_id c = sid) (channels d))))"

section \<open>Channel history\<close>

definition channelRow :: "string \<Rightarrow> database \<Rightarrow> channel_row option" where
  "channelRow ch d = sql_row (\<lambda>c. ch_id c = ch) (channels d)"

definition channelReactionsBulk :: "int list \<Rightarrow> database \<Rightarrow> (int \<times> (string \<times> string list) list) list" where
  "channelReactionsBulk ids d =
     foldl (\<lambda>m r. aput (rx_msg_id r) (addReactor (rx_emoji r) (rx_username r) (aget [] m (rx_msg_id r))) m) []
       (filter (\<lambda>r. rx_msg_id r \<in> set ids) (channel_reactions d))"

definition channelView :: "(int \<times> (string \<times> string list) list) list \<Rightarrow> channel_msg_row \<Rightarrow> ChannelMsg" where
  "channelView reactions r =
     \<lparr> cmID = cr_id r, cmChannelID = cr_channel_id r, cmSender = cr_sender r,
       cmBody = (if cr_deleted r then '''' else cr_body r), cmCreatedAt = cr_created_at r,
       cmEdited = cr_edited r, cmDeleted = cr_deleted r, cmPinned = cr_pinned r,
       cmReactions = aget [] reactions (cr_id r) \<rparr>"

definition channelHistory :: "string \<Rightarrow> int \<Rightarrow> int \<Rightarrow> database \<Rightarrow> ChannelMsg list" where
  "channelHistory channelID beforeID limit d =
     (let lim = (if limit \<le> 0 \<or> limit > 200 then 50 else limit);
          rows = sql_last_desc (nat lim)
            (filter (\<lambda>r. cr_channel_id r = channelID \<and> (beforeID > 0 \<longrightarrow> cr_id r < beforeID))
              (channel_messages d));
          reactions = channelReactionsBulk (map cr_id rows) d
      in rev (map (channelView reactions) rows))"

section \<open>Fan-out\<close>

fun fanOut :: "env \<Rightarrow> string list \<Rightarrow> NexusMessage \<Rightarrow> string \<Rightarrow> NexusServer \<Rightarrow> NexusServer" where
  "fanOut e [] payload pushTitle s = s"
| "fanOut e (u # us) payload pushTitle s =
     (let (s1, delivered) = sendTo e u payload s
      in fanOut e us payload pushTitle
           (if delivered \<or> u = mSender payload then s1 else pushBoth e u pushTitle (mBody payload) s1))"

definition broadcastChannelMsg :: "env \<Rightarrow> string \<Rightarrow> NexusMessage \<Rightarrow> NexusServer \<Rightarrow> NexusServer" where
  "broadcastChannelMsg e sid payload s =
     (let recipients = serverMembers sid (DB s);
          serverName0 = (case sql_row (\<lambda>r. sv_id r = sid) (servers (DB s)) of None \<Rightarrow> '''' | Some r \<Rightarrow> sv_name r);
          serverName = (if serverName0 = '''' then ''Group'' else serverName0);
          channelName = (if mChannelID payload = '''' then ''''
             else case channelRow (mChannelID payload) (DB s) of None \<Rightarrow> '''' | Some c \<Rightarrow> ch_name c);
          pushTitle = (if channelName \<noteq> ''''
             then mSender payload @ '' in '' @ serverName @ '' #'' @ channelName
             else mSender payload @ '' in '' @ serverName)
      in fanOut e recipients payload pushTitle s)"

section \<open>The hub\<close>

definition globalSpaceID :: string where "globalSpaceID = ''global''"

definition insertServerIgnore :: "server_row \<Rightarrow> database \<Rightarrow> database" where
  "insertServerIgnore r d =
     (if sql_has sv_id (sv_id r) (servers d) \<or> sql_has sv_invite_code (sv_invite_code r) (servers d) then d
      else d\<lparr>servers := servers d @ [r]\<rparr>)"

definition hubChannels :: "channel_row list" where
  "hubChannels = map (\<lambda>(i, n, t, p). \<lparr> ch_id = i, ch_server_id = globalSpaceID, ch_name = n, ch_topic = t,
       ch_kind = ''text'', ch_position = p \<rparr>)
     [(''global-general'', ''general'', ''Say hi.'', 0), (''global-lobby'', ''lobby'', ''Casual chat.'', 1),
      (''global-announcements'', ''announcements'', ''Phaze news.'', 2)]"

definition ensureGlobalSpace :: "time \<Rightarrow> database \<Rightarrow> database" where
  "ensureGlobalSpace now d =
     (let d1 = insertServerIgnore \<lparr> sv_id = globalSpaceID, sv_name = ''Phaze Hub'',
                 sv_description = ''The Phaze-wide chat. Everyone is welcome.'', sv_icon = '''',
                 sv_owner = ''phaze'', sv_visibility = ''public'', sv_invite_code = ''phaze'',
                 sv_created_at = sqlNow now \<rparr> d;
          d2 = d1\<lparr>channels := fold (sql_insert_ignore ch_id) hubChannels (channels d1)\<rparr>
      in fold (\<lambda>u. joinServer now globalSpaceID (u_username u)) (filter u_is_verified (users d2)) d2)"

definition autoJoinGlobalSpace :: "time \<Rightarrow> string \<Rightarrow> database \<Rightarrow> database" where
  "autoJoinGlobalSpace now username d = (if username = '''' then d else joinServer now globalSpaceID username d)"

definition autoJoinPublicSpaces :: "time \<Rightarrow> string \<Rightarrow> database \<Rightarrow> database" where
  "autoJoinPublicSpaces now botUsername d =
     fold (\<lambda>s. joinServer now (sv_id s) botUsername) (filter (\<lambda>s. sv_visibility s = ''public'') (servers d)) d"

section \<open>Membership as a set\<close>

lemma isServerMember_iff: "isServerMember sid u d \<longleftrightarrow> (sid, u) \<in> sm_key ` set (server_members d)"
  by (auto simp: isServerMember_def memberRow_def sm_key_def sql_row_None image_iff)

lemma serverMembers_iff: "u \<in> set (serverMembers sid d) \<longleftrightarrow> isServerMember sid u d"
  by (force simp: serverMembers_def isServerMember_iff sm_key_def image_iff)

lemma isServerMember_join:
  "isServerMember sid u (joinServer now sid' u' d) \<longleftrightarrow> (sid, u) = (sid', u') \<or> isServerMember sid u d"
  by (auto simp: isServerMember_iff joinServer_def key_sql_insert_ignore) (simp_all add: sm_key_def newMember_def)

lemma isServerMember_leave:
  "isServerMember sid u (leaveServer sid' u' d) \<longleftrightarrow> (sid, u) \<noteq> (sid', u') \<and> isServerMember sid u d"
  by (force simp: isServerMember_iff leaveServer_def set_sql_delete sm_key_def image_iff)

interpretation spaces: membership isServerMember "joinServer now" leaveServer "\<lambda>_. True" for now
  by unfold_locales (auto simp: isServerMember_join isServerMember_leave)

lemma joinServer_frame [simp]:
  "users (joinServer now sid u d) = users d" "channels (joinServer now sid u d) = channels d"
  "servers (joinServer now sid u d) = servers d"
  by (simp_all add: joinServer_def)

lemma isServerMember_joins:
  "isServerMember sid u (fold (\<lambda>x. joinServer now sid' (f x)) us d) \<longleftrightarrow>
     (sid = sid' \<and> u \<in> f ` set us) \<or> isServerMember sid u d"
  by (induction us arbitrary: d) (auto simp: isServerMember_join)

section \<open>Who receives a channel message\<close>

lemma clientsOf_pushBoth [simp]: "clientsOf u (pushBoth e r sd p s) = clientsOf u s"
  by (simp add: clientsOf_def)

lemma deliveries_pushBoth [simp]: "deliveries e (pushBoth e r sd p s) u m = deliveries e s u m"
  by (simp add: deliveries_def sendOk_def cong: filter_cong)

lemma fanOut_outbox:
  "outbox (fanOut e us m title s) = outbox s @ concat (map (\<lambda>u. deliveries e s u m) us)"
proof (induction us arbitrary: s)
  case (Cons u us)
  show ?case by (simp add: Cons.IH sendTo_eq Let_def)
qed simp

lemma fanOut_frame [simp]:
  "Clients (fanOut e us m title s) = Clients s" "conns (fanOut e us m title s) = conns s"
  "rng (fanOut e us m title s) = rng s" "wsConnCount (fanOut e us m title s) = wsConnCount s"
  by (induction us arbitrary: s; simp add: sendTo_eq Let_def)+

lemma broadcastChannelMsg_outbox:
  "outbox (broadcastChannelMsg e sid m s) =
     outbox s @ concat (map (\<lambda>u. deliveries e s u m) (serverMembers sid (DB s)))"
  by (simp add: broadcastChannelMsg_def Let_def fanOut_outbox)

lemma broadcastChannelMsg_frame [simp]:
  "Clients (broadcastChannelMsg e sid m s) = Clients s" "conns (broadcastChannelMsg e sid m s) = conns s"
  "rng (broadcastChannelMsg e sid m s) = rng s" "wsConnCount (broadcastChannelMsg e sid m s) = wsConnCount s"
  by (simp_all add: broadcastChannelMsg_def Let_def)

lemma fold_clearFCM_frame2:
  "channel_messages (fold (clearFCM r) ts d) = channel_messages d"
  "server_members (fold (clearFCM r) ts d) = server_members d"
  "channels (fold (clearFCM r) ts d) = channels d" "servers (fold (clearFCM r) ts d) = servers d"
  "channel_reactions (fold (clearFCM r) ts d) = channel_reactions d"
  "whiteboard_strokes (fold (clearFCM r) ts d) = whiteboard_strokes d"
  by (induction ts arbitrary: d) (simp_all add: clearFCM_def)

lemma pushBoth_tables2 [simp]:
  "channel_messages (DB (pushBoth e r sd p s)) = channel_messages (DB s)"
  "server_members (DB (pushBoth e r sd p s)) = server_members (DB s)"
  "channels (DB (pushBoth e r sd p s)) = channels (DB s)" "servers (DB (pushBoth e r sd p s)) = servers (DB s)"
  "channel_reactions (DB (pushBoth e r sd p s)) = channel_reactions (DB s)"
  "whiteboard_strokes (DB (pushBoth e r sd p s)) = whiteboard_strokes (DB s)"
  by (simp_all add: pushBoth_def sendFCMPush_def sendWebPush_def Let_def fold_clearFCM_frame2)

lemma fanOut_tables [simp]:
  "channel_messages (DB (fanOut e us m title s)) = channel_messages (DB s)"
  "server_members (DB (fanOut e us m title s)) = server_members (DB s)"
  "channels (DB (fanOut e us m title s)) = channels (DB s)"
  "channel_reactions (DB (fanOut e us m title s)) = channel_reactions (DB s)"
  "whiteboard_strokes (DB (fanOut e us m title s)) = whiteboard_strokes (DB s)"
  by (induction us arbitrary: s; simp add: sendTo_eq Let_def)+

lemma broadcastChannelMsg_tables [simp]:
  "channel_messages (DB (broadcastChannelMsg e sid m s)) = channel_messages (DB s)"
  "server_members (DB (broadcastChannelMsg e sid m s)) = server_members (DB s)"
  "channels (DB (broadcastChannelMsg e sid m s)) = channels (DB s)"
  "channel_reactions (DB (broadcastChannelMsg e sid m s)) = channel_reactions (DB s)"
  "whiteboard_strokes (DB (broadcastChannelMsg e sid m s)) = whiteboard_strokes (DB s)"
  by (simp_all add: broadcastChannelMsg_def Let_def)

section \<open>Paging through the history\<close>

text \<open>A client that scrolls up: it asks for the page before the oldest message it has, until a page
  comes back empty.\<close>

fun scrollUp :: "nat \<Rightarrow> string \<Rightarrow> int \<Rightarrow> database \<Rightarrow> ChannelMsg list" where
  "scrollUp 0 ch before d = []"
| "scrollUp (Suc fuel) ch before d =
     (let page = channelHistory ch before 50 d
      in if page = [] then [] else scrollUp fuel ch (cmID (hd page)) d @ page)"

definition channelRows :: "string \<Rightarrow> int \<Rightarrow> database \<Rightarrow> channel_msg_row list" where
  "channelRows ch before d =
     filter (\<lambda>r. cr_channel_id r = ch \<and> (before > 0 \<longrightarrow> cr_id r < before)) (channel_messages d)"

lemma bulk_step:
  "aget [] (foldl (\<lambda>m r. aput (rx_msg_id r) (addReactor (rx_emoji r) (rx_username r) (aget [] m (rx_msg_id r))) m) m0 rs) i =
   foldl (\<lambda>m r. addReactor (rx_emoji r) (rx_username r) m) (aget [] m0 i) (filter (\<lambda>r. rx_msg_id r = i) rs)"
  by (induction rs arbitrary: m0) auto

lemma aget_bulk:
  assumes "i \<in> set ids"
  shows "aget [] (channelReactionsBulk ids d) i =
    foldl (\<lambda>m r. addReactor (rx_emoji r) (rx_username r) m) [] (filter (\<lambda>r. rx_msg_id r = i) (channel_reactions d))"
proof -
  have "filter (\<lambda>r. rx_msg_id r = i) (filter (\<lambda>r. rx_msg_id r \<in> set ids) t) = filter (\<lambda>r. rx_msg_id r = i) t"
    for t :: "channel_reaction_row list" using assms by (induction t) auto
  then show ?thesis by (simp add: channelReactionsBulk_def bulk_step) (simp add: aget_def)
qed

definition channelEntry :: "database \<Rightarrow> channel_msg_row \<Rightarrow> ChannelMsg" where
  "channelEntry d r = channelView (channelReactionsBulk [cr_id r] d) r"

lemma channelView_bulk: "cr_id r \<in> set ids \<Longrightarrow> channelView (channelReactionsBulk ids d) r = channelEntry d r"
  by (simp add: channelEntry_def channelView_def aget_bulk)

lemma channelHistory_last:
  "channelHistory ch before 50 d =
     map (channelEntry d) (drop (length (channelRows ch before d) - 50) (channelRows ch before d))"
proof -
  let ?R = "channelRows ch before d"
  have "channelHistory ch before 50 d =
      rev (map (channelView (channelReactionsBulk (map cr_id (take 50 (rev ?R))) d)) (take 50 (rev ?R)))"
    by (simp add: channelHistory_def sql_last_desc_def Let_def channelRows_def)
  also have "\<dots> = rev (map (channelEntry d) (take 50 (rev ?R)))"
    by (simp add: channelView_bulk)
  also have "\<dots> = map (channelEntry d) (drop (length ?R - 50) ?R)"
    by (simp add: rev_map take_rev)
  finally show ?thesis .
qed

lemma channelRows_before:
  assumes "sorted_wrt (<) (map cr_id (channel_messages d))" and "channelRows ch before d = xs @ r # ys" and "0 < cr_id r"
  shows "channelRows ch (cr_id r) d = xs"
proof -
  have lt: "sorted_wrt (<) (map cr_id (channelRows ch before d))"
    using assms(1) by (simp add: channelRows_def sorted_wrt_map sorted_wrt_filter)
  then have xs: "\<forall>x \<in> set xs. cr_id x < cr_id r" and ys: "\<forall>y \<in> set ys. cr_id r < cr_id y"
    by (auto simp: assms(2) sorted_wrt_append)
  have "0 < before \<Longrightarrow> cr_id r < before" 
  proof -
    have "r \<in> set (channelRows ch before d)" by (simp add: assms(2))
    then show "0 < before \<Longrightarrow> cr_id r < before" by (simp add: channelRows_def)
  qed
  then have "channelRows ch (cr_id r) d = filter (\<lambda>x. cr_id x < cr_id r) (channelRows ch before d)"
    using assms(3) by (auto simp: channelRows_def intro!: filter_cong)
  also have "\<dots> = xs" using xs ys by (auto simp: assms(2) filter_empty_conv filter_id_conv)
  finally show ?thesis .
qed

text \<open>C26: Scrolling up through a channel shows its whole history, in order, no message missing and none
  twice: following the cursor of the oldest message received, page after page, yields exactly the
  stored messages of the channel with their reactions, and it ends after finitely many requests.\<close>

theorem channel_history_complete:
  assumes "sorted_wrt (<) (map cr_id (channel_messages d))" and "\<forall>r \<in> set (channel_messages d). 0 < cr_id r"
    and "length (channelRows ch before d) < fuel"
  shows "scrollUp fuel ch before d = map (channelEntry d) (channelRows ch before d)"
  using assms(3)
proof (induction fuel arbitrary: before)
  case (Suc fuel)
  let ?R = "channelRows ch before d"
  show ?case
  proof (cases "?R = []")
    case True
    then show ?thesis by (simp add: channelHistory_last)
  next
    case False
    let ?n = "length ?R - 50"
    have n: "?n < length ?R" using False by simp
    then have split: "?R = take ?n ?R @ (?R ! ?n) # drop (Suc ?n) ?R" by (simp add: id_take_nth_drop)
    have "?R ! ?n \<in> set (channel_messages d)" using nth_mem [OF n] by (simp add: channelRows_def)
    then have "channelRows ch (cr_id (?R ! ?n)) d = take ?n ?R"
      using channelRows_before [OF assms(1) split] assms(2) by simp
    moreover have "cmID (hd (channelHistory ch before 50 d)) = cr_id (?R ! ?n)"
      using n by (simp add: channelHistory_last hd_map hd_drop_conv_nth channelEntry_def channelView_def)
    ultimately have "scrollUp fuel ch (cmID (hd (channelHistory ch before 50 d))) d = map (channelEntry d) (take ?n ?R)"
      using Suc.IH [of "cr_id (?R ! ?n)"] Suc.prems n by simp
    then show ?thesis
      using n by (simp add: Let_def) (simp add: channelHistory_last flip: map_append)
  qed
qed simp

definition dbChannel :: database where
  "dbChannel = emptyDB\<lparr>channel_messages := map (\<lambda>i. \<lparr> cr_id = int i + 1, cr_channel_id = ''g'', cr_sender = ''amy'',
     cr_body = ''x'', cr_created_at = 0, cr_edited = False, cr_deleted = False, cr_pinned = False \<rparr>) [0..<60]\<rparr>"

theorem channel_history_complete_witness:
  "length (scrollUp 100 ''g'' 0 dbChannel) = 60"
proof -
  have "channelRows ''g'' 0 dbChannel = channel_messages dbChannel"
    by (simp add: channelRows_def dbChannel_def)
  then show ?thesis
    using channel_history_complete [of dbChannel "''g''" 0 100]
    by (simp add: dbChannel_def sorted_wrt_map) (simp add: sorted_wrt_iff_nth_less)
qed

end
