(* ===== verification/Rooms.thy ===== *)
theory Rooms
  imports Spaces
begin

text \<open>
  Shared rooms: whiteboards (\<^verbatim>\<open>nexus_server/whiteboard.go\<close>), voice rooms, live streams and remote
  control codes (\<^verbatim>\<open>main.go\<close>).  A Go set \<^verbatim>\<open>map[string]struct{}\<close> is a list without duplicates.
\<close>

section \<open>Whiteboards\<close>

definition maxWhiteboardStrokes :: nat where "maxWhiteboardStrokes = 4000"
definition maxStrokeBytes :: nat where "maxStrokeBytes = 64 * 1024"

definition validWhiteboardTools :: "string list" where
  "validWhiteboardTools = [''pen'', ''highlighter'', ''eraser'']"

definition channelIsWhiteboard :: "string \<Rightarrow> database \<Rightarrow> string \<times> bool" where
  "channelIsWhiteboard channelID d =
     (case channelRow channelID d of
        None \<Rightarrow> ('''', False)
      | Some c \<Rightarrow> (ch_server_id c, ch_kind c = ''whiteboard''))"

definition unsafeColorChars :: "char list" where
  "unsafeColorChars = [CHR '';'', CHR '':'', CHR ''{'', CHR ''}'', CHR ''('', CHR '')'', CHR ''<'', CHR ''>'',
     chr 34, chr 39, chr 92]"

definition validateStrokeWithUID :: "env \<Rightarrow> string \<Rightarrow> (string \<times> string) option" where
  "validateStrokeWithUID e raw =
     (if length raw > maxStrokeBytes then None
      else case e_strokeDecode e raw of
             None \<Rightarrow> None
           | Some st \<Rightarrow>
               if ws_Tool st \<notin> set validWhiteboardTools then None
               else if ws_Points st = 0 \<or> ws_Points st > 4000 then None
               else if ws_Width st \<le> 0 \<or> ws_Width st > 200 * widthUnit then None
               else if ws_ID st = '''' \<or> length (ws_ID st) > 128 then None
               else if length (ws_Color st) > 32 \<or> list_ex (\<lambda>c. c \<in> set unsafeColorChars) (ws_Color st) then None
               else Some (ws_ID st, e_strokeEncode e st))"

definition validateStroke :: "env \<Rightarrow> string \<Rightarrow> string option" where
  "validateStroke e raw = map_option snd (validateStrokeWithUID e raw)"

definition strokeUID :: "env \<Rightarrow> string \<Rightarrow> string" where
  "strokeUID e stroke = (case validateStrokeWithUID e stroke of None \<Rightarrow> '''' | Some (uid, _) \<Rightarrow> uid)"

definition boardRows :: "string \<Rightarrow> database \<Rightarrow> stroke_row list" where
  "boardRows ch d = filter (\<lambda>r. sk_channel_id r = ch) (whiteboard_strokes d)"

definition trimBoard :: "string \<Rightarrow> database \<Rightarrow> database" where
  "trimBoard ch d =
     (if length (boardRows ch d) > maxWhiteboardStrokes
      then d\<lparr>whiteboard_strokes :=
               sql_delete (\<lambda>r. sk_channel_id r = ch \<and>
                  sk_id r \<notin> set (map sk_id (sql_last_desc maxWhiteboardStrokes (boardRows ch d))))
                 (whiteboard_strokes d)\<rparr>
      else d)"

definition appendStroke :: "env \<Rightarrow> string \<Rightarrow> string \<Rightarrow> string \<Rightarrow> database \<Rightarrow> database \<times> int" where
  "appendStroke e channelID author stroke d =
     (let i = nextID ''whiteboard_strokes'' d;
          d1 = (takeID ''whiteboard_strokes'' d)\<lparr>whiteboard_strokes := whiteboard_strokes d @
                 [\<lparr> sk_id = i, sk_channel_id = channelID, sk_author = author, sk_uid = strokeUID e stroke,
                   sk_stroke = stroke \<rparr>]\<rparr>
      in (trimBoard channelID d1, i))"

definition whiteboardState :: "string \<Rightarrow> database \<Rightarrow> string list" where
  "whiteboardState channelID d = map sk_stroke (boardRows channelID d)"

definition clearWhiteboard :: "string \<Rightarrow> database \<Rightarrow> database" where
  "clearWhiteboard channelID d =
     d\<lparr>whiteboard_strokes := sql_delete (\<lambda>r. sk_channel_id r = channelID) (whiteboard_strokes d)\<rparr>"

definition undoStroke :: "string \<Rightarrow> string \<Rightarrow> string \<Rightarrow> database \<Rightarrow> database \<times> (int \<times> string) option" where
  "undoStroke channelID author uid d =
     (if uid = '''' then (d, None)
      else case sql_row (\<lambda>r. sk_channel_id r = channelID \<and> sk_author r = author \<and> sk_uid r = uid)
                  (rev (whiteboard_strokes d)) of
             None \<Rightarrow> (d, None)
           | Some r \<Rightarrow> (d\<lparr>whiteboard_strokes := sql_delete (\<lambda>x. sk_id x = sk_id r) (whiteboard_strokes d)\<rparr>,
                        Some (sk_id r, sk_stroke r)))"

definition undoLastStroke :: "string \<Rightarrow> string \<Rightarrow> database \<Rightarrow> database \<times> (int \<times> string) option" where
  "undoLastStroke channelID author d =
     (case sql_row (\<lambda>r. sk_channel_id r = channelID \<and> sk_author r = author) (rev (whiteboard_strokes d)) of
        None \<Rightarrow> (d, None)
      | Some r \<Rightarrow> undoStroke channelID author (sk_uid r) d)"

section \<open>Voice rooms\<close>

definition setAdd :: "'a \<Rightarrow> 'a list \<Rightarrow> 'a list" where
  "setAdd x xs = (if x \<in> set xs then xs else xs @ [x])"

definition voiceRoomJoin :: "string \<Rightarrow> string \<Rightarrow> NexusServer \<Rightarrow> NexusServer" where
  "voiceRoomJoin channelID username s =
     s\<lparr>VoiceRooms := aput channelID (setAdd username (aget [] (VoiceRooms s) channelID)) (VoiceRooms s)\<rparr>"

definition voiceRoomLeave :: "string \<Rightarrow> string \<Rightarrow> NexusServer \<Rightarrow> NexusServer" where
  "voiceRoomLeave channelID username s =
     (case map_of (VoiceRooms s) channelID of
        None \<Rightarrow> s
      | Some room \<Rightarrow>
          let room' = removeAll username room
          in if room' = [] then s\<lparr>VoiceRooms := adel channelID (VoiceRooms s)\<rparr>
             else s\<lparr>VoiceRooms := aput channelID room' (VoiceRooms s)\<rparr>)"

definition voiceRoomHas :: "string \<Rightarrow> string \<Rightarrow> NexusServer \<Rightarrow> bool" where
  "voiceRoomHas channelID username s \<longleftrightarrow>
     (case map_of (VoiceRooms s) channelID of None \<Rightarrow> False | Some room \<Rightarrow> username \<in> set room)"

definition voiceRoomPeers :: "string \<Rightarrow> NexusServer \<Rightarrow> string list" where
  "voiceRoomPeers channelID s = aget [] (VoiceRooms s) channelID"

definition voiceRoomBroadcastPeers :: "env \<Rightarrow> string \<Rightarrow> NexusServer \<Rightarrow> NexusServer" where
  "voiceRoomBroadcastPeers e channelID s =
     (let peers = voiceRoomPeers channelID s
      in sendToEach e peers (msg0\<lparr>mType := ''voice_peers'', mStatus := ''ok'', mChannelID := channelID,
           mResults := peers\<rparr>) s)"

definition evictRoom :: "string \<Rightarrow> string \<times> string list \<Rightarrow> (string \<times> string list) list" where
  "evictRoom username entry =
     (let (ch, room) = entry; room' = removeAll username room
      in if username \<in> set room then (if room' = [] then [] else [(ch, room')]) else [(ch, room)])"

definition voiceRoomEvictUser :: "env \<Rightarrow> string \<Rightarrow> NexusServer \<Rightarrow> NexusServer" where
  "voiceRoomEvictUser e username s =
     (let affected = map fst (filter (\<lambda>(ch, room). username \<in> set room) (VoiceRooms s))
      in fold (voiceRoomBroadcastPeers e) affected
           (s\<lparr>VoiceRooms := concat (map (evictRoom username) (VoiceRooms s))\<rparr>))"

section \<open>Live streams\<close>

definition streamStart :: "string \<Rightarrow> string \<Rightarrow> NexusServer \<Rightarrow> NexusServer" where
  "streamStart host title s =
     s\<lparr>Streams := aput host \<lparr> ls_Title = title, ls_Viewers = [] \<rparr> (Streams s)\<rparr>"

definition streamStop :: "env \<Rightarrow> string \<Rightarrow> NexusServer \<Rightarrow> NexusServer" where
  "streamStop e host s =
     (let s1 = s\<lparr>Streams := adel host (Streams s)\<rparr>
      in case map_of (Streams s) host of
           None \<Rightarrow> s1
         | Some st \<Rightarrow> sendToEach e (ls_Viewers st) (msg0\<lparr>mType := ''stream_ended'', mSender := host\<rparr>) s1)"

definition streamHas :: "string \<Rightarrow> NexusServer \<Rightarrow> bool" where
  "streamHas host s \<longleftrightarrow> map_of (Streams s) host \<noteq> None"

definition streamAddViewer :: "string \<Rightarrow> string \<Rightarrow> NexusServer \<Rightarrow> NexusServer" where
  "streamAddViewer host viewer s =
     (case map_of (Streams s) host of
        None \<Rightarrow> s
      | Some st \<Rightarrow> s\<lparr>Streams := aput host (st\<lparr>ls_Viewers := setAdd viewer (ls_Viewers st)\<rparr>) (Streams s)\<rparr>)"

definition streamRemoveViewer :: "string \<Rightarrow> string \<Rightarrow> NexusServer \<Rightarrow> NexusServer" where
  "streamRemoveViewer host viewer s =
     (case map_of (Streams s) host of
        None \<Rightarrow> s
      | Some st \<Rightarrow> s\<lparr>Streams := aput host (st\<lparr>ls_Viewers := removeAll viewer (ls_Viewers st)\<rparr>) (Streams s)\<rparr>)"

definition streamList :: "NexusServer \<Rightarrow> string list" where
  "streamList s = concat (map (\<lambda>(host, st). [host, ls_Title st]) (Streams s))"

definition watches :: "string \<Rightarrow> string \<Rightarrow> NexusServer \<Rightarrow> bool" where
  "watches host viewer s \<longleftrightarrow>
     (case map_of (Streams s) host of None \<Rightarrow> False | Some st \<Rightarrow> viewer \<in> set (ls_Viewers st))"

definition streamAreParticipants :: "string \<Rightarrow> string \<Rightarrow> NexusServer \<Rightarrow> bool" where
  "streamAreParticipants a b s \<longleftrightarrow> watches a b s \<or> watches b a s"

definition streamBroadcastList :: "env \<Rightarrow> NexusServer \<Rightarrow> NexusServer" where
  "streamBroadcastList e s =
     broadcastAll e (msg0\<lparr>mType := ''stream_list_result'', mStatus := ''ok'', mResults := streamList s\<rparr>) s"

fun sendEachOwn :: "env \<Rightarrow> string list \<Rightarrow> (string \<Rightarrow> NexusMessage) \<Rightarrow> NexusServer \<Rightarrow> NexusServer" where
  "sendEachOwn e [] f s = s"
| "sendEachOwn e (u # us) f s = sendEachOwn e us f (fst (sendTo e u (f u) s))"

definition streamEvictUser :: "env \<Rightarrow> string \<Rightarrow> NexusServer \<Rightarrow> NexusServer" where
  "streamEvictUser e username s =
     (let endedAsHost = streamHas username s;
          streams1 = adel username (Streams s);
          notifyHosts = map fst (filter (\<lambda>(host, st). username \<in> set (ls_Viewers st)) streams1);
          streams2 = map (\<lambda>(host, st). (host, st\<lparr>ls_Viewers := removeAll username (ls_Viewers st)\<rparr>)) streams1;
          s1 = sendEachOwn e notifyHosts
                 (\<lambda>h. msg0\<lparr>mType := ''stream_viewer_leave'', mSender := username, mRecipient := h\<rparr>)
                 (s\<lparr>Streams := streams2\<rparr>)
      in if endedAsHost then streamBroadcastList e s1 else s1)"

section \<open>Remote control codes\<close>

definition remoteCodeTTL :: time where "remoteCodeTTL = 10 * minute"

definition sweepRemoteCodes :: "time \<Rightarrow> NexusServer \<Rightarrow> NexusServer" where
  "sweepRemoteCodes now s =
     s\<lparr>RemoteCodes := filter (\<lambda>(k, v). \<not> now - rce_CreatedAt v > remoteCodeTTL) (RemoteCodes s)\<rparr>"

definition lookupRemoteCode :: "time \<Rightarrow> string \<Rightarrow> NexusServer \<Rightarrow> string option" where
  "lookupRemoteCode now code s =
     (case map_of (RemoteCodes s) code of
        None \<Rightarrow> None
      | Some v \<Rightarrow> if now - rce_CreatedAt v > remoteCodeTTL then None else Some (rce_Username v))"

section \<open>The board stays bounded\<close>

definition strokes_ok :: "database \<Rightarrow> bool" where
  "strokes_ok d \<longleftrightarrow> sorted_wrt (<) (map sk_id (whiteboard_strokes d)) \<and>
     (\<forall>r \<in> set (whiteboard_strokes d). sk_id r \<le> sqlite_sequence d ''whiteboard_strokes'')"

lemma boardRows_trim:
  assumes "uniq sk_id (whiteboard_strokes d)"
  shows "boardRows ch' (trimBoard ch d) =
    (if ch' = ch then drop (length (boardRows ch d) - maxWhiteboardStrokes) (boardRows ch d) else boardRows ch' d)"
proof (cases "length (boardRows ch d) > maxWhiteboardStrokes \<and> ch' = ch")
  case True
  let ?R = "boardRows ch d"
  let ?n = "length ?R - maxWhiteboardStrokes"
  have dist: "distinct (map sk_id ?R)" using assms by (simp add: boardRows_def uniq_def distinct_map_filter)
  have "set (map sk_id (sql_last_desc maxWhiteboardStrokes ?R)) = sk_id ` set (drop ?n ?R)"
    by (simp add: sql_last_desc_def take_rev)
  then have "boardRows ch (trimBoard ch d) = filter (\<lambda>r. sk_id r \<in> sk_id ` set (drop ?n ?R)) ?R"
    using True by (auto simp: trimBoard_def sql_delete_def boardRows_def intro!: filter_cong)
  also have "\<dots> = filter (\<lambda>r. r \<in> set (drop ?n ?R)) ?R"
    using dist by (intro filter_cong refl) (auto simp: distinct_map dest: inj_onD in_set_dropD)
  also have "\<dots> = drop ?n ?R"
  proof -
    have "distinct (take ?n ?R @ drop ?n ?R)" using dist by (simp add: distinct_map)
    then have "set (take ?n ?R) \<inter> set (drop ?n ?R) = {}" by (simp only: distinct_append)
    then have "filter (\<lambda>r. r \<in> set (drop ?n ?R)) (take ?n ?R @ drop ?n ?R) = drop ?n ?R"
      by (auto simp: filter_empty_conv filter_id_conv simp del: append_take_drop_id)
    then show ?thesis by simp
  qed
  finally show ?thesis using True by simp
next
  case False
  have "filter (\<lambda>x. (sk_channel_id x = ch \<longrightarrow> P x) \<and> sk_channel_id x = ch') (whiteboard_strokes d) =
      filter (\<lambda>r. sk_channel_id r = ch') (whiteboard_strokes d)" if "ch' \<noteq> ch" for P
    using that by (intro filter_cong) auto
  with False show ?thesis
    by (cases "ch' = ch") (auto simp: trimBoard_def sql_delete_def boardRows_def)
qed

lemma sorted_uniq: "sorted_wrt (<) (map K t) \<Longrightarrow> uniq K t" for K :: "'r \<Rightarrow> int"
  by (simp add: uniq_def strict_sorted_iff)

lemma trimBoard_strokes: "\<exists>Q. whiteboard_strokes (trimBoard ch d) = filter Q (whiteboard_strokes d)"
proof (cases "length (boardRows ch d) > maxWhiteboardStrokes")
  case True
  then show ?thesis by (auto simp: trimBoard_def sql_delete_def)
next
  case False
  then have "whiteboard_strokes (trimBoard ch d) = filter (\<lambda>_. True) (whiteboard_strokes d)"
    by (simp add: trimBoard_def)
  then show ?thesis by blast
qed

lemma appendStroke_shape:
  fixes e stroke ch author d
  defines "r \<equiv> \<lparr> sk_id = nextID ''whiteboard_strokes'' d, sk_channel_id = ch, sk_author = author,
                  sk_uid = strokeUID e stroke, sk_stroke = stroke \<rparr>"
  assumes "strokes_ok d"
  shows "(\<exists>Q. whiteboard_strokes (fst (appendStroke e ch author stroke d)) = filter Q (whiteboard_strokes d) @ [r]) \<and>
    boardRows ch (fst (appendStroke e ch author stroke d)) =
      drop (length (boardRows ch d) + 1 - maxWhiteboardStrokes) (boardRows ch d @ [r]) \<and>
    (ch' \<noteq> ch \<longrightarrow> boardRows ch' (fst (appendStroke e ch author stroke d)) = boardRows ch' d) \<and>
    strokes_ok (fst (appendStroke e ch author stroke d))"
proof -
  let ?d1 = "(takeID ''whiteboard_strokes'' d)\<lparr>whiteboard_strokes := whiteboard_strokes d @ [r]\<rparr>"
  have d': "fst (appendStroke e ch author stroke d) = trimBoard ch ?d1" by (simp add: appendStroke_def Let_def r_def)
  have lt: "\<forall>x \<in> set (whiteboard_strokes d). sk_id x < sk_id r"
    using assms(2) by (fastforce simp: strokes_ok_def nextID_def r_def)
  then have s1: "sorted_wrt (<) (map sk_id (whiteboard_strokes ?d1))"
    using assms(2) by (auto simp: strokes_ok_def sorted_wrt_append)
  note trim = boardRows_trim [OF sorted_uniq [OF s1]]
  have rows: "boardRows ch ?d1 = boardRows ch d @ [r]" "ch' \<noteq> ch \<Longrightarrow> boardRows ch' ?d1 = boardRows ch' d"
    by (simp_all add: boardRows_def r_def)
  have b: "boardRows ch (trimBoard ch ?d1) = drop (length (boardRows ch d) + 1 - maxWhiteboardStrokes) (boardRows ch d @ [r])"
    using trim [of ch ch] rows(1) by simp
  obtain Q where Q: "whiteboard_strokes (trimBoard ch ?d1) = filter Q (whiteboard_strokes d @ [r])"
    using trimBoard_strokes [of ch ?d1] by auto
  have "r \<in> set (boardRows ch (trimBoard ch ?d1))"
    by (simp add: b maxWhiteboardStrokes_def)
  then have "r \<in> set (whiteboard_strokes (trimBoard ch ?d1))" by (simp add: boardRows_def)
  moreover have "r \<notin> set (whiteboard_strokes d)" using lt by auto
  ultimately have w: "whiteboard_strokes (trimBoard ch ?d1) = filter Q (whiteboard_strokes d) @ [r]" by (auto simp: Q split: if_splits)
  have "sqlite_sequence (trimBoard ch ?d1) = sqlite_sequence ?d1" by (simp add: trimBoard_def)
  then have "strokes_ok (trimBoard ch ?d1)"
    using assms(2) lt unfolding strokes_ok_def w
    by (auto simp: nextID_def r_def sorted_wrt_map sorted_wrt_append sorted_wrt_filter)
  with w b trim [of ch' ch] rows(2) show ?thesis by (auto simp: d')
qed

text \<open>Drawing adds the stroke at the end of its board, keeps the newest four thousand strokes of
  that board and no others, and touches no other board, so no board ever holds more than four
  thousand strokes.  Undoing the stroke right away by its id takes back exactly that stroke.\<close>

theorem whiteboard_append:
  assumes "strokes_ok d" and "appendStroke e ch author stroke d = (d', i)"
  shows "\<exists>r. sk_id r = i \<and> sk_author r = author \<and> sk_stroke r = stroke \<and> sk_channel_id r = ch \<and>
     boardRows ch d' = drop (length (boardRows ch d) + 1 - 4000) (boardRows ch d @ [r]) \<and>
     length (boardRows ch d') \<le> 4000 \<and>
     (ch' \<noteq> ch \<longrightarrow> boardRows ch' d' = boardRows ch' d) \<and>
     strokes_ok d' \<and>
     (strokeUID e stroke \<noteq> '''' \<longrightarrow>
        snd (undoStroke ch author (strokeUID e stroke) d') = Some (i, stroke) \<and>
        boardRows ch (fst (undoStroke ch author (strokeUID e stroke) d')) = butlast (boardRows ch d'))"
proof -
  let ?r = "\<lparr> sk_id = nextID ''whiteboard_strokes'' d, sk_channel_id = ch, sk_author = author,
     sk_uid = strokeUID e stroke, sk_stroke = stroke \<rparr>"
  have d': "fst (appendStroke e ch author stroke d) = d'" and i: "i = sk_id ?r"
    using assms(2) by (auto simp: appendStroke_def Let_def)
  from appendStroke_shape [OF assms(1), of e ch author stroke ch'] obtain Q where
    w: "whiteboard_strokes d' = filter Q (whiteboard_strokes d) @ [?r]" and
    b: "boardRows ch d' = drop (length (boardRows ch d) + 1 - 4000) (boardRows ch d @ [?r])" and
    o: "ch' \<noteq> ch \<longrightarrow> boardRows ch' d' = boardRows ch' d" and ok: "strokes_ok d'"
    by (auto simp: d' maxWhiteboardStrokes_def)
  have row: "sql_row (\<lambda>r. sk_channel_id r = ch \<and> sk_author r = author \<and> sk_uid r = strokeUID e stroke)
      (rev (whiteboard_strokes d')) = Some ?r"
    by (simp add: w sql_row_def)
  have "uniq sk_id (whiteboard_strokes d')" using ok by (simp add: strokes_ok_def sorted_uniq)
  then have new: "\<forall>x \<in> set (filter Q (whiteboard_strokes d)). sk_id x \<noteq> sk_id ?r"
    unfolding w by (auto simp: uniq_def image_iff)
  then have del: "sql_delete (\<lambda>x. sk_id x = sk_id ?r) (whiteboard_strokes d') = filter Q (whiteboard_strokes d)"
    by (auto simp: w sql_delete_def intro!: filter_cong)
  have "boardRows ch (fst (undoStroke ch author (strokeUID e stroke) d')) = butlast (boardRows ch d')"
    and "snd (undoStroke ch author (strokeUID e stroke) d') = Some (i, stroke)"
    if "strokeUID e stroke \<noteq> ''''"
    using that row del by (simp_all add: undoStroke_def i) (simp_all add: boardRows_def w)
  with b o ok i show ?thesis by (intro exI [of _ ?r]) simp
qed

theorem whiteboard_append_witness:
  "length (boardRows ''b'' (fst (appendStroke env0 ''b'' ''amy'' ''s1'' emptyDB))) \<le> 4000"
proof -
  have "strokes_ok emptyDB" by (simp add: strokes_ok_def emptyDB_def)
  from whiteboard_append [OF this, of env0 "''b''" "''amy''" "''s1''"] show ?thesis
    by (metis prod.collapse)
qed

section \<open>Voice rooms as sets of pairs\<close>

definition rooms_ok :: "NexusServer \<Rightarrow> bool" where
  "rooms_ok s \<longleftrightarrow> distinct (akeys (VoiceRooms s)) \<and> (\<forall>ch. map_of (VoiceRooms s) ch \<noteq> Some [])"

lemma voiceRoomHas_aget: "voiceRoomHas ch u s \<longleftrightarrow> u \<in> set (aget [] (VoiceRooms s) ch)"
  by (auto simp: voiceRoomHas_def aget_def split: option.splits)

lemma voiceRoomHas_join: "voiceRoomHas ch u (voiceRoomJoin ch' u' s) \<longleftrightarrow> (ch, u) = (ch', u') \<or> voiceRoomHas ch u s"
  by (auto simp: voiceRoomHas_aget voiceRoomJoin_def setAdd_def)

lemma removeAll_Nil: "removeAll u room = [] \<longleftrightarrow> set room \<subseteq> {u}"
  by (induction room) auto

lemma voiceRoomHas_leave: "voiceRoomHas ch u (voiceRoomLeave ch' u' s) \<longleftrightarrow> (ch, u) \<noteq> (ch', u') \<and> voiceRoomHas ch u s"
  by (auto simp: voiceRoomHas_def voiceRoomLeave_def Let_def removeAll_Nil split: option.splits if_splits)

lemma rooms_ok_join: "rooms_ok s \<Longrightarrow> rooms_ok (voiceRoomJoin ch u s)"
  by (auto simp: rooms_ok_def voiceRoomJoin_def distinct_aput setAdd_def simp del: map_of_eq_Some_iff)

lemma rooms_ok_leave: "rooms_ok s \<Longrightarrow> rooms_ok (voiceRoomLeave ch u s)"
  by (auto simp: rooms_ok_def voiceRoomLeave_def distinct_aput distinct_adel Let_def
      split: option.splits simp del: map_of_eq_Some_iff)

interpretation voice: membership voiceRoomHas voiceRoomJoin voiceRoomLeave rooms_ok
  by unfold_locales (simp_all only: voiceRoomHas_join voiceRoomHas_leave rooms_ok_join rooms_ok_leave)

fun voiceOp :: "(string, string) member_op \<Rightarrow> NexusServer \<Rightarrow> NexusServer" where
  "voiceOp (MJoin ch u) s = voiceRoomJoin ch u s"
| "voiceOp (MLeave ch u) s = voiceRoomLeave ch u s"

lemma voiceOp_apply: "voiceOp = voice.apply_op"
proof (intro ext)
  show "voiceOp p s = voice.apply_op p s" for p s by (cases p) simp_all
qed

lemma akeys_evict: "fst ` set (concat (map (evictRoom u) m)) \<subseteq> fst ` set m"
  by (auto simp: evictRoom_def Let_def split: if_splits) (metis fst_conv image_eqI)+

lemma distinct_evict: "distinct (akeys m) \<Longrightarrow> distinct (akeys (concat (map (evictRoom u) m)))"
proof (induction m)
  case (Cons x m)
  have "fst x \<notin> fst ` set (concat (map (evictRoom u) m))" using Cons akeys_evict [of u m] by auto
  with Cons show ?case by (cases x) (auto simp: evictRoom_def Let_def)
qed simp

lemma map_of_evict:
  assumes "distinct (akeys m)"
  shows "map_of (concat (map (evictRoom u) m)) ch =
    (case map_of m ch of None \<Rightarrow> None
     | Some room \<Rightarrow> if u \<in> set room then (if removeAll u room = [] then None else Some (removeAll u room)) else Some room)"
  using assms
proof (induction m)
  case (Cons x m)
  have "map_of (concat (map (evictRoom u) m)) (fst x) = None"
    using Cons akeys_evict [of u m] by (auto simp: map_of_eq_None_iff)
  moreover obtain ch' room where x: "x = (ch', room)" by (cases x)
  moreover have "map_of m ch' = None" using Cons by (simp add: x map_of_eq_None_iff)
  ultimately show ?case
    using Cons by (cases "ch = ch'") (simp_all add: evictRoom_def Let_def map_add_def)
qed simp

lemma broadcastPeers_frame [simp]:
  "VoiceRooms (voiceRoomBroadcastPeers e ch s) = VoiceRooms s" "DB (voiceRoomBroadcastPeers e ch s) = DB s"
  "Clients (voiceRoomBroadcastPeers e ch s) = Clients s" "conns (voiceRoomBroadcastPeers e ch s) = conns s"
  "Streams (voiceRoomBroadcastPeers e ch s) = Streams s" "wsConnCount (voiceRoomBroadcastPeers e ch s) = wsConnCount s"
  by (simp_all add: voiceRoomBroadcastPeers_def Let_def sendToEach_eq)

lemma fold_broadcastPeers_frame [simp]:
  "VoiceRooms (fold (voiceRoomBroadcastPeers e) chs s) = VoiceRooms s"
  "DB (fold (voiceRoomBroadcastPeers e) chs s) = DB s"
  "Clients (fold (voiceRoomBroadcastPeers e) chs s) = Clients s"
  "conns (fold (voiceRoomBroadcastPeers e) chs s) = conns s"
  "Streams (fold (voiceRoomBroadcastPeers e) chs s) = Streams s"
  "wsConnCount (fold (voiceRoomBroadcastPeers e) chs s) = wsConnCount s"
  by (induction chs arbitrary: s; simp)+

text \<open>Voice rooms behave as a set of (room, user) pairs under any sequence of joins and leaves, no
  empty room is kept, and when a user's last connection closes the user is in no room at all while
  everyone else stays where they were.\<close>

theorem voice_rooms:
  assumes "rooms_ok s"
  shows "(voiceRoomHas ch u (fold voiceOp ops s) \<longleftrightarrow>
            (ch, u) \<in> fold set_op ops {(ch, u). voiceRoomHas ch u s}) \<and>
         rooms_ok (fold voiceOp ops s) \<and>
         rooms_ok (voiceRoomEvictUser e v s) \<and>
         (voiceRoomHas ch u (voiceRoomEvictUser e v s) \<longleftrightarrow> u \<noteq> v \<and> voiceRoomHas ch u s)"
proof -
  have d: "distinct (akeys (VoiceRooms s))" using assms by (simp add: rooms_ok_def)
  have "rooms_ok (voiceRoomEvictUser e v s)"
    using assms map_of_evict [OF d, of v] distinct_evict [OF d]
    by (auto simp: rooms_ok_def voiceRoomEvictUser_def Let_def
        split: option.splits if_splits simp del: map_of_eq_Some_iff)
  moreover have "voiceRoomHas ch u (voiceRoomEvictUser e v s) \<longleftrightarrow> u \<noteq> v \<and> voiceRoomHas ch u s"
    using map_of_evict [OF d, of v ch]
    by (auto simp: voiceRoomHas_def voiceRoomEvictUser_def Let_def removeAll_Nil split: option.splits if_splits)
  ultimately show ?thesis
    using voice.mem_after [OF assms] voice.fold_inv [OF assms] by (simp add: voiceOp_apply)
qed

theorem voice_rooms_witness:
  "voiceRoomHas ''r'' ''amy'' (fold voiceOp [MJoin ''r'' ''amy'', MJoin ''r'' ''bob'', MLeave ''r'' ''bob''] nexus0)"
  using voice_rooms [of nexus0 "''r''" "''amy''" "[MJoin ''r'' ''amy'', MJoin ''r'' ''bob'', MLeave ''r'' ''bob'']"]
  by (simp add: rooms_ok_def nexus0_def del: voiceOp.simps)

section \<open>Remote codes\<close>

lemma lookup_sweep:
  assumes "distinct (akeys (RemoteCodes s))" and "t \<le> now"
  shows "lookupRemoteCode now code (sweepRemoteCodes t s) = lookupRemoteCode now code s"
proof -
  have "map_of (RemoteCodes (sweepRemoteCodes t s)) code = (case map_of (RemoteCodes s) code of None \<Rightarrow> None
      | Some v \<Rightarrow> if \<not> t - rce_CreatedAt v > remoteCodeTTL then Some v else None)"
    using map_of_filter_key [OF assms(1), of "\<lambda>k v. \<not> t - rce_CreatedAt v > remoteCodeTTL"]
    by (simp add: sweepRemoteCodes_def)
  with assms(2) show ?thesis by (auto simp: lookupRemoteCode_def split: option.splits)
qed

end
