(* ===== verification/Retention.thy ===== *)
theory Retention
  imports Rooms
begin

text \<open>
  The background janitors of \<^verbatim>\<open>nexus_server/data_retention.go\<close>: what one tick of each sweeper does to
  the database.
\<close>

definition sweepExpiredSessions :: "time \<Rightarrow> database \<Rightarrow> database" where
  "sweepExpiredSessions now d =
     d\<lparr>session_tokens := sql_delete (\<lambda>r. se_revoked r \<or> textBeforeNow (se_expires_at r) now) (session_tokens d)\<rparr>"

definition sweepExpiredResetTokens :: "time \<Rightarrow> database \<Rightarrow> database" where
  "sweepExpiredResetTokens now d =
     d\<lparr>password_resets := sql_delete (\<lambda>r. pr_used r \<or> textBeforeNow (pr_expires_at r) now) (password_resets d)\<rparr>"

definition sweepUnverifiedAccounts :: "time \<Rightarrow> database \<Rightarrow> database" where
  "sweepUnverifiedAccounts now d =
     d\<lparr>users := sql_delete (\<lambda>u. \<not> u_is_verified u \<and> u_email u \<noteq> '''' \<and>
         u_created_at u < sqlNow now - 7 * day) (users d)\<rparr>"

definition sweepOldChannelMessages :: "int \<Rightarrow> time \<Rightarrow> database \<Rightarrow> database" where
  "sweepOldChannelMessages retentionDays now d =
     (if retentionDays = 0 then d
      else let days = (if retentionDays > 0 then retentionDays else 30);
               old = (\<lambda>r. cr_created_at r < sqlNow now - days * day);
               d1 = d\<lparr>channel_messages := sql_delete old (channel_messages d)\<rparr>
           in if sql_count old (channel_messages d) > 0
              then d1\<lparr>channel_reactions := sql_delete
                     (\<lambda>r. \<not> sql_has cr_id (rx_msg_id r) (channel_messages d1)) (channel_reactions d1)\<rparr>
              else d1)"

definition sweepExpiredQRLoginTokens :: "time \<Rightarrow> database \<Rightarrow> database" where
  "sweepExpiredQRLoginTokens now d =
     d\<lparr>qr_login_tokens := sql_delete (\<lambda>r. qr_approved r \<or> textBeforeNow (qr_expires_at r) now) (qr_login_tokens d)\<rparr>"

datatype sweep = SweepSessions | SweepResets | SweepUnverified | SweepChannels int | SweepQR

fun runSweep :: "sweep \<times> time \<Rightarrow> database \<Rightarrow> database" where
  "runSweep (SweepSessions, now) d = sweepExpiredSessions now d"
| "runSweep (SweepResets, now) d = sweepExpiredResetTokens now d"
| "runSweep (SweepUnverified, now) d = sweepUnverifiedAccounts now d"
| "runSweep (SweepChannels n, now) d = sweepOldChannelMessages n now d"
| "runSweep (SweepQR, now) d = sweepExpiredQRLoginTokens now d"

section \<open>What sweeping cannot change\<close>

lemma sql_row_delete:
  assumes "uniq K t" and "\<And>r. sql_row (\<lambda>x. K x = k) t = Some r \<Longrightarrow> \<not> Q r"
  shows "sql_row (\<lambda>x. K x = k) (sql_delete Q t) = sql_row (\<lambda>x. K x = k) t"
proof (cases "sql_row (\<lambda>x. K x = k) t")
  case None
  then have "sql_row (\<lambda>x. K x = k) (sql_delete Q t) = None" by (auto simp: sql_row_None set_sql_delete)
  with None show ?thesis by simp
next
  case (Some r)
  then have "r \<in> set (sql_delete Q t)" "K r = k" using assms(2) [OF Some] sql_row_SomeD [OF Some] by (auto simp: set_sql_delete)
  then show ?thesis using sql_row_unique [OF uniq_sql_delete [OF assms(1)]] Some by simp
qed

lemma sql_row_delete_dead:
  assumes "uniq K t" and "sql_row (\<lambda>x. K x = k) t = Some r" and "Q r"
  shows "sql_row (\<lambda>x. K x = k) (sql_delete Q t) = None"
proof -
  have "x = r" if "x \<in> set t" "K x = k" for x
    using assms(1) sql_row_SomeD [OF assms(2)] that by (auto simp: uniq_def distinct_map dest: inj_onD)
  then show ?thesis using assms(3) by (auto simp: sql_row_None set_sql_delete)
qed

definition sweepable :: "database \<Rightarrow> bool" where
  "sweepable d \<longleftrightarrow> uniq se_token (session_tokens d) \<and> uniq pr_token (password_resets d) \<and> uniq u_username (users d)"

lemma sweepChannels_frame [simp]:
  "users (sweepOldChannelMessages n t d) = users d" "session_tokens (sweepOldChannelMessages n t d) = session_tokens d"
  "password_resets (sweepOldChannelMessages n t d) = password_resets d"
  by (simp_all add: sweepOldChannelMessages_def Let_def)

lemma sweepable_run: "sweepable d \<Longrightarrow> sweepable (runSweep (w, t) d)"
  by (cases w)
    (auto simp: sweepable_def sweepExpiredSessions_def sweepExpiredResetTokens_def sweepUnverifiedAccounts_def
      sweepExpiredQRLoginTokens_def intro: uniq_sql_delete)

lemma sweep_session:
  assumes "sweepable d" and "t \<le> now"
  shows "sessionUsername now tok (runSweep (w, t) d) = sessionUsername now tok d"
proof (cases "w = SweepSessions")
  case True
  let ?Q = "\<lambda>r. se_revoked r \<or> textBeforeNow (se_expires_at r) t"
  have dead: "?Q r \<Longrightarrow> se_revoked r \<or> se_expires_at r < now" for r
    using assms(2) not_textAfter_expired [of "se_expires_at r" t] by (auto simp: textBefore_iff_not_after)
  have u: "uniq se_token (session_tokens d)" using assms(1) by (simp add: sweepable_def)
  show ?thesis
  proof (cases "\<exists>r. sessionRow tok d = Some r \<and> ?Q r")
    case Q: True
    then obtain r where r: "sessionRow tok d = Some r" "?Q r" by blast
    then have "sessionRow tok (sweepExpiredSessions t d) = None"
      using sql_row_delete_dead [OF u, of tok r ?Q] by (simp add: sessionRow_def sweepExpiredSessions_def)
    then show ?thesis using True r(1) dead [OF r(2)] by (auto simp: sessionUsername_row)
  next
    case False
    then have "sessionRow tok (sweepExpiredSessions t d) = sessionRow tok d"
      using sql_row_delete [OF u, of tok ?Q] by (auto simp: sessionRow_def sweepExpiredSessions_def)
    then show ?thesis using True by (simp add: sessionUsername_row)
  qed
next
  case False
  then have "session_tokens (runSweep (w, t) d) = session_tokens d"
    by (cases w) (simp_all add: sweepExpiredResetTokens_def sweepUnverifiedAccounts_def sweepExpiredQRLoginTokens_def)
  then show ?thesis by (simp add: sessionUsername_row sessionRow_def)
qed

lemma sweep_reset:
  assumes "sweepable d" and "t \<le> e_now e"
  shows "snd (consumePasswordReset e tok pw (runSweep (w, t) d)) = None \<longleftrightarrow> snd (consumePasswordReset e tok pw d) = None"
proof (cases "w = SweepResets")
  case True
  let ?Q = "\<lambda>r. pr_used r \<or> textBeforeNow (pr_expires_at r) t"
  have dead: "?Q r \<Longrightarrow> pr_used r \<or> pr_expires_at r < e_now e" for r
    using assms(2) not_textAfter_expired [of "pr_expires_at r" t] by (auto simp: textBefore_iff_not_after)
  have u: "uniq pr_token (password_resets d)" using assms(1) by (simp add: sweepable_def)
  show ?thesis
  proof (cases "\<exists>r. sql_row (\<lambda>x. pr_token x = tok) (password_resets d) = Some r \<and> ?Q r")
    case Q: True
    then obtain r where r: "sql_row (\<lambda>x. pr_token x = tok) (password_resets d) = Some r" "?Q r" by blast
    then show ?thesis
      using True sql_row_delete_dead [OF u r(1), of ?Q] dead [OF r(2)]
      by (auto simp: consumePasswordReset_def sweepExpiredResetTokens_def)
  next
    case False
    then have "sql_row (\<lambda>x. pr_token x = tok) (sql_delete ?Q (password_resets d)) = sql_row (\<lambda>x. pr_token x = tok) (password_resets d)"
      by (intro sql_row_delete [OF u]) auto
    then show ?thesis using True
      by (auto simp: consumePasswordReset_def sweepExpiredResetTokens_def Let_def split: option.splits)
  qed
next
  case False
  then have "password_resets (runSweep (w, t) d) = password_resets d"
    by (cases w) (simp_all add: sweepExpiredSessions_def sweepUnverifiedAccounts_def sweepExpiredQRLoginTokens_def)
  then show ?thesis by (auto simp: consumePasswordReset_def Let_def split: option.splits)
qed

lemma sweep_user:
  assumes "sweepable d" and "userRow u d = Some r" and "u_is_verified r"
  shows "userRow u (runSweep (w, t) d) = Some r"
proof (cases "w = SweepUnverified")
  case True
  have "uniq u_username (users d)" using assms(1) by (simp add: sweepable_def)
  then have "userRow u (runSweep (w, t) d) = userRow u d"
    using assms(2,3) unfolding True userRow_def
    by (simp add: sweepUnverifiedAccounts_def) (subst sql_row_delete, auto)
  then show ?thesis using assms(2) by simp
next
  case False
  then have "users (runSweep (w, t) d) = users d"
    by (cases w) (simp_all add: sweepExpiredSessions_def sweepExpiredResetTokens_def sweepExpiredQRLoginTokens_def)
  then show ?thesis using assms(2) by (simp add: userRow_def)
qed



end
