(* ===== verification/SignupChecks.thy ===== *)
theory SignupChecks
  imports Nexus
begin

text \<open>
  The checks a registration passes: \<^verbatim>\<open>nexus_server/emailcheck.go\<close> (disposable addresses) and
  \<^verbatim>\<open>nexus_server/ipcheck.go\<close> (VPN and datacenter addresses, with its cache).  Addresses are parsed as
  \<^verbatim>\<open>net.ParseIP\<close> does, to 16 bytes.  The DNS and the two reputation services are in the environment.
\<close>

section \<open>Addresses\<close>

definition isOctet :: "string \<Rightarrow> bool" where
  "isOctet f \<longleftrightarrow> f \<noteq> [] \<and> length f \<le> 3 \<and> list_all isDigitC f \<and> (length f > 1 \<longrightarrow> hd f \<noteq> CHR ''0'') \<and>
     digitsVal f 0 \<le> 255"

definition parseIPv4Fields :: "string \<Rightarrow> nat list option" where
  "parseIPv4Fields s =
     (let fs = strSplit CHR ''.'' s
      in if length fs = 4 \<and> list_all isOctet fs then Some (map (\<lambda>f. nat (digitsVal f 0)) fs) else None)"

definition hexVal :: "char \<Rightarrow> nat option" where
  "hexVal c =
     (let n = (of_char c :: nat)
      in if isDigitC c then Some (n - 48)
         else if 97 \<le> n \<and> n \<le> 102 then Some (n - 87)
         else if 65 \<le> n \<and> n \<le> 70 then Some (n - 55) else None)"

text \<open>
  One round of the loop of \<^verbatim>\<open>parseIPv6\<close> reads a group of hexadecimal digits; eight rounds fill the 16
  bytes, so the first argument 8 is the loop's own bound.  \<open>acc\<close> holds the bytes read so far and \<open>el\<close>
  the position of the \<^verbatim>\<open>::\<close>.
\<close>

fun parseIPv6Loop :: "nat \<Rightarrow> string \<Rightarrow> nat list \<Rightarrow> nat option \<Rightarrow> (nat list \<times> nat option) option" where
  "parseIPv6Loop 0 s acc el = (if s = [] then Some (acc, el) else None)"
| "parseIPv6Loop (Suc n) s acc el =
     (let ds = takeWhile (\<lambda>c. hexVal c \<noteq> None) s; rest = dropWhile (\<lambda>c. hexVal c \<noteq> None) s;
          v = foldl (\<lambda>a c. a * 16 + the (hexVal c)) 0 ds
      in if ds = [] \<or> length ds > 4 then None
         else if rest \<noteq> [] \<and> hd rest = CHR ''.''
         then (if el = None \<and> length acc \<noteq> 12 \<or> length acc + 4 > 16 then None
               else case parseIPv4Fields s of None \<Rightarrow> None | Some b \<Rightarrow> Some (acc @ b, el))
         else let acc' = acc @ [v div 256, v mod 256]
              in if rest = [] then Some (acc', el)
                 else if hd rest \<noteq> CHR '':'' \<or> length rest = 1 then None
                 else let s1 = tl rest
                      in if hd s1 = CHR '':''
                         then (if el \<noteq> None then None
                               else if tl s1 = [] then Some (acc', Some (length acc'))
                               else parseIPv6Loop n (tl s1) acc' (Some (length acc')))
                         else parseIPv6Loop n s1 acc' el)"

definition parseIPv6 :: "string \<Rightarrow> nat list option" where
  "parseIPv6 s =
     (if s = ''::'' then Some (replicate 16 0)
      else case (if prefix ''::'' s then parseIPv6Loop 8 (drop 2 s) [] (Some 0) else parseIPv6Loop 8 s [] None) of
             None \<Rightarrow> None
           | Some (acc, None) \<Rightarrow> if length acc = 16 then Some acc else None
           | Some (acc, Some k) \<Rightarrow>
               if length acc < 16 then Some (take k acc @ replicate (16 - length acc) 0 @ drop k acc) else None)"

definition ParseIP :: "string \<Rightarrow> nat list option" where
  "ParseIP s =
     (case find (\<lambda>c. c = CHR ''.'' \<or> c = CHR '':'' \<or> c = CHR ''%'') s of
        None \<Rightarrow> None
      | Some c \<Rightarrow>
          if c = CHR ''.'' then map_option (\<lambda>b. replicate 10 0 @ [255, 255] @ b) (parseIPv4Fields s)
          else if c = CHR '':'' then (if CHR ''%'' \<in> set s then None else parseIPv6 s) else None)"

definition To4 :: "nat list \<Rightarrow> nat list" where
  "To4 ip = (if take 12 ip = replicate 10 0 @ [255, 255] then drop 12 ip else ip)"

definition bytesVal :: "nat list \<Rightarrow> nat" where
  "bytesVal bs = foldl (\<lambda>a b. a * 256 + b) 0 bs"

text \<open>\<^verbatim>\<open>(*IPNet).Contains\<close>: a network is its bytes and the length of its prefix in bits.\<close>

definition cidrContains :: "nat list \<times> nat \<Rightarrow> nat list \<Rightarrow> bool" where
  "cidrContains net ip \<longleftrightarrow>
     (let b = To4 ip; k = 8 * length (fst net) - snd net
      in length b = length (fst net) \<and> bytesVal b div 2 ^ k = bytesVal (fst net) div 2 ^ k)"

definition privateRanges :: "(nat list \<times> nat) list" where
  "privateRanges =
     [([127, 0, 0, 0], 8), ([10, 0, 0, 0], 8), ([172, 16, 0, 0], 12), ([192, 168, 0, 0], 16),
      (replicate 15 0 @ [1], 128), ([252] @ replicate 15 0, 7), ([169, 254, 0, 0], 16),
      ([100, 64, 0, 0], 10)]"

definition isPrivateIP :: "string \<Rightarrow> bool" where
  "isPrivateIP ip =
     (case ParseIP ip of None \<Rightarrow> True | Some b \<Rightarrow> list_ex (\<lambda>r. cidrContains r b) privateRanges)"

section \<open>VPN and datacenter detection\<close>

definition datacenterKeywords :: "string list" where
  "datacenterKeywords =
    [
     ''amazon'', ''aws'', ''digitalocean'', ''linode'', ''akamai'', ''vultr'', ''hetzner'',
     ''ovh'', ''scaleway'', ''contabo'', ''leaseweb'', ''choopa'', ''psychz'', ''cogent'',
     ''zayo'', ''hurricane electric'', ''microsoft azure'', ''google cloud'', ''google llc'',
     ''alibaba'', ''tencent cloud'', ''ibm cloud'', ''nordvpn'', ''expressvpn'',
     ''privateinternet'', ''pia '', ''mullvad'', ''protonvpn'', ''cyberghost'', ''surfshark'',
     ''ipvanish'', ''purevpn'', ''hidemyass'', ''tunnelbear'', ''windscribe'', ''vpn unlimited'',
     ''perfect privacy'', ''ivacy'', ''torguard'', ''anonine'', ''lightspeed networks'', ''vpn'',
     ''proxy'', ''tor exit'', ''anonymizer'', ''datacenter'', ''data center'', ''hosting'',
     ''colocation'', ''colo '']"

definition checkProxycheck :: "env \<Rightarrow> string \<Rightarrow> bool" where
  "checkProxycheck e ip =
     (case e_proxycheck e ip of
        None \<Rightarrow> False
      | Some r \<Rightarrow>
          (case pxStatus r of
             None \<Rightarrow> False
           | Some st \<Rightarrow> (st = ''ok'' \<or> st = ''warning'') \<and> pxProxy r ip = Some ''yes''))"

definition checkIPAPI :: "env \<Rightarrow> string \<Rightarrow> bool" where
  "checkIPAPI e ip =
     (case e_ipAPI e ip of
        None \<Rightarrow> False
      | Some r \<Rightarrow>
          if iaStatus r \<noteq> ''success'' then False
          else if iaProxy r \<or> iaHosting r then True
          else let combined = ToLower (e_uniLower e) (iaISP r @ '' '' @ iaOrg r @ '' '' @ iaAS r)
               in list_ex (strContains combined) datacenterKeywords)"

definition isVPNOrDatacenter :: "env \<Rightarrow> string \<Rightarrow> NexusServer \<Rightarrow> NexusServer \<times> bool" where
  "isVPNOrDatacenter e ip s =
     (if e_getenv e ''PHAZE_BLOCK_VPN'' \<noteq> ''1'' then (s, False)
      else if isPrivateIP ip then (s, False)
      else case map_of (ipCheckCache s) ip of
             Some v \<Rightarrow> (s, v)
           | None \<Rightarrow>
               let result = checkProxycheck e ip \<or> checkIPAPI e ip
               in (s\<lparr>ipCheckCache := aput ip result (ipCheckCache s)\<rparr>, result))"

section \<open>Disposable addresses\<close>

definition disposableDomains :: "string list" where
  "disposableDomains =
    [
     ''afterdo.com'', ''synsky.com'', ''mailinator.com'', ''mailinator2.com'', ''suremail.info'',
     ''tradermail.info'', ''mailinater.com'', ''mailinator.net'', ''guerrillamail.com'',
     ''guerrillamail.net'', ''guerrillamail.org'', ''guerrillamail.de'', ''guerrillamail.biz'',
     ''guerrillamail.info'', ''guerrillamailblock.com'', ''grr.la'', ''spam4.me'',
     ''sharklasers.com'', ''guerrillamailblock.com'', ''10minutemail.com'', ''10minutemail.net'',
     ''10minutemail.org'', ''10minutemail.de'', ''10minutesmail.com'', ''10minutemail.co.uk'',
     ''tempmail.com'', ''tempmail.net'', ''temp-mail.org'', ''temp-mail.io'', ''tempinbox.com'',
     ''throwam.com'', ''throwam.net'', ''trashmail.com'', ''trashmail.me'', ''trashmail.at'',
     ''trashmail.io'', ''trashmail.net'', ''trashmail.org'', ''trashmailer.com'',
     ''dispostable.com'', ''mailnesia.com'', ''maildrop.cc'', ''fakeinbox.com'',
     ''fake-box.com'', ''yopmail.com'', ''yopmail.fr'', ''cool.fr.nf'', ''jetable.fr.nf'',
     ''nospam.ze.tc'', ''nomail.xl.cx'', ''mega.zik.dj'', ''speed.1s.fr'', ''courriel.fr.nf'',
     ''moncourrier.fr.nf'', ''monemail.fr.nf'', ''monmail.fr.nf'', ''spamgourmet.com'',
     ''spamgourmet.net'', ''spamgourmet.org'', ''spamfree24.org'', ''spamgob.com'',
     ''spamcon.org'', ''spam.la'', ''discard.email'', ''mailnull.com'', ''devnullmail.com'',
     ''nowaste.info'', ''nwldx.com'', ''getairmail.com'', ''mailexpire.com'', ''filzmail.com'',
     ''gowaymail.com'', ''kasmail.com'', ''klzlk.com'', ''uroid.com'', ''mailnew.com'',
     ''protonmail.ch.tc'', ''jetable.com'', ''jetable.net'', ''jetable.org'', ''jetable.fr'',
     ''spamex.com'', ''spamhole.com'', ''spamoff.de'', ''spamspot.com'', ''spamstack.net'',
     ''spamthis.co.uk'', ''spamthisplease.com'', ''spamtroll.net'', ''spamwc.de'',
     ''spamy.info'', ''throwaway.email'', ''throwam.com'', ''noclickemail.com'',
     ''binkmail.com'', ''bobmail.info'', ''dayrep.com'', ''dingbone.com'', ''dontreg.com'',
     ''dontsendmespam.de'', ''dump-email.info'', ''dumpandforfeit.com'', ''dumpmail.de'',
     ''dumpyemail.com'', ''e4ward.com'', ''email60.com'', ''emailias.com'', ''emailinfive.com'',
     ''emailmiser.com'', ''emailsensei.com'', ''emailtemporanea.com'', ''emailtemporanea.net'',
     ''emailtemporar.ro'', ''emailthe.net'', ''emailtmp.com'', ''emailwarden.com'',
     ''emailxfer.com'', ''emz.net'', ''fakedemail.com'', ''fastacura.com'', ''fastchevy.com'',
     ''fastchrysler.com'', ''fastkawasaki.com'', ''fastmazda.com'', ''fastnissan.com'',
     ''fastsubaru.com'', ''fastsuzuki.com'', ''fasttoyota.com'', ''fastyamaha.com'',
     ''filzmail.com'', ''fizmail.com'', ''fortunize.com'', ''frapmail.com'', ''garliclife.com'',
     ''get2mail.fr'', ''getonemail.com'', ''gishpuppy.com'', ''gowikibooks.com'',
     ''gowikicampus.com'', ''gowikicars.com'', ''gowikifilms.com'', ''gowikigames.com'',
     ''gowikimusic.com'', ''gowikinetwork.com'', ''gowikitravel.com'', ''gowikitv.com'',
     ''great-host.in'', ''greensloth.com'', ''gsrv.co.uk'', ''guerillamail.com'',
     ''haltospam.com'', ''herp.in'', ''hide.biz.st'', ''hidemail.de'', ''hidzz.com'',
     ''hochsitze.com'', ''hopemail.biz'', ''ieatspam.eu'', ''ieatspam.info'', ''ieh-mail.de'',
     ''ihateyoualot.info'', ''iheartspam.org'', ''imails.info'', ''inboxclean.com'',
     ''inboxclean.org'', ''inoutmail.de'', ''inoutmail.eu'', ''inoutmail.info'',
     ''inoutmail.net'', ''iodizc.com'', ''ipoo.org'', ''irish2me.com'', ''iwi.net'',
     ''jetable.pp.ua'', ''jnxjn.com'', ''joliecode.com'', ''joomlacity.us'', ''junk.to'',
     ''junkmail.com'', ''junkmail.ga'', ''junkmail.gq'', ''kademen.com'', ''kamsg.com'',
     ''keepmymail.com'', ''killmail.com'', ''killmail.net'', ''kir.ch.tc'', ''klassmaster.com'',
     ''klassmaster.net'', ''klassmaster.org'', ''kurzepost.de'', ''letthemeatspam.com'',
     ''lhsdv.com'', ''lifebyfood.com'', ''link2mail.net'', ''litedrop.com'', ''lol.ovpn.to'',
     ''lookugly.com'', ''lopl.co.cc'', ''lortemail.dk'', ''lr78.com'', ''lroid.com'',
     ''lukop.dk'', ''m21.cc'', ''mail-filter.com'', ''mail-temporaire.fr'', ''mail.by'',
     ''mail.mezimages.net'', ''mail4trash.com'', ''mailbidon.com'', ''mailbiz.biz'',
     ''mailblocks.com'', ''mailcatch.com'', ''maildrop.cf'', ''maileater.com'',
     ''mailexpire.com'', ''mailforspam.com'', ''mailfreeonline.com'', ''mailguard.me'',
     ''mailin8r.com'', ''mailinater.com'', ''mailme.lv'', ''mailme24.com'', ''mailmetrash.com'',
     ''mailmoat.com'', ''mailnew.com'', ''mailnull.com'', ''mailquack.com'', ''mailseal.de'',
     ''mailshell.com'', ''mailsiphon.com'', ''mailslite.com'', ''mailtemp.info'',
     ''mailtemporario.com.br'', ''mailtome.de'', ''mailtothis.com'', ''mailzilla.org'',
     ''makemetheking.com'', ''manybrain.com'', ''mbx.cc'', ''mega.zik.dj'', ''meltmail.com'',
     ''messagebeamer.de'', ''mierdamail.com'', ''mintemail.com'', ''misterpinball.de'',
     ''moncourrier.fr.nf'', ''monemail.fr.nf'', ''monmail.fr.nf'', ''moot.es'', ''mozej.com'',
     ''msa.minsmail.com'', ''mt2009.com'', ''mt2014.com'', ''mx0.wwwnew.eu'',
     ''my10minutemail.com'', ''mypartyclip.de'', ''myphantomemail.com'', ''myspamless.com'',
     ''mytempemail.com'', ''mytrashmail.com'', ''nabuma.com'', ''neomailbox.com'',
     ''netmails.com'', ''netmails.net'', ''neverbox.com'', ''noclickemail.com'',
     ''nogmailspam.info'', ''nomail.pw'', ''nomail.xl.cx'', ''nospamfor.us'',
     ''nospamthanks.info'', ''notmailinator.com'', ''nowmymail.com'', ''nwldx.com'',
     ''objectmail.com'', ''obobbo.com'', ''odnorazovoe.ru'', ''oneoffemail.com'',
     ''onewaymail.com'', ''oopi.org'', ''ovpn.to'', ''owlpic.com'', ''pancakemail.com'',
     ''pimpedupmyspace.com'', ''pjjkp.com'', ''plexolan.de'', ''pookmail.com'', ''privacy.net'',
     ''proxymail.eu'', ''prtnx.com'', ''prtz.eu'', ''punkass.com'',
     ''putthisinyourspamdatabase.com'', ''qisdo.com'', ''qisoa.com'', ''qoika.com'',
     ''quickinbox.com'', ''rcpt.at'', ''re-gister.com'', ''recode.me'', ''recursor.net'',
     ''recyclemail.dk'', ''regbypass.com'', ''regbypass.comsafe-mail.net'', ''rejectmail.com'',
     ''rklips.com'', ''rmqkr.net'', ''rn.com'', ''royal.net'', ''rppkn.com'', ''rtrtr.com'',
     ''s0ny.net'', ''safe-mail.net'', ''safetymail.info'', ''safetypost.de'', ''sandelf.de'',
     ''saynotospams.com'', ''s-mail.ga'', ''schafmail.de'', ''schrott-email.de'',
     ''secretemail.de'', ''secure-mail.biz'', ''selfdestructingmail.com'', ''sendspamhere.com'',
     ''sharklasers.com'', ''shiftmail.com'', ''shitmail.me'', ''shitware.nl'', ''shortmail.net'',
     ''sibmail.com'', ''skeefmail.com'', ''slapsfromlastnight.com'', ''slaskpost.se'',
     ''slave-auctions.net'', ''slippery.email'', ''smellfear.com'', ''snkmail.com'',
     ''sofimail.com'', ''sofort-mail.de'', ''sogetthis.com'', ''solvemail.info'', ''spamail.de'',
     ''spam.la'', ''spam.su'', ''spamavert.com'', ''spambog.com'', ''spambog.de'',
     ''spambog.ru'', ''spambooger.com'', ''spamcannon.com'', ''spamcannon.net'',
     ''spamcero.com'', ''spamcon.org'', ''spamcorptastic.com'', ''spamcowboy.com'',
     ''spamcowboy.net'', ''spamcowboy.org'', ''spamday.com'', ''spamdecoy.net'',
     ''spameater.com'', ''spameater.org'', ''spamex.com'', ''spamfree.eu'', ''spamfree24.de'',
     ''spamfree24.eu'', ''spamfree24.info'', ''spamfree24.net'', ''spamfree24.org'',
     ''spamgoes.in'', ''spamgourmet.com'', ''spamgourmet.net'', ''spamgourmet.org'',
     ''spamherelots.com'', ''spamhereplease.com'', ''spamhole.com'', ''spamify.com'',
     ''spaminator.de'', ''spamkill.info'', ''spaml.com'', ''spaml.de'', ''spammotel.com'',
     ''spammy.host'', ''spamnot.net'', ''spamoff.de'', ''spamslicer.com'', ''spamspot.com'',
     ''spamstack.net'', ''spamthis.co.uk'', ''spamthisplease.com'', ''spamtroll.net'',
     ''spamwc.de'', ''spamy.info'', ''speed.1s.fr'', ''spoofmail.de'', ''squizzy.de'',
     ''squizzy.eu'', ''squizzy.net'', ''startkeys.com'', ''stexsy.com'', ''stinkefinger.net'',
     ''stop-my-spam.com'', ''stuffmail.de'', ''super-auswahl.de'', ''supergreatmail.com'',
     ''supermailer.jp'', ''superrito.com'', ''superstachel.de'', ''suremail.info'',
     ''sweetxxx.de'', ''tafmail.com'', ''tagyourself.com'', ''tank.efxs.ca'',
     ''tapchicoupon.com'', ''taptoy.com'', ''teewars.org'', ''telecomix.pl'', ''teleworm.com'',
     ''teleworm.us'', ''temp.emeraldwebmail.com'', ''temp.headstrong.de'', ''temp15.com'',
     ''tempail.com'', ''tempalias.com'', ''tempe-mail.com'', ''tempemail.biz'',
     ''tempemail.com'', ''tempemail.net'', ''tempimbox.com'', ''tempmail.de'', ''tempmail.eu'',
     ''tempmail.it'', ''tempmail.org'', ''tempmail.pp.ua'', ''tempmail.us'', ''tempomail.fr'',
     ''temporaryemail.net'', ''temporaryemail.us'', ''temporaryforwarding.com'',
     ''temporaryinbox.com'', ''temporarymailaddress.com'', ''tempthe.net'', ''thankyou2010.com'',
     ''thisisnotmyrealemail.com'', ''throwam.com'', ''throwaway.email'', ''tilien.com'',
     ''tmail.com'', ''tmail.ws'', ''tmailinator.com'', ''toiea.com'', ''toomail.biz'',
     ''topranklist.de'', ''tradermail.info'', ''trash-amil.com'', ''trash-mail.at'',
     ''trash-mail.com'', ''trash-mail.de'', ''trash-mail.ga'', ''trash-mail.gq'',
     ''trash-mail.io'', ''trash-mail.ml'', ''trash-mail.tk'', ''trash2009.com'',
     ''trash2010.com'', ''trashdevil.com'', ''trashdevil.de'', ''trashemail.de'',
     ''trashimail.de'', ''trashmail.at'', ''trashmail.com'', ''trashmail.de'', ''trashmail.io'',
     ''trashmail.me'', ''trashmail.net'', ''trashmail.org'', ''trashmail.xyz'',
     ''trashmailer.com'', ''trashpanda.de'', ''trashymail.com'', ''trbvm.com'', ''trialmail.de'',
     ''trickmail.net'', ''trillianpro.com'', ''tryalert.com'', ''turual.com'', ''twinmail.de'',
     ''tyldd.com'', ''uggsrock.com'', ''umail.net'', ''uroid.com'', ''utemail.net'',
     ''veryrealemail.com'', ''viditag.com'', ''viewcastmedia.com'', ''viewcastmedia.net'',
     ''viewcastmedia.org'', ''vipmail.pw'', ''vomoto.com'', ''vpn.st'', ''vsimcard.com'',
     ''vubby.com'', ''wasteland.raptors.dk'', ''watch-harry-potter.com'', ''webemail.me'',
     ''weg-werf-email.de'', ''wegwerf-email.at'', ''wegwerf-email.de'', ''wegwerf-email.net'',
     ''wegwerf-email.org'', ''wegwerfadresse.de'', ''wegwerfemail.com'', ''wegwerfemail.de'',
     ''wegwerfmail.de'', ''wegwerfmail.info'', ''wegwerfmail.net'', ''wegwerfmail.org'',
     ''wetrainbostonterriers.com'', ''whyspam.me'', ''willhackforfood.biz'',
     ''willselfdestruct.com'', ''wilemail.com'', ''wimsg.com'', ''wonobo.com'', ''xagloo.com'',
     ''xemaps.com'', ''xents.com'', ''xmaily.com'', ''xoxy.net'', ''xyzfree.net'',
     ''yapped.net'', ''yep.it'', ''yodx.ro'', ''yopmail.com'', ''yopmail.fr'',
     ''yourdomain.com'', ''yuurok.com'', ''zehnminutenmail.de'', ''zetmail.com'',
     ''zippymail.info'', ''zoemail.net'', ''zoemail.org'', ''zomg.info'', ''zxcv.com'',
     ''zxcvbnm.com'', ''zzz.com'']"

text \<open>\<^verbatim>\<open>Some reason\<close> says that the address is rejected.\<close>

definition isDisposableEmail :: "env \<Rightarrow> string \<Rightarrow> string option" where
  "isDisposableEmail e email =
     (case cutLast CHR ''@'' email of
        None \<Rightarrow> Some ''invalid email''
      | Some rest \<Rightarrow>
          let domain = ToLower (e_uniLower e) (TrimSpace rest);
              extra = TrimSpace (e_getenv e ''PHAZE_BLOCKED_EMAIL_DOMAINS'');
              temporary = ''disposable or temporary email addresses are not allowed'';
              noMX = ''email domain has no mail servers''
          in if domain = '''' then Some ''invalid email domain''
             else if domain \<in> set disposableDomains then Some temporary
             else if extra \<noteq> '''' \<and>
                list_ex (\<lambda>d. ToLower (e_uniLower e) (TrimSpace d) = domain) (strSplit CHR '','' extra)
             then Some temporary
             else case e_lookupMX e domain of
                    MXNotFound \<Rightarrow> Some noMX
                  | MXError \<Rightarrow> None
                  | MXRecords n \<Rightarrow> if n = 0 then Some noMX else None)"

section \<open>What the checks touch\<close>

lemma isVPN_eq: "fst (isVPNOrDatacenter e ip s) = s\<lparr>ipCheckCache := ipCheckCache (fst (isVPNOrDatacenter e ip s))\<rparr>"
  by (simp add: isVPNOrDatacenter_def Let_def split: option.split)

lemma isVPN_frame [simp]:
  "DB (fst (isVPNOrDatacenter e ip s)) = DB s" "Clients (fst (isVPNOrDatacenter e ip s)) = Clients s"
  "conns (fst (isVPNOrDatacenter e ip s)) = conns s" "outbox (fst (isVPNOrDatacenter e ip s)) = outbox s"
  "authTracker (fst (isVPNOrDatacenter e ip s)) = authTracker s"
  "live (fst (isVPNOrDatacenter e ip s)) = live s"
  "wsConnCount (fst (isVPNOrDatacenter e ip s)) = wsConnCount s"
  by (subst isVPN_eq, simp)+

text \<open>
  The cache makes a verdict final: once an address was looked up, every later check gives the same
  answer, whatever the services say by then and whichever addresses were checked in between.
\<close>

definition vpnChecks :: "(env \<times> string) list \<Rightarrow> NexusServer \<Rightarrow> NexusServer" where
  "vpnChecks xs s = fold (\<lambda>(e, ip) s. fst (isVPNOrDatacenter e ip s)) xs s"

lemma cache_kept:
  "map_of (ipCheckCache s) ip = Some v \<Longrightarrow> map_of (ipCheckCache (vpnChecks xs s)) ip = Some v"
proof (induction xs arbitrary: s)
  case (Cons x xs)
  obtain e a where x: "x = (e, a)" by (cases x)
  have "map_of (ipCheckCache (fst (isVPNOrDatacenter e a s))) ip = Some v"
    using Cons.prems by (auto simp: isVPNOrDatacenter_def Let_def split: option.split)
  from Cons.IH [OF this] show ?case by (simp add: vpnChecks_def x)
qed (simp add: vpnChecks_def)

lemma vpn_verdict_final:
  assumes "e_getenv e ''PHAZE_BLOCK_VPN'' = ''1''" and "e_getenv e' ''PHAZE_BLOCK_VPN'' = ''1''"
    and "isVPNOrDatacenter e ip s = (s1, v)"
  shows "isVPNOrDatacenter e' ip (vpnChecks xs s1) = (vpnChecks xs s1, v)"
proof (cases "isPrivateIP ip")
  case False
  with assms have "map_of (ipCheckCache s1) ip = Some v"
    by (auto simp: isVPNOrDatacenter_def Let_def split: option.splits)
  from cache_kept [OF this, of xs] False assms(2) show ?thesis by (simp add: isVPNOrDatacenter_def)
qed (use assms in \<open>simp add: isVPNOrDatacenter_def\<close>)

end
