(* ===== verification/Turn.thy ===== *)
theory Turn
  imports Nexus
begin

text \<open>
  TURN relays for calls: \<^verbatim>\<open>nexus_server/cfturn.go\<close> and \<^verbatim>\<open>generateMediaToken\<close> of \<^verbatim>\<open>nexus_server/main.go\<close>.
  The Cloudflare client keeps one credential set and refreshes it in the background; \<open>cfConfig\<close> is one
  call of \<^verbatim>\<open>Config\<close>, \<open>cfRefresh\<close> the end of one \<^verbatim>\<open>refresh\<close>, whose \<^verbatim>\<open>fetch\<close> answered with \<open>Some\<close> configuration
  or failed.  Calls and background refreshes may interleave in any way (\<open>turn_step\<close>).
\<close>

section \<open>Cloudflare's list of ICE servers\<close>

record cfICEServer =
  ice_URLs :: "string list"
  ice_Username :: string
  ice_Credential :: string

definition usesPort53 :: "string \<Rightarrow> bool" where
  "usesPort53 iceURL =
     (let h = (if CHR '':'' \<in> set iceURL then tl (dropWhile (\<lambda>c. c \<noteq> CHR '':'') iceURL) else iceURL);
          hp = takeWhile (\<lambda>c. c \<noteq> CHR ''?'') h
      in hasSuffix hp '':53'')"

text \<open>The two loops: the TURN URLs, the STUN URLs and the credentials seen last.\<close>

type_synonym iceAcc = "string list \<times> string list \<times> string \<times> string"

definition isTurnURL :: "string \<Rightarrow> bool" where
  "isTurnURL u \<longleftrightarrow> hasPrefix u ''turn:'' \<or> hasPrefix u ''turns:''"

definition iceURL :: "cfICEServer \<Rightarrow> iceAcc \<Rightarrow> string \<Rightarrow> iceAcc" where
  "iceURL sv acc u =
     (case acc of (turn, stun, user, cred) \<Rightarrow>
        if usesPort53 u then acc
        else if isTurnURL u
        then (if ice_Username sv \<noteq> '''' then (turn @ [u], stun, ice_Username sv, ice_Credential sv)
              else (turn @ [u], stun, user, cred))
        else if hasPrefix u ''stun:'' then (turn, stun @ [u], user, cred)
        else acc)"

definition iceServers :: "cfICEServer list \<Rightarrow> iceAcc" where
  "iceServers svs = foldl (\<lambda>acc sv. foldl (iceURL sv) acc (ice_URLs sv)) ([], [], '''', '''') svs"

definition turnConfigFromICE :: "cfICEServer list \<Rightarrow> TurnConfig option" where
  "turnConfigFromICE svs =
     (case iceServers svs of (turn, stun, user, cred) \<Rightarrow>
        if turn = [] \<or> user = '''' \<or> cred = '''' then None
        else Some \<lparr> tcURL = hd (turn @ stun), tcURLs = tl (turn @ stun), tcUsername = user, tcPassword = cred \<rparr>)"

definition ice_ok :: "iceAcc \<Rightarrow> bool" where
  "ice_ok acc \<longleftrightarrow> (case acc of (turn, stun, user, cred) \<Rightarrow>
     list_all (\<lambda>u. isTurnURL u \<and> \<not> usesPort53 u) turn \<and>
     list_all (\<lambda>u. hasPrefix u ''stun:'' \<and> \<not> usesPort53 u) stun)"

lemma ice_ok_URL: "ice_ok acc \<Longrightarrow> ice_ok (iceURL sv acc u)"
  by (auto simp: ice_ok_def iceURL_def split: prod.splits)

lemma ice_ok_server: "ice_ok acc \<Longrightarrow> ice_ok (foldl (iceURL sv) acc us)"
  by (induction us arbitrary: acc) (simp_all add: ice_ok_URL)

lemma ice_ok_servers: "ice_ok acc \<Longrightarrow> ice_ok (foldl (\<lambda>acc sv. foldl (iceURL sv) acc (ice_URLs sv)) acc svs)"
  by (induction svs arbitrary: acc) (simp_all add: ice_ok_server)

text \<open>
  A usable configuration offers a TURN relay first, has credentials, and no URL on port 53.
\<close>

lemma turnConfigFromICE_usable:
  assumes "turnConfigFromICE svs = Some cfg"
  shows "isTurnURL (tcURL cfg)" and "tcUsername cfg \<noteq> ''''" and "tcPassword cfg \<noteq> ''''"
    and "u \<in> set (tcURL cfg # tcURLs cfg) \<Longrightarrow> \<not> usesPort53 u"
proof -
  obtain turn stun user cred where i: "iceServers svs = (turn, stun, user, cred)"
    by (cases "iceServers svs") auto
  have "ice_ok (turn, stun, user, cred)"
    unfolding i [symmetric] iceServers_def by (rule ice_ok_servers) (simp add: ice_ok_def)
  with i assms show "isTurnURL (tcURL cfg)" and "tcUsername cfg \<noteq> ''''" and "tcPassword cfg \<noteq> ''''"
    and "u \<in> set (tcURL cfg # tcURLs cfg) \<Longrightarrow> \<not> usesPort53 u"
    by (cases turn; auto simp: turnConfigFromICE_def ice_ok_def list_all_iff split: if_splits)+
qed

section \<open>The credential cache\<close>

definition cfTURNTTL :: time where "cfTURNTTL = 48 * hour"
definition cfTURNRefreshBefore :: time where "cfTURNRefreshBefore = 24 * hour"
definition cfTURNRetryAfter :: time where "cfTURNRetryAfter = minute"

record cfTURN =
  cf_cached :: "TurnConfig option"
  cf_expires :: time
  cf_lastFail :: time
  cf_refreshing :: bool

text \<open>The zero \<^verbatim>\<open>time.Time\<close>, the first instant of year 1.\<close>

definition zeroTime :: time where "zeroTime = - (62135596800 * second)"

definition cfTURN0 :: cfTURN where
  "cfTURN0 = \<lparr> cf_cached = None, cf_expires = zeroTime, cf_lastFail = zeroTime, cf_refreshing = False \<rparr>"

definition cfRefresh :: "time \<Rightarrow> TurnConfig option \<Rightarrow> cfTURN \<Rightarrow> cfTURN \<times> TurnConfig option" where
  "cfRefresh now fetched c =
     (let c1 = c\<lparr>cf_refreshing := False\<rparr>
      in case fetched of
           None \<Rightarrow> (c1\<lparr>cf_lastFail := now\<rparr>,
                    if cf_cached c1 \<noteq> None \<and> now < cf_expires c1 then cf_cached c1 else None)
         | Some cfg \<Rightarrow> (c1\<lparr>cf_cached := Some cfg, cf_expires := now + cfTURNTTL\<rparr>, Some cfg))"

datatype cfAnswer = Answer "TurnConfig option" | FetchInline

definition cfConfig :: "time \<Rightarrow> cfTURN \<Rightarrow> cfTURN \<times> cfAnswer" where
  "cfConfig now c =
     (if cf_cached c \<noteq> None \<and> now < cf_expires c
      then (if cf_expires c - now < cfTURNRefreshBefore \<and> \<not> cf_refreshing c \<and> now - cf_lastFail c > cfTURNRetryAfter
            then (c\<lparr>cf_refreshing := True\<rparr>, Answer (cf_cached c)) else (c, Answer (cf_cached c)))
      else if now - cf_lastFail c < cfTURNRetryAfter then (c, Answer None)
      else (c, FetchInline))"

text \<open>
  A run of the cache: at each time either \<^verbatim>\<open>Config\<close> answers from the cache, or a fetch that had been
  started (inline or in the background) ends.  \<open>fetches\<close> is the history of successful fetches with
  their times and \<open>answers\<close> what callers were given.
\<close>

inductive turn_step ::
  "cfTURN \<times> time \<times> (time \<times> TurnConfig) list \<Rightarrow> (time \<times> TurnConfig option) option \<Rightarrow>
   cfTURN \<times> time \<times> (time \<times> TurnConfig) list \<Rightarrow> bool" where
  Cached: "t \<le> t' \<Longrightarrow> cfConfig t' c = (c', Answer r) \<Longrightarrow> turn_step (c, t, h) (Some (t', r)) (c', t', h)"
| Inline: "t \<le> t' \<Longrightarrow> cfConfig t' c = (c', FetchInline) \<Longrightarrow> turn_step (c, t, h) None (c', t', h)"
| Done: "t \<le> t' \<Longrightarrow> cfRefresh t' fetched c = (c', r) \<Longrightarrow>
     turn_step (c, t, h) (Some (t', r))
       (c', t', case fetched of None \<Rightarrow> h | Some cfg \<Rightarrow> (t', cfg) # h)"

inductive turn_reachable :: "cfTURN \<times> time \<times> (time \<times> TurnConfig) list \<Rightarrow> bool" where
  Start: "turn_reachable (cfTURN0, t, [])"
| Step: "turn_reachable x \<Longrightarrow> turn_step x a y \<Longrightarrow> turn_reachable y"

inductive_cases turn_stepE: "turn_step (c, t, h) a y"

definition turn_ok :: "cfTURN \<times> time \<times> (time \<times> TurnConfig) list \<Rightarrow> bool" where
  "turn_ok x = (case x of (c, t, h) \<Rightarrow>
     (case cf_cached c of None \<Rightarrow> True
      | Some cfg \<Rightarrow> (cf_expires c - cfTURNTTL, cfg) \<in> set h) \<and> list_all (\<lambda>p. fst p \<le> t) h)"

lemma turn_ok_step: "turn_step x a y \<Longrightarrow> turn_ok x \<Longrightarrow> turn_ok y"
  by (induction rule: turn_step.induct)
    (auto simp: turn_ok_def cfConfig_def cfRefresh_def Let_def list_all_iff split: option.splits if_splits)

lemma turn_ok_reachable: "turn_reachable x \<Longrightarrow> turn_ok x"
proof (induction rule: turn_reachable.induct)
  case (Start t)
  show ?case by (simp add: turn_ok_def cfTURN0_def)
qed (rule turn_ok_step)

text \<open>C23: Callers are never given stale TURN credentials.  In every interleaving of calls, background
  refreshes and failing fetches, with a clock that does not go back, a configuration handed out at time
  \<open>t\<close> came from a successful fetch that ended less than 48 hours earlier.
\<close>

theorem turn_config_fresh:
  assumes "turn_reachable x" and "turn_step x (Some (t, Some cfg)) y"
  shows "\<exists>t0. t0 \<le> t \<and> t < t0 + cfTURNTTL \<and> (t0, cfg) \<in> set (snd (snd y))"
proof -
  obtain c t1 h where x: "x = (c, t1, h)" by (cases x)
  have ok: "turn_ok (c, t1, h)" using turn_ok_reachable [OF assms(1)] x by simp
  have h: "t0 \<le> t1" if "(t0, cfg0) \<in> set h" for t0 cfg0
    using ok that by (auto simp: turn_ok_def list_all_iff)
  have ttl: "0 < cfTURNTTL" by (simp add: cfTURNTTL_def duration_defs)
  have "\<exists>t0. t0 \<le> t \<and> t < t0 + cfTURNTTL \<and> (t0, cfg) \<in> set h" if "t1 \<le> t" "cf_cached c = Some cfg" "t < cf_expires c"
    using that ok h [of "cf_expires c - cfTURNTTL" cfg] by (intro exI [of _ "cf_expires c - cfTURNTTL"]) (simp add: turn_ok_def)
  with assms(2) ttl show ?thesis unfolding x
    by (elim turn_stepE) (auto simp: cfConfig_def cfRefresh_def Let_def split: if_splits option.splits)
qed

theorem turn_config_fresh_witness:
  "\<exists>t0. t0 \<le> 7 \<and> 7 < t0 + cfTURNTTL \<and>
     (t0, \<lparr> tcURL = ''turn:a'', tcURLs = [], tcUsername = ''u'', tcPassword = ''p'' \<rparr>) \<in>
       set [(5, \<lparr> tcURL = ''turn:a'', tcURLs = [], tcUsername = ''u'', tcPassword = ''p'' \<rparr>)]"
proof -
  let ?g = "\<lparr> tcURL = ''turn:a'', tcURLs = [], tcUsername = ''u'', tcPassword = ''p'' \<rparr>"
  let ?c = "cfTURN0\<lparr>cf_cached := Some ?g, cf_expires := 5 + cfTURNTTL\<rparr>"
  have "turn_step (cfTURN0, 5, []) (Some (5, Some ?g)) (?c, 5, case Some ?g of None \<Rightarrow> [] | Some g \<Rightarrow> [(5, g)])"
    by (rule turn_step.Done) (simp_all add: cfRefresh_def cfTURN0_def)
  then have "turn_reachable (?c, 5, [(5, ?g)])"
    using turn_reachable.Step [OF turn_reachable.Start [of 5]] by simp
  moreover have "turn_step (?c, 5, [(5, ?g)]) (Some (7, Some ?g)) (?c, 7, [(5, ?g)])"
    by (rule turn_step.Cached) (simp_all add: cfConfig_def cfTURNTTL_def cfTURNRefreshBefore_def duration_defs)
  ultimately show ?thesis by (auto dest: turn_config_fresh)
qed

section \<open>Media tokens\<close>

definition turnProvider :: "env \<Rightarrow> string" where
  "turnProvider e =
     (if e_cloudflare e \<noteq> None then ''cloudflare''
      else if e_getenv e ''PHAZE_TURN_URL'' \<noteq> '''' \<and> e_getenv e ''PHAZE_TURN_USERNAME'' \<noteq> '''' \<and>
              e_getenv e ''PHAZE_TURN_PASSWORD'' \<noteq> '''' then ''static''
      else if e_getenv e ''PHAZE_TURN_SECRET'' \<noteq> '''' \<and> e_getenv e ''PHAZE_TURN_URL'' \<noteq> '''' then ''coturn''
      else '''')"

definition generateMediaToken :: "env \<Rightarrow> string \<Rightarrow> TurnConfig option" where
  "generateMediaToken e username =
     (let url = e_getenv e ''PHAZE_TURN_URL''; secret = e_getenv e ''PHAZE_TURN_SECRET''
      in case e_cloudflare e of
           Some cfg \<Rightarrow> Some cfg
         | None \<Rightarrow>
             if url \<noteq> '''' \<and> e_getenv e ''PHAZE_TURN_USERNAME'' \<noteq> '''' \<and> e_getenv e ''PHAZE_TURN_PASSWORD'' \<noteq> ''''
             then let urls = strSplit CHR '','' url
                  in Some \<lparr> tcURL = TrimSpace (hd urls), tcURLs = map TrimSpace (tl urls),
                           tcUsername = e_getenv e ''PHAZE_TURN_USERNAME'',
                           tcPassword = e_getenv e ''PHAZE_TURN_PASSWORD'' \<rparr>
             else if secret \<noteq> '''' \<and> url \<noteq> ''''
             then let expiresIn = (if e_getenv e ''PHAZE_TURN_SHORT_TERM'' = ''true'' then 10 * minute else 24 * hour);
                      user = Itoa ((e_now e + expiresIn) div second) @ '':'' @ username
                  in Some \<lparr> tcURL = url, tcURLs = [], tcUsername = user,
                           tcPassword = e_hmacSHA1 e secret user \<rparr>
             else None)"

lemma turnProvider_iff: "turnProvider e = '''' \<longleftrightarrow> generateMediaToken e u = None"
  by (auto simp: turnProvider_def generateMediaToken_def Let_def split: option.splits)

end
