(* ===== verification/HandlersAuth.thy ===== *)
theory HandlersAuth
  imports Retention SignupChecks Turn
begin

text \<open>
  The cases of the message switch in \<^verbatim>\<open>handleConnections\<close> (\<^verbatim>\<open>nexus_server/ws_handlers.go\<close>) that deal
  with accounts and credentials, one definition \<open>h_\<dots>\<close> per case.  A handler gets the environment, the
  connection, the message and the state; \<^verbatim>\<open>username\<close> is the connection's own variable \<open>cLocalUser\<close>.
  Statements after \<^verbatim>\<open>go\<close> run at once, one of the schedules Go allows; \<^verbatim>\<open>time.Sleep\<close>, metrics and log
  lines leave no trace in the state.
\<close>

section \<open>Shared pieces\<close>

definition me :: "cid \<Rightarrow> NexusServer \<Rightarrow> string" where
  "me c s = cLocalUser (conns s c)"

definition peerIP :: "cid \<Rightarrow> NexusServer \<Rightarrow> string" where
  "peerIP c s = cIP (conns s c)"

abbreviation withTracker :: "(authFailTracker \<Rightarrow> authFailTracker) \<Rightarrow> NexusServer \<Rightarrow> NexusServer" where
  "withTracker f s \<equiv> s\<lparr>authTracker := f (authTracker s)\<rparr>"

definition isIPBlocked :: "string \<Rightarrow> NexusServer \<Rightarrow> bool" where
  "isIPBlocked ip s \<longleftrightarrow> ip \<in> set (blockedIPs s)"

definition blockIP :: "string \<Rightarrow> NexusServer \<Rightarrow> NexusServer" where
  "blockIP ip s =
     s\<lparr>blockedIPs := setAdd ip (blockedIPs s),
       DB := (DB s)\<lparr>blocked_ips := sql_insert_ignore (\<lambda>x. x) ip (blocked_ips (DB s))\<rparr>\<rparr>"

definition unblockIP :: "string \<Rightarrow> NexusServer \<Rightarrow> NexusServer" where
  "unblockIP ip s =
     s\<lparr>blockedIPs := removeAll ip (blockedIPs s),
       DB := (DB s)\<lparr>blocked_ips := sql_delete (\<lambda>x. x = ip) (blocked_ips (DB s))\<rparr>\<rparr>"

definition loadBlockedIPs :: "NexusServer \<Rightarrow> NexusServer" where
  "loadBlockedIPs s = s\<lparr>blockedIPs := fold setAdd (blocked_ips (DB s)) (blockedIPs s)\<rparr>"

definition checkIP :: "env \<Rightarrow> cid \<Rightarrow> NexusServer \<Rightarrow> NexusServer \<times> bool" where
  "checkIP e c s =
     (let (t, thr) = isIPThrottled (e_now e) (peerIP c s) (authTracker s) in (s\<lparr>authTracker := t\<rparr>, thr))"

definition autoBlock :: "env \<Rightarrow> cid \<Rightarrow> NexusServer \<Rightarrow> NexusServer" where
  "autoBlock e c s =
     (if shouldAutoBlock (e_now e) (peerIP c s) (authTracker s) then blockIP (peerIP c s) s else s)"

definition suspendedText :: "string \<Rightarrow> string" where
  "suspendedText reason = ''Account suspended'' @ (if reason \<noteq> '''' then '': '' @ reason else '''')"

definition bannedMsg :: "string \<Rightarrow> NexusMessage" where
  "bannedMsg reason = msg0\<lparr>mType := ''auth_result'', mError := suspendedText reason, mStatus := ''banned''\<rparr>"

definition touchLogin :: "env \<Rightarrow> cid \<Rightarrow> string \<Rightarrow> NexusServer \<Rightarrow> NexusServer" where
  "touchLogin e c username s =
     withDB (updUser username (\<lambda>u. u\<lparr>u_last_ip := peerIP c s, u_last_login_at := Some (sqlNow (e_now e))\<rparr>)) s"

definition registerConn :: "cid \<Rightarrow> string \<Rightarrow> NexusServer \<Rightarrow> NexusServer" where
  "registerConn c username s =
     addClient username c (withConn c (\<lambda>cl. cl\<lparr>cUsername := username, cStatus := ''Online''\<rparr>) s)"

definition setLocalUser :: "cid \<Rightarrow> string \<Rightarrow> NexusServer \<Rightarrow> NexusServer" where
  "setLocalUser c username s = withConn c (\<lambda>cl. cl\<lparr>cLocalUser := username\<rparr>) s"

definition authOk :: "env \<Rightarrow> string \<Rightarrow> string \<Rightarrow> NexusMessage" where
  "authOk e username token =
     msg0\<lparr>mType := ''auth_result'', mStatus := ''ok'', mSender := username, mQRToken := token,
          mTurnConfig := generateMediaToken e username\<rparr>"

fun sendList :: "env \<Rightarrow> cid \<Rightarrow> NexusMessage list \<Rightarrow> NexusServer \<Rightarrow> NexusServer" where
  "sendList e c [] s = s"
| "sendList e c (m # ms) s = sendList e c ms (Send e c m s)"

definition friendStatus :: "string \<Rightarrow> NexusServer \<Rightarrow> string" where
  "friendStatus f s =
     (case clientsOf f s of [] \<Rightarrow> ''Offline'' | x # _ \<Rightarrow> publicStatus (cStatus (conns s x)))"

definition lastDMSecond :: "string \<Rightarrow> string \<Rightarrow> database \<Rightarrow> int" where
  "lastDMSecond a b d =
     foldr max (map (\<lambda>r. dr_created_at r div second) (filter (dmBetween a b 0) (dm_messages d))) 0"

definition sendFriendStatuses :: "env \<Rightarrow> cid \<Rightarrow> string \<Rightarrow> bool \<Rightarrow> NexusServer \<Rightarrow> NexusServer" where
  "sendFriendStatuses e c username withTs s =
     sendList e c (map (\<lambda>f. msg0\<lparr>mType := ''friend_status'', mSender := f, mStatus := friendStatus f s,
         mTs := (if withTs then lastDMSecond username f (DB s) * 1000 else 0)\<rparr>) (getFriends username (DB s))) s"

definition sendPending :: "env \<Rightarrow> cid \<Rightarrow> string \<Rightarrow> NexusServer \<Rightarrow> NexusServer" where
  "sendPending e c username s =
     (let pending = getPendingRequests username (DB s)
      in if pending \<noteq> [] then Send e c (msg0\<lparr>mType := ''pending_requests'', mResults := pending\<rparr>) s else s)"

definition sendConvos :: "env \<Rightarrow> cid \<Rightarrow> string \<Rightarrow> NexusServer \<Rightarrow> NexusServer" where
  "sendConvos e c username s =
     sendList e c (map (\<lambda>m. m\<lparr>mType := ''convo_info''\<rparr>) (userConversations username (DB s))) s"

definition sendGroups :: "env \<Rightarrow> cid \<Rightarrow> string \<Rightarrow> NexusServer \<Rightarrow> NexusServer" where
  "sendGroups e c username s =
     (let groups = getContactGroups username (DB s)
      in if groups \<noteq> [] then Send e c (msg0\<lparr>mType := ''contact_groups'', mContactGroups := groups\<rparr>) s else s)"

definition sendPerks :: "env \<Rightarrow> cid \<Rightarrow> string \<Rightarrow> NexusServer \<Rightarrow> NexusServer" where
  "sendPerks e c username s = sendReferralPerks e c username (getFriends username (DB s)) s"

section \<open>Cookie pre-authentication\<close>

definition cookiePreAuth :: "env \<Rightarrow> cid \<Rightarrow> string \<Rightarrow> NexusServer \<Rightarrow> NexusServer" where
  "cookiePreAuth e c cookie s =
     (let u = sessionUsername (e_now e) cookie (DB s)
      in if u = '''' then s
         else let (banned, reason) = userBanInfo u (DB s)
              in if banned then Send e c (bannedMsg reason) s
                 else let s1 = setLocalUser c u s;
                          s2 = withDB (autoJoinGlobalSpace (e_now e) u) (touchLogin e c u s1);
                          s3 = Send e c (authOk e u '''') (registerConn c u s2);
                          s4 = deliverOfflineMessages e u c (announcePresence e u s3);
                          s5 = sendPerks e c u (sendFriendStatuses e c u True s4)
                      in sendGroups e c u (sendConvos e c u (sendPending e c u s5)))"

section \<open>Registration and verification\<close>

definition sanitizeRegErr :: "string \<Rightarrow> string" where
  "sanitizeRegErr regErr =
     (if strContains regErr ''UNIQUE'' \<or> strContains regErr ''unique''
      then (if strContains regErr ''username'' then ''Username already taken''
            else if strContains regErr ''email'' then ''Email already registered''
            else ''Account already exists'')
      else regErr)"

definition registerResult :: "string \<Rightarrow> NexusMessage" where
  "registerResult err = msg0\<lparr>mType := ''register_result'', mError := err\<rparr>"

definition storeReferrer :: "string \<Rightarrow> string \<Rightarrow> database \<Rightarrow> database" where
  "storeReferrer username refBy d =
     (let ref = TrimSpace refBy
      in if ref \<noteq> '''' \<and> ref \<noteq> username \<and> userRow ref d \<noteq> None
         then updUser username (\<lambda>u. u\<lparr>u_referred_by := ref\<rparr>) d else d)"

definition h_register :: "env \<Rightarrow> cid \<Rightarrow> NexusMessage \<Rightarrow> NexusServer \<Rightarrow> NexusServer" where
  "h_register e c msg s0 =
     (let (s, throttled) = checkIP e c s0; ip = peerIP c s0
      in if throttled
         then Send e c (registerResult ''Too many registration/login attempts. Try again later.'') (autoBlock e c s)
         else
           let (t1, many) = isSignupThrottled (e_now e) ip (authTracker s); s1 = s\<lparr>authTracker := t1\<rparr>
           in if many then Send e c (registerResult ''Too many accounts created from this network. Try again later.'') s1
              else let (s1v, vpn) = isVPNOrDatacenter e ip s1
              in if vpn
              then Send e c (registerResult ''Registration is not available from VPN or proxy connections. Please disable your VPN and try again.'') s1v
              else if isDisposableEmail e (mEmail msg) \<noteq> None
              then Send e c (registerResult ''Please use a real email address. Disposable or temporary addresses are not allowed.'') s1v
              else case registerUser e (mSender msg) (mEmail msg) (mMood msg) (mBody msg) s1v of
                     (s2, Inl err) \<Rightarrow>
                       Send e c (registerResult (sanitizeRegErr (errText err)))
                         (withTracker (recordFail (e_now e) ip '''') s2)
                   | (s2, Inr code) \<Rightarrow>
                       let s3 = withTracker (recordSignup (e_now e) ip) s2;
                           s4 = withDB (updUser (mSender msg) (\<lambda>u. u\<lparr>u_signup_ip := ip, u_last_ip := ip\<rparr>)) s3;
                           s5 = withDB (storeReferrer (mSender msg) (mRefBy msg)) s4;
                           link = ''https://phazechat.world/verify-email?u='' @ e_queryEscape e (mSender msg) @
                             ''&code='' @ e_queryEscape e code;
                           s6 = s5\<lparr>mails := mails s5 @ [MailVerification (mEmail msg) (mSender msg) link code]\<rparr>
                       in Send e c (msg0\<lparr>mType := ''register_result'', mStatus := ''pending_verification''\<rparr>) s6)"

definition h_verify_email :: "env \<Rightarrow> cid \<Rightarrow> NexusMessage \<Rightarrow> NexusServer \<Rightarrow> NexusServer" where
  "h_verify_email e c msg s =
     (let (d1, ok) = verifyUser (mSender msg) (mBody msg) (DB s)
      in if ok
         then let s1 = s\<lparr>DB := autoJoinGlobalSpace (e_now e) (mSender msg) d1\<rparr>
              in Send e c (msg0\<lparr>mType := ''verify_result'', mStatus := ''ok''\<rparr>) (onReferralVerified e (mSender msg) s1)
         else Send e c (msg0\<lparr>mType := ''verify_result'', mError := ''Invalid verification code''\<rparr>) s)"

definition h_resend_verification :: "env \<Rightarrow> cid \<Rightarrow> NexusMessage \<Rightarrow> NexusServer \<Rightarrow> NexusServer" where
  "h_resend_verification e c msg s =
     (let resent = msg0\<lparr>mType := ''register_result'', mStatus := ''code_resent''\<rparr>;
          target = (if me c s \<noteq> '''' then me c s else mSender msg)
      in if \<not> e_limiter e ''resend'' (peerIP c s) then Send e c resent s
         else if target = '''' then Send e c (registerResult ''Username required'') s
         else case userRow target (DB s) of
                None \<Rightarrow> Send e c resent s
              | Some u \<Rightarrow>
                  if u_email u = '''' \<or> u_is_verified u then Send e c resent s
                  else case randDigits e 6 s of
                         (s1, None) \<Rightarrow> Send e c (registerResult ''Internal error'') s1
                       | (s1, Some code) \<Rightarrow>
                           let s2 = withDB (updUser target (\<lambda>u. u\<lparr>u_verification_code := Some code\<rparr>)) s1
                           in Send e c resent (s2\<lparr>mails := mails s2 @ [MailResendCode (u_email u) code]\<rparr>))"

section \<open>Signing in\<close>

definition authResultErr :: "string \<Rightarrow> string \<Rightarrow> NexusMessage" where
  "authResultErr err status = msg0\<lparr>mType := ''auth_result'', mError := err, mStatus := status\<rparr>"

definition emDash :: string where "emDash = [chr 226, chr 128, chr 148]"

definition signedIn :: "env \<Rightarrow> cid \<Rightarrow> NexusMessage \<Rightarrow> NexusServer \<Rightarrow> NexusServer" where
  "signedIn e c msg s =
     (let u = mSender msg;
          s1 = withTracker (recordSuccess (peerIP c s) u \<circ> recordTOTPSuccess u) s;
          s2 = setLocalUser c u s1;
          s3 = withDB (autoJoinGlobalSpace (e_now e) u) (touchLogin e c u s2);
          (s4, tok, err) = issueSessionToken e u (mDeviceInfo msg) s3;
          s5 = Send e c (authOk e u tok) (registerConn c u s4);
          s6 = deliverOfflineMessages e u c (announcePresence e u s5);
          s7 = sendGroups e c u (sendConvos e c u (sendPending e c u s6))
      in sendPerks e c u (sendFriendStatuses e c u True s7))"

definition secondFactor :: "env \<Rightarrow> NexusMessage \<Rightarrow> NexusServer \<Rightarrow> NexusServer \<times> bool" where
  "secondFactor e msg s =
     (let (s1, ok) = verifyTOTP e (mSender msg) (mTOTPCode msg) s
      in if ok then (s1, True)
         else let (d2, used) = consumeBackupCode e (mSender msg) (mTOTPCode msg) (DB s1) in (s1\<lparr>DB := d2\<rparr>, used))"

definition h_auth :: "env \<Rightarrow> cid \<Rightarrow> NexusMessage \<Rightarrow> NexusServer \<Rightarrow> NexusServer" where
  "h_auth e c msg s0 =
     (if mBody msg = '''' then Send e c (authResultErr ''Password required'' '''') s0
      else let (s, throttled) = checkIP e c s0
      in if throttled
         then Send e c (authResultErr ''Too many failed attempts. Try again later.'' '''') (autoBlock e c s)
         else let (t1, locked) = isUserLocked (e_now e) (mSender msg) (authTracker s); s1 = s\<lparr>authTracker := t1\<rparr>
         in if locked
            then Send e c (authResultErr ''Account temporarily locked due to too many failed attempts. Try again in 30 minutes.'' '''') s1
            else let (d2, ok) = authenticateUser e (mSender msg) (mBody msg) (DB s1); s2 = s1\<lparr>DB := d2\<rparr>
            in if \<not> ok
               then Send e c (authResultErr ''Invalid username or password'' '''')
                      (withTracker (recordFail (e_now e) (peerIP c s2) (mSender msg)) s2)
               else let (banned, reason) = userBanInfo (mSender msg) (DB s2)
               in if banned then Send e c (bannedMsg reason) s2
                  else let (t3, totpThr) = isTOTPThrottled (e_now e) (mSender msg) (authTracker s2); s3 = s2\<lparr>authTracker := t3\<rparr>
                  in if totpThr
                     then Send e c (authResultErr (''Too many 2FA attempts '' @ emDash @ '' wait a few minutes'') ''totp_required'') s3
                     else let (s4, ok2) = secondFactor e msg s3
                     in if \<not> ok2
                        then Send e c (authResultErr ''2FA code required or invalid'' ''totp_required'')
                               (withTracker (recordTOTPFail (e_now e) (mSender msg)) s4)
                        else signedIn e c msg s4)"

definition h_session_auth :: "env \<Rightarrow> cid \<Rightarrow> NexusMessage \<Rightarrow> NexusServer \<Rightarrow> NexusServer" where
  "h_session_auth e c msg s0 =
     (let (s, throttled) = checkIP e c s0
      in if throttled
         then Send e c (authResultErr ''Too many failed attempts. Try again later.'' '''') (autoBlock e c s)
         else let u = sessionUsername (e_now e) (mQRToken msg) (DB s)
         in if u = ''''
            then Send e c (authResultErr ''Session expired, please log in'' '''')
                   (withTracker (recordFail (e_now e) (peerIP c s) '''') s)
            else let s1 = withTracker (recordSuccess (peerIP c s) u) s; (banned, reason) = userBanInfo u (DB s1)
            in if banned then Send e c (bannedMsg reason) (withDB (revokeSession (mQRToken msg)) s1)
               else let s2 = setLocalUser c u s1;
                        s3 = withDB (autoJoinGlobalSpace (e_now e) u) (touchLogin e c u s2);
                        s4 = Send e c (authOk e u (mQRToken msg)) (registerConn c u s3);
                        s5 = deliverOfflineMessages e u c (announcePresence e u s4);
                        s6 = sendPerks e c u (sendFriendStatuses e c u False s5)
                    in sendGroups e c u (sendConvos e c u (sendPending e c u s6)))"

definition h_qr_login_check :: "env \<Rightarrow> cid \<Rightarrow> NexusMessage \<Rightarrow> NexusServer \<Rightarrow> NexusServer" where
  "h_qr_login_check e c msg s0 =
     (let (s, throttled) = checkIP e c s0
      in if throttled
         then Send e c (msg0\<lparr>mType := ''qr_login_result'', mError := ''Too many failed attempts. Try again later.''\<rparr>) (autoBlock e c s)
         else let (u, sess, approved, exists) = checkQRLogin (e_now e) (mQRToken msg) (DB s)
         in if \<not> approved
            then Send e c (msg0\<lparr>mType := ''qr_login_result'', mStatus := ''pending'', mQRToken := mQRToken msg\<rparr>)
                   (if exists then s else withTracker (recordFail (e_now e) (peerIP c s) '''') s)
            else let s1 = withTracker (recordSuccess (peerIP c s) u) s;
                     s2 = registerConn c u (setLocalUser c u s1)
                 in deliverOfflineMessages e u c (announcePresence e u (Send e c (authOk e u sess) s2)))"

section \<open>Sessions, passwords, second factors\<close>

definition h_revoke_session :: "env \<Rightarrow> cid \<Rightarrow> NexusMessage \<Rightarrow> NexusServer \<Rightarrow> NexusServer" where
  "h_revoke_session e c msg s =
     (if me c s = '''' \<or> mQRToken msg = '''' then s
      else Send e c (msg0\<lparr>mType := ''session_revoked'', mStatus := ''ok''\<rparr>) (withDB (revokeSession (mQRToken msg)) s))"

definition h_list_sessions :: "env \<Rightarrow> cid \<Rightarrow> NexusMessage \<Rightarrow> NexusServer \<Rightarrow> NexusServer" where
  "h_list_sessions e c msg s =
     (if me c s = '''' then s
      else Send e c (msg0\<lparr>mType := ''sessions_list'', mSessions := listSessions (e_now e) (me c s) (DB s)\<rparr>) s)"

definition h_revoke_session_by_token :: "env \<Rightarrow> cid \<Rightarrow> NexusMessage \<Rightarrow> NexusServer \<Rightarrow> NexusServer" where
  "h_revoke_session_by_token e c msg s =
     (if me c s = '''' then s
      else Send e c (msg0\<lparr>mType := ''session_revoked'', mStatus := ''ok''\<rparr>)
             (withDB (updSession (\<lambda>r. se_token r = mBody msg \<and> se_username r = me c s) (\<lambda>r. r\<lparr>se_revoked := True\<rparr>)) s))"

definition lowerCount :: "string \<Rightarrow> (string \<times> nat) list \<Rightarrow> (string \<times> nat) list" where
  "lowerCount ip m = (let n = aget 0 m ip - 1 in if n = 0 then adel ip m else aput ip n m)"

definition endConnection :: "cid \<Rightarrow> NexusServer \<Rightarrow> NexusServer" where
  "endConnection c s =
     (let s1 = withConn c (\<lambda>cl. cl\<lparr>cClosed := True\<rparr>) s
      in s1\<lparr>live := removeAll c (live s1), wsConnCount := lowerCount (peerIP c s) (wsConnCount s1)\<rparr>)"

definition h_delete_account :: "env \<Rightarrow> cid \<Rightarrow> NexusMessage \<Rightarrow> NexusServer \<Rightarrow> NexusServer" where
  "h_delete_account e c msg s =
     (let u = me c s; res = msg0\<lparr>mType := ''delete_account_result''\<rparr>
      in if u = '''' then Send e c (res\<lparr>mError := ''Not authenticated''\<rparr>) s
         else if mBody msg = '''' then Send e c (res\<lparr>mError := ''Password confirmation required''\<rparr>) s
         else let (d1, ok) = authenticateUser e u (mBody msg) (DB s); s1 = s\<lparr>DB := d1\<rparr>
         in if \<not> ok then Send e c (res\<lparr>mError := ''Password confirmation required''\<rparr>) s1
            else let s2 = withDB (deleteAccount u) s1;
                     s3 = Send e c (res\<lparr>mStatus := ''ok''\<rparr>) (broadcastPresence e u ''Offline'' s2)
                 in endConnection c (s3\<lparr>Clients := adel u (Clients s3)\<rparr>))"

definition h_enable_totp :: "env \<Rightarrow> cid \<Rightarrow> NexusMessage \<Rightarrow> NexusServer \<Rightarrow> NexusServer" where
  "h_enable_totp e c msg s =
     (let u = me c s; res = msg0\<lparr>mType := ''totp_result''\<rparr>
      in if u = '''' then Send e c (res\<lparr>mError := ''Not authenticated''\<rparr>) s
         else case e_totpGenerate e u of
                None \<Rightarrow> Send e c (res\<lparr>mError := ''Could not generate secret''\<rparr>) s
              | Some (uri, secret) \<Rightarrow>
                  Send e c (res\<lparr>mStatus := ''pending_confirm'', mTOTPURI := uri\<rparr>)
                    (withDB (updUser u (\<lambda>r. r\<lparr>u_totp_secret := secret, u_totp_enabled := False\<rparr>)) s))"

definition h_confirm_totp :: "env \<Rightarrow> cid \<Rightarrow> NexusMessage \<Rightarrow> NexusServer \<Rightarrow> NexusServer" where
  "h_confirm_totp e c msg s =
     (let u = me c s; res = msg0\<lparr>mType := ''totp_result''\<rparr>
      in if u = '''' then Send e c (res\<lparr>mError := ''Not authenticated''\<rparr>) s
         else let (t1, thr) = isTOTPThrottled (e_now e) u (authTracker s); s1 = s\<lparr>authTracker := t1\<rparr>
         in if thr then Send e c (res\<lparr>mError := ''Too many attempts '' @ emDash @ '' wait a few minutes''\<rparr>) s1
            else let secret = fst (totpStatus u (DB s1))
            in if secret = '''' then Send e c (res\<lparr>mError := ''No pending TOTP enrollment''\<rparr>) s1
               else let (d2, ok) = enableTOTP e u secret (mTOTPCode msg) (DB s1)
               in if \<not> ok
                  then Send e c (res\<lparr>mError := ''Invalid code''\<rparr>) (withTracker (recordTOTPFail (e_now e) u) s1)
                  else let s2 = withTracker (recordTOTPSuccess u) (s1\<lparr>DB := d2\<rparr>);
                           (s3, codes) = generateBackupCodes e u s2
                       in Send e c (res\<lparr>mStatus := ''enabled'',
                            mBackupCodes := (case codes of None \<Rightarrow> [] | Some cs \<Rightarrow> cs)\<rparr>) s3)"

definition h_disable_totp :: "env \<Rightarrow> cid \<Rightarrow> NexusMessage \<Rightarrow> NexusServer \<Rightarrow> NexusServer" where
  "h_disable_totp e c msg s =
     (let u = me c s; res = msg0\<lparr>mType := ''totp_result''\<rparr>
      in if u = '''' then s
         else let (d1, ok) = authenticateUser e u (mBody msg) (DB s); s1 = s\<lparr>DB := d1\<rparr>
         in if \<not> ok then Send e c (res\<lparr>mError := ''Password required''\<rparr>) s1
            else Send e c (res\<lparr>mStatus := ''disabled''\<rparr>) (withDB (disableTOTP u) s1))"

definition h_forgot_password :: "env \<Rightarrow> cid \<Rightarrow> NexusMessage \<Rightarrow> NexusServer \<Rightarrow> NexusServer" where
  "h_forgot_password e c msg s =
     (let sent = msg0\<lparr>mType := ''forgot_password_result'', mStatus := ''sent''\<rparr>
      in if mEmail msg \<noteq> '''' \<and> \<not> e_limiter e ''forgotPassword'' (mEmail msg) then Send e c sent s
         else case createPasswordReset e (mEmail msg) s of
                (s1, Inl err) \<Rightarrow> Send e c sent s1
              | (s1, Inr (tok, user)) \<Rightarrow>
                  Send e c sent (s1\<lparr>mails := mails s1 @
                    [MailPasswordReset (mEmail msg) user (''https://phazechat.world/reset?token='' @ tok)]\<rparr>))"

definition h_reset_password :: "env \<Rightarrow> cid \<Rightarrow> NexusMessage \<Rightarrow> NexusServer \<Rightarrow> NexusServer" where
  "h_reset_password e c msg s =
     (case consumePasswordReset e (mQRToken msg) (mBody msg) (DB s) of
        (d1, Some err) \<Rightarrow> Send e c (msg0\<lparr>mType := ''reset_password_result'', mError := errText err\<rparr>) (s\<lparr>DB := d1\<rparr>)
      | (d1, None) \<Rightarrow> Send e c (msg0\<lparr>mType := ''reset_password_result'', mStatus := ''ok''\<rparr>) (s\<lparr>DB := d1\<rparr>))"

definition splitColon :: "string \<Rightarrow> (string \<times> string) option" where
  "splitColon body =
     (let old = takeWhile (\<lambda>ch. ch \<noteq> CHR '':'') body; rest = drop (length old) body
      in if old = '''' \<or> length rest \<le> 1 then None else Some (old, tl rest))"

definition h_change_password :: "env \<Rightarrow> cid \<Rightarrow> NexusMessage \<Rightarrow> NexusServer \<Rightarrow> NexusServer" where
  "h_change_password e c msg s =
     (let u = me c s; err = (\<lambda>t. msg0\<lparr>mType := ''change_password_result'', mError := t\<rparr>)
      in if u = '''' then Send e c (err ''Not authenticated'') s
         else case splitColon (mBody msg) of
                None \<Rightarrow> Send e c (err ''Malformed request'') s
              | Some (oldPw, newPw) \<Rightarrow>
                  let (d1, ok) = authenticateUser e u oldPw (DB s); s1 = s\<lparr>DB := d1\<rparr>
                  in if \<not> ok then Send e c (err ''Current password incorrect'') s1
                     else if length newPw < 8 then Send e c (err ''New password must be at least 8 characters'') s1
                     else case e_bcryptHash e (e_sha256 e newPw) of
                            None \<Rightarrow> Send e c (err ''Internal error'') s1
                          | Some hash \<Rightarrow>
                              let s2 = withDB (updUser u (\<lambda>r. r\<lparr>u_password_hash := hash\<rparr>)) s1;
                                  s3 = withDB (updSession (\<lambda>r. se_username r = u \<and> se_token r \<noteq> mQRToken msg)
                                         (\<lambda>r. r\<lparr>se_revoked := True\<rparr>)) s2
                              in Send e c (msg0\<lparr>mType := ''change_password_result'', mStatus := ''ok''\<rparr>) s3)"

section \<open>QR codes and linked devices\<close>

definition h_qr_login_create :: "env \<Rightarrow> cid \<Rightarrow> NexusMessage \<Rightarrow> NexusServer \<Rightarrow> NexusServer" where
  "h_qr_login_create e c msg s =
     (case createQRLogin e s of
        (s1, Inl err) \<Rightarrow> Send e c (msg0\<lparr>mType := ''qr_login_result'', mError := ''Could not create QR token''\<rparr>) s1
      | (s1, Inr tok) \<Rightarrow> Send e c (msg0\<lparr>mType := ''qr_login_result'', mStatus := ''pending'', mQRToken := tok,
                            mQRData := ''phaze://login?token='' @ tok\<rparr>) s1)"

definition h_qr_login_approve :: "env \<Rightarrow> cid \<Rightarrow> NexusMessage \<Rightarrow> NexusServer \<Rightarrow> NexusServer" where
  "h_qr_login_approve e c msg s =
     (if me c s = '''' then Send e c (msg0\<lparr>mType := ''qr_login_result'', mError := ''Not authenticated''\<rparr>) s
      else case approveQRLogin e (mQRToken msg) (me c s) (mDeviceInfo msg) s of
             (s1, Some err) \<Rightarrow> Send e c (msg0\<lparr>mType := ''qr_login_result'', mError := errText err\<rparr>) s1
           | (s1, None) \<Rightarrow> Send e c (msg0\<lparr>mType := ''qr_login_result'', mStatus := ''approved''\<rparr>) s1)"

definition h_link_create :: "env \<Rightarrow> cid \<Rightarrow> NexusMessage \<Rightarrow> NexusServer \<Rightarrow> NexusServer" where
  "h_link_create e c msg s =
     (case createQRLogin e s of
        (s1, Inl err) \<Rightarrow> Send e c (msg0\<lparr>mType := ''link_result'', mError := errText err\<rparr>) s1
      | (s1, Inr tok) \<Rightarrow> Send e c (msg0\<lparr>mType := ''link_result'', mStatus := ''ok'', mToken := tok\<rparr>) s1)"

definition h_link_approve :: "env \<Rightarrow> cid \<Rightarrow> NexusMessage \<Rightarrow> NexusServer \<Rightarrow> NexusServer" where
  "h_link_approve e c msg s =
     (if me c s = '''' \<or> mToken msg = '''' then s
      else let device = (if mDeviceInfo msg = '''' then ''linked-device'' else mDeviceInfo msg)
           in case approveQRLogin e (mToken msg) (me c s) device s of
                (s1, Some err) \<Rightarrow> Send e c (msg0\<lparr>mType := ''link_result'', mError := errText err\<rparr>) s1
              | (s1, None) \<Rightarrow> Send e c (msg0\<lparr>mType := ''link_result'', mStatus := ''approved''\<rparr>) s1)"

definition h_link_check :: "env \<Rightarrow> cid \<Rightarrow> NexusMessage \<Rightarrow> NexusServer \<Rightarrow> NexusServer" where
  "h_link_check e c msg s0 =
     (if mToken msg = '''' then s0
      else let (s, throttled) = checkIP e c s0
      in if throttled
         then Send e c (msg0\<lparr>mType := ''link_check'', mStatus := ''pending'', mError := ''Too many attempts''\<rparr>) (autoBlock e c s)
         else let (u, sess, approved, exists) = checkQRLogin (e_now e) (mToken msg) (DB s)
         in if \<not> approved
            then Send e c (msg0\<lparr>mType := ''link_check'', mStatus := ''pending''\<rparr>)
                   (if exists then s else withTracker (recordFail (e_now e) (peerIP c s) '''') s)
            else Send e c (msg0\<lparr>mType := ''link_check'', mStatus := ''approved'', mSender := u, mQRToken := sess\<rparr>)
                   (withTracker (recordSuccess (peerIP c s) u) s))"

definition h_device_decision :: "env \<Rightarrow> cid \<Rightarrow> NexusMessage \<Rightarrow> NexusServer \<Rightarrow> NexusServer" where
  "h_device_decision e c msg s =
     (let u = me c s
      in if u = '''' \<or> mChallengeID msg = 0 then s
         else case lookupDeviceChallenge (mChallengeID msg) u (DB s) of
                None \<Rightarrow> Send e c (msg0\<lparr>mType := ''device_result'',
                          mError := ''that sign-in request has already been handled or expired''\<rparr>) s
              | Some (deviceID, sessionToken, label, chIP) \<Rightarrow>
                  let s1 = (if mType msg = ''device_approve''
                            then withDB (approveDeviceChallenge (e_now e) (mChallengeID msg) u deviceID sessionToken label chIP) s
                            else withDB (denyDeviceChallenge (mChallengeID msg) u sessionToken) s);
                      status = (if mType msg = ''device_deny'' then ''denied'' else ''approved'')
                  in fst (sendTo e u (msg0\<lparr>mType := ''device_result'', mStatus := status, mBody := label,
                       mChallengeID := mChallengeID msg\<rparr>) s1))"

section \<open>Profile, phone, settings, keys\<close>

definition h_status_update :: "env \<Rightarrow> cid \<Rightarrow> NexusMessage \<Rightarrow> NexusServer \<Rightarrow> NexusServer" where
  "h_status_update e c msg s =
     (if \<not> validStatus (mBody msg) then Send e c (msg0\<lparr>mType := ''status_result'', mError := ''Unknown status''\<rparr>) s
      else let u = me c s;
               s1 = withDB (updUser u (\<lambda>r. r\<lparr>u_status := mBody msg\<rparr>)) s;
               s2 = setStatuses (mBody msg) (clientsOf u s1) s1
           in broadcastPresence e u (mBody msg)
                (Send e c (msg0\<lparr>mType := ''status_result'', mStatus := mBody msg\<rparr>) s2))"

definition h_request_phone_link :: "env \<Rightarrow> cid \<Rightarrow> NexusMessage \<Rightarrow> NexusServer \<Rightarrow> NexusServer" where
  "h_request_phone_link e c msg s =
     (let (s1, r) = randDigits e 6 s; code = (case r of None \<Rightarrow> '''' | Some ds \<Rightarrow> ds);
          s2 = withDB (updUser (me c s) (\<lambda>u. u\<lparr>u_phone_code := Some code, u_phone_number := Some (mBody msg)\<rparr>)) s1
      in Send e c (msg0\<lparr>mType := ''phone_link_result'', mStatus := ''code_sent''\<rparr>)
           (s2\<lparr>mails := mails s2 @ [SMSCode (mBody msg) code]\<rparr>))"

definition h_verify_phone_link :: "env \<Rightarrow> cid \<Rightarrow> NexusMessage \<Rightarrow> NexusServer \<Rightarrow> NexusServer" where
  "h_verify_phone_link e c msg s =
     (let dbCode = (case userRow (me c s) (DB s) of None \<Rightarrow> None | Some u \<Rightarrow> u_phone_code u)
      in if (case dbCode of None \<Rightarrow> False | Some code \<Rightarrow> code \<noteq> '''' \<and> mBody msg \<noteq> '''' \<and> code = mBody msg)
         then Send e c (msg0\<lparr>mType := ''phone_link_result'', mStatus := ''verified''\<rparr>)
                (withDB (updUser (me c s) (\<lambda>u. u\<lparr>u_phone_verified := True, u_phone_code := None\<rparr>)) s)
         else Send e c (msg0\<lparr>mType := ''phone_link_result'',
                  mError := ''Invalid code. Security lockout: please request a new code.''\<rparr>)
                (withDB (updUser (me c s) (\<lambda>u. u\<lparr>u_phone_code := None\<rparr>)) s))"

definition h_pstn_call :: "env \<Rightarrow> cid \<Rightarrow> NexusMessage \<Rightarrow> NexusServer \<Rightarrow> NexusServer" where
  "h_pstn_call e c msg s =
     (let st = msg0\<lparr>mType := ''pstn_status''\<rparr>; number = mBody msg
      in if \<not> pstnBridgeEnabled e
         then Send e c (st\<lparr>mError := ''PSTN bridge is disabled on this relay. Use in-app voice/video (WebRTC) with Phaze contacts '' @ emDash @
                '' no phone network or Twilio required.''\<rparr>) s
         else case sql_row (\<lambda>u. u_username u = me c s \<and> u_phone_number u = Some number) (users (DB s)) of
                None \<Rightarrow> Send e c (st\<lparr>mError := ''Caller identity not verified. Please link your phone in Settings.''\<rparr>) s
              | Some u \<Rightarrow>
                  if \<not> u_phone_verified u
                  then Send e c (st\<lparr>mError := ''Caller identity not verified. Please link your phone in Settings.''\<rparr>) s
                  else let s1 = s\<lparr>mails := mails s @ [TwilioCall number]\<rparr>
                       in case e_twilio e number of
                            Some err \<Rightarrow> Send e c (st\<lparr>mError := ''Telephony error: '' @ err\<rparr>) s1
                          | None \<Rightarrow> Send e c (st\<lparr>mStatus := ''Connecting...''\<rparr>) s1)"

definition h_update_profile :: "env \<Rightarrow> cid \<Rightarrow> NexusMessage \<Rightarrow> NexusServer \<Rightarrow> NexusServer" where
  "h_update_profile e c msg s =
     (let u = me c s
      in if u = '''' then s
         else if length (mDisplayName msg) > 64 \<or> length (mMood msg) > 140
         then Send e c (msg0\<lparr>mType := ''update_result'', mError := ''Display name max 64 chars, mood max 140''\<rparr>) s
         else let s1 = withDB (updUser u (\<lambda>r. r\<lparr>u_mood := mMood msg, u_display_name := mDisplayName msg\<rparr>)) s
              in broadcastProfileUpdate e u (mDisplayName msg) (mMood msg)
                   (Send e c (msg0\<lparr>mType := ''update_result'', mStatus := ''ok''\<rparr>) s1))"

definition h_purge_email :: "env \<Rightarrow> cid \<Rightarrow> NexusMessage \<Rightarrow> NexusServer \<Rightarrow> NexusServer" where
  "h_purge_email e c msg s =
     (if me c s = '''' then s
      else Send e c (msg0\<lparr>mType := ''purge_email_result'', mStatus := ''ok''\<rparr>)
             (withDB (updUser (me c s) (\<lambda>u. u\<lparr>u_email := ''''\<rparr>)) s))"

definition h_settings_get :: "env \<Rightarrow> cid \<Rightarrow> NexusMessage \<Rightarrow> NexusServer \<Rightarrow> NexusServer" where
  "h_settings_get e c msg s =
     (if me c s = '''' then s
      else Send e c (msg0\<lparr>mType := ''settings_result'', mStatus := ''ok'',
             mEnvelopes := foldl (\<lambda>m r. aput (ust_key r) (ust_value r) m) []
               (filter (\<lambda>r. ust_username r = me c s) (user_settings (DB s)))\<rparr>) s)"

definition h_settings_set :: "env \<Rightarrow> cid \<Rightarrow> NexusMessage \<Rightarrow> NexusServer \<Rightarrow> NexusServer" where
  "h_settings_set e c msg s =
     (if me c s = '''' \<or> mBody msg = '''' then s
      else case e_settingDecode e (mBody msg) of
             None \<Rightarrow> s
           | Some (key, value) \<Rightarrow>
               if key = '''' then s
               else if length key > 64 \<or> length value > 64 * 1024 then s
               else if sql_count (\<lambda>r. ust_username r = me c s) (user_settings (DB s)) \<ge> 100 then s
               else withDB (\<lambda>d. d\<lparr>user_settings := sql_upsert ust_table_key (\<lambda>r. r\<lparr>ust_value := value\<rparr>)
                      \<lparr> ust_username = me c s, ust_key = key, ust_value = value \<rparr> (user_settings d)\<rparr>) s)"

definition h_register_fcm_token :: "env \<Rightarrow> cid \<Rightarrow> NexusMessage \<Rightarrow> NexusServer \<Rightarrow> NexusServer" where
  "h_register_fcm_token e c msg s =
     (if me c s = '''' \<or> mBody msg = '''' then s
      else withDB (updUser (me c s) (\<lambda>u. u\<lparr>u_fcm_token := mBody msg\<rparr>)) s)"

definition h_subscribe_push :: "env \<Rightarrow> cid \<Rightarrow> NexusMessage \<Rightarrow> NexusServer \<Rightarrow> NexusServer" where
  "h_subscribe_push e c msg s =
     (let bad = msg0\<lparr>mType := ''push_result'', mError := ''Invalid subscription''\<rparr>
      in if me c s = '''' then s
         else case e_pushDecode e (mBody msg) of
                None \<Rightarrow> Send e c bad s
              | Some (endpoint, p256dh, auth) \<Rightarrow>
                  if endpoint = '''' then Send e c bad s
                  else Send e c (msg0\<lparr>mType := ''push_result'', mStatus := ''subscribed''\<rparr>)
                         (withDB (\<lambda>d. d\<lparr>push_subscriptions := sql_upsert ps_endpoint (\<lambda>r. r\<lparr>ps_username := me c s\<rparr>)
                            \<lparr> ps_username = me c s, ps_endpoint = endpoint, ps_p256dh = p256dh, ps_auth = auth \<rparr>
                            (push_subscriptions d)\<rparr>) s))"

definition h_unsubscribe_push :: "env \<Rightarrow> cid \<Rightarrow> NexusMessage \<Rightarrow> NexusServer \<Rightarrow> NexusServer" where
  "h_unsubscribe_push e c msg s =
     (if me c s = '''' then s
      else Send e c (msg0\<lparr>mType := ''push_result'', mStatus := ''unsubscribed''\<rparr>)
             (withDB (\<lambda>d. d\<lparr>push_subscriptions := sql_delete
                (\<lambda>r. ps_username r = me c s \<and> ps_endpoint r = mBody msg) (push_subscriptions d)\<rparr>) s))"

definition storeBackup :: "env \<Rightarrow> cid \<Rightarrow> KeyBackupPayload \<Rightarrow> NexusServer \<Rightarrow> NexusServer" where
  "storeBackup e c b s =
     (if kbCiphertext b = '''' \<or> kbSalt b = '''' \<or> kbIterations b < 10000
      then Send e c (msg0\<lparr>mType := ''key_backup_result'', mError := ''invalid backup payload''\<rparr>) s
      else Send e c (msg0\<lparr>mType := ''key_backup_result'', mStatus := ''stored''\<rparr>)
             (withDB (\<lambda>d. d\<lparr>key_backups := sql_upsert kr_username
                (\<lambda>r. r\<lparr>kr_ciphertext := kbCiphertext b, kr_salt := kbSalt b, kr_iterations := kbIterations b,
                       kr_created_at := sqlNow (e_now e)\<rparr>)
                \<lparr> kr_username = me c s, kr_ciphertext = kbCiphertext b, kr_salt = kbSalt b,
                  kr_iterations = kbIterations b, kr_created_at = sqlNow (e_now e) \<rparr> (key_backups d)\<rparr>) s))"

definition h_key_backup_put :: "env \<Rightarrow> cid \<Rightarrow> NexusMessage \<Rightarrow> NexusServer \<Rightarrow> NexusServer" where
  "h_key_backup_put e c msg s =
     (let err = (\<lambda>t. msg0\<lparr>mType := ''key_backup_result'', mError := t\<rparr>)
      in if me c s = '''' then s
         else case mKeyBackup msg of
                Some b \<Rightarrow> storeBackup e c b s
              | None \<Rightarrow>
                  if mToken msg = '''' then Send e c (err ''invalid backup payload'') s
                  else case e_backupDecode e (mToken msg) of
                         Inl er \<Rightarrow> Send e c (err (''invalid backup token: '' @ er)) s
                       | Inr b \<Rightarrow> storeBackup e c b s)"

definition h_key_backup_get :: "env \<Rightarrow> cid \<Rightarrow> NexusMessage \<Rightarrow> NexusServer \<Rightarrow> NexusServer" where
  "h_key_backup_get e c msg s =
     (if me c s = '''' then s
      else case sql_row (\<lambda>r. kr_username r = me c s) (key_backups (DB s)) of
             None \<Rightarrow> Send e c (msg0\<lparr>mType := ''key_backup_result'', mStatus := ''not_found'', mError := ''no backup found''\<rparr>) s
           | Some r \<Rightarrow>
               let b = \<lparr> kbCiphertext = kr_ciphertext r, kbSalt = kr_salt r, kbIterations = kr_iterations r,
                         kbCreatedAt = kr_created_at r \<rparr>
               in Send e c (msg0\<lparr>mType := ''key_backup_result'', mStatus := ''ok'', mKeyBackup := Some b,
                    mToken := e_backupEncode e (b\<lparr>kbCreatedAt := 0\<rparr>)\<rparr>) s)"

definition h_key_backup_delete :: "env \<Rightarrow> cid \<Rightarrow> NexusMessage \<Rightarrow> NexusServer \<Rightarrow> NexusServer" where
  "h_key_backup_delete e c msg s =
     (if me c s = '''' then s
      else Send e c (msg0\<lparr>mType := ''key_backup_result'', mStatus := ''deleted''\<rparr>)
             (withDB (\<lambda>d. d\<lparr>key_backups := sql_delete (\<lambda>r. kr_username r = me c s) (key_backups d)\<rparr>) s))"

section \<open>The second factor\<close>

lemma authenticate_frame [simp]:
  "userBanInfo v (fst (authenticateUser e u pw d)) = userBanInfo v d"
  "totpStatus v (fst (authenticateUser e u pw d)) = totpStatus v d"
  "totp_backup_codes (fst (authenticateUser e u pw d)) = totp_backup_codes d"
  by (auto simp: authenticateUser_def userBanInfo_def totpStatus_def userRow_updUser split: option.splits)

definition secondFactorOk :: "env \<Rightarrow> string \<Rightarrow> string \<Rightarrow> database \<Rightarrow> bool" where
  "secondFactorOk e u code d \<longleftrightarrow>
     (let (secret, enabled) = totpStatus u d
      in \<not> enabled \<or> secret = '''' \<or> e_totpValidate e code secret \<or>
         sql_count (backupMatch e u code) (totp_backup_codes d) > 0)"

lemma secondFactor_snd:
  "snd (secondFactor e msg s) \<Longrightarrow> secondFactorOk e (mSender msg) (mTOTPCode msg) (DB s)"
  by (auto simp: secondFactor_def secondFactorOk_def verifyTOTP_def consumeBackupCode_def Let_def
      split: prod.splits option.splits if_splits)

lemma secondFactorOk_authenticate [simp]:
  "secondFactorOk e u code (fst (authenticateUser e v pw d)) = secondFactorOk e u code d"
  by (simp add: secondFactorOk_def)

end
