(* ===== verification/HandlersSocial.thy ===== *)
theory HandlersSocial
  imports HandlersAuth
begin

text \<open>
  The cases of the message switch in \<^verbatim>\<open>handleConnections\<close> (\<^verbatim>\<open>nexus_server/ws_handlers.go\<close>) for direct
  messages, friends, blocks, presence, referrals and group conversations, one definition \<open>h_\<dots>\<close> per
  case.
\<close>

section \<open>Direct messages\<close>

definition botReply :: "env \<Rightarrow> NexusMessage \<Rightarrow> NexusServer \<Rightarrow> string" where
  "botReply e msg s =
     (let cmd = ToLower (e_uniLower e) (TrimSpace (mBody msg))
      in if cmd = ''/mesh'' then ''Phaze currently has '' @ Itoa (int (onlineUserCount s)) @ '' users connected.''
         else if cmd = ''/webrtc'' then ''Phaze voice/video uses WebRTC (Pion on desktop, browser APIs on web). Signaling goes over Nexus; media is peer-to-peer when possible, with TURN from your relay when NAT blocks direct paths.''
         else if cmd = ''/version'' then ''Nexus Server v1.0.0-Phaze''
         else if cmd = ''/pstn''
         then (if pstnBridgeEnabled e
               then ''PSTN bridge is ON for this relay (Twilio). Link your phone in Settings for verified outbound. Otherwise use WebRTC calls in chat.''
               else ''PSTN bridge is OFF. Voice/video is WebRTC between Phaze users only '' @ emDash @ '' no carrier charges.'')
         else ''I am the Phaze Mesh Assistant. Try: /mesh, /version, /pstn (PSTN status), /webrtc'')"

definition handleBotMessage :: "env \<Rightarrow> cid \<Rightarrow> NexusMessage \<Rightarrow> NexusServer \<Rightarrow> NexusServer" where
  "handleBotMessage e c msg s =
     Send e c (msg0\<lparr>mType := ''msg'', mSender := ''PhazeBot'', mRecipient := mSender msg,
                    mBody := botReply e msg s\<rparr>) s"

definition deliveredOffline :: "string \<Rightarrow> NexusMessage" where
  "deliveredOffline recipient =
     msg0\<lparr>mType := ''msg_status'', mBody := ''delivered_offline'', mSender := recipient\<rparr>"

definition eitherBlocked :: "string \<Rightarrow> string \<Rightarrow> database \<Rightarrow> bool" where
  "eitherBlocked a b d \<longleftrightarrow> isBlocked b a d \<or> isBlocked a b d"

definition h_msg :: "env \<Rightarrow> cid \<Rightarrow> NexusMessage \<Rightarrow> NexusServer \<Rightarrow> NexusServer" where
  "h_msg e c msg0' s =
     (let u = me c s; msg = msg0'\<lparr>mSender := u\<rparr>; r = mRecipient msg
      in if u = '''' then s
         else if r = ''PhazeBot'' then handleBotMessage e c msg s
         else if eitherBlocked u r (DB s) then Send e c (deliveredOffline r) s
         else if length (mBody msg) > 65536
         then Send e c (msg0\<lparr>mType := ''msg_status'', mBody := ''error'', mSender := r, mError := ''message too long''\<rparr>) s
         else let s1 = withDB (persistDM (e_now e) (mMsgID msg) u r (mBody msg)) s;
                  (s2, delivered) = sendTo e r msg s1
              in if delivered then s2
                 else Send e c (deliveredOffline r) (storeOfflineMessage e u r (mBody msg) ''msg'' (mMsgID msg) s2))"

definition h_msg_change :: "env \<Rightarrow> cid \<Rightarrow> NexusMessage \<Rightarrow> NexusServer \<Rightarrow> NexusServer" where
  "h_msg_change e c msg0' s =
     (let u = me c s; msg = msg0'\<lparr>mSender := u\<rparr>; r = mRecipient msg; relay = (\<lambda>s. fst (sendTo e r msg s))
      in if u = '''' \<or> r = '''' \<or> mMsgID msg = '''' then s
         else if eitherBlocked u r (DB s) then s
         else if mType msg = ''msg_edit''
         then (if length (mBody msg) > 10000
               then Send e c (msg0\<lparr>mType := ''msg_edit_result'', mError := ''message too long''\<rparr>) s
               else relay (withDB (editDM (mMsgID msg) u (mBody msg)) s))
         else if mType msg = ''msg_delete'' then relay (withDB (deleteDM (mMsgID msg) u) s)
         else if mType msg = ''msg_react'' \<and> mReaction msg \<noteq> ''''
         then relay (withDB (\<lambda>d. fst (toggleReaction (mMsgID msg) u (mReaction msg) d)) s)
         else relay s)"

definition h_dm_history :: "env \<Rightarrow> cid \<Rightarrow> NexusMessage \<Rightarrow> NexusServer \<Rightarrow> NexusServer" where
  "h_dm_history e c msg s =
     (if me c s = '''' \<or> mRecipient msg = '''' then s
      else Send e c (msg0\<lparr>mType := ''dm_history'', mRecipient := mRecipient msg,
             mDMHistory := fetchDMHistory (me c s) (mRecipient msg) (mHistoryFrom msg) 100 (DB s)\<rparr>) s)"

definition h_typing :: "env \<Rightarrow> cid \<Rightarrow> NexusMessage \<Rightarrow> NexusServer \<Rightarrow> NexusServer" where
  "h_typing e c msg s =
     (if me c s = '''' \<or> mRecipient msg = '''' then s
      else if \<not> areFriends (me c s) (mRecipient msg) (DB s) then s
      else fst (sendTo e (mRecipient msg) (msg0\<lparr>mType := ''typing'', mSender := me c s\<rparr>) s))"

section \<open>Friends, blocks, presence\<close>

definition h_block :: "env \<Rightarrow> cid \<Rightarrow> NexusMessage \<Rightarrow> NexusServer \<Rightarrow> NexusServer" where
  "h_block e c msg s =
     (if me c s = '''' then s
      else case blockUser (e_now e) (me c s) (mRecipient msg) (DB s) of
             (d1, Some err) \<Rightarrow> Send e c (msg0\<lparr>mType := ''block_result'', mError := errText err\<rparr>) (s\<lparr>DB := d1\<rparr>)
           | (d1, None) \<Rightarrow> Send e c (msg0\<lparr>mType := ''block_result'', mStatus := ''blocked'',
                             mRecipient := mRecipient msg\<rparr>) (s\<lparr>DB := d1\<rparr>))"

definition h_unblock :: "env \<Rightarrow> cid \<Rightarrow> NexusMessage \<Rightarrow> NexusServer \<Rightarrow> NexusServer" where
  "h_unblock e c msg s =
     (if me c s = '''' then s
      else Send e c (msg0\<lparr>mType := ''block_result'', mStatus := ''unblocked'', mRecipient := mRecipient msg\<rparr>)
             (withDB (unblockUser (me c s) (mRecipient msg)) s))"

definition h_list_blocks :: "env \<Rightarrow> cid \<Rightarrow> NexusMessage \<Rightarrow> NexusServer \<Rightarrow> NexusServer" where
  "h_list_blocks e c msg s =
     (if me c s = '''' then s
      else Send e c (msg0\<lparr>mType := ''blocks'', mResults := listBlocks (me c s) (DB s)\<rparr>) s)"

definition h_report_abuse :: "env \<Rightarrow> cid \<Rightarrow> NexusMessage \<Rightarrow> NexusServer \<Rightarrow> NexusServer" where
  "h_report_abuse e c msg s =
     (if me c s = '''' then s
      else case recordAbuseReport (e_now e) (me c s) (mRecipient msg) (mStatus msg) (mBody msg) (DB s) of
             (d1, Some err) \<Rightarrow> Send e c (msg0\<lparr>mType := ''report_result'', mError := errText err\<rparr>) (s\<lparr>DB := d1\<rparr>)
           | (d1, None) \<Rightarrow> Send e c (msg0\<lparr>mType := ''report_result'', mStatus := ''received''\<rparr>) (s\<lparr>DB := d1\<rparr>))"

definition h_presence :: "env \<Rightarrow> cid \<Rightarrow> NexusMessage \<Rightarrow> NexusServer \<Rightarrow> NexusServer" where
  "h_presence e c msg s =
     (let u = me c s
      in if u = '''' then s
         else if mRecipient msg \<noteq> ''''
         then (if length (mPublicKey msg) = 32 \<and> areFriends u (mRecipient msg) (DB s)
               then fst (sendTo e (mRecipient msg) (msg\<lparr>mSender := u\<rparr>) s) else s)
         else broadcastPresence e u (mStatus msg) (setStatuses (mStatus msg) (clientsOf u s) s))"

definition h_search :: "env \<Rightarrow> cid \<Rightarrow> NexusMessage \<Rightarrow> NexusServer \<Rightarrow> NexusServer" where
  "h_search e c msg s =
     (if me c s = '''' \<or> length (mBody msg) > 100 then s
      else Send e c (msg0\<lparr>mType := ''search_results'', mResults := searchUsers e (mBody msg) (me c s) (DB s)\<rparr>) s)"

definition h_friend_request :: "env \<Rightarrow> cid \<Rightarrow> NexusMessage \<Rightarrow> NexusServer \<Rightarrow> NexusServer" where
  "h_friend_request e c msg s =
     (let u = me c s; r = mRecipient msg;
          sent = msg0\<lparr>mType := ''friend_request_sent'', mRecipient := r\<rparr>;
          fail = (\<lambda>t. msg0\<lparr>mType := ''friend_error'', mError := t\<rparr>)
      in if u = '''' then s
         else let (d1, err) = sendFriendRequest u r (DB s); s1 = s\<lparr>DB := d1\<rparr>
              in if err = Some ErrFriendBlocked then Send e c sent s1
                 else if err = Some ErrFriendDuplicate then Send e c (fail ''Already friends or request already sent'') s1
                 else if err \<noteq> None then Send e c (fail ''Could not send friend request'') s1
                 else fst (sendTo e r (msg0\<lparr>mType := ''friend_request'', mSender := u\<rparr>) (Send e c sent s1)))"

definition h_friend_accept :: "env \<Rightarrow> cid \<Rightarrow> NexusMessage \<Rightarrow> NexusServer \<Rightarrow> NexusServer" where
  "h_friend_accept e c msg s =
     (let u = me c s; requester = (if mRecipient msg = '''' then mBody msg else mRecipient msg)
      in if u = '''' then s
         else let (d1, err) = acceptFriendRequest requester u (DB s); s1 = s\<lparr>DB := d1\<rparr>
              in if err \<noteq> None
                 then Send e c (msg0\<lparr>mType := ''friend_error'', mError := ''Could not accept friend request''\<rparr>) s1
                 else fst (sendTo e requester (msg0\<lparr>mType := ''friend_accepted'', mSender := u\<rparr>)
                        (Send e c (msg0\<lparr>mType := ''friend_accepted'', mSender := requester\<rparr>) s1)))"

definition h_friend_reject :: "env \<Rightarrow> cid \<Rightarrow> NexusMessage \<Rightarrow> NexusServer \<Rightarrow> NexusServer" where
  "h_friend_reject e c msg s =
     (if me c s = '''' then s else withDB (rejectFriendRequest (mSender msg) (me c s)) s)"

definition h_friend_remove :: "env \<Rightarrow> cid \<Rightarrow> NexusMessage \<Rightarrow> NexusServer \<Rightarrow> NexusServer" where
  "h_friend_remove e c msg s =
     (if me c s = '''' then s
      else fst (sendTo e (mRecipient msg) (msg0\<lparr>mType := ''friend_removed'', mSender := me c s\<rparr>)
             (withDB (removeFriend (me c s) (mRecipient msg)) s)))"

definition h_contact_group_set :: "env \<Rightarrow> cid \<Rightarrow> NexusMessage \<Rightarrow> NexusServer \<Rightarrow> NexusServer" where
  "h_contact_group_set e c msg s =
     (let u = me c s; fail = (\<lambda>t. msg0\<lparr>mType := ''contact_group_error'', mError := t\<rparr>);
          groupName = TrimSpace (mBody msg)
      in if u = '''' \<or> mRecipient msg = '''' then s
         else if mRecipient msg \<notin> set (getFriends u (DB s)) then Send e c (fail ''not a contact'') s
         else if length groupName > 60 then Send e c (fail ''group name must be 60 characters or fewer'') s
         else let s1 = withDB (setContactGroup u (mRecipient msg) groupName) s
              in Send e c (msg0\<lparr>mType := ''contact_groups'', mContactGroups := getContactGroups u (DB s1)\<rparr>) s1)"

definition h_read_receipt :: "env \<Rightarrow> cid \<Rightarrow> NexusMessage \<Rightarrow> NexusServer \<Rightarrow> NexusServer" where
  "h_read_receipt e c msg s =
     (if me c s = '''' then s
      else if \<not> areFriends (me c s) (mRecipient msg) (DB s) then s
      else fst (sendTo e (mRecipient msg)
             (msg0\<lparr>mType := ''read_receipt'', mSender := me c s, mBody := mBody msg\<rparr>) s))"

definition h_key_request :: "env \<Rightarrow> cid \<Rightarrow> NexusMessage \<Rightarrow> NexusServer \<Rightarrow> NexusServer" where
  "h_key_request e c msg s =
     (if me c s = '''' \<or> mRecipient msg = '''' then s
      else if \<not> areFriends (me c s) (mRecipient msg) (DB s) then s
      else fst (sendTo e (mRecipient msg) (msg\<lparr>mSender := me c s\<rparr>) s))"

section \<open>Referrals and rewards\<close>

definition h_get_referral_stats :: "env \<Rightarrow> cid \<Rightarrow> NexusMessage \<Rightarrow> NexusServer \<Rightarrow> NexusServer" where
  "h_get_referral_stats e c msg s =
     (let u = me c s
      in if u = '''' then s
         else let s1 = withDB (\<lambda>d. fst (syncCrates (e_now e) u d)) s; d = DB s1;
                  count = verifiedReferralCount u d;
                  rows = take 50 (sort_key (\<lambda>r. - u_created_at r) (filter (\<lambda>r. u_referred_by r = u) (users d)))
              in Send e c (msg0\<lparr>mType := ''referral_stats'',
                   mResults := map u_username (filter u_is_verified rows),
                   mMembers := map u_username (filter (\<lambda>r. \<not> u_is_verified r) rows),
                   mToken := Itoa (int count), mCrates := unopenedCrates u d, mItems := openedItems u d,
                   mDuration := max 0 (int ambassadorAt - int count), mShards := shardBalance u d,
                   mCosts := craftCosts\<rparr>) s1)"

text \<open>
  A failing random source panics inside \<^verbatim>\<open>rollReward\<close>.  The panic unwinds \<^verbatim>\<open>handleConnections\<close>: its
  deferred functions close the socket and lower the connection count, the registry keeps the entry.
\<close>

definition h_open_crate :: "env \<Rightarrow> cid \<Rightarrow> NexusMessage \<Rightarrow> NexusServer \<Rightarrow> NexusServer" where
  "h_open_crate e c msg s =
     (let u = me c s
      in if u = '''' then s
         else case openCrate e u s of
                (s1, Inl PanicRand) \<Rightarrow> endConnection c s1
              | (s1, Inl err) \<Rightarrow> Send e c (msg0\<lparr>mType := ''crate_opened'', mError := rewardErrText err,
                                   mCrates := unopenedCrates u (DB s1)\<rparr>) s1
              | (s1, Inr (it, dupe, gained)) \<Rightarrow>
                  pushPerks e u (Send e c (msg0\<lparr>mType := ''crate_opened'', mItem := ri_ID it, mStatus := ri_Rarity it,
                    mDupe := dupe, mShardsGained := gained, mCrates := unopenedCrates u (DB s1),
                    mItems := openedItems u (DB s1), mShards := shardBalance u (DB s1)\<rparr>) s1))"

definition h_craft_reward :: "env \<Rightarrow> cid \<Rightarrow> NexusMessage \<Rightarrow> NexusServer \<Rightarrow> NexusServer" where
  "h_craft_reward e c msg s =
     (let u = me c s
      in if u = '''' then s
         else let (d1, r) = craftReward u (mItem msg) (DB s); s1 = s\<lparr>DB := d1\<rparr>
              in case r of
                   Inl err \<Rightarrow> Send e c (msg0\<lparr>mType := ''craft_result'', mError := rewardErrText err,
                                mShards := shardBalance u d1\<rparr>) s1
                 | Inr it \<Rightarrow>
                     pushPerks e u (Send e c (msg0\<lparr>mType := ''craft_result'', mItem := ri_ID it, mStatus := ri_Rarity it,
                       mItems := openedItems u d1, mShards := shardBalance u d1\<rparr>) s1))"

definition h_invite_email :: "env \<Rightarrow> cid \<Rightarrow> NexusMessage \<Rightarrow> NexusServer \<Rightarrow> NexusServer" where
  "h_invite_email e c msg s =
     (let u = me c s; res = msg0\<lparr>mType := ''invite_result''\<rparr>
      in if u = '''' then s
         else if \<not> validEmail e (mEmail msg) then Send e c (res\<lparr>mError := ''Invalid email''\<rparr>) s
         else case randHex e 16 s of
                (s1, None) \<Rightarrow> Send e c (res\<lparr>mError := ''Internal error''\<rparr>) s1
              | (s1, Some code) \<Rightarrow>
                  let s2 = withDB (\<lambda>d. d\<lparr>invite_codes := sql_insert_ignore iv_code
                             \<lparr> iv_code = code, iv_inviter = u, iv_email = mEmail msg \<rparr> (invite_codes d)\<rparr>) s1
                  in Send e c (res\<lparr>mStatus := ''sent''\<rparr>)
                       (s2\<lparr>mails := mails s2 @ [MailInvite (mEmail msg) u (''https://phazechat.world/web?invite='' @ code)]\<rparr>))"

section \<open>Group conversations\<close>

definition convoErr :: "string \<Rightarrow> string \<Rightarrow> NexusMessage" where
  "convoErr convoID t = msg0\<lparr>mType := ''convo_error'', mConvoID := convoID, mError := t\<rparr>"

definition convoUpdated :: "string \<Rightarrow> string \<Rightarrow> string \<Rightarrow> string \<Rightarrow> database \<Rightarrow> NexusMessage" where
  "convoUpdated convoID name sender creator d =
     msg0\<lparr>mType := ''convo_updated'', mConvoID := convoID, mConvoName := name,
          mMembers := conversationMembers convoID d, mSender := sender, mCreator := creator\<rparr>"

definition h_convo_create :: "env \<Rightarrow> cid \<Rightarrow> NexusMessage \<Rightarrow> NexusServer \<Rightarrow> NexusServer" where
  "h_convo_create e c msg s =
     (let u = me c s; eligible = filter (\<lambda>m. m = u \<or> m \<in> set (getFriends u (DB s))) (mMembers msg)
      in if u = '''' then s
         else if eligible = [] then Send e c (convoErr '''' (''No eligible members '' @ emDash @ '' add friends first'')) s
         else case randHex e 16 s of
                (s1, None) \<Rightarrow> Send e c (convoErr '''' ''server error'') s1
              | (s1, Some convoID) \<Rightarrow>
                  (case createConversation convoID (mConvoName msg) u eligible (DB s1) of
                     (d2, Some err) \<Rightarrow> Send e c (convoErr '''' ''could not create conversation'') (s1\<lparr>DB := d2\<rparr>)
                   | (d2, None) \<Rightarrow>
                       let members = conversationMembers convoID d2
                       in sendToEach e members (msg0\<lparr>mType := ''convo_created'', mConvoID := convoID,
                            mConvoName := mConvoName msg, mMembers := members, mSender := u, mCreator := u\<rparr>)
                            (s1\<lparr>DB := d2\<rparr>)))"

definition convoFrame :: "string \<Rightarrow> NexusMessage \<Rightarrow> string \<Rightarrow> NexusMessage" where
  "convoFrame u msg m =
     msg0\<lparr>mType := ''convo_msg'', mSender := u, mConvoID := mConvoID msg,
          mBody := (case map_of (mEnvelopes msg) m of None \<Rightarrow> mBody msg | Some envl \<Rightarrow> envl)\<rparr>"

definition pushTitle :: "string \<Rightarrow> string \<Rightarrow> string" where
  "pushTitle u convoName = (if convoName \<noteq> '''' then u @ '' in '' @ convoName else u)"

fun convoFanOut :: "env \<Rightarrow> string \<Rightarrow> NexusMessage \<Rightarrow> string \<Rightarrow> string list \<Rightarrow> NexusServer \<Rightarrow> NexusServer" where
  "convoFanOut e u msg title [] s = s"
| "convoFanOut e u msg title (m # ms) s =
     (if m = u then convoFanOut e u msg title ms s
      else let frame = convoFrame u msg m; (s1, ok) = sendTo e m frame s
           in convoFanOut e u msg title ms
                (if ok then s1
                 else pushBoth e m title ''Sent a message''
                        (withDB (queueOffline (e_now e) u m (mBody frame) ''convo_msg'' (mConvoID msg) '''') s1)))"

definition h_convo_msg :: "env \<Rightarrow> cid \<Rightarrow> NexusMessage \<Rightarrow> NexusServer \<Rightarrow> NexusServer" where
  "h_convo_msg e c msg s =
     (let u = me c s; members = conversationMembers (mConvoID msg) (DB s)
      in if u = '''' \<or> mConvoID msg = '''' then s
         else if length (mBody msg) > 65536 then s
         else if u \<notin> set members then s
         else let s1 = withDB (\<lambda>d. d\<lparr>convo_messages := convo_messages d @
                         [\<lparr> vm_convo_id = mConvoID msg, vm_sender = u, vm_body = mBody msg,
                           vm_sent_at = sqlNow (e_now e) \<rparr>]\<rparr>) s
              in convoFanOut e u msg (pushTitle u (conversationName (mConvoID msg) (DB s1))) members s1)"

definition h_convo_leave :: "env \<Rightarrow> cid \<Rightarrow> NexusMessage \<Rightarrow> NexusServer \<Rightarrow> NexusServer" where
  "h_convo_leave e c msg s =
     (let u = me c s; g = mConvoID msg
      in if u = '''' \<or> g = '''' then s
         else if \<not> isConvoMember g u (DB s) then s
         else let s1 = withDB (leaveConversation g u) s
              in sendToEach e (conversationMembers g (DB s1))
                   (msg0\<lparr>mType := ''convo_left'', mSender := u, mConvoID := g\<rparr>) s1)"

definition h_convo_add_member :: "env \<Rightarrow> cid \<Rightarrow> NexusMessage \<Rightarrow> NexusServer \<Rightarrow> NexusServer" where
  "h_convo_add_member e c msg s =
     (let u = me c s; g = mConvoID msg; existing = conversationMembers g (DB s);
          toAdd = filter (\<lambda>m. m \<notin> set existing \<and> m \<in> set (getFriends u (DB s))) (mMembers msg)
      in if u = '''' \<or> g = '''' \<or> mMembers msg = [] then s
         else if u \<notin> set existing then Send e c (convoErr g ''not a member of this group'') s
         else if toAdd = []
         then Send e c (convoErr g (''no eligible new members '' @ emDash @ '' they need to be your friend first'')) s
         else let s1 = withDB (addConversationMembers g toAdd) s; d = DB s1;
                  creator = (case conversationCreator g d of None \<Rightarrow> '''' | Some x \<Rightarrow> x)
              in sendToEach e (conversationMembers g d) (convoUpdated g (conversationName g d) u creator d) s1)"

definition h_convo_remove_member :: "env \<Rightarrow> cid \<Rightarrow> NexusMessage \<Rightarrow> NexusServer \<Rightarrow> NexusServer" where
  "h_convo_remove_member e c msg s =
     (let u = me c s; g = mConvoID msg; r = mRecipient msg
      in if u = '''' \<or> g = '''' \<or> r = '''' then s
         else if r = u then Send e c (convoErr g ''use convo_leave to remove yourself'') s
         else if conversationCreator g (DB s) \<noteq> Some u
         then Send e c (convoErr g (''only the group'' @ [chr 39] @ ''s creator can remove someone'')) s
         else if \<not> isConvoMember g r (DB s) then s
         else let s1 = withDB (leaveConversation g r) s;
                  s2 = fst (sendTo e r (msg0\<lparr>mType := ''convo_removed'', mConvoID := g, mSender := u\<rparr>) s1)
              in sendToEach e (conversationMembers g (DB s2))
                   (convoUpdated g (conversationName g (DB s2)) u u (DB s2)) s2)"

definition h_convo_rename :: "env \<Rightarrow> cid \<Rightarrow> NexusMessage \<Rightarrow> NexusServer \<Rightarrow> NexusServer" where
  "h_convo_rename e c msg s =
     (let u = me c s; g = mConvoID msg; newName = TrimSpace (mConvoName msg)
      in if u = '''' \<or> g = '''' then s
         else if newName = '''' \<or> length newName > 100
         then Send e c (convoErr g ''group name must be 1-100 characters'') s
         else if conversationCreator g (DB s) \<noteq> Some u
         then Send e c (convoErr g (''only the group'' @ [chr 39] @ ''s creator can rename it'')) s
         else let s1 = withDB (renameConversation g newName) s
              in sendToEach e (conversationMembers g (DB s1)) (convoUpdated g newName u u (DB s1)) s1)"

definition h_convo_history :: "env \<Rightarrow> cid \<Rightarrow> NexusMessage \<Rightarrow> NexusServer \<Rightarrow> NexusServer" where
  "h_convo_history e c msg s =
     (let u = me c s; g = mConvoID msg
      in if u = '''' \<or> g = '''' then s
         else if \<not> isConvoMember g u (DB s) then s
         else Send e c (msg0\<lparr>mType := ''convo_history'', mConvoID := g,
                mDMHistory := rev (map (\<lambda>r. \<lparr> dmMsgID = '''', dmSender = vm_sender r, dmRecipient = '''',
                    dmBody = vm_body r, dmEdited = False, dmDeleted = False, dmCreatedAt = vm_sent_at r, dmReactions = [] \<rparr>)
                  (sql_last_desc 100 (filter (\<lambda>r. vm_convo_id r = g) (convo_messages (DB s)))))\<rparr>) s)"

end
