(* ===== verification/Calls.thy ===== *)
theory Calls
  imports HandlersSocial
begin

text \<open>
  One-to-one calls: \<^verbatim>\<open>nexus_server/calls.go\<close>, \<^verbatim>\<open>callsignal.go\<close> and the \<^verbatim>\<open>call_\<dots>\<close> cases of
  \<^verbatim>\<open>handleConnections\<close>.  The state of a call is spread over two connections: the one that dialled
  (the \<open>cPendingCall\<dots>\<close> fields) and, after the answer, \<open>cInCall\<close> and \<open>cCallPartner\<close> on both.

  \<^verbatim>\<open>int(d.Seconds())\<close> goes through a double; the model takes the whole seconds of \<open>d\<close>, which is the
  same value for calls shorter than 97 days.
\<close>

section \<open>The call log\<close>

definition callOutcome :: "bool \<Rightarrow> time \<Rightarrow> time \<Rightarrow> bool \<times> int" where
  "callOutcome answered startedAt endedAt =
     (if \<not> answered then (False, 0) else (True, max ((endedAt - startedAt) div second) 0))"

definition recordCallStart :: "time \<Rightarrow> string \<Rightarrow> string \<Rightarrow> string \<Rightarrow> database \<Rightarrow> database \<times> int" where
  "recordCallStart now caller callee kind d =
     ((takeID ''calls'' d)\<lparr>calls := calls d @ [\<lparr> cl_id = nextID ''calls'' d, cl_caller = caller, cl_callee = callee,
         cl_kind = kind, cl_started_at = now, cl_answered = False, cl_duration_s = 0 \<rparr>]\<rparr>,
      nextID ''calls'' d)"

definition finalizeCall :: "time \<Rightarrow> int \<Rightarrow> bool \<Rightarrow> time \<Rightarrow> database \<Rightarrow> database \<times> string \<times> bool \<times> int" where
  "finalizeCall now callID answered startedAt d =
     (let (answeredOut, durationS) = callOutcome answered startedAt now;
          kind = (case sql_row (\<lambda>r. cl_id r = callID) (calls d) of None \<Rightarrow> '''' | Some r \<Rightarrow> cl_kind r)
      in (d\<lparr>calls := sql_update (\<lambda>r. cl_id r = callID)
              (\<lambda>r. r\<lparr>cl_answered := answeredOut, cl_duration_s := durationS\<rparr>) (calls d)\<rparr>,
          kind, answeredOut, durationS))"

definition unixMilli :: "time \<Rightarrow> int" where
  "unixMilli t = t div 1000000"

definition closeCallRow ::
  "env \<Rightarrow> cid \<Rightarrow> string \<Rightarrow> string \<Rightarrow> NexusServer \<Rightarrow> NexusServer \<times> NexusMessage" where
  "closeCallRow e p logCaller logCallee s =
     (let cl = conns s p;
          (d1, kind, answered, duration) =
            finalizeCall (e_now e) (cPendingCallID cl) (cPendingCallAnswered cl) (cPendingCallStarted cl) (DB s)
      in (withConn p (\<lambda>cl. cl\<lparr>cPendingCallID := 0, cPendingCallAnswered := False\<rparr>) (s\<lparr>DB := d1\<rparr>),
          msg0\<lparr>mType := ''call_log'', mSender := logCaller, mRecipient := logCallee, mBody := kind,
               mStatus := (if answered then ''answered'' else ''missed''),
               mTs := unixMilli (cPendingCallStarted cl), mDuration := duration\<rparr>))"

section \<open>Signals\<close>

definition callRTC :: string where "callRTC = ''rtc''"
definition maxCallSDP :: nat where "maxCallSDP = 64 * 1024"
definition maxCallCandidate :: nat where "maxCallCandidate = 4 * 1024"

definition validCallSignal :: "NexusMessage \<Rightarrow> bool" where
  "validCallSignal m \<longleftrightarrow>
     length (mSDP m) \<le> maxCallSDP \<and> length (mCandidate m) \<le> maxCallCandidate \<and>
     (if mBody m = ''offer'' \<or> mBody m = ''answer'' then mSDP m \<noteq> ''''
      else if mBody m = ''ice'' then mCandidate m \<noteq> '''' else False)"

section \<open>The handlers\<close>

definition h_call_offer :: "env \<Rightarrow> cid \<Rightarrow> NexusMessage \<Rightarrow> NexusServer \<Rightarrow> NexusServer" where
  "h_call_offer e c msg0' s =
     (let u = me c s; msg = msg0'\<lparr>mSender := u\<rparr>; r = mRecipient msg;
          err = (\<lambda>t. msg0\<lparr>mType := ''call_error'', mError := t\<rparr>)
      in if u = '''' then s
         else if \<not> areFriends u r (DB s) then Send e c (err ''You can only call friends'') s
         else if anyClientInCall r s \<noteq> None then Send e c (msg0\<lparr>mType := ''call_busy'', mSender := r\<rparr>) s
         else if clientsOf r s = [] then Send e c (err (r @ '' is not available'')) s
         else case randHex e 12 s of
                (s1, None) \<Rightarrow> Send e c (err ''server error'') s1
              | (s1, Some h) \<Rightarrow>
                  let roomID = ''phaze-'' @ h;
                      kind = (if mBody msg = ''audio'' \<or> mBody msg = ''video'' then mBody msg else ''audio'');
                      (d2, callID) = recordCallStart (e_now e) u r kind (DB s1);
                      s3 = withConn c (\<lambda>cl. cl\<lparr>cPendingCallRoom := roomID, cPendingCallID := callID,
                             cPendingCallStarted := e_now e, cPendingCallRTC := (mStatus msg = callRTC)\<rparr>) (s1\<lparr>DB := d2\<rparr>)
                  in SendAll e (clientsOf r s) (msg\<lparr>mRoomID := roomID\<rparr>) s3)"

definition takePending :: "string \<Rightarrow> cid option \<Rightarrow> NexusServer \<Rightarrow> NexusServer" where
  "takePending username caller s =
     (case caller of
        None \<Rightarrow> s
      | Some p \<Rightarrow> withConn p (\<lambda>cl. cl\<lparr>cPendingCallRTC := False, cPendingCallRoom := '''',
                    cPendingCallAnswered := True, cInCall := True, cCallPartner := username\<rparr>) s)"

definition h_call_answer :: "env \<Rightarrow> cid \<Rightarrow> NexusMessage \<Rightarrow> NexusServer \<Rightarrow> NexusServer" where
  "h_call_answer e c msg s =
     (let u = me c s; r = mRecipient msg; caller = pendingCaller r s;
          roomID = (case caller of None \<Rightarrow> '''' | Some p \<Rightarrow> cPendingCallRoom (conns s p));
          callerRTC = (case caller of None \<Rightarrow> False | Some p \<Rightarrow> cPendingCallRTC (conns s p));
          s1 = takePending u caller s;
          s2 = withConn c (\<lambda>cl. cl\<lparr>cInCall := True, cCallPartner := r\<rparr>) s1;
          stillRinging = filter (\<lambda>x. x \<noteq> c) (clientsOf u s);
          accepted = (\<lambda>from role. msg0\<lparr>mType := ''call_accepted'', mSender := from, mRoomID := roomID,
                        mBody := mBody msg, mStatus := role\<rparr>);
          jitsi = msg0\<lparr>mType := ''call_jitsi'', mRoomID := roomID, mBody := mBody msg\<rparr>;
          s3 = (case caller of
                  None \<Rightarrow> Send e c jitsi s2
                | Some p \<Rightarrow> (if callerRTC \<and> mStatus msg = callRTC
                             then Send e c (accepted r ''callee'') (Send e p (accepted u ''caller'') s2)
                             else Send e c jitsi (Send e p jitsi s2)))
      in if u = '''' then s
         else SendAll e stillRinging (msg0\<lparr>mType := ''call_end'', mSender := r, mBody := ''answered_elsewhere''\<rparr>) s3)"

definition h_call_signal :: "env \<Rightarrow> cid \<Rightarrow> NexusMessage \<Rightarrow> NexusServer \<Rightarrow> NexusServer" where
  "h_call_signal e c msg s =
     (let u = me c s; r = mRecipient msg
      in if u = '''' \<or> r = '''' then s
         else if \<not> validCallSignal msg then s
         else let mine = (cInCall (conns s c) \<and> cCallPartner (conns s c) = r)
              in case callPeer r u s of
                   None \<Rightarrow> s
                 | Some peer \<Rightarrow>
                     if \<not> mine then s
                     else Send e peer (msg0\<lparr>mType := ''call_signal'', mSender := u, mRecipient := r,
                            mBody := mBody msg, mSDP := mSDP msg, mCandidate := mCandidate msg\<rparr>) s)"

definition hangUp :: "cid \<Rightarrow> NexusServer \<Rightarrow> NexusServer" where
  "hangUp c s = withConn c (\<lambda>cl. cl\<lparr>cInCall := False, cCallPartner := ''''\<rparr>) s"

definition callRowOwner ::
  "cid \<Rightarrow> cid option \<Rightarrow> string \<Rightarrow> string \<Rightarrow> NexusServer \<Rightarrow> (cid \<times> string \<times> string) option" where
  "callRowOwner c peer u r s =
     (if cPendingCallID (conns s c) \<noteq> 0 then Some (c, u, r)
      else case peer of
             None \<Rightarrow> None
           | Some p \<Rightarrow> if cPendingCallID (conns s p) \<noteq> 0 then Some (p, r, u) else None)"

definition h_call_end :: "env \<Rightarrow> cid \<Rightarrow> NexusMessage \<Rightarrow> NexusServer \<Rightarrow> NexusServer" where
  "h_call_end e c msg s =
     (let u = me c s; r = mRecipient msg;
          peer = (case callPeer r u s of Some p \<Rightarrow> Some p | None \<Rightarrow> pendingCaller r s);
          (s1, logMsg) = (case callRowOwner c peer u r s of
                            None \<Rightarrow> (s, None)
                          | Some (p, logCaller, logCallee) \<Rightarrow>
                              let (s1, m) = closeCallRow e p logCaller logCallee s in (s1, Some m));
          s2 = hangUp c s1;
          s3 = (case peer of None \<Rightarrow> s2 | Some p \<Rightarrow> Send e p msg (hangUp p s2))
      in if u = '''' then s
         else case logMsg of
                None \<Rightarrow> s3
              | Some m \<Rightarrow> fst (sendTo e r m (fst (sendTo e u m s3))))"

definition h_call_invite :: "env \<Rightarrow> cid \<Rightarrow> NexusMessage \<Rightarrow> NexusServer \<Rightarrow> NexusServer" where
  "h_call_invite e c msg s =
     (let u = me c s; r = mRecipient msg
      in if u = '''' \<or> r = '''' \<or> mChannelID msg = '''' then s
         else if \<not> areFriends u r (DB s)
         then Send e c (msg0\<lparr>mType := ''call_error'', mError := ''You can only invite friends''\<rparr>) s
         else fst (sendTo e r (msg\<lparr>mSender := u\<rparr>) s))"

section \<open>Disconnecting\<close>

text \<open>The part of the read-error path of \<^verbatim>\<open>handleConnections\<close> that ends the call of the connection.\<close>

definition dropCall :: "env \<Rightarrow> cid \<Rightarrow> NexusServer \<Rightarrow> NexusServer" where
  "dropCall e c s =
     (let u = me c s; callPartner = cCallPartner (conns s c)
      in if callPartner = '''' then s
         else case callPeer callPartner u s of
                None \<Rightarrow> s
              | Some p \<Rightarrow>
                  let s1 = Send e p (msg0\<lparr>mType := ''call_end'', mSender := u\<rparr>) (hangUp p s)
                  in case callRowOwner c (Some p) u callPartner s1 of
                       None \<Rightarrow> s1
                     | Some (q, logCaller, logCallee) \<Rightarrow>
                         let (s2, m) = closeCallRow e q logCaller logCallee s1 in Send e p m s2)"

end
