(* ===== verification/HandlersSpaces.thy ===== *)
theory HandlersSpaces
  imports HandlersAuth
begin

text \<open>
  The cases of the message switch in \<^verbatim>\<open>handleConnections\<close> (\<^verbatim>\<open>nexus_server/ws_handlers.go\<close>) for spaces
  and channels, whiteboards, voice rooms, live streams and remote control, one definition \<open>h_\<dots>\<close> per
  case.
\<close>

section \<open>Spaces\<close>

definition serverErr :: "string \<Rightarrow> NexusMessage" where
  "serverErr t = msg0\<lparr>mType := ''server_result'', mError := t\<rparr>"

definition insertServer :: "server_row \<Rightarrow> database \<Rightarrow> database option" where
  "insertServer r d =
     (if sql_has sv_id (sv_id r) (servers d) \<or> sql_has sv_invite_code (sv_invite_code r) (servers d) then None
      else Some (d\<lparr>servers := servers d @ [r]\<rparr>))"

definition insertChannel :: "channel_row \<Rightarrow> database \<Rightarrow> database option" where
  "insertChannel r d = map_option (\<lambda>t. d\<lparr>channels := t\<rparr>) (sql_insert ch_id r (channels d))"

text \<open>
  The loop over the first channels of a new space.  \<^verbatim>\<open>Inl\<close> is the text of the error frame: the
  transaction is rolled back by the caller.
\<close>

fun bootstrapChannels ::
  "env \<Rightarrow> string \<Rightarrow> int \<Rightarrow> string list \<Rightarrow> NexusServer \<Rightarrow> database \<Rightarrow> NexusServer \<times> (string + database)" where
  "bootstrapChannels e sid i [] s d = (s, Inr d)"
| "bootstrapChannels e sid i (ch # chs) s d =
     (case randHex e 12 s of
        (s1, None) \<Rightarrow> (s1, Inl ''server error'')
      | (s1, Some chID) \<Rightarrow>
          (case insertChannel \<lparr> ch_id = chID, ch_server_id = sid, ch_name = ch, ch_topic = '''',
                  ch_kind = ''text'', ch_position = i \<rparr> d of
             None \<Rightarrow> (s1, Inl ''could not create server'')
           | Some d1 \<Rightarrow> bootstrapChannels e sid (i + 1) chs s1 d1))"

definition createServerTx ::
  "env \<Rightarrow> server_row \<Rightarrow> NexusServer \<Rightarrow> NexusServer \<times> (string + database)" where
  "createServerTx e r s =
     (case insertServer r (DB s) of
        None \<Rightarrow> (s, Inl ''could not create server'')
      | Some d1 \<Rightarrow>
          (case sql_insert sm_key (newMember (e_now e) (sv_id r) (sv_owner r) ''owner'') (server_members d1) of
             None \<Rightarrow> (s, Inl ''could not create server'')
           | Some t \<Rightarrow> bootstrapChannels e (sv_id r) 0 [''general'', ''random''] s (d1\<lparr>server_members := t\<rparr>)))"

definition novaJoins :: "env \<Rightarrow> string \<Rightarrow> string \<Rightarrow> database \<Rightarrow> database" where
  "novaJoins e sid visibility d =
     (if visibility = ''public'' \<and> e_getenv e ''NOVA_USERNAME'' \<noteq> ''''
      then joinServer (e_now e) sid (e_getenv e ''NOVA_USERNAME'') d else d)"

definition h_server_create :: "env \<Rightarrow> cid \<Rightarrow> NexusMessage \<Rightarrow> NexusServer \<Rightarrow> NexusServer" where
  "h_server_create e c msg s =
     (let u = me c s; name = TrimSpace (mServerName msg);
          vis = ToLower (e_uniLower e) (TrimSpace (mVisibility msg));
          visibility = (if vis \<noteq> ''public'' \<and> vis \<noteq> ''private'' then ''private'' else vis)
      in if u = '''' then s
         else if \<not> validServerName e name
         then Send e c (serverErr (''Server name: 2-64 chars, letters/digits/space/-_.'' @ [chr 39])) s
         else case randHex e 16 s of
                (s1, None) \<Rightarrow> Send e c (serverErr ''rand failure'') s1
              | (s1, Some sid) \<Rightarrow>
                  (case randHex e 8 s1 of
                     (s2, None) \<Rightarrow> Send e c (serverErr ''rand failure'') s2
                   | (s2, Some invite) \<Rightarrow>
                       (case createServerTx e \<lparr> sv_id = sid, sv_name = name, sv_description = TrimSpace (mTopic msg),
                               sv_icon = '''', sv_owner = u, sv_visibility = visibility, sv_invite_code = invite,
                               sv_created_at = sqlNow (e_now e) \<rparr> s2 of
                          (s3, Inl t) \<Rightarrow> Send e c (serverErr t) s3
                        | (s3, Inr d) \<Rightarrow>
                            withDB (novaJoins e sid visibility)
                              (Send e c (msg0\<lparr>mType := ''server_result'', mStatus := ''ok'', mServerID := sid,
                                 mServerName := name, mInviteCode := invite, mRole := ''owner'',
                                 mVisibility := visibility, mChannels := listServerChannels sid d\<rparr>) (s3\<lparr>DB := d\<rparr>)))))"

definition h_server_list :: "env \<Rightarrow> cid \<Rightarrow> NexusMessage \<Rightarrow> NexusServer \<Rightarrow> NexusServer" where
  "h_server_list e c msg s =
     (if me c s = '''' then s
      else Send e c (msg0\<lparr>mType := ''server_list_result'', mStatus := ''ok'',
             mServers := listUserServers (me c s) (DB s)\<rparr>) s)"

definition h_server_discover :: "env \<Rightarrow> cid \<Rightarrow> NexusMessage \<Rightarrow> NexusServer \<Rightarrow> NexusServer" where
  "h_server_discover e c msg s =
     (if me c s = '''' then s
      else Send e c (msg0\<lparr>mType := ''server_discover_result'', mStatus := ''ok'',
             mServers := listPublicServers (me c s) (DB s)\<rparr>) s)"

definition joinTarget :: "NexusMessage \<Rightarrow> database \<Rightarrow> string + server_row" where
  "joinTarget msg d =
     (let code = TrimSpace (mInviteCode msg)
      in if code \<noteq> ''''
         then (case sql_row (\<lambda>r. sv_invite_code r = code) (servers d) of
                 None \<Rightarrow> Inl ''invite invalid'' | Some r \<Rightarrow> Inr r)
         else if mServerID msg \<noteq> ''''
         then (case sql_row (\<lambda>r. sv_id r = mServerID msg \<and> sv_visibility r = ''public'') (servers d) of
                 None \<Rightarrow> Inl ''server not found or not public'' | Some r \<Rightarrow> Inr r)
         else Inl ''invite_code or public server_id required'')"

definition h_server_join :: "env \<Rightarrow> cid \<Rightarrow> NexusMessage \<Rightarrow> NexusServer \<Rightarrow> NexusServer" where
  "h_server_join e c msg s =
     (if me c s = '''' then s
      else case joinTarget msg (DB s) of
             Inl t \<Rightarrow> Send e c (msg0\<lparr>mType := ''server_join_result'', mError := t\<rparr>) s
           | Inr r \<Rightarrow>
               let s1 = withDB (joinServer (e_now e) (sv_id r) (me c s)) s
               in Send e c (msg0\<lparr>mType := ''server_join_result'', mStatus := ''ok'', mServerID := sv_id r,
                    mServerName := sv_name r, mChannels := listServerChannels (sv_id r) (DB s1)\<rparr>) s1)"

definition h_server_leave :: "env \<Rightarrow> cid \<Rightarrow> NexusMessage \<Rightarrow> NexusServer \<Rightarrow> NexusServer" where
  "h_server_leave e c msg s =
     (let u = me c s; sid = mServerID msg; err = (\<lambda>t. msg0\<lparr>mType := ''server_leave_result'', mError := t\<rparr>)
      in if u = '''' \<or> sid = '''' then s
         else if sid = globalSpaceID
         then Send e c (err (''the Phaze Hub is for everyone '' @ emDash @ '' can'' @ [chr 39] @ ''t leave'')) s
         else if userServerRole sid u (DB s) = ''owner''
         then Send e c (err (''owners can'' @ [chr 39] @ ''t leave; delete the server or transfer ownership first'')) s
         else Send e c (msg0\<lparr>mType := ''server_leave_result'', mStatus := ''ok'', mServerID := sid\<rparr>)
                (withDB (leaveServer sid u) s))"

definition h_server_info :: "env \<Rightarrow> cid \<Rightarrow> NexusMessage \<Rightarrow> NexusServer \<Rightarrow> NexusServer" where
  "h_server_info e c msg s =
     (let sid = mServerID msg
      in if me c s = '''' \<or> sid = '''' then s
         else if \<not> userIsServerMember sid (me c s) (DB s)
         then Send e c (msg0\<lparr>mType := ''server_info_result'', mError := ''not a member''\<rparr>) s
         else Send e c (msg0\<lparr>mType := ''server_info_result'', mStatus := ''ok'', mServerID := sid,
                mChannels := listServerChannels sid (DB s), mMembers := serverMembers sid (DB s)\<rparr>) s)"

section \<open>Channels\<close>

definition isSpaceAdmin :: "string \<Rightarrow> string \<Rightarrow> database \<Rightarrow> bool" where
  "isSpaceAdmin sid u d \<longleftrightarrow> userServerRole sid u d = ''owner'' \<or> userServerRole sid u d = ''admin''"

definition serverOf :: "string \<Rightarrow> database \<Rightarrow> string" where
  "serverOf ch d = (case channelRow ch d of None \<Rightarrow> '''' | Some r \<Rightarrow> ch_server_id r)"

definition msgRow :: "int \<Rightarrow> database \<Rightarrow> channel_msg_row option" where
  "msgRow i d = sql_row (\<lambda>r. cr_id r = i) (channel_messages d)"

definition updChannelMsg :: "int \<Rightarrow> (channel_msg_row \<Rightarrow> channel_msg_row) \<Rightarrow> database \<Rightarrow> database" where
  "updChannelMsg i f d = d\<lparr>channel_messages := sql_update (\<lambda>r. cr_id r = i) f (channel_messages d)\<rparr>"

definition h_channel_create :: "env \<Rightarrow> cid \<Rightarrow> NexusMessage \<Rightarrow> NexusServer \<Rightarrow> NexusServer" where
  "h_channel_create e c msg s =
     (let u = me c s; sid = mServerID msg; res = msg0\<lparr>mType := ''channel_result''\<rparr>;
          name = ToLower (e_uniLower e) (TrimSpace (mChannelName msg));
          k = ToLower (e_uniLower e) (TrimSpace (mKind msg));
          kind = (if k \<noteq> ''text'' \<and> k \<noteq> ''voice'' \<and> k \<noteq> ''whiteboard'' then ''text'' else k)
      in if u = '''' \<or> sid = '''' then s
         else if \<not> isSpaceAdmin sid u (DB s) then Send e c (res\<lparr>mError := ''admin only''\<rparr>) s
         else if \<not> validChannelName name
         then Send e c (res\<lparr>mError := ''channel name: lowercase a-z 0-9 - _ , 2-32 chars''\<rparr>) s
         else case randHex e 12 s of
                (s1, None) \<Rightarrow> Send e c (res\<lparr>mError := ''rand failure''\<rparr>) s1
              | (s1, Some chID) \<Rightarrow>
                  let positions = map ch_position (filter (\<lambda>r. ch_server_id r = sid) (channels (DB s1)));
                      maxPos = (if positions = [] then 0 else foldr max (tl positions) (hd positions))
                  in case insertChannel \<lparr> ch_id = chID, ch_server_id = sid, ch_name = name,
                            ch_topic = TrimSpace (mTopic msg), ch_kind = kind, ch_position = maxPos + 1 \<rparr> (DB s1) of
                       None \<Rightarrow> Send e c (res\<lparr>mError := ''db: '' @ errText (ErrUnique ''channels.id'')\<rparr>) s1
                     | Some d2 \<Rightarrow>
                         Send e c (res\<lparr>mStatus := ''ok'', mServerID := sid, mChannelID := chID\<rparr>)
                           (broadcastChannelMsg e sid (msg0\<lparr>mType := ''server_channels_updated'', mServerID := sid,
                              mChannels := listServerChannels sid d2\<rparr>) (s1\<lparr>DB := d2\<rparr>)))"

definition h_channel_msg :: "env \<Rightarrow> cid \<Rightarrow> NexusMessage \<Rightarrow> NexusServer \<Rightarrow> NexusServer" where
  "h_channel_msg e c msg s =
     (let u = me c s; ch = mChannelID msg; err = (\<lambda>t. msg0\<lparr>mType := ''channel_msg_result'', mError := t\<rparr>);
          body = TrimSpace (mBody msg)
      in if u = '''' \<or> ch = '''' then s
         else case channelRow ch (DB s) of
                None \<Rightarrow> Send e c (err ''no such channel'') s
              | Some r \<Rightarrow>
                  let sid = ch_server_id r; i = nextID ''channel_messages'' (DB s); now = sqlNow (e_now e)
                  in if \<not> userIsServerMember sid u (DB s) then Send e c (err ''not a member'') s
                     else if body = '''' \<or> length body > 8000 then Send e c (err ''body 1-8000 chars'') s
                     else broadcastChannelMsg e sid
                            (msg0\<lparr>mType := ''channel_msg_in'', mServerID := sid, mChannelID := ch, mSender := u,
                               mBody := body, mMessages := [channelMsg0\<lparr>cmID := i, cmChannelID := ch, cmSender := u,
                                 cmBody := body, cmCreatedAt := now\<rparr>]\<rparr>)
                            (withDB (\<lambda>d. (takeID ''channel_messages'' d)\<lparr>channel_messages := channel_messages d @
                               [\<lparr> cr_id = i, cr_channel_id = ch, cr_sender = u, cr_body = body, cr_created_at = now,
                                 cr_edited = False, cr_deleted = False, cr_pinned = False \<rparr>]\<rparr>) s))"

definition h_channel_history :: "env \<Rightarrow> cid \<Rightarrow> NexusMessage \<Rightarrow> NexusServer \<Rightarrow> NexusServer" where
  "h_channel_history e c msg s =
     (let u = me c s; ch = mChannelID msg; err = (\<lambda>t. msg0\<lparr>mType := ''channel_history_result'', mError := t\<rparr>)
      in if u = '''' \<or> ch = '''' then s
         else case channelRow ch (DB s) of
                None \<Rightarrow> Send e c (err ''no such channel'') s
              | Some r \<Rightarrow>
                  if \<not> userIsServerMember (ch_server_id r) u (DB s) then Send e c (err ''not a member'') s
                  else Send e c (msg0\<lparr>mType := ''channel_history_result'', mStatus := ''ok'',
                         mServerID := ch_server_id r, mChannelID := ch,
                         mMessages := channelHistory ch (mHistoryFrom msg) 50 (DB s)\<rparr>) s)"

definition toggleChannelReaction :: "int \<Rightarrow> string \<Rightarrow> string \<Rightarrow> database \<Rightarrow> database" where
  "toggleChannelReaction i emoji u d =
     (let row = \<lparr> rx_msg_id = i, rx_emoji = emoji, rx_username = u \<rparr>
      in if sql_row (\<lambda>r. rx_key r = rx_key row) (channel_reactions d) \<noteq> None
         then d\<lparr>channel_reactions := sql_delete (\<lambda>r. rx_key r = rx_key row) (channel_reactions d)\<rparr>
         else d\<lparr>channel_reactions := sql_insert_ignore rx_key row (channel_reactions d)\<rparr>)"

definition h_channel_react :: "env \<Rightarrow> cid \<Rightarrow> NexusMessage \<Rightarrow> NexusServer \<Rightarrow> NexusServer" where
  "h_channel_react e c msg s =
     (let u = me c s; ch = mChannelID msg
      in if u = '''' \<or> ch = '''' \<or> mMsgID msg = '''' \<or> mReaction msg = '''' then s
         else case channelRow ch (DB s) of
                None \<Rightarrow> s
              | Some r \<Rightarrow>
                  if \<not> userIsServerMember (ch_server_id r) u (DB s) then s
                  else case ParseInt (mMsgID msg) of
                         None \<Rightarrow> s
                       | Some i \<Rightarrow>
                           let s1 = withDB (toggleChannelReaction i (mReaction msg) u) s
                           in broadcastChannelMsg e (ch_server_id r)
                                (msg0\<lparr>mType := ''channel_react_in'', mServerID := ch_server_id r, mChannelID := ch,
                                   mMsgID := mMsgID msg, mMessages := [channelMsg0\<lparr>cmID := i, cmChannelID := ch,
                                     cmReactions := aget [] (channelReactionsBulk [i] (DB s1)) i\<rparr>]\<rparr>) s1)"

definition h_channel_edit :: "env \<Rightarrow> cid \<Rightarrow> NexusMessage \<Rightarrow> NexusServer \<Rightarrow> NexusServer" where
  "h_channel_edit e c msg s =
     (let u = me c s
      in if u = '''' \<or> mMsgID msg = '''' \<or> mBody msg = '''' then s
         else if length (mBody msg) > 8000 then s
         else case ParseInt (mMsgID msg) of
                None \<Rightarrow> s
              | Some i \<Rightarrow>
                  (case msgRow i (DB s) of
                     None \<Rightarrow> s
                   | Some r \<Rightarrow>
                       if cr_sender r \<noteq> u then s
                       else let s1 = withDB (updChannelMsg i (\<lambda>x. x\<lparr>cr_body := mBody msg, cr_edited := True\<rparr>)) s;
                                ch = cr_channel_id r; sid = serverOf ch (DB s1)
                            in broadcastChannelMsg e sid
                                 (msg0\<lparr>mType := ''channel_edit_in'', mServerID := sid, mChannelID := ch,
                                    mMsgID := mMsgID msg, mBody := mBody msg, mMessages := [channelMsg0\<lparr>cmID := i,
                                      cmChannelID := ch, cmSender := u, cmBody := mBody msg, cmEdited := True\<rparr>]\<rparr>) s1))"

definition h_channel_delete :: "env \<Rightarrow> cid \<Rightarrow> NexusMessage \<Rightarrow> NexusServer \<Rightarrow> NexusServer" where
  "h_channel_delete e c msg s =
     (let u = me c s
      in if u = '''' \<or> mMsgID msg = '''' then s
         else case ParseInt (mMsgID msg) of
                None \<Rightarrow> s
              | Some i \<Rightarrow>
                  (case msgRow i (DB s) of
                     None \<Rightarrow> s
                   | Some r \<Rightarrow>
                       let ch = cr_channel_id r; sid = serverOf ch (DB s)
                       in if cr_sender r \<noteq> u \<and> \<not> isSpaceAdmin sid u (DB s) \<and> \<not> roleAtLeast u ''helper'' (DB s) then s
                          else broadcastChannelMsg e sid
                                 (msg0\<lparr>mType := ''channel_delete_in'', mServerID := sid, mChannelID := ch,
                                    mMsgID := mMsgID msg, mMessages := [channelMsg0\<lparr>cmID := i, cmChannelID := ch,
                                      cmSender := cr_sender r, cmDeleted := True\<rparr>]\<rparr>)
                                 (withDB (updChannelMsg i (\<lambda>x. x\<lparr>cr_deleted := True, cr_body := ''''\<rparr>)) s)))"

definition h_channel_pin :: "env \<Rightarrow> cid \<Rightarrow> NexusMessage \<Rightarrow> NexusServer \<Rightarrow> NexusServer" where
  "h_channel_pin e c msg s =
     (let u = me c s
      in if u = '''' \<or> mMsgID msg = '''' then s
         else case ParseInt (mMsgID msg) of
                None \<Rightarrow> s
              | Some i \<Rightarrow>
                  (case msgRow i (DB s) of
                     None \<Rightarrow> s
                   | Some r \<Rightarrow>
                       let ch = cr_channel_id r; sid = serverOf ch (DB s)
                       in if \<not> userIsServerMember sid u (DB s) then s
                          else if \<not> isSpaceAdmin sid u (DB s)
                          then Send e c (msg0\<lparr>mType := ''channel_pin_result'', mError := ''admin only''\<rparr>) s
                          else broadcastChannelMsg e sid
                                 (msg0\<lparr>mType := ''channel_pin_in'', mServerID := sid, mChannelID := ch,
                                    mMsgID := mMsgID msg, mMessages := [channelMsg0\<lparr>cmID := i, cmChannelID := ch,
                                      cmPinned := \<not> cr_pinned r\<rparr>]\<rparr>)
                                 (withDB (updChannelMsg i (\<lambda>x. x\<lparr>cr_pinned := \<not> cr_pinned r\<rparr>)) s)))"

section \<open>Whiteboards\<close>

definition onBoard :: "string \<Rightarrow> string \<Rightarrow> database \<Rightarrow> bool" where
  "onBoard ch u d \<longleftrightarrow> (let (sid, isWB) = channelIsWhiteboard ch d in isWB \<and> isServerMember sid u d)"

definition boardServer :: "string \<Rightarrow> database \<Rightarrow> string" where
  "boardServer ch d = fst (channelIsWhiteboard ch d)"

definition h_wb_join :: "env \<Rightarrow> cid \<Rightarrow> NexusMessage \<Rightarrow> NexusServer \<Rightarrow> NexusServer" where
  "h_wb_join e c msg s =
     (let ch = mChannelID msg
      in if me c s = '''' \<or> ch = '''' then s
         else if \<not> onBoard ch (me c s) (DB s)
         then Send e c (msg0\<lparr>mType := ''wb_state'', mError := ''no such whiteboard''\<rparr>) s
         else Send e c (msg0\<lparr>mType := ''wb_state'', mStatus := ''ok'', mChannelID := ch,
                mStrokes := whiteboardState ch (DB s)\<rparr>) s)"

definition h_wb_stroke :: "env \<Rightarrow> cid \<Rightarrow> NexusMessage \<Rightarrow> NexusServer \<Rightarrow> NexusServer" where
  "h_wb_stroke e c msg s =
     (let u = me c s; ch = mChannelID msg
      in if u = '''' \<or> ch = '''' \<or> mStroke msg = '''' then s
         else if \<not> onBoard ch u (DB s) then s
         else case validateStroke e (mStroke msg) of
                None \<Rightarrow> Send e c (msg0\<lparr>mType := ''wb_error'', mChannelID := ch, mError := ''malformed stroke''\<rparr>) s
              | Some clean \<Rightarrow>
                  let (d1, i) = appendStroke e ch u clean (DB s)
                  in broadcastChannelMsg e (boardServer ch (DB s))
                       (msg0\<lparr>mType := ''wb_stroke'', mSender := u, mChannelID := ch, mStroke := clean,
                          mStrokeID := i\<rparr>) (s\<lparr>DB := d1\<rparr>))"

definition h_wb_undo :: "env \<Rightarrow> cid \<Rightarrow> NexusMessage \<Rightarrow> NexusServer \<Rightarrow> NexusServer" where
  "h_wb_undo e c msg s =
     (let u = me c s; ch = mChannelID msg
      in if u = '''' \<or> ch = '''' then s
         else if \<not> onBoard ch u (DB s) then s
         else case (if mStrokeUID msg \<noteq> '''' then undoStroke ch u (mStrokeUID msg) (DB s)
                    else undoLastStroke ch u (DB s)) of
                (d1, None) \<Rightarrow> s\<lparr>DB := d1\<rparr>
              | (d1, Some (i, removed)) \<Rightarrow>
                  broadcastChannelMsg e (boardServer ch (DB s))
                    (msg0\<lparr>mType := ''wb_undo'', mSender := u, mChannelID := ch, mStrokeID := i,
                       mStrokeUID := strokeUID e removed\<rparr>) (s\<lparr>DB := d1\<rparr>))"

definition h_wb_clear :: "env \<Rightarrow> cid \<Rightarrow> NexusMessage \<Rightarrow> NexusServer \<Rightarrow> NexusServer" where
  "h_wb_clear e c msg s =
     (let u = me c s; ch = mChannelID msg; sid = boardServer ch (DB s)
      in if u = '''' \<or> ch = '''' then s
         else if \<not> onBoard ch u (DB s) then s
         else if \<not> isSpaceAdmin sid u (DB s)
         then Send e c (msg0\<lparr>mType := ''wb_error'', mChannelID := ch, mError := ''only space admins can clear the board''\<rparr>) s
         else broadcastChannelMsg e sid (msg0\<lparr>mType := ''wb_clear'', mSender := u, mChannelID := ch\<rparr>)
                (withDB (clearWhiteboard ch) s))"

section \<open>Voice rooms and streams\<close>

definition h_voice_join :: "env \<Rightarrow> cid \<Rightarrow> NexusMessage \<Rightarrow> NexusServer \<Rightarrow> NexusServer" where
  "h_voice_join e c msg s =
     (let u = me c s; ch = mChannelID msg; err = (\<lambda>t. msg0\<lparr>mType := ''voice_peers'', mError := t\<rparr>);
          enter = voiceRoomBroadcastPeers e ch (voiceRoomJoin ch u s)
      in if u = '''' \<or> ch = '''' then s
         else if hasPrefix ch ''call_'' then enter
         else case channelRow ch (DB s) of
                None \<Rightarrow> Send e c (err ''channel not found'') s
              | Some r \<Rightarrow>
                  if ch_kind r \<noteq> ''voice'' then Send e c (err ''not a voice channel'') s
                  else if \<not> isServerMember (ch_server_id r) u (DB s) then Send e c (err ''not a member'') s
                  else enter)"

definition h_voice_leave :: "env \<Rightarrow> cid \<Rightarrow> NexusMessage \<Rightarrow> NexusServer \<Rightarrow> NexusServer" where
  "h_voice_leave e c msg s =
     (if me c s = '''' \<or> mChannelID msg = '''' then s
      else voiceRoomBroadcastPeers e (mChannelID msg) (voiceRoomLeave (mChannelID msg) (me c s) s))"

definition h_voice_signal :: "env \<Rightarrow> cid \<Rightarrow> NexusMessage \<Rightarrow> NexusServer \<Rightarrow> NexusServer" where
  "h_voice_signal e c msg s =
     (let u = me c s; r = mRecipient msg; ch = mChannelID msg
      in if u = '''' \<or> r = '''' \<or> ch = '''' then s
         else if \<not> voiceRoomHas ch u s \<or> \<not> voiceRoomHas ch r s then s
         else fst (sendTo e r (msg0\<lparr>mType := ''voice_signal'', mSender := u, mRecipient := r, mChannelID := ch,
                mBody := mBody msg, mSDP := mSDP msg, mCandidate := mCandidate msg\<rparr>) s))"

definition h_stream_start :: "env \<Rightarrow> cid \<Rightarrow> NexusMessage \<Rightarrow> NexusServer \<Rightarrow> NexusServer" where
  "h_stream_start e c msg s =
     (let u = me c s; t = TrimSpace (mBody msg);
          title = (if t = '''' then u @ [chr 39] @ ''s stream'' else t)
      in if u = '''' then s else streamBroadcastList e (streamStart u title s))"

definition h_stream_stop :: "env \<Rightarrow> cid \<Rightarrow> NexusMessage \<Rightarrow> NexusServer \<Rightarrow> NexusServer" where
  "h_stream_stop e c msg s =
     (if me c s = '''' then s else streamBroadcastList e (streamStop e (me c s) s))"

definition h_stream_list :: "env \<Rightarrow> cid \<Rightarrow> NexusMessage \<Rightarrow> NexusServer \<Rightarrow> NexusServer" where
  "h_stream_list e c msg s =
     Send e c (msg0\<lparr>mType := ''stream_list_result'', mStatus := ''ok'', mResults := streamList s\<rparr>) s"

definition h_stream_join :: "env \<Rightarrow> cid \<Rightarrow> NexusMessage \<Rightarrow> NexusServer \<Rightarrow> NexusServer" where
  "h_stream_join e c msg s =
     (let u = me c s; r = mRecipient msg
      in if u = '''' \<or> r = '''' then s
         else if \<not> streamHas r s then Send e c (msg0\<lparr>mType := ''stream_join_result'', mError := ''not live''\<rparr>) s
         else Send e c (msg0\<lparr>mType := ''stream_join_result'', mStatus := ''ok'', mRecipient := r\<rparr>)
                (fst (sendTo e r (msg0\<lparr>mType := ''stream_viewer_join'', mSender := u, mRecipient := r\<rparr>)
                  (streamAddViewer r u s))))"

definition h_stream_leave :: "env \<Rightarrow> cid \<Rightarrow> NexusMessage \<Rightarrow> NexusServer \<Rightarrow> NexusServer" where
  "h_stream_leave e c msg s =
     (let u = me c s; r = mRecipient msg
      in if u = '''' \<or> r = '''' then s
         else fst (sendTo e r (msg0\<lparr>mType := ''stream_viewer_leave'', mSender := u, mRecipient := r\<rparr>)
                (streamRemoveViewer r u s)))"

definition h_stream_signal :: "env \<Rightarrow> cid \<Rightarrow> NexusMessage \<Rightarrow> NexusServer \<Rightarrow> NexusServer" where
  "h_stream_signal e c msg s =
     (let u = me c s; r = mRecipient msg
      in if u = '''' \<or> r = '''' then s
         else if \<not> streamAreParticipants u r s then s
         else fst (sendTo e r (msg0\<lparr>mType := ''stream_signal'', mSender := u, mRecipient := r,
                mBody := mBody msg, mSDP := mSDP msg, mCandidate := mCandidate msg\<rparr>) s))"

section \<open>Remote control\<close>

definition h_remote_register :: "env \<Rightarrow> cid \<Rightarrow> NexusMessage \<Rightarrow> NexusServer \<Rightarrow> NexusServer" where
  "h_remote_register e c msg s =
     (let code = mBody msg
      in if me c s = '''' then s
         else if length code \<noteq> 6 then Send e c (msg0\<lparr>mType := ''remote_error'', mError := ''Invalid code''\<rparr>) s
         else Send e c (msg0\<lparr>mType := ''remote_registered'', mBody := code\<rparr>)
                (s\<lparr>RemoteCodes := aput code \<lparr> rce_Username = me c s, rce_CreatedAt = e_now e \<rparr> (RemoteCodes s)\<rparr>))"

definition h_remote_unregister :: "env \<Rightarrow> cid \<Rightarrow> NexusMessage \<Rightarrow> NexusServer \<Rightarrow> NexusServer" where
  "h_remote_unregister e c msg s =
     (if me c s = '''' then s
      else s\<lparr>RemoteCodes := filter (\<lambda>(k, v). rce_Username v \<noteq> me c s) (RemoteCodes s)\<rparr>)"

definition h_remote_lookup :: "env \<Rightarrow> cid \<Rightarrow> NexusMessage \<Rightarrow> NexusServer \<Rightarrow> NexusServer" where
  "h_remote_lookup e c msg s =
     (let err = (\<lambda>t. msg0\<lparr>mType := ''remote_lookup_result'', mStatus := ''error'', mError := t\<rparr>)
      in if me c s = '''' then s
         else if \<not> e_limiter e ''remoteLookup'' (peerIP c s)
         then Send e c (err (''Too many lookup attempts '' @ emDash @ '' try again shortly'')) s
         else case lookupRemoteCode (e_now e) (mBody msg) s of
                Some host \<Rightarrow> Send e c (msg0\<lparr>mType := ''remote_lookup_result'', mStatus := ''ok'', mBody := host\<rparr>) s
              | None \<Rightarrow> Send e c (err (''Invalid code '' @ emDash @ '' make sure the host is still sharing'')) s)"

definition h_remote_relay :: "env \<Rightarrow> cid \<Rightarrow> NexusMessage \<Rightarrow> NexusServer \<Rightarrow> NexusServer" where
  "h_remote_relay e c msg s =
     (let u = me c s; r = mRecipient msg;
          s1 = (if mType msg = ''remote_end''
                then s\<lparr>RemoteCodes := filter (\<lambda>(k, v). rce_Username v \<noteq> u \<and> rce_Username v \<noteq> r) (RemoteCodes s)\<rparr>
                else s);
          (s2, sent) = sendTo e r (msg\<lparr>mSender := u\<rparr>) s1
      in if u = '''' then s
         else if \<not> sent \<and> mType msg = ''remote_offer''
         then Send e c (msg0\<lparr>mType := ''remote_error'', mError := r @ '' is not online''\<rparr>) s2
         else s2)"

end
