(* ===== verification/Dispatch.thy ===== *)
theory Dispatch
  imports Calls HandlersSpaces
begin

text \<open>
  \<^verbatim>\<open>handleConnections\<close> (\<^verbatim>\<open>nexus_server/ws_handlers.go\<close>) as a state machine: a connection is accepted,
  its frames go through the message switch, a read error ends it.  Many connections run at once; a
  run of the server is a sequence of events in the order their critical sections take effect.
  \<open>handlers\<close> is the switch, \<open>step\<close> the transition relation and \<open>reachable\<close> what it can reach.
\<close>

section \<open>The switch\<close>

type_synonym handler = "env \<Rightarrow> cid \<Rightarrow> NexusMessage \<Rightarrow> NexusServer \<Rightarrow> NexusServer"

definition h_ignore :: handler where
  "h_ignore e c msg s = s"

definition signInHandlers :: "(string \<times> handler) list" where
  "signInHandlers = [(''auth'', h_auth), (''session_auth'', h_session_auth), (''qr_login_check'', h_qr_login_check)]"

definition endingHandlers :: "(string \<times> handler) list" where
  "endingHandlers = [(''delete_account'', h_delete_account), (''open_crate'', h_open_crate)]"

definition callHandlers :: "(string \<times> handler) list" where
  "callHandlers = [(''call_offer'', h_call_offer), (''call_answer'', h_call_answer), (''call_signal'', h_call_signal),
     (''call_reject'', h_call_end), (''call_end'', h_call_end), (''call_invite'', h_call_invite)]"

definition accountHandlers :: "(string \<times> handler) list" where
  "accountHandlers = [(''pstn_call'', h_pstn_call), (''register'', h_register), (''verify_email'', h_verify_email),
     (''status_update'', h_status_update), (''request_phone_link'', h_request_phone_link),
     (''verify_phone_link'', h_verify_phone_link), (''update_profile'', h_update_profile),
     (''revoke_session'', h_revoke_session), (''resend_verification'', h_resend_verification),
     (''enable_totp'', h_enable_totp), (''confirm_totp'', h_confirm_totp), (''disable_totp'', h_disable_totp),
     (''forgot_password'', h_forgot_password), (''reset_password'', h_reset_password),
     (''change_password'', h_change_password), (''qr_login_create'', h_qr_login_create),
     (''qr_login_approve'', h_qr_login_approve), (''device_approve'', h_device_decision),
     (''device_deny'', h_device_decision), (''register_fcm_token'', h_register_fcm_token),
     (''subscribe_push'', h_subscribe_push), (''unsubscribe_push'', h_unsubscribe_push),
     (''list_sessions'', h_list_sessions), (''revoke_session_by_token'', h_revoke_session_by_token),
     (''key_backup_put'', h_key_backup_put), (''key_backup_get'', h_key_backup_get),
     (''key_backup_delete'', h_key_backup_delete), (''link_create'', h_link_create),
     (''link_approve'', h_link_approve), (''link_check'', h_link_check), (''purge_email'', h_purge_email),
     (''settings_get'', h_settings_get), (''settings_set'', h_settings_set)]"

definition socialHandlers :: "(string \<times> handler) list" where
  "socialHandlers = [(''msg'', h_msg), (''block'', h_block), (''unblock'', h_unblock), (''list_blocks'', h_list_blocks),
     (''get_referral_stats'', h_get_referral_stats), (''craft_reward'', h_craft_reward),
     (''invite_email'', h_invite_email), (''report_abuse'', h_report_abuse), (''typing'', h_typing),
     (''msg_edit'', h_msg_change), (''msg_delete'', h_msg_change), (''msg_react'', h_msg_change),
     (''dm_history'', h_dm_history), (''presence'', h_presence), (''search'', h_search),
     (''friend_request'', h_friend_request), (''friend_accept'', h_friend_accept),
     (''friend_reject'', h_friend_reject), (''friend_remove'', h_friend_remove),
     (''contact_group_set'', h_contact_group_set), (''convo_create'', h_convo_create), (''convo_msg'', h_convo_msg),
     (''convo_leave'', h_convo_leave), (''convo_add_member'', h_convo_add_member),
     (''convo_remove_member'', h_convo_remove_member), (''convo_rename'', h_convo_rename),
     (''convo_history'', h_convo_history), (''read_receipt'', h_read_receipt), (''key_request'', h_key_request),
     (''ice_candidate'', h_ignore)]"

definition spaceHandlers :: "(string \<times> handler) list" where
  "spaceHandlers = [(''server_create'', h_server_create), (''server_list'', h_server_list),
     (''server_discover'', h_server_discover), (''server_join'', h_server_join), (''server_leave'', h_server_leave),
     (''server_info'', h_server_info), (''channel_create'', h_channel_create), (''channel_msg'', h_channel_msg),
     (''channel_history'', h_channel_history), (''channel_react'', h_channel_react), (''channel_edit'', h_channel_edit),
     (''channel_delete'', h_channel_delete), (''channel_pin'', h_channel_pin), (''wb_join'', h_wb_join),
     (''wb_stroke'', h_wb_stroke), (''wb_undo'', h_wb_undo), (''wb_clear'', h_wb_clear), (''voice_join'', h_voice_join),
     (''voice_leave'', h_voice_leave), (''voice_signal'', h_voice_signal), (''stream_start'', h_stream_start),
     (''stream_stop'', h_stream_stop), (''stream_list'', h_stream_list), (''stream_join'', h_stream_join),
     (''stream_leave'', h_stream_leave), (''stream_signal'', h_stream_signal), (''remote_register'', h_remote_register),
     (''remote_unregister'', h_remote_unregister), (''remote_lookup'', h_remote_lookup),
     (''remote_offer'', h_remote_relay), (''remote_answer'', h_remote_relay), (''remote_ice'', h_remote_relay),
     (''remote_input'', h_remote_relay), (''remote_end'', h_remote_relay)]"

definition handlers :: "(string \<times> handler) list" where
  "handlers = signInHandlers @ endingHandlers @ callHandlers @ accountHandlers @ socialHandlers @ spaceHandlers"

text \<open>
  The limiter \<^verbatim>\<open>client.msgLimiter\<close> of the connection comes first; an unknown type is only logged.
\<close>

definition onMessage :: handler where
  "onMessage e c msg s =
     (if \<not> e_limiter e ''msg'' '''' then s
      else case map_of handlers (mType msg) of None \<Rightarrow> s | Some h \<Rightarrow> h e c msg s)"

section \<open>Accepting and ending a connection\<close>

definition maxConnsPerIP :: nat where "maxConnsPerIP = 10"

definition accept :: "env \<Rightarrow> cid \<Rightarrow> string \<Rightarrow> string \<Rightarrow> bool \<Rightarrow> NexusServer \<Rightarrow> NexusServer" where
  "accept e c ip cookie upgraded s =
     (if isIPBlocked ip s then s
      else let count = aget 0 (wsConnCount s) ip
           in if count \<ge> maxConnsPerIP then s
              else let m = aput ip (count + 1) (wsConnCount s)
                   in if \<not> upgraded then s\<lparr>wsConnCount := lowerCount ip m\<rparr>
                      else cookiePreAuth e c cookie
                             (s\<lparr>wsConnCount := m, live := c # live s, conns := (conns s)(c := client0 ip)\<rparr>))"

definition onReadError :: "env \<Rightarrow> cid \<Rightarrow> NexusServer \<Rightarrow> NexusServer" where
  "onReadError e c s =
     (let u = me c s
      in endConnection c
           (if u = '''' then s
            else let (s1, remaining) = removeClient u c s; s2 = dropCall e c s1
                 in if remaining = 0
                    then streamEvictUser e u (voiceRoomEvictUser e u (broadcastPresence e u ''Offline'' s2))
                    else s2))"

section \<open>Steps\<close>

datatype event =
    Connect env cid string string bool
  | Frame env cid NexusMessage
  | ReadError env cid
  | Sweep "sweep \<times> time"
  | SweepAuth time
  | SweepTOTP time
  | SweepRemote time

definition fresh :: "cid \<Rightarrow> NexusServer \<Rightarrow> bool" where
  "fresh c s \<longleftrightarrow> c \<notin> set (live s) \<and> list_all (\<lambda>(u, cs). c \<notin> set cs) (Clients s)"

inductive step :: "NexusServer \<Rightarrow> event \<Rightarrow> NexusServer \<Rightarrow> bool" where
  connect: "fresh c s \<Longrightarrow> step s (Connect e c ip cookie upgraded) (accept e c ip cookie upgraded s)"
| frame: "c \<in> set (live s) \<Longrightarrow> \<not> cClosed (conns s c) \<Longrightarrow> step s (Frame e c msg) (onMessage e c msg s)"
| read_error: "c \<in> set (live s) \<Longrightarrow> step s (ReadError e c) (onReadError e c s)"
| sweep: "step s (Sweep sw) (withDB (runSweep sw) s)"
| sweep_auth: "step s (SweepAuth now) (withTracker (sweepAuthTracker now) s)"
| sweep_totp: "step s (SweepTOTP now) (sweepTOTPUsed now s)"
| sweep_remote: "step s (SweepRemote now) (sweepRemoteCodes now s)"

inductive_cases connectE: "step s (Connect e c ip cookie upgraded) s'"
inductive_cases frameE: "step s (Frame e c msg) s'"
inductive_cases readErrorE: "step s (ReadError e c) s'"
inductive_simps step_frame_iff: "step s (Frame e c msg) s'"

inductive reachable :: "NexusServer \<Rightarrow> NexusServer \<Rightarrow> bool" for s0 where
  start: "reachable s0 s0"
| next_state: "reachable s0 s \<Longrightarrow> step s ev s' \<Longrightarrow> reachable s0 s'"

end
