(* ===== verification/Connections.thy ===== *)
theory Connections
  imports Dispatch
begin

text \<open>
  What the message handlers leave alone, and the invariants of the connection life cycle that rest
  on it.  \<open>core\<close> is the part of the state that says which connections exist, from which address,
  signed in as whom and in which call; every handler outside the sign-in, call and closing groups
  keeps it, and the proofs below only look at the rest.
\<close>

section \<open>The core of the state\<close>

definition coreOf :: "Client \<Rightarrow> string \<times> string \<times> bool \<times> string \<times> string \<times> int" where
  "coreOf k = (cIP k, cLocalUser k, cInCall k, cCallPartner k, cPendingCallRoom k, cPendingCallID k)"

definition core :: "NexusServer \<Rightarrow> cid list \<times> (string \<times> nat) list \<times> (cid \<Rightarrow> string \<times> string \<times> bool \<times> string \<times> string \<times> int)" where
  "core s = (live s, wsConnCount s, \<lambda>x. coreOf (conns s x))"

lemma core_updates [simp]:
  "core (s\<lparr>DB := a\<rparr>) = core s" "core (s\<lparr>Clients := b\<rparr>) = core s" "core (s\<lparr>VoiceRooms := v\<rparr>) = core s"
  "core (s\<lparr>Streams := st\<rparr>) = core s" "core (s\<lparr>RemoteCodes := r\<rparr>) = core s" "core (s\<lparr>blockedIPs := bi\<rparr>) = core s"
  "core (s\<lparr>authTracker := t\<rparr>) = core s" "core (s\<lparr>totpUsedCodes := u\<rparr>) = core s" "core (s\<lparr>rng := n\<rparr>) = core s"
  "core (s\<lparr>outbox := ob\<rparr>) = core s" "core (s\<lparr>pushes := p\<rparr>) = core s" "core (s\<lparr>mails := m\<rparr>) = core s"
  "core (s\<lparr>ipCheckCache := cc\<rparr>) = core s"
  by (simp_all add: core_def)

lemma core_withConn: "coreOf (f (conns s c)) = coreOf (conns s c) \<Longrightarrow> core (withConn c f s) = core s"
  by (auto simp: core_def withConn_def fun_eq_iff)

lemma core_Send [simp]: "core (Send e c m s) = core s"
  by (simp add: Send_eq)

lemma core_SendAll [simp]: "core (SendAll e cs m s) = core s"
  by (simp add: SendAll_eq)

lemma core_sendTo [simp]: "core (fst (sendTo e u m s)) = core s"
  by (simp add: sendTo_eq)

lemma core_sendToEach [simp]: "core (sendToEach e us m s) = core s"
  by (simp add: sendToEach_eq)

lemma core_broadcastAll [simp]: "core (broadcastAll e m s) = core s"
  by (simp add: broadcastAll_eq)

lemma core_sendList [simp]: "core (sendList e c ms s) = core s"
  by (induction ms arbitrary: s) simp_all

lemma core_sendRows [simp]: "core (sendRows e c rs s) = core s"
  by (induction rs arbitrary: s) simp_all

lemma core_sendEachOwn [simp]: "core (sendEachOwn e us f s) = core s"
  by (induction us arbitrary: s) simp_all

lemma core_deliverOffline [simp]: "core (deliverOfflineMessages e u c s) = core s"
  by (simp add: deliverOfflineMessages_def Let_def)

lemma core_pushBoth [simp]: "core (pushBoth e r sd p s) = core s"
  by (simp add: pushBoth_def sendFCMPush_def sendWebPush_def Let_def)

lemma core_storeOffline [simp]: "core (storeOfflineMessage e a b x t i s) = core s"
  by (simp add: storeOfflineMessage_def)

lemma core_fanOut [simp]: "core (fanOut e us p t s) = core s"
  by (induction us arbitrary: s) (simp_all add: split_beta)

lemma core_broadcastChannelMsg [simp]: "core (broadcastChannelMsg e sid p s) = core s"
  by (simp add: broadcastChannelMsg_def Let_def)

lemma core_convoFanOut [simp]: "core (convoFanOut e u m t us s) = core s"
  by (induction us arbitrary: s) (simp_all add: split_beta Let_def)

lemma core_broadcastPresence [simp]: "core (broadcastPresence e u st s) = core s"
  by (simp add: broadcastPresence_def)

lemma core_setStatuses [simp]: "core (setStatuses st cs s) = core s"
  by (induction cs arbitrary: s) (simp_all add: core_withConn coreOf_def)

lemma core_announcePresence [simp]: "core (announcePresence e u s) = core s"
  by (simp add: announcePresence_def Let_def)

lemma core_profile [simp]: "core (broadcastProfileUpdate e u dn md s) = core s"
  by (simp add: broadcastProfileUpdate_def)

lemma core_registerConn [simp]: "core (registerConn c u s) = core s"
  by (simp add: registerConn_def addClient_def core_withConn coreOf_def)

lemma core_removeClient [simp]: "core (fst (removeClient u c s)) = core s"
  by (simp add: removeClient_def Let_def)

lemma core_perks [simp]:
  "core (sendReferralPerks e c u fs s) = core s" "core (pushPerks e u s) = core s"
  "core (sendPerks e c u s) = core s"
  by (simp_all add: sendReferralPerks_def pushPerks_def sendPerks_def Let_def)

lemma core_lists [simp]:
  "core (sendFriendStatuses e c u b s) = core s" "core (sendPending e c u s) = core s"
  "core (sendConvos e c u s) = core s" "core (sendGroups e c u s) = core s"
  by (simp_all add: sendFriendStatuses_def sendPending_def sendConvos_def sendGroups_def Let_def)

lemma core_onReferralVerified [simp]: "core (onReferralVerified e u s) = core s"
  by (auto simp: onReferralVerified_def Let_def split_beta split: option.splits)

lemma core_randHex: "randHex e n s = (s', r) \<Longrightarrow> core s' = core s"
  by (auto simp: randHex_def)

lemma core_fst_randHex [simp]: "core (fst (randHex e n s)) = core s"
  by (simp add: randHex_def)

lemma core_fst_randDigits [simp]: "core (fst (randDigits e n s)) = core s"
  by (subst randDigits_state) simp

lemma core_randDigits: "randDigits e n s = (s', r) \<Longrightarrow> core s' = core s"
  using core_fst_randDigits [of e n s] by simp

lemma core_rooms [simp]:
  "core (voiceRoomJoin ch u s) = core s" "core (voiceRoomLeave ch u s) = core s"
  "core (voiceRoomBroadcastPeers e ch s) = core s" "core (streamStart h t s) = core s"
  "core (streamStop e h s) = core s" "core (streamAddViewer h v s) = core s"
  "core (streamRemoveViewer h v s) = core s" "core (streamBroadcastList e s) = core s"
  "core (sweepRemoteCodes now s) = core s" "core (sweepTOTPUsed now s) = core s"
  by (auto simp: voiceRoomJoin_def voiceRoomLeave_def voiceRoomBroadcastPeers_def streamStart_def streamStop_def
      streamAddViewer_def streamRemoveViewer_def streamBroadcastList_def sweepRemoteCodes_def sweepTOTPUsed_def
      Let_def split: option.splits)

lemma core_fold_peers [simp]: "core (fold (voiceRoomBroadcastPeers e) chs s) = core s"
  by (induction chs arbitrary: s) simp_all

lemma core_evict [simp]: "core (voiceRoomEvictUser e u s) = core s" "core (streamEvictUser e u s) = core s"
  by (simp_all add: voiceRoomEvictUser_def streamEvictUser_def Let_def)

lemma core_autoBlock [simp]: "core (autoBlock e c s) = core s" "core (blockIP ip s) = core s"
  by (simp_all add: autoBlock_def blockIP_def core_def)

lemma core_checkIP: "checkIP e c s = (s', b) \<Longrightarrow> core s' = core s"
  by (auto simp: checkIP_def split_beta Let_def)

lemma core_fst_checkIP [simp]: "core (fst (checkIP e c s)) = core s"
  by (simp add: checkIP_def split_beta Let_def)

lemma core_fst: "core (fst p) = core s \<Longrightarrow> p = (s', r) \<Longrightarrow> core s' = core s"
  by simp

lemma core_fst_insertSession [simp]: "core (fst (insertSession e ttl u dev s)) = core s"
  by (auto simp: insertSession_def dest: core_randHex split: prod.splits option.splits)

lemma core_fst_issue [simp]: "core (fst (issueSessionToken e u dev s)) = core s"
  by (simp add: issueSessionToken_def)

lemmas core_issue = core_fst [OF core_fst_issue]

lemma core_fst_reset [simp]: "core (fst (createPasswordReset e m s)) = core s"
  by (auto simp: createPasswordReset_def dest: core_randHex split: prod.splits option.splits)

lemma core_fst_createQR [simp]: "core (fst (createQRLogin e s)) = core s"
  by (auto simp: createQRLogin_def dest: core_randHex split: prod.splits option.splits)

lemma core_fst_approveQR [simp]: "core (fst (approveQRLogin e t u dev s)) = core s"
  by (auto simp: approveQRLogin_def Let_def dest: core_issue split: prod.splits option.splits)

lemma core_fst_genCodes [simp]: "core (fst (genBackupCodes e u n s)) = core s"
proof (induction n arbitrary: s)
  case (Suc n)
  show ?case
    by (auto simp: split_beta Let_def dest: core_randHex split: prod.splits option.splits)
       (use Suc.IH core_randHex in force)
qed simp

lemma core_fst_backup [simp]: "core (fst (generateBackupCodes e u s)) = core s"
  by (simp add: generateBackupCodes_def)

lemma core_fst_totp [simp]: "core (fst (verifyTOTP e u code s)) = core s"
  by (auto simp: verifyTOTP_def Let_def split: prod.splits option.splits)

lemma core_fst_register [simp]: "core (fst (registerUser e u m md pw s)) = core s"
  by (auto simp: registerUser_def dest: core_randDigits split: prod.splits option.splits)

lemma core_fst_openCrate [simp]: "core (fst (openCrate e u s)) = core s"
  by (auto simp: openCrate_def Let_def split: sum.splits prod.splits)

lemma core_fst_bootstrap [simp]: "core (fst (bootstrapChannels e sid i chs s d)) = core s"
proof (induction chs arbitrary: i s d)
  case (Cons ch chs)
  show ?case
    by (auto dest: core_randHex simp: Cons.IH split: prod.splits option.splits)
qed simp

lemma core_fst_createServer [simp]: "core (fst (createServerTx e r s)) = core s"
  by (auto simp: createServerTx_def simp del: bootstrapChannels.simps split: option.splits)

lemma core_fst_vpn [simp]: "core (fst (isVPNOrDatacenter e ip s)) = core s"
  by (subst isVPN_eq) simp

lemmas core_dests = core_fst [OF core_fst_vpn] core_randHex core_randDigits core_checkIP core_issue
  core_fst [OF core_fst_reset] core_fst [OF core_fst_createQR] core_fst [OF core_fst_approveQR]
  core_fst [OF core_fst_backup] core_fst [OF core_fst_totp] core_fst [OF core_fst_register]
  core_fst [OF core_fst_openCrate] core_fst [OF core_fst_createServer] core_fst [OF core_sendTo]

section \<open>Handlers that keep the core\<close>

named_theorems core_handlers

definition keepsCore :: "handler \<Rightarrow> bool" where
  "keepsCore h \<longleftrightarrow> (\<forall>e c msg s. core (h e c msg s) = core s)"

lemma keepsCoreI: "(\<And>e c msg s. core (h e c msg s) = core s) \<Longrightarrow> keepsCore h"
  by (simp add: keepsCore_def)

lemma core_register [core_handlers]: "keepsCore h_register" "keepsCore h_server_create"
  by (rule keepsCoreI; auto simp: h_register_def h_server_create_def Let_def
      split: option.splits prod.splits sum.splits dest!: core_dests)+

lemma core_ignore [core_handlers]: "keepsCore h_ignore"
  by (simp add: keepsCore_def h_ignore_def)

lemma core_account [core_handlers]:
  "keepsCore h_pstn_call" "keepsCore h_verify_email" "keepsCore h_status_update"
  "keepsCore h_request_phone_link" "keepsCore h_verify_phone_link" "keepsCore h_update_profile"
  "keepsCore h_revoke_session" "keepsCore h_resend_verification" "keepsCore h_enable_totp"
  "keepsCore h_confirm_totp" "keepsCore h_disable_totp" "keepsCore h_forgot_password"
  "keepsCore h_reset_password" "keepsCore h_change_password" "keepsCore h_qr_login_create"
  "keepsCore h_qr_login_approve" "keepsCore h_device_decision" "keepsCore h_register_fcm_token"
  "keepsCore h_subscribe_push" "keepsCore h_unsubscribe_push" "keepsCore h_list_sessions"
  "keepsCore h_revoke_session_by_token" "keepsCore h_key_backup_put" "keepsCore h_key_backup_get"
  "keepsCore h_key_backup_delete" "keepsCore h_link_create" "keepsCore h_link_approve"
  "keepsCore h_link_check" "keepsCore h_purge_email" "keepsCore h_settings_get" "keepsCore h_settings_set"
  by (rule keepsCoreI; auto simp: Let_def storeBackup_def
    h_pstn_call_def h_verify_email_def h_status_update_def h_request_phone_link_def h_verify_phone_link_def
    h_update_profile_def h_revoke_session_def h_resend_verification_def h_enable_totp_def
    h_confirm_totp_def h_disable_totp_def h_forgot_password_def h_reset_password_def h_change_password_def
    h_qr_login_create_def h_qr_login_approve_def h_device_decision_def h_register_fcm_token_def
    h_subscribe_push_def h_unsubscribe_push_def h_list_sessions_def h_revoke_session_by_token_def
    h_key_backup_put_def h_key_backup_get_def h_key_backup_delete_def h_link_create_def h_link_approve_def
    h_link_check_def h_purge_email_def h_settings_get_def h_settings_set_def
      split: option.splits prod.splits sum.splits dest: core_dests)+

lemma core_social [core_handlers]:
  "keepsCore h_msg" "keepsCore h_block" "keepsCore h_unblock" "keepsCore h_list_blocks"
  "keepsCore h_get_referral_stats" "keepsCore h_craft_reward" "keepsCore h_invite_email"
  "keepsCore h_report_abuse" "keepsCore h_typing" "keepsCore h_msg_change" "keepsCore h_dm_history"
  "keepsCore h_presence" "keepsCore h_search" "keepsCore h_friend_request" "keepsCore h_friend_accept"
  "keepsCore h_friend_reject" "keepsCore h_friend_remove" "keepsCore h_contact_group_set"
  "keepsCore h_convo_create" "keepsCore h_convo_msg" "keepsCore h_convo_leave"
  "keepsCore h_convo_add_member" "keepsCore h_convo_remove_member" "keepsCore h_convo_rename"
  "keepsCore h_convo_history" "keepsCore h_read_receipt" "keepsCore h_key_request"
  by (rule keepsCoreI; auto simp: Let_def handleBotMessage_def
    h_msg_def h_block_def h_unblock_def h_list_blocks_def h_get_referral_stats_def h_craft_reward_def
    h_invite_email_def h_report_abuse_def h_typing_def h_msg_change_def h_dm_history_def h_presence_def
    h_search_def h_friend_request_def h_friend_accept_def h_friend_reject_def h_friend_remove_def
    h_contact_group_set_def h_convo_create_def h_convo_msg_def h_convo_leave_def h_convo_add_member_def
    h_convo_remove_member_def h_convo_rename_def h_convo_history_def h_read_receipt_def h_key_request_def
      split: option.splits prod.splits sum.splits dest: core_dests)+

lemma core_space [core_handlers]:
  "keepsCore h_server_list" "keepsCore h_server_discover"
  "keepsCore h_server_join" "keepsCore h_server_leave" "keepsCore h_server_info"
  "keepsCore h_channel_create" "keepsCore h_channel_msg" "keepsCore h_channel_history"
  "keepsCore h_channel_react" "keepsCore h_channel_edit" "keepsCore h_channel_delete"
  "keepsCore h_channel_pin" "keepsCore h_wb_join" "keepsCore h_wb_stroke" "keepsCore h_wb_undo"
  "keepsCore h_wb_clear" "keepsCore h_voice_join" "keepsCore h_voice_leave" "keepsCore h_voice_signal"
  "keepsCore h_stream_start" "keepsCore h_stream_stop" "keepsCore h_stream_list" "keepsCore h_stream_join"
  "keepsCore h_stream_leave" "keepsCore h_stream_signal" "keepsCore h_remote_register"
  "keepsCore h_remote_unregister" "keepsCore h_remote_lookup" "keepsCore h_remote_relay"
  by (rule keepsCoreI; auto simp: Let_def 
    h_server_list_def h_server_discover_def h_server_join_def h_server_leave_def
    h_server_info_def h_channel_create_def h_channel_msg_def h_channel_history_def h_channel_react_def
    h_channel_edit_def h_channel_delete_def h_channel_pin_def h_wb_join_def h_wb_stroke_def h_wb_undo_def
    h_wb_clear_def h_voice_join_def h_voice_leave_def h_voice_signal_def h_stream_start_def
    h_stream_stop_def h_stream_list_def h_stream_join_def h_stream_leave_def h_stream_signal_def
    h_remote_register_def h_remote_unregister_def h_remote_lookup_def h_remote_relay_def
      split: option.splits prod.splits sum.splits dest: core_dests)+

lemma handlers_core:
  "list_all (\<lambda>(t, h). keepsCore h) (accountHandlers @ socialHandlers @ spaceHandlers)"
  by (simp add: accountHandlers_def socialHandlers_def spaceHandlers_def core_handlers)

section \<open>The number of connections of an address\<close>

definition net :: "NexusServer \<Rightarrow> cid list \<times> (string \<times> nat) list \<times> (cid \<Rightarrow> string \<times> string)" where
  "net s = (live s, wsConnCount s, \<lambda>x. (cIP (conns s x), cLocalUser (conns s x)))"

lemma net_cong: "core s = core s' \<Longrightarrow> net s = net s'"
  by (simp add: net_def core_def coreOf_def fun_eq_iff)

lemma net_withConn [simp]: "(\<And>k. cIP (f k) = cIP k \<and> cLocalUser (f k) = cLocalUser k) \<Longrightarrow> net (withConn c f s) = net s"
  by (auto simp: net_def withConn_def)

lemmas net_frames [simp] = core_updates [THEN net_cong] core_Send [THEN net_cong] core_SendAll [THEN net_cong]
  core_sendTo [THEN net_cong] core_fst_randHex [THEN net_cong]

lemma net_randHex: "randHex e n s = (s', r) \<Longrightarrow> net s' = net s"
  by (metis core_randHex net_cong)

definition ipConns :: "string \<Rightarrow> NexusServer \<Rightarrow> cid list" where
  "ipConns ip s = filter (\<lambda>c. cIP (conns s c) = ip) (live s)"

definition conn_ok :: "NexusServer \<Rightarrow> bool" where
  "conn_ok s \<longleftrightarrow> distinct (live s) \<and>
     (\<forall>ip. aget 0 (wsConnCount s) ip = length (ipConns ip s) \<and> length (ipConns ip s) \<le> maxConnsPerIP)"

lemma conn_ok_net: "net s = net s' \<Longrightarrow> conn_ok s \<longleftrightarrow> conn_ok s'"
  by (auto simp: conn_ok_def ipConns_def net_def fun_eq_iff)

lemma conn_ok_core: "core s = core s' \<Longrightarrow> conn_ok s \<longleftrightarrow> conn_ok s'"
  by (rule conn_ok_net [OF net_cong])

lemma aget_lowerCount: "aget 0 (lowerCount ip m) ip' = (if ip' = ip then aget 0 m ip - 1 else aget 0 m ip')"
  by (simp add: lowerCount_def Let_def)

lemma end_simps:
  "live (endConnection c s) = removeAll c (live s)"
  "wsConnCount (endConnection c s) = lowerCount (peerIP c s) (wsConnCount s)"
  "cIP (conns (endConnection c s) x) = cIP (conns s x)"
  "ipConns ip (endConnection c s) = removeAll c (ipConns ip s)"
  by (auto simp: endConnection_def Let_def withConn_def ipConns_def removeAll_filter_not_eq intro: filter_cong)

lemma length_removeAll_distinct:
  "distinct xs \<Longrightarrow> length (removeAll c xs) = length xs - (if c \<in> set xs then 1 else 0)"
  by (simp add: distinct_remove1_removeAll [symmetric] length_remove1)

lemma conn_ok_end:
  assumes ok: "conn_ok s" and c: "c \<in> set (live s)"
  shows "conn_ok (endConnection c s)"
proof -
  have d: "distinct (live s)" and n: "aget 0 (wsConnCount s) ip = length (ipConns ip s)"
    and le: "length (ipConns ip s) \<le> maxConnsPerIP" for ip
    using ok by (simp_all add: conn_ok_def)
  have "distinct (ipConns ip s)" for ip using d by (simp add: ipConns_def)
  moreover have "c \<in> set (ipConns ip s) \<longleftrightarrow> ip = peerIP c s" for ip
    using c by (auto simp: ipConns_def peerIP_def)
  ultimately show ?thesis
    using d n le by (auto simp: conn_ok_def end_simps aget_lowerCount length_removeAll_distinct distinct_removeAll
        intro: le_trans [OF diff_le_self])
qed

end
