(* ===== verification/Safety.thy ===== *)
theory Safety
  imports Connections
begin

text \<open>
  Properties of whole runs of the server: how many connections an address can hold, what it takes to
  be signed in on a connection and what a connection that is not signed in can do.
\<close>

section \<open>Signing in\<close>

lemma me_core: "core s = core s' \<Longrightarrow> me x s = me x s'"
  by (simp add: core_def coreOf_def me_def fun_eq_iff)

definition setCore :: "cid \<Rightarrow> 'u \<Rightarrow> 'l \<times> 'w \<times> (cid \<Rightarrow> 'i \<times> 'u \<times> 'r) \<Rightarrow> 'l \<times> 'w \<times> (cid \<Rightarrow> 'i \<times> 'u \<times> 'r)" where
  "setCore c u k = (case k of (l, w, f) \<Rightarrow> (l, w, f(c := (fst (f c), u, snd (snd (f c))))))"

lemma core_setLocal [simp]: "core (setLocalUser c u s) = setCore c u (core s)"
  by (auto simp: core_def coreOf_def setCore_def setLocalUser_def withConn_def fun_eq_iff)

lemma me_setLocal [simp]: "me x (setLocalUser c u s) = (if x = c then u else me x s)"
  by (simp add: me_def setLocalUser_def)

lemma setLocal_simps [simp]:
  "live (setLocalUser c u s) = live s" "wsConnCount (setLocalUser c u s) = wsConnCount s"
  "cIP (conns (setLocalUser c u s) x) = cIP (conns s x)"
  by (simp_all add: setLocalUser_def withConn_def)

lemma conn_ok_setLocal: "conn_ok (setLocalUser c u s) \<longleftrightarrow> conn_ok s"
  by (simp add: conn_ok_def ipConns_def)

lemma core_touchLogin [simp]: "core (touchLogin e c u s) = core s"
  by (simp add: touchLogin_def)

lemma core_signedIn: "core (signedIn e c msg s) = core (setLocalUser c (mSender msg) s)"
  by (simp add: signedIn_def Let_def split_beta)

definition passwordOk :: "env \<Rightarrow> cid \<Rightarrow> NexusMessage \<Rightarrow> NexusServer \<Rightarrow> bool" where
  "passwordOk e c msg s \<longleftrightarrow>
     snd (authenticateUser e (mSender msg) (mBody msg) (DB s)) \<and>
     \<not> fst (userBanInfo (mSender msg) (DB s)) \<and> secondFactorOk e (mSender msg) (mTOTPCode msg) (DB s) \<and>
     \<not> snd (isIPThrottled (e_now e) (peerIP c s) (authTracker s)) \<and>
     \<not> snd (isUserLocked (e_now e) (mSender msg) (fst (isIPThrottled (e_now e) (peerIP c s) (authTracker s))))"

lemma core_secondFactor [simp]: "core (fst (secondFactor e msg s)) = core s"
  by (simp add: secondFactor_def Let_def split_beta)

lemma h_auth_core:
  "core (h_auth e c msg s) = core s \<or>
   core (h_auth e c msg s) = core (setLocalUser c (mSender msg) s) \<and> passwordOk e c msg s"
  by (auto simp: h_auth_def Let_def split_beta core_signedIn passwordOk_def checkIP_def peerIP_def
      dest!: secondFactor_snd)

lemma h_session_auth_core:
  "core (h_session_auth e c msg s) = core s \<or>
   (let u = sessionUsername (e_now e) (mQRToken msg) (DB s)
    in core (h_session_auth e c msg s) = core (setLocalUser c u s) \<and> u \<noteq> '''' \<and> \<not> fst (userBanInfo u (DB s)))"
  by (auto simp: h_session_auth_def Let_def split_beta checkIP_def)

lemma h_qr_login_check_core:
  "core (h_qr_login_check e c msg s) = core s \<or>
   (\<exists>u sess. checkQRLogin (e_now e) (mQRToken msg) (DB s) = (u, sess, True, True) \<and>
      core (h_qr_login_check e c msg s) = core (setLocalUser c u s))"
  by (auto simp: h_qr_login_check_def checkQRLogin_def Let_def split_beta checkIP_def split: option.splits)

section \<open>Calls and closing\<close>

lemma net_closeCallRow [simp]: "net (fst (closeCallRow e p a b s)) = net s"
  by (simp add: closeCallRow_def Let_def split_beta)

lemma net_call_parts [simp]: "net (hangUp c s) = net s" "net (takePending u caller s) = net s"
  by (auto simp: hangUp_def takePending_def split: option.splits)

lemma net_dropCall [simp]: "net (dropCall e c s) = net s"
  by (auto simp: dropCall_def Let_def split_beta split: option.splits prod.splits)

lemma net_calls:
  "list_all (\<lambda>(t, h). \<forall>e c msg s. net (h e c msg s) = net s) callHandlers"
  by (auto simp: callHandlers_def h_call_offer_def h_call_answer_def h_call_signal_def h_call_end_def h_call_invite_def
      Let_def split_beta dest: net_randHex split: option.splits prod.splits)

lemma net_end_cong: "net s' = net s \<Longrightarrow> net (endConnection c s') = net (endConnection c s)"
  by (auto simp: net_def endConnection_def Let_def withConn_def peerIP_def fun_eq_iff)

lemma net_ending:
  "list_all (\<lambda>(t, h). \<forall>e c msg s. net (h e c msg s) = net s \<or> net (h e c msg s) = net (endConnection c s)) endingHandlers"
proof -
  have "net (h_delete_account e c msg s) = net s \<or> net (h_delete_account e c msg s) = net (endConnection c s)" for e c msg s
    unfolding h_delete_account_def Let_def split_beta
    by (simp split: if_split) (intro impI disjI2 net_end_cong net_cong, simp)
  moreover have "net (h_open_crate e c msg s) = net s \<or> net (h_open_crate e c msg s) = net (endConnection c s)" for e c msg s
  proof (cases "me c s = [] \<or> snd (openCrate e (me c s) s) \<noteq> Inl PanicRand")
    case True
    then have "core (h_open_crate e c msg s) = core s"
      by (auto simp: h_open_crate_def Let_def dest: core_dests split: prod.splits sum.splits rewardErr.splits)
    then show ?thesis by (metis net_cong)
  next
    case False
    then have "h_open_crate e c msg s = endConnection c (fst (openCrate e (me c s) s))"
      by (auto simp: h_open_crate_def Let_def split: prod.splits)
    then show ?thesis by (metis core_fst_openCrate net_cong net_end_cong)
  qed
  ultimately show ?thesis by (simp add: endingHandlers_def)
qed

definition signsIn :: "env \<Rightarrow> cid \<Rightarrow> NexusMessage \<Rightarrow> NexusServer \<Rightarrow> string \<Rightarrow> bool" where
  "signsIn e c msg s u \<longleftrightarrow>
     (if mType msg = ''auth'' then u = mSender msg \<and> passwordOk e c msg s
      else if mType msg = ''session_auth''
      then u = sessionUsername (e_now e) (mQRToken msg) (DB s) \<and> u \<noteq> '''' \<and> \<not> fst (userBanInfo u (DB s))
      else if mType msg = ''qr_login_check''
      then (\<exists>sess. checkQRLogin (e_now e) (mQRToken msg) (DB s) = (u, sess, True, True))
      else False)"

lemma core_signIn:
  assumes "map_of signInHandlers (mType msg) = Some h"
  shows "core (h e c msg s) = core s \<or> (\<exists>u. signsIn e c msg s u \<and> core (h e c msg s) = core (setLocalUser c u s))"
proof -
  from assms consider "mType msg = ''auth''" "h = h_auth" | "mType msg = ''session_auth''" "h = h_session_auth"
    | "mType msg = ''qr_login_check''" "h = h_qr_login_check"
    by (auto simp: signInHandlers_def split: if_splits)
  then show ?thesis
  proof cases
    case 1
    with h_auth_core [of e c msg s] show ?thesis by (auto simp: signsIn_def)
  next
    case 2
    with h_session_auth_core [of e c msg s] show ?thesis by (auto simp: signsIn_def Let_def)
  next
    case 3
    with h_qr_login_check_core [of e c msg s] show ?thesis by (auto simp: signsIn_def)
  qed
qed

text \<open>What one frame can do to the connections: nothing, sign the connection in, or end it.\<close>

lemma onMessage_cases:
  obtains (same) "net (onMessage e c msg s) = net s"
  | (signed) u where "signsIn e c msg s u" "core (onMessage e c msg s) = core (setLocalUser c u s)"
  | (ended) "net (onMessage e c msg s) = net (endConnection c s)"
proof (cases "e_limiter e ''msg'' '''' \<and> map_of handlers (mType msg) \<noteq> None")
  case True
  then obtain h where h: "map_of handlers (mType msg) = Some h" and r: "onMessage e c msg s = h e c msg s"
    by (auto simp: onMessage_def)
  have mem: "(mType msg, h) \<in> set handlers" using h by (rule map_of_SomeD)
  show ?thesis
  proof (cases "map_of signInHandlers (mType msg)")
    case (Some h')
    with h have "h' = h" by (simp add: handlers_def)
    with core_signIn [OF Some] r same signed net_cong show ?thesis by metis
  next
    case None
    then have "(mType msg, h) \<notin> set signInHandlers" by (auto simp: map_of_eq_None_iff image_iff)
    then have "(mType msg, h) \<in> set endingHandlers \<or> (mType msg, h) \<in> set callHandlers \<or>
        (mType msg, h) \<in> set (accountHandlers @ socialHandlers @ spaceHandlers)"
      using mem by (auto simp: handlers_def)
    then consider (e) "(mType msg, h) \<in> set endingHandlers" | (c) "(mType msg, h) \<in> set callHandlers"
      | (k) "keepsCore h"
      using handlers_core by (auto simp: list_all_iff)
    then show ?thesis
    proof cases
      case e
      with net_ending have "net (h e c msg s) = net s \<or> net (h e c msg s) = net (endConnection c s)"
        by (fastforce simp: list_all_iff)
      with r same ended show ?thesis by auto
    next
      case c
      with net_calls have "net (h e c msg s) = net s" by (auto simp: list_all_iff)
      with r same show ?thesis by simp
    next
      case k
      with r show ?thesis by (intro same net_cong) (simp add: keepsCore_def)
    qed
  qed
next
  case False
  then show ?thesis by (auto simp: onMessage_def intro: same split: option.splits)
qed

section \<open>The connection limit\<close>

lemma cookie_core:
  "core (cookiePreAuth e c cookie s) = core s \<or>
   (let u = sessionUsername (e_now e) cookie (DB s)
    in core (cookiePreAuth e c cookie s) = core (setLocalUser c u s) \<and> u \<noteq> '''' \<and> \<not> fst (userBanInfo u (DB s)))"
  by (auto simp: cookiePreAuth_def Let_def split_beta)

definition newConn :: "cid \<Rightarrow> string \<Rightarrow> NexusServer \<Rightarrow> NexusServer" where
  "newConn c ip s = s\<lparr>wsConnCount := aput ip (aget 0 (wsConnCount s) ip + 1) (wsConnCount s),
     live := c # live s, conns := (conns s)(c := client0 ip)\<rparr>"

lemma conn_ok_new:
  assumes ok: "conn_ok s" and c: "c \<notin> set (live s)" and n: "aget 0 (wsConnCount s) ip < maxConnsPerIP"
  shows "conn_ok (newConn c ip s)"
proof -
  have "ipConns ip' (newConn c ip s) = (if ip' = ip then c # ipConns ip' s else ipConns ip' s)" for ip'
    using c by (auto simp: ipConns_def newConn_def client0_def intro: filter_cong)
  with ok c n show ?thesis by (auto simp: conn_ok_def newConn_def Suc_le_eq)
qed

lemma conn_ok_accept:
  assumes ok: "conn_ok s" and c: "fresh c s"
  shows "conn_ok (accept e c ip cookie upgraded s)"
proof (cases "isIPBlocked ip s \<or> aget 0 (wsConnCount s) ip \<ge> maxConnsPerIP")
  case True
  with ok show ?thesis by (auto simp: accept_def Let_def)
next
  case False
  show ?thesis
  proof (cases upgraded)
    case True
    with False have acc: "accept e c ip cookie upgraded s = cookiePreAuth e c cookie (newConn c ip s)"
      by (auto simp: accept_def Let_def newConn_def)
    have "conn_ok (newConn c ip s)" using ok c False by (intro conn_ok_new) (auto simp: fresh_def)
    with cookie_core [of e c cookie "newConn c ip s"] show ?thesis
      unfolding acc Let_def by (metis conn_ok_core conn_ok_setLocal)
  next
    case upg: False
    with False have "accept e c ip cookie upgraded s =
        s\<lparr>wsConnCount := lowerCount ip (aput ip (aget 0 (wsConnCount s) ip + 1) (wsConnCount s))\<rparr>"
      by (auto simp: accept_def Let_def)
    with ok show ?thesis by (auto simp: conn_ok_def ipConns_def aget_lowerCount)
  qed
qed

lemma net_onReadError: "net (onReadError e c s) = net (endConnection c s)"
  unfolding onReadError_def Let_def split_beta
  by (intro net_end_cong) (auto intro: net_cong [THEN trans, OF _ refl] simp: net_cong [OF core_removeClient]
      net_cong [OF core_evict(1)] net_cong [OF core_evict(2)] net_cong [OF core_broadcastPresence])

lemma conn_ok_frame: "conn_ok s \<Longrightarrow> c \<in> set (live s) \<Longrightarrow> conn_ok (onMessage e c msg s)"
  by (cases rule: onMessage_cases [of e c msg s])
     (metis conn_ok_net, metis conn_ok_core conn_ok_setLocal, metis conn_ok_net conn_ok_end)

lemma conn_ok_step: "step s ev s' \<Longrightarrow> conn_ok s \<Longrightarrow> conn_ok s'"
proof (induction rule: step.induct)
  case (connect c s)
  then show ?case by (intro conn_ok_accept)
next
  case (frame c s)
  then show ?case by (intro conn_ok_frame)
next
  case (read_error c s e)
  then show ?case by (metis conn_ok_end conn_ok_net net_onReadError)
next
  case (sweep s sw)
  then show ?case by (simp add: conn_ok_core [OF core_updates(1)])
next
  case (sweep_auth s now)
  then show ?case by (simp add: conn_ok_core [OF core_updates(7)])
next
  case (sweep_totp s now)
  then show ?case by (simp add: conn_ok_core [OF core_rooms(10)])
next
  case (sweep_remote s now)
  then show ?case by (simp add: conn_ok_core [OF core_rooms(9)])
qed

lemma conn_ok_reachable: "reachable s0 s \<Longrightarrow> conn_ok s0 \<Longrightarrow> conn_ok s"
  by (induction rule: reachable.induct) (auto intro: conn_ok_step)

text \<open>C3: Starting from a server without connections, whatever sequence of connects, frames, failed
  upgrades, disconnects, panics and sweeps happens: no address ever holds more than ten open
  connections, and the counter the limit is decided on is the true number (it neither leaks nor
  drifts, so an address that closed its connections can always connect again).
\<close>
theorem connection_limit:
  assumes "live s0 = []" and "wsConnCount s0 = []" and "reachable s0 s"
  shows "length (filter (\<lambda>c. cIP (conns s c) = ip) (live s)) \<le> 10 \<and>
    aget 0 (wsConnCount s) ip = length (filter (\<lambda>c. cIP (conns s c) = ip) (live s))"
proof -
  have "conn_ok s0" using assms(1,2) by (simp add: conn_ok_def ipConns_def aget_def)
  with assms(3) have "conn_ok s" by (rule conn_ok_reachable)
  then show ?thesis
    by (simp add: conn_ok_def ipConns_def maxConnsPerIP_def)
qed

definition nexusOne :: NexusServer where
  "nexusOne = accept env0 1 ''1.2.3.4'' '''' True nexus0"

lemma reachable_nexusOne: "reachable nexus0 nexusOne"
  unfolding nexusOne_def
  by (rule reachable.next_state [OF reachable.start step.connect]) (simp add: fresh_def nexus0_def)

lemma nexusOne_live: "live nexusOne = [1]" "cIP (conns nexusOne 1) = ''1.2.3.4''" "cLocalUser (conns nexusOne 1) = ''''"
  by (simp_all add: nexusOne_def accept_def cookiePreAuth_def sessionUsername_def sessionState_def sessionRow_def
      sql_row_def isIPBlocked_def nexus0_def emptyDB_def aget_def maxConnsPerIP_def client0_def env0_def)

theorem connection_limit_witness:
  "live nexusOne = [1] \<and> length (filter (\<lambda>c. cIP (conns nexusOne c) = ''1.2.3.4'') (live nexusOne)) \<le> 10 \<and>
   aget 0 (wsConnCount nexusOne) ''1.2.3.4'' = length (filter (\<lambda>c. cIP (conns nexusOne c) = ''1.2.3.4'') (live nexusOne))"
  using connection_limit [of nexus0 nexusOne "''1.2.3.4''"] reachable_nexusOne nexusOne_live(1)
  by (simp add: nexus0_def)

section \<open>Who a connection speaks for\<close>

lemma me_net: "net s = net s' \<Longrightarrow> me x s = me x s'"
  by (simp add: net_def me_def fun_eq_iff)

lemma me_end [simp]: "me x (endConnection c s) = me x s"
  by (simp add: me_def endConnection_def Let_def withConn_def)

lemma me_accept:
  assumes "me x (accept e c ip cookie upgraded s) \<noteq> me x s" and "me x (accept e c ip cookie upgraded s) \<noteq> ''''"
  shows "x = c \<and> upgraded \<and> me x (accept e c ip cookie upgraded s) = sessionUsername (e_now e) cookie (DB s) \<and>
    \<not> fst (userBanInfo (sessionUsername (e_now e) cookie (DB s)) (DB s))"
proof -
  have acc: "upgraded \<and> accept e c ip cookie upgraded s = cookiePreAuth e c cookie (newConn c ip s)"
    using assms(1) by (auto simp: accept_def Let_def newConn_def me_def split: if_splits)
  have new: "me x (newConn c ip s) = (if x = c then '''' else me x s)" "DB (newConn c ip s) = DB s"
    by (auto simp: me_def newConn_def client0_def)
  from cookie_core [of e c cookie "newConn c ip s"] show ?thesis
  proof
    assume "core (cookiePreAuth e c cookie (newConn c ip s)) = core (newConn c ip s)"
    then have "me x (accept e c ip cookie upgraded s) = me x (newConn c ip s)" using acc me_core by metis
    with assms new show ?thesis by (auto split: if_splits)
  next
    let ?u = "sessionUsername (e_now e) cookie (DB (newConn c ip s))"
    assume *: "let u = ?u in core (cookiePreAuth e c cookie (newConn c ip s)) = core (setLocalUser c u (newConn c ip s)) \<and>
      u \<noteq> '''' \<and> \<not> fst (userBanInfo u (DB (newConn c ip s)))"
    then have "me x (accept e c ip cookie upgraded s) = me x (setLocalUser c ?u (newConn c ip s))"
      using acc me_core unfolding Let_def by metis
    with * acc assms new show ?thesis by (auto simp: Let_def split: if_splits)
  qed
qed

lemma me_frame:
  assumes "me x (onMessage e c msg s) \<noteq> me x s"
  shows "x = c \<and> signsIn e c msg s (me x (onMessage e c msg s))"
  using assms
proof (cases rule: onMessage_cases [of e c msg s])
  case (signed u)
  then have "me x (onMessage e c msg s) = me x (setLocalUser c u s)" by (metis me_core)
  with signed assms show ?thesis by (auto split: if_splits)
qed (auto dest: me_net)

text \<open>C1: The user a connection speaks for changes in three ways only.  A new connection brings a session
  token that is valid, not expired, not revoked, not waiting for device approval, and whose user is
  not banned; or a frame on that very connection presents a valid password with the second factor if
  one is set (a user who is not banned, and neither the address nor the account is throttled), a valid
  session token, or an approved QR login.  No other frame, on this or another connection, and no
  sweep changes it.
\<close>
theorem authentication_required:
  assumes "step s ev s'" and "me c s' \<noteq> me c s" and "me c s' \<noteq> ''''"
  shows "(\<exists>e ip cookie. ev = Connect e c ip cookie True \<and> me c s' = sessionUsername (e_now e) cookie (DB s) \<and>
            \<not> fst (userBanInfo (me c s') (DB s))) \<or>
         (\<exists>e msg. ev = Frame e c msg \<and> signsIn e c msg s (me c s'))"
  using assms
proof (cases rule: step.cases)
  case (connect c' e ip cookie upgraded)
  with assms me_accept show ?thesis by fastforce
next
  case (frame c' e msg)
  with assms me_frame show ?thesis by metis
next
  case (read_error c' e)
  with assms show ?thesis by (metis me_end me_net net_onReadError)
qed (auto simp: me_def sweepTOTPUsed_def sweepRemoteCodes_def)

lemma session_auth_signs:
  assumes "sessionUsername (e_now e) (mQRToken msg) (DB s) = u" and "u \<noteq> ''''"
    and "\<not> fst (userBanInfo u (DB s))" and "\<not> snd (isIPThrottled (e_now e) (peerIP c s) (authTracker s))"
  shows "core (h_session_auth e c msg s) = core (setLocalUser c u s)"
  using assms by (simp add: h_session_auth_def Let_def split_beta checkIP_def)

lemma onMessage_session_auth:
  "e_limiter e ''msg'' '''' \<Longrightarrow> mType msg = ''session_auth'' \<Longrightarrow> onMessage e c msg s = h_session_auth e c msg s"
  by (simp add: onMessage_def handlers_def signInHandlers_def)

definition sessionOf :: "string \<Rightarrow> string \<Rightarrow> session_row" where
  "sessionOf tok u = \<lparr> se_token = tok, se_username = u, se_device_info = '''', se_created_at = 0, se_expires_at = day,
     se_revoked = False, se_pending_device = False \<rparr>"

definition twoSessions :: NexusServer where
  "twoSessions = nexus0\<lparr>DB := emptyDB\<lparr>session_tokens := [sessionOf ''t1'' ''alice'', sessionOf ''t2'' ''bobby'']\<rparr>,
     live := [1], conns := (\<lambda>_. client0 ''1.2.3.4''), wsConnCount := [(''1.2.3.4'', 1)]\<rparr>"

lemma twoSessions_facts:
  "sessionUsername (1000 * second) ''t1'' (DB twoSessions) = ''alice''" "sessionUsername (1000 * second) ''t2'' (DB twoSessions) = ''bobby''"
  "\<not> fst (userBanInfo u (DB twoSessions))" "\<not> snd (isIPThrottled now ip (authTracker twoSessions))"
  by (simp_all add: twoSessions_def sessionUsername_def sessionState_def sessionRow_def sql_row_def sessionOf_def
      userBanInfo_def userRow_def emptyDB_def nexus0_def isIPThrottled_def authTracker0_def textAfterNow_def day_def
      hour_def minute_def second_def)

abbreviation sessionMsg :: "string \<Rightarrow> NexusMessage" where
  "sessionMsg tok \<equiv> msg0\<lparr>mType := ''session_auth'', mQRToken := tok\<rparr>"

lemma twoSessions_signIn: "me 1 (onMessage env0 1 (sessionMsg ''t1'') twoSessions) = ''alice''"
proof -
  have "core (onMessage env0 1 (sessionMsg ''t1'') twoSessions) = core (setLocalUser 1 ''alice'' twoSessions)"
    using twoSessions_facts
    by (subst onMessage_session_auth; (intro session_auth_signs)?) (simp_all add: env0_def)
  then have "me 1 (onMessage env0 1 (sessionMsg ''t1'') twoSessions) = me 1 (setLocalUser 1 ''alice'' twoSessions)"
    by (rule me_core)
  then show ?thesis by simp
qed

theorem authentication_required_witness:
  "me 1 twoSessions = '''' \<and> me 1 (onMessage env0 1 (sessionMsg ''t1'') twoSessions) = ''alice'' \<and>
   signsIn env0 1 (sessionMsg ''t1'') twoSessions ''alice''"
proof -
  have "step twoSessions (Frame env0 1 (sessionMsg ''t1'')) (onMessage env0 1 (sessionMsg ''t1'') twoSessions)"
    by (rule step.frame) (simp_all add: twoSessions_def client0_def)
  moreover have "me 1 twoSessions = ''''" by (simp add: me_def twoSessions_def client0_def)
  ultimately show ?thesis
    using authentication_required [of twoSessions "Frame env0 1 (sessionMsg ''t1'')"
        "onMessage env0 1 (sessionMsg ''t1'') twoSessions" 1] twoSessions_signIn by auto
qed

section \<open>A connection that is not signed in\<close>

definition quiet :: "cid \<Rightarrow> NexusServer \<Rightarrow> NexusServer \<Rightarrow> bool" where
  "quiet c s s' \<longleftrightarrow> (\<exists>ms. s' = s\<lparr>outbox := outbox s @ map (Pair c) ms\<rparr>)"

lemma quiet_refl [simp, intro]: "quiet c s s"
  by (auto simp: quiet_def intro: exI [of _ "[]"])

lemma quiet_Send [simp, intro]: "quiet c s (Send e c m s)"
  by (auto simp: quiet_def Send_eq intro: exI [of _ "[m]"] exI [of _ "[]"])

definition preAuthTypes :: "string list" where
  "preAuthTypes = [''auth'', ''session_auth'', ''qr_login_check'', ''register'', ''verify_email'', ''resend_verification'',
     ''forgot_password'', ''reset_password'', ''qr_login_create'', ''link_create'', ''link_check'', ''pstn_call'',
     ''status_update'', ''request_phone_link'', ''verify_phone_link'']"

definition needsLogin :: "string \<times> handler \<Rightarrow> bool" where
  "needsLogin th \<longleftrightarrow>
     fst th \<in> set preAuthTypes \<or> (\<forall>e c msg s. me c s = '''' \<longrightarrow> quiet c s (snd th e c msg s))"

lemma needsLogin_signIn: "list_all needsLogin signInHandlers"
  by (simp add: signInHandlers_def needsLogin_def preAuthTypes_def Let_def split_beta)

lemma needsLogin_ending: "list_all needsLogin endingHandlers"
  by (simp add: endingHandlers_def needsLogin_def preAuthTypes_def Let_def split_beta
      h_delete_account_def h_open_crate_def)

lemma needsLogin_call: "list_all needsLogin callHandlers"
  by (simp add: callHandlers_def needsLogin_def preAuthTypes_def Let_def split_beta
      h_call_offer_def h_call_answer_def h_call_signal_def h_call_end_def h_call_invite_def)

lemma needsLogin_account: "list_all needsLogin accountHandlers"
  by (simp add: accountHandlers_def needsLogin_def preAuthTypes_def Let_def split_beta
      h_update_profile_def h_revoke_session_def h_enable_totp_def h_confirm_totp_def h_disable_totp_def
      h_change_password_def h_qr_login_approve_def h_device_decision_def h_register_fcm_token_def
      h_subscribe_push_def h_unsubscribe_push_def h_list_sessions_def h_revoke_session_by_token_def
      h_key_backup_put_def h_key_backup_get_def h_key_backup_delete_def h_link_approve_def h_purge_email_def
      h_settings_get_def h_settings_set_def)

lemma needsLogin_social: "list_all needsLogin socialHandlers"
  by (simp add: socialHandlers_def needsLogin_def preAuthTypes_def Let_def split_beta
      h_msg_def h_block_def h_unblock_def h_list_blocks_def h_get_referral_stats_def h_craft_reward_def
      h_invite_email_def h_report_abuse_def h_typing_def h_msg_change_def h_dm_history_def h_presence_def
      h_search_def h_friend_request_def h_friend_accept_def h_friend_reject_def h_friend_remove_def
      h_contact_group_set_def h_convo_create_def h_convo_msg_def h_convo_leave_def h_convo_add_member_def
      h_convo_remove_member_def h_convo_rename_def h_convo_history_def h_read_receipt_def h_key_request_def
      h_ignore_def)

lemma needsLogin_space: "list_all needsLogin spaceHandlers"
  by (simp add: spaceHandlers_def needsLogin_def preAuthTypes_def Let_def split_beta
      h_server_create_def h_server_list_def h_server_discover_def h_server_join_def h_server_leave_def
      h_server_info_def h_channel_create_def h_channel_msg_def h_channel_history_def h_channel_react_def
      h_channel_edit_def h_channel_delete_def h_channel_pin_def h_wb_join_def h_wb_stroke_def h_wb_undo_def
      h_wb_clear_def h_voice_join_def h_voice_leave_def h_voice_signal_def h_stream_start_def h_stream_stop_def
      h_stream_list_def h_stream_join_def h_stream_leave_def h_stream_signal_def h_remote_register_def
      h_remote_unregister_def h_remote_lookup_def h_remote_relay_def)



text \<open>\<^verbatim>\<open>request_phone_link\<close> does not ask who is connected: any connection, signed in or not, makes the
  server send a text message with a code to a number of its choice.
\<close>
theorem sms_without_login:
  assumes "e_limiter e ''msg'' ''''" and "mType msg = ''request_phone_link''"
  shows "\<exists>code. mails (onMessage e c msg s) = mails s @ [SMSCode (mBody msg) code]"
proof -
  have "mails (fst (randDigits e 6 s)) = mails s" by (subst randDigits_state) simp
  with assms show ?thesis
    by (simp add: onMessage_def handlers_def signInHandlers_def endingHandlers_def callHandlers_def accountHandlers_def
        h_request_phone_link_def Let_def split_beta Send_eq)
qed

theorem sms_without_login_witness:
  "\<exists>code. mails (onMessage env0 1 (msg0\<lparr>mType := ''request_phone_link'', mBody := ''+15550100''\<rparr>) nexusOne) =
     mails nexusOne @ [SMSCode ''+15550100'' code]"
  using sms_without_login [of env0 "msg0\<lparr>mType := ''request_phone_link'', mBody := ''+15550100''\<rparr>" 1 nexusOne]
  by simp

section \<open>The registry of online users\<close>

lemma Clients_frames [simp]:
  "Clients (sendList e c ms s) = Clients s" "Clients (deliverOfflineMessages e u c s) = Clients s"
  "Clients (announcePresence e u s) = Clients s" "Clients (sendPerks e c u s) = Clients s"
  "Clients (sendFriendStatuses e c u b s) = Clients s" "Clients (sendPending e c u s) = Clients s"
  "Clients (sendConvos e c u s) = Clients s" "Clients (sendGroups e c u s) = Clients s"
  "Clients (touchLogin e c u s) = Clients s" "Clients (setLocalUser c u s) = Clients s"
  "Clients (Send e c m s) = Clients s" "Clients (endConnection c s) = Clients s" "Clients (hangUp c s) = Clients s"
proof -
  have L: "Clients (sendList e c ms s) = Clients s" for ms s by (induction ms arbitrary: s) (simp_all add: Send_eq)
  have R: "Clients (sendRows e c rs s) = Clients s" for rs s by (simp add: sendRows_eq)
  show "Clients (sendList e c ms s) = Clients s" "Clients (deliverOfflineMessages e u c s) = Clients s"
    "Clients (announcePresence e u s) = Clients s" "Clients (sendPerks e c u s) = Clients s"
    "Clients (sendFriendStatuses e c u b s) = Clients s" "Clients (sendPending e c u s) = Clients s"
    "Clients (sendConvos e c u s) = Clients s" "Clients (sendGroups e c u s) = Clients s"
    "Clients (touchLogin e c u s) = Clients s" "Clients (setLocalUser c u s) = Clients s"
    "Clients (Send e c m s) = Clients s" "Clients (endConnection c s) = Clients s" "Clients (hangUp c s) = Clients s"
    by (simp_all add: L R deliverOfflineMessages_def announcePresence_def sendPerks_def sendReferralPerks_def
        sendFriendStatuses_def sendPending_def sendConvos_def sendGroups_def touchLogin_def setLocalUser_def
        endConnection_def hangUp_def Let_def Send_eq split: option.splits)
qed

lemma Clients_dropCall [simp]: "Clients (dropCall e c s) = Clients s"
  by (auto simp: dropCall_def closeCallRow_def Let_def split_beta split: option.splits prod.splits)

lemma Clients_peers [simp]: "Clients (fold (voiceRoomBroadcastPeers e) chs s) = Clients s"
  by (induction chs arbitrary: s) (simp_all add: voiceRoomBroadcastPeers_def Let_def sendToEach_eq)

lemma Clients_sendEachOwn [simp]: "Clients (sendEachOwn e us f s) = Clients s"
  by (induction us arbitrary: s) (simp_all add: sendTo_eq)

lemma Clients_evict [simp]:
  "Clients (voiceRoomEvictUser e u s) = Clients s" "Clients (streamEvictUser e u s) = Clients s"
  by (simp_all add: voiceRoomEvictUser_def streamEvictUser_def streamBroadcastList_def broadcastAll_eq Let_def)

lemma clientsOf_onReadError:
  "me c s \<noteq> u \<Longrightarrow> clientsOf u (onReadError e c s) = clientsOf u s"
  using clientsOf_removeClient [of u "me c s" c s]
  by (simp add: onReadError_def Let_def split_beta clientsOf_def)

lemma clientsOf_session_auth:
  assumes "sessionUsername (e_now e) (mQRToken msg) (DB s) = v" and "v \<noteq> ''''"
    and "\<not> fst (userBanInfo v (DB s))" and "\<not> snd (isIPThrottled (e_now e) (peerIP c s) (authTracker s))"
  shows "clientsOf u (h_session_auth e c msg s) = (if u = v then clientsOf u s @ [c] else clientsOf u s)"
  using assms by (simp add: h_session_auth_def Let_def split_beta checkIP_def registerConn_def clientsOf_def addClient_def)

text \<open>Signing in a second time on the same connection, as somebody else, leaves the connection in the
  registry under the first name; closing it removes only the second.  The first user is then online
  forever, with no connection open.
\<close>
theorem reauth_ghost:
  assumes u: "sessionUsername (e_now e1) (mQRToken m1) (DB s) = u" "u \<noteq> ''''" "\<not> fst (userBanInfo u (DB s))"
      "\<not> snd (isIPThrottled (e_now e1) (peerIP c s) (authTracker s))"
    and s1: "s1 = h_session_auth e1 c m1 s"
    and v: "sessionUsername (e_now e2) (mQRToken m2) (DB s1) = v" "v \<noteq> ''''" "v \<noteq> u" "\<not> fst (userBanInfo v (DB s1))"
      "\<not> snd (isIPThrottled (e_now e2) (peerIP c s1) (authTracker s1))"
    and s2: "s2 = h_session_auth e2 c m2 s1" and s3: "s3 = onReadError e3 c s2"
  shows "isOnline u s3 \<and> c \<in> set (clientsOf u s3) \<and> c \<notin> set (live s3)"
proof -
  have "c \<in> set (clientsOf u s1)" using clientsOf_session_auth [OF u] s1 by simp
  then have "c \<in> set (clientsOf u s2)" using clientsOf_session_auth [OF v(1,2,4,5)] v(3) s2 by simp
  moreover have "core s2 = core (setLocalUser c v s1)" using session_auth_signs [OF v(1,2,4,5)] s2 by simp
  then have "me c s2 = v" by (metis me_core me_setLocal)
  ultimately have on: "c \<in> set (clientsOf u s3)" using clientsOf_onReadError v(3) s3 by simp
  have "live s3 = live (endConnection c s2)" using net_onReadError [of e3 c s2] s3 by (simp add: net_def)
  with on show ?thesis by (auto simp: end_simps isOnline_def)
qed

lemma DB_frames [simp]:
  "DB (sendList e c ms s) = DB s" "DB (Send e c m s) = DB s" "DB (announcePresence e u s) = DB s"
  "DB (sendPerks e c u s) = DB s" "DB (sendFriendStatuses e c u b s) = DB s" "DB (sendPending e c u s) = DB s"
  "DB (sendConvos e c u s) = DB s" "DB (sendGroups e c u s) = DB s" "DB (registerConn c u s) = DB s"
  "DB (setLocalUser c u s) = DB s"
proof -
  have L: "DB (sendList e c ms s) = DB s" for ms s by (induction ms arbitrary: s) (simp_all add: Send_eq)
  show "DB (sendList e c ms s) = DB s" "DB (Send e c m s) = DB s" "DB (announcePresence e u s) = DB s"
    "DB (sendPerks e c u s) = DB s" "DB (sendFriendStatuses e c u b s) = DB s" "DB (sendPending e c u s) = DB s"
    "DB (sendConvos e c u s) = DB s" "DB (sendGroups e c u s) = DB s" "DB (registerConn c u s) = DB s"
    "DB (setLocalUser c u s) = DB s"
    by (simp_all add: L announcePresence_def sendPerks_def sendReferralPerks_def sendFriendStatuses_def sendPending_def
        sendConvos_def sendGroups_def registerConn_def addClient_def setLocalUser_def Let_def Send_eq split: option.splits)
qed

lemma DB_deliverOffline:
  "DB (deliverOfflineMessages e u c s) = fold deleteOffline (map of_id (offlineQueue u (DB s))) (DB s)"
  by (simp add: deliverOfflineMessages_def Let_def sendRows_eq)

lemma fold_deleteOffline_tables [simp]:
  "session_tokens (fold deleteOffline is d) = session_tokens d" "users (fold deleteOffline is d) = users d"
  by (simp_all add: fold_deleteOffline)

lemma tracker_frames [simp]:
  "authTracker (sendList e c ms s) = authTracker s" "authTracker (Send e c m s) = authTracker s"
  "authTracker (announcePresence e u s) = authTracker s" "authTracker (sendPerks e c u s) = authTracker s"
  "authTracker (sendFriendStatuses e c u b s) = authTracker s" "authTracker (sendPending e c u s) = authTracker s"
  "authTracker (sendConvos e c u s) = authTracker s" "authTracker (sendGroups e c u s) = authTracker s"
  "authTracker (registerConn c u s) = authTracker s" "authTracker (setLocalUser c u s) = authTracker s"
  "authTracker (deliverOfflineMessages e u c s) = authTracker s" "authTracker (touchLogin e c u s) = authTracker s"
proof -
  have L: "authTracker (sendList e c ms s) = authTracker s" for ms s
    by (induction ms arbitrary: s) (simp_all add: Send_eq)
  have S: "authTracker (setStatuses st cs s) = authTracker s" for st cs s
    by (induction cs arbitrary: s) simp_all
  show "authTracker (sendList e c ms s) = authTracker s" "authTracker (Send e c m s) = authTracker s"
    "authTracker (announcePresence e u s) = authTracker s" "authTracker (sendPerks e c u s) = authTracker s"
    "authTracker (sendFriendStatuses e c u b s) = authTracker s" "authTracker (sendPending e c u s) = authTracker s"
    "authTracker (sendConvos e c u s) = authTracker s" "authTracker (sendGroups e c u s) = authTracker s"
    "authTracker (registerConn c u s) = authTracker s" "authTracker (setLocalUser c u s) = authTracker s"
    "authTracker (deliverOfflineMessages e u c s) = authTracker s" "authTracker (touchLogin e c u s) = authTracker s"
    by (simp_all add: L S announcePresence_def broadcastPresence_def sendPerks_def sendReferralPerks_def sendFriendStatuses_def
        sendPending_def sendConvos_def sendGroups_def registerConn_def addClient_def setLocalUser_def touchLogin_def
        deliverOfflineMessages_def sendRows_eq sendToEach_eq Let_def Send_eq)
qed

lemma userBanInfo_updUser:
  assumes "\<And>r. u_username (f r) = u_username r" "\<And>r. u_is_banned (f r) = u_is_banned r" "\<And>r. u_ban_reason (f r) = u_ban_reason r"
  shows "userBanInfo w (updUser v f d) = userBanInfo w d"
  using assms by (simp add: userBanInfo_def userRow_updUser split: option.splits)

lemma userBanInfo_users: "users d = users d' \<Longrightarrow> userBanInfo w d = userBanInfo w d'"
  by (simp add: userBanInfo_def userRow_def)

lemma recordSuccess_unthrottled: "\<not> snd (isIPThrottled now ip (recordSuccess ip v t))"
  by (simp add: recordSuccess_def isIPThrottled_def Let_def)

lemma session_auth_tables:
  assumes "sessionUsername (e_now e) (mQRToken msg) (DB s) = v" and "v \<noteq> []"
    and "\<not> fst (userBanInfo v (DB s))" and "\<not> snd (isIPThrottled (e_now e) (peerIP c s) (authTracker s))"
  shows "session_tokens (DB (h_session_auth e c msg s)) = session_tokens (DB s)"
    and "userBanInfo w (DB (h_session_auth e c msg s)) = userBanInfo w (DB s)"
    and "\<not> snd (isIPThrottled now (peerIP c s) (authTracker (h_session_auth e c msg s)))"
proof -
  have "users (joinServer now sid x d) = users d" "session_tokens (joinServer now sid x d) = session_tokens d" for now sid x d
    by (simp_all add: joinServer_def)
  note tables = this
  let ?t = "touchLogin e c v (setLocalUser c v (s\<lparr>authTracker := recordSuccess (peerIP c s) v
      (fst (isIPThrottled (e_now e) (peerIP c s) (authTracker s)))\<rparr>))"
  have "peerIP c (s\<lparr>authTracker := t\<rparr>) = peerIP c s" for t by (simp add: peerIP_def)
  then have "users (DB (h_session_auth e c msg s)) = users (DB ?t) \<and>
      session_tokens (DB (h_session_auth e c msg s)) = session_tokens (DB ?t) \<and>
      authTracker (h_session_auth e c msg s) = authTracker ?t"
    using assms by (simp add: h_session_auth_def Let_def split_beta checkIP_def DB_deliverOffline autoJoinGlobalSpace_def tables)
  then show "session_tokens (DB (h_session_auth e c msg s)) = session_tokens (DB s)"
    and "userBanInfo w (DB (h_session_auth e c msg s)) = userBanInfo w (DB s)"
    and "\<not> snd (isIPThrottled now (peerIP c s) (authTracker (h_session_auth e c msg s)))"
    by (auto simp: touchLogin_def userBanInfo_users [of "DB (h_session_auth e c msg s)" "DB ?t"] userBanInfo_updUser
        recordSuccess_unthrottled)
qed

theorem reauth_ghost_witness:
  "isOnline ''alice'' (onReadError env0 1 (h_session_auth env0 1 (sessionMsg ''t2'')
     (h_session_auth env0 1 (sessionMsg ''t1'') twoSessions)))"
proof -
  let ?s1 = "h_session_auth env0 1 (sessionMsg ''t1'') twoSessions"
  note u = twoSessions_facts(1) twoSessions_facts(3) [of "''alice''"] twoSessions_facts(4)
  have ses: "session_tokens (DB ?s1) = session_tokens (DB twoSessions)"
    and ban: "\<not> fst (userBanInfo ''bobby'' (DB ?s1))"
    and thr: "\<not> snd (isIPThrottled now (peerIP 1 twoSessions) (authTracker ?s1))" for now
    using session_auth_tables [of env0 "sessionMsg ''t1''" twoSessions "''alice''" 1] u twoSessions_facts(3) by auto
  have "peerIP 1 ?s1 = peerIP 1 twoSessions"
    using arg_cong [OF session_auth_signs [of env0 "sessionMsg ''t1''" twoSessions "''alice''" 1], of "\<lambda>k. fst (snd (snd k) 1)"] u
    by (simp add: core_def coreOf_def setCore_def peerIP_def split: prod.splits)
  moreover have "sessionUsername (1000 * second) ''t2'' (DB ?s1) = ''bobby''"
    using twoSessions_facts(2) ses by (simp add: sessionUsername_def sessionState_def sessionRow_def)
  ultimately show ?thesis
    using reauth_ghost [of env0 "sessionMsg ''t1''" twoSessions "''alice''" 1 ?s1 env0 "sessionMsg ''t2''" "''bobby''"
        "h_session_auth env0 1 (sessionMsg ''t2'') ?s1" _ env0] u ban thr by auto
qed

end
