(* ===== verification/Schema.thy ===== *)
theory Schema
  imports Safety
begin

text \<open>
  The constraints that \<^verbatim>\<open>initDB\<close> declares: the \<^verbatim>\<open>PRIMARY KEY\<close> and \<^verbatim>\<open>UNIQUE\<close> columns of every table and the
  \<^verbatim>\<open>AUTOINCREMENT\<close> ids, which are distinct and never above the table's entry of \<^verbatim>\<open>sqlite_sequence\<close>.  Every
  operation keeps them, and so does every step of the server.
\<close>

section \<open>The constraints\<close>

definition keys_ok :: "database \<Rightarrow> bool" where
  "keys_ok d \<longleftrightarrow>
     uniq u_username (users d) \<and> uniq fr_key (friends d) \<and> uniq cg_key (contact_groups d) \<and>
     uniq cv_id (conversations d) \<and> uniq (\<lambda>x. x) (conversation_members d) \<and> uniq bl_key (blocks d) \<and>
     uniq se_token (session_tokens d) \<and> uniq pr_token (password_resets d) \<and> uniq qr_token (qr_login_tokens d) \<and>
     uniq sv_id (servers d) \<and> uniq sv_invite_code (servers d) \<and> uniq ch_id (channels d) \<and>
     uniq sm_key (server_members d) \<and> uniq rx_key (channel_reactions d) \<and> uniq (\<lambda>x. x) (story_views d) \<and>
     uniq ust_table_key (user_settings d) \<and> uniq ps_endpoint (push_subscriptions d) \<and> uniq iv_code (invite_codes d) \<and>
     uniq dr_msg_id (dm_messages d) \<and> uniq dx_key (dm_reactions d) \<and> uniq kr_username (key_backups d) \<and>
     uniq (\<lambda>x. x) (blocked_ips d) \<and> uniq kd_key (known_devices d) \<and> uniq rc_source (reward_crates d) \<and>
     uniq rf_key (reward_crafts d) \<and> uniq ki_key (skype_import_messages d) \<and> uniq kc_key (skype_import_contacts d)"

definition seq_ok :: "('r \<Rightarrow> int) \<Rightarrow> int \<Rightarrow> 'r list \<Rightarrow> bool" where
  "seq_ok f q t \<longleftrightarrow> uniq f t \<and> list_all (\<lambda>r. f r \<le> q) t"

definition ids_ok :: "database \<Rightarrow> bool" where
  "ids_ok d \<longleftrightarrow>
     seq_ok of_id (sqlite_sequence d ''offline_messages'') (offline_messages d) \<and>
     seq_ok rp_id (sqlite_sequence d ''abuse_reports'') (abuse_reports d) \<and>
     seq_ok cr_id (sqlite_sequence d ''channel_messages'') (channel_messages d) \<and>
     seq_ok st_id (sqlite_sequence d ''stories'') (stories d) \<and>
     seq_ok dr_id (sqlite_sequence d ''dm_messages'') (dm_messages d) \<and>
     seq_ok dc_id (sqlite_sequence d ''device_challenges'') (device_challenges d) \<and>
     seq_ok sk_id (sqlite_sequence d ''whiteboard_strokes'') (whiteboard_strokes d) \<and>
     seq_ok cl_id (sqlite_sequence d ''calls'') (calls d) \<and>
     seq_ok rc_id (sqlite_sequence d ''reward_crates'') (reward_crates d) \<and>
     seq_ok sp_id (sqlite_sequence d ''supporter_requests'') (supporter_requests d) \<and>
     seq_ok bp_id (sqlite_sequence d ''bmc_payments'') (bmc_payments d)"

definition schema_ok :: "database \<Rightarrow> bool" where
  "schema_ok d \<longleftrightarrow> keys_ok d \<and> ids_ok d"

lemmas schema_defs = schema_ok_def keys_ok_def ids_ok_def

lemma schema_empty: "schema_ok emptyDB"
  by (simp add: schema_defs emptyDB_def seq_ok_def)

lemma seq_ok_append [simp]: "seq_ok f q t \<Longrightarrow> f r = q + 1 \<Longrightarrow> seq_ok f (q + 1) (t @ [r])"
  by (auto simp: seq_ok_def uniq_def list_all_iff)

lemma seq_ok_delete [simp]: "seq_ok f q t \<Longrightarrow> seq_ok f q (sql_delete P t)"
  by (auto simp: seq_ok_def uniq_sql_delete) (simp add: sql_delete_def list_all_iff)

lemma seq_ok_update [simp]: "seq_ok f q t \<Longrightarrow> (\<And>r. f (g r) = f r) \<Longrightarrow> seq_ok f q (sql_update P g t)"
  by (simp add: seq_ok_def uniq_sql_update) (auto simp: sql_update_def list_all_iff)

lemma uniq_append [simp]: "uniq K t \<Longrightarrow> \<not> sql_has K (K r) t \<Longrightarrow> uniq K (t @ [r])"
  by (auto simp: uniq_def sql_has_iff)

lemma uniq_fold_ignore [simp]: "uniq K t \<Longrightarrow> uniq K (fold (sql_insert_ignore K) rs t)"
  by (induction rs arbitrary: t) (simp_all add: uniq_sql_insert_ignore)

text \<open>The constraints of the single tables, and what a change of one table has to respect.\<close>

lemma schema_table:
  assumes "schema_ok d"
  shows "uniq u_username (users d)"
    "uniq fr_key (friends d)"
    "uniq cg_key (contact_groups d)"
    "uniq cv_id (conversations d)"
    "uniq (\<lambda>x. x) (conversation_members d)"
    "uniq bl_key (blocks d)"
    "uniq se_token (session_tokens d)"
    "uniq pr_token (password_resets d)"
    "uniq qr_token (qr_login_tokens d)"
    "uniq sv_id (servers d)" "uniq sv_invite_code (servers d)"
    "uniq ch_id (channels d)"
    "uniq sm_key (server_members d)"
    "uniq rx_key (channel_reactions d)"
    "uniq (\<lambda>x. x) (story_views d)"
    "uniq ust_table_key (user_settings d)"
    "uniq ps_endpoint (push_subscriptions d)"
    "uniq iv_code (invite_codes d)"
    "uniq dr_msg_id (dm_messages d)" "seq_ok dr_id (sqlite_sequence d ''dm_messages'') (dm_messages d)"
    "uniq dx_key (dm_reactions d)"
    "uniq kr_username (key_backups d)"
    "uniq (\<lambda>x. x) (blocked_ips d)"
    "uniq kd_key (known_devices d)"
    "uniq rc_source (reward_crates d)" "seq_ok rc_id (sqlite_sequence d ''reward_crates'') (reward_crates d)"
    "uniq rf_key (reward_crafts d)"
    "uniq ki_key (skype_import_messages d)"
    "uniq kc_key (skype_import_contacts d)"
    "seq_ok of_id (sqlite_sequence d ''offline_messages'') (offline_messages d)"
    "seq_ok rp_id (sqlite_sequence d ''abuse_reports'') (abuse_reports d)"
    "seq_ok cr_id (sqlite_sequence d ''channel_messages'') (channel_messages d)"
    "seq_ok st_id (sqlite_sequence d ''stories'') (stories d)"
    "seq_ok dc_id (sqlite_sequence d ''device_challenges'') (device_challenges d)"
    "seq_ok sk_id (sqlite_sequence d ''whiteboard_strokes'') (whiteboard_strokes d)"
    "seq_ok cl_id (sqlite_sequence d ''calls'') (calls d)"
    "seq_ok sp_id (sqlite_sequence d ''supporter_requests'') (supporter_requests d)"
    "seq_ok bp_id (sqlite_sequence d ''bmc_payments'') (bmc_payments d)"
  using assms by (simp_all add: schema_defs)

lemma schema_change:
  assumes "schema_ok d"
  shows "uniq u_username x1 \<Longrightarrow> schema_ok (d\<lparr>users := x1\<rparr>)"
    "uniq fr_key x2 \<Longrightarrow> schema_ok (d\<lparr>friends := x2\<rparr>)"
    "uniq cg_key x3 \<Longrightarrow> schema_ok (d\<lparr>contact_groups := x3\<rparr>)"
    "uniq cv_id x4 \<Longrightarrow> schema_ok (d\<lparr>conversations := x4\<rparr>)"
    "uniq (\<lambda>x. x) x5 \<Longrightarrow> schema_ok (d\<lparr>conversation_members := x5\<rparr>)"
    "uniq bl_key x6 \<Longrightarrow> schema_ok (d\<lparr>blocks := x6\<rparr>)"
    "uniq se_token x7 \<Longrightarrow> schema_ok (d\<lparr>session_tokens := x7\<rparr>)"
    "uniq pr_token x8 \<Longrightarrow> schema_ok (d\<lparr>password_resets := x8\<rparr>)"
    "uniq qr_token x9 \<Longrightarrow> schema_ok (d\<lparr>qr_login_tokens := x9\<rparr>)"
    "uniq sv_id x10 \<Longrightarrow> uniq sv_invite_code x10 \<Longrightarrow> schema_ok (d\<lparr>servers := x10\<rparr>)"
    "uniq ch_id x11 \<Longrightarrow> schema_ok (d\<lparr>channels := x11\<rparr>)"
    "uniq sm_key x12 \<Longrightarrow> schema_ok (d\<lparr>server_members := x12\<rparr>)"
    "uniq rx_key x13 \<Longrightarrow> schema_ok (d\<lparr>channel_reactions := x13\<rparr>)"
    "uniq (\<lambda>x. x) x14 \<Longrightarrow> schema_ok (d\<lparr>story_views := x14\<rparr>)"
    "uniq ust_table_key x15 \<Longrightarrow> schema_ok (d\<lparr>user_settings := x15\<rparr>)"
    "uniq ps_endpoint x16 \<Longrightarrow> schema_ok (d\<lparr>push_subscriptions := x16\<rparr>)"
    "uniq iv_code x17 \<Longrightarrow> schema_ok (d\<lparr>invite_codes := x17\<rparr>)"
    "uniq dr_msg_id x18 \<Longrightarrow> seq_ok dr_id (sqlite_sequence d ''dm_messages'') x18 \<Longrightarrow> schema_ok (d\<lparr>dm_messages := x18\<rparr>)"
    "uniq dx_key x19 \<Longrightarrow> schema_ok (d\<lparr>dm_reactions := x19\<rparr>)"
    "uniq kr_username x20 \<Longrightarrow> schema_ok (d\<lparr>key_backups := x20\<rparr>)"
    "uniq (\<lambda>x. x) x21 \<Longrightarrow> schema_ok (d\<lparr>blocked_ips := x21\<rparr>)"
    "uniq kd_key x22 \<Longrightarrow> schema_ok (d\<lparr>known_devices := x22\<rparr>)"
    "uniq rc_source x23 \<Longrightarrow> seq_ok rc_id (sqlite_sequence d ''reward_crates'') x23 \<Longrightarrow> schema_ok (d\<lparr>reward_crates := x23\<rparr>)"
    "uniq rf_key x24 \<Longrightarrow> schema_ok (d\<lparr>reward_crafts := x24\<rparr>)"
    "uniq ki_key x25 \<Longrightarrow> schema_ok (d\<lparr>skype_import_messages := x25\<rparr>)"
    "uniq kc_key x26 \<Longrightarrow> schema_ok (d\<lparr>skype_import_contacts := x26\<rparr>)"
    "seq_ok of_id (sqlite_sequence d ''offline_messages'') x27 \<Longrightarrow> schema_ok (d\<lparr>offline_messages := x27\<rparr>)"
    "seq_ok rp_id (sqlite_sequence d ''abuse_reports'') x28 \<Longrightarrow> schema_ok (d\<lparr>abuse_reports := x28\<rparr>)"
    "seq_ok cr_id (sqlite_sequence d ''channel_messages'') x29 \<Longrightarrow> schema_ok (d\<lparr>channel_messages := x29\<rparr>)"
    "seq_ok st_id (sqlite_sequence d ''stories'') x30 \<Longrightarrow> schema_ok (d\<lparr>stories := x30\<rparr>)"
    "seq_ok dc_id (sqlite_sequence d ''device_challenges'') x31 \<Longrightarrow> schema_ok (d\<lparr>device_challenges := x31\<rparr>)"
    "seq_ok sk_id (sqlite_sequence d ''whiteboard_strokes'') x32 \<Longrightarrow> schema_ok (d\<lparr>whiteboard_strokes := x32\<rparr>)"
    "seq_ok cl_id (sqlite_sequence d ''calls'') x33 \<Longrightarrow> schema_ok (d\<lparr>calls := x33\<rparr>)"
    "seq_ok sp_id (sqlite_sequence d ''supporter_requests'') x34 \<Longrightarrow> schema_ok (d\<lparr>supporter_requests := x34\<rparr>)"
    "seq_ok bp_id (sqlite_sequence d ''bmc_payments'') x35 \<Longrightarrow> schema_ok (d\<lparr>bmc_payments := x35\<rparr>)"
    "schema_ok (d\<lparr>convo_messages := cm\<rparr>)" "schema_ok (d\<lparr>totp_backup_codes := bc\<rparr>)"
  using assms by (simp_all add: schema_defs)

text \<open>A new row with the next id.\<close>

lemma schema_insert:
  assumes "schema_ok d"
  shows "of_id r1 = nextID ''offline_messages'' d \<Longrightarrow>
      schema_ok ((takeID ''offline_messages'' d)\<lparr>offline_messages := offline_messages d @ [r1]\<rparr>)"
    "rp_id r2 = nextID ''abuse_reports'' d \<Longrightarrow> schema_ok ((takeID ''abuse_reports'' d)\<lparr>abuse_reports := abuse_reports d @ [r2]\<rparr>)"
    "cr_id r3 = nextID ''channel_messages'' d \<Longrightarrow>
      schema_ok ((takeID ''channel_messages'' d)\<lparr>channel_messages := channel_messages d @ [r3]\<rparr>)"
    "st_id r4 = nextID ''stories'' d \<Longrightarrow> schema_ok ((takeID ''stories'' d)\<lparr>stories := stories d @ [r4]\<rparr>)"
    "dr_id r5 = nextID ''dm_messages'' d \<Longrightarrow> \<not> sql_has dr_msg_id (dr_msg_id r5) (dm_messages d) \<Longrightarrow>
      schema_ok ((takeID ''dm_messages'' d)\<lparr>dm_messages := dm_messages d @ [r5]\<rparr>)"
    "dc_id r6 = nextID ''device_challenges'' d \<Longrightarrow>
      schema_ok ((takeID ''device_challenges'' d)\<lparr>device_challenges := device_challenges d @ [r6]\<rparr>)"
    "sk_id r7 = nextID ''whiteboard_strokes'' d \<Longrightarrow>
      schema_ok ((takeID ''whiteboard_strokes'' d)\<lparr>whiteboard_strokes := whiteboard_strokes d @ [r7]\<rparr>)"
    "cl_id r8 = nextID ''calls'' d \<Longrightarrow> schema_ok ((takeID ''calls'' d)\<lparr>calls := calls d @ [r8]\<rparr>)"
    "rc_id r9 = nextID ''reward_crates'' d \<Longrightarrow> \<not> sql_has rc_source (rc_source r9) (reward_crates d) \<Longrightarrow>
      schema_ok ((takeID ''reward_crates'' d)\<lparr>reward_crates := reward_crates d @ [r9]\<rparr>)"
    "sp_id r10 = nextID ''supporter_requests'' d \<Longrightarrow>
      schema_ok ((takeID ''supporter_requests'' d)\<lparr>supporter_requests := supporter_requests d @ [r10]\<rparr>)"
    "bp_id r11 = nextID ''bmc_payments'' d \<Longrightarrow> schema_ok ((takeID ''bmc_payments'' d)\<lparr>bmc_payments := bmc_payments d @ [r11]\<rparr>)"
  using assms by (simp_all add: schema_defs nextID_def takeID_def)


section \<open>Properties of the accounts\<close>

text \<open>
  A property \<open>A\<close> of the table of accounts that depends on names and rights only, is not lost when accounts are
  removed and does not mind new accounts without rights.  Together with the constraints it is kept by
  everything a client can ask for.
\<close>

definition rightsOf :: "user_row \<Rightarrow> string \<times> string \<times> bool" where [simp]:
  "rightsOf u = (u_username u, u_role u, u_is_admin u)"

definition plain :: "user_row \<Rightarrow> bool" where [simp]:
  "plain u \<longleftrightarrow> u_role u = ''user'' \<and> \<not> u_is_admin u"

definition holds :: "(user_row list \<Rightarrow> bool) \<Rightarrow> database \<Rightarrow> bool" where
  "holds A d \<longleftrightarrow> schema_ok d \<and> A (users d)"

definition keeps :: "(database \<Rightarrow> bool) \<Rightarrow> handler \<Rightarrow> bool" where
  "keeps I h \<longleftrightarrow> (\<forall>e c msg s. I (DB s) \<longrightarrow> I (DB (h e c msg s)))"

lemma newUser_plain: "plain (newUser now u m md h code)"
  by (simp add: newUser_def)

lemma keepsI: "(\<And>e c msg s. I (DB s) \<Longrightarrow> I (DB (h e c msg s))) \<Longrightarrow> keeps I h"
  by (simp add: keeps_def)

named_theorems kept and kept_handlers

section \<open>What writes no table\<close>

lemma DB_sends [simp]:
  "DB (SendAll e cs m s) = DB s" "DB (fst (sendTo e u m s)) = DB s" "DB (sendToEach e us m s) = DB s" "DB (broadcastAll e m s) = DB s"
  "DB (sendRows e c rs s) = DB s"
  by (simp_all add: SendAll_eq sendTo_eq sendToEach_eq broadcastAll_eq sendRows_eq)

lemma DB_sendEachOwn [simp]: "DB (sendEachOwn e us f s) = DB s"
  by (induction us arbitrary: s) simp_all

lemma DB_profile [simp]: "DB (broadcastProfileUpdate e u dn md s) = DB s" "DB (fst (removeClient u c s)) = DB s"
  by (simp_all add: broadcastProfileUpdate_def removeClient_def Let_def)

lemma DB_perks [simp]: "DB (sendReferralPerks e c u fs s) = DB s" "DB (pushPerks e u s) = DB s"
  by (simp_all add: sendReferralPerks_def pushPerks_def Let_def)

lemma DB_randHex: "randHex e n s = (s', r) \<Longrightarrow> DB s' = DB s"
  by (auto simp: randHex_def)

lemma DB_fst_randHex [simp]: "DB (fst (randHex e n s)) = DB s"
  by (simp add: randHex_def)

lemma DB_randDigits: "randDigits e n s = (s', r) \<Longrightarrow> DB s' = DB s"
  by (metis fst_conv randDigits_state randDigits_frame)

lemma DB_rooms [simp]:
  "DB (voiceRoomJoin ch u s) = DB s" "DB (voiceRoomLeave ch u s) = DB s" "DB (streamStart h t s) = DB s"
  "DB (streamStop e h s) = DB s" "DB (streamAddViewer h v s) = DB s" "DB (streamRemoveViewer h v s) = DB s"
  "DB (streamBroadcastList e s) = DB s" "DB (sweepRemoteCodes now s) = DB s" "DB (sweepTOTPUsed now s) = DB s"
  by (auto simp: voiceRoomJoin_def voiceRoomLeave_def streamStart_def streamStop_def streamAddViewer_def streamRemoveViewer_def
      streamBroadcastList_def sweepRemoteCodes_def sweepTOTPUsed_def Let_def split: option.splits)

lemma DB_evict [simp]: "DB (voiceRoomEvictUser e u s) = DB s" "DB (streamEvictUser e u s) = DB s"
  by (simp_all add: voiceRoomEvictUser_def streamEvictUser_def Let_def)

lemma DB_ends [simp]: "DB (endConnection c s) = DB s" "DB (hangUp c s) = DB s" "DB (takePending u w s) = DB s"
  by (auto simp: endConnection_def hangUp_def takePending_def Let_def split: option.splits)

lemma DB_totp [simp]: "DB (fst (verifyTOTP e u code s)) = DB s"
  by (auto simp: verifyTOTP_def Let_def split: prod.splits option.splits)

lemma DB_fst_vpn [simp]: "DB (fst (isVPNOrDatacenter e ip s)) = DB s"
  by (subst isVPN_eq) simp

lemma DB_bootstrap [simp]: "DB (fst (bootstrapChannels e sid i chs s d)) = DB s"
  by (induction chs arbitrary: i s d) (simp_all add: split_beta split: option.split)

lemma DB_createServer [simp]: "DB (fst (createServerTx e r s)) = DB s"
  by (simp add: createServerTx_def split: option.split del: bootstrapChannels.simps)


locale accounts_invariant =
  fixes A :: "user_row list \<Rightarrow> bool"
  assumes A_update: "A t \<Longrightarrow> (\<And>u. rightsOf (f u) = rightsOf u) \<Longrightarrow> A (sql_update P f t)"
    and A_delete: "A t \<Longrightarrow> A (sql_delete P t)"
    and A_insert: "A t \<Longrightarrow> plain r \<Longrightarrow> \<not> sql_has u_username (u_username r) t \<Longrightarrow> A (t @ [r])"
begin

lemma holds_table:
  assumes "holds A d"
  shows "A (users d)" "uniq u_username (users d)"
    "uniq fr_key (friends d)"
    "uniq cg_key (contact_groups d)"
    "uniq cv_id (conversations d)"
    "uniq (\<lambda>x. x) (conversation_members d)"
    "uniq bl_key (blocks d)"
    "uniq se_token (session_tokens d)"
    "uniq pr_token (password_resets d)"
    "uniq qr_token (qr_login_tokens d)"
    "uniq sv_id (servers d)" "uniq sv_invite_code (servers d)"
    "uniq ch_id (channels d)"
    "uniq sm_key (server_members d)"
    "uniq rx_key (channel_reactions d)"
    "uniq (\<lambda>x. x) (story_views d)"
    "uniq ust_table_key (user_settings d)"
    "uniq ps_endpoint (push_subscriptions d)"
    "uniq iv_code (invite_codes d)"
    "uniq dr_msg_id (dm_messages d)" "seq_ok dr_id (sqlite_sequence d ''dm_messages'') (dm_messages d)"
    "uniq dx_key (dm_reactions d)"
    "uniq kr_username (key_backups d)"
    "uniq (\<lambda>x. x) (blocked_ips d)"
    "uniq kd_key (known_devices d)"
    "uniq rc_source (reward_crates d)" "seq_ok rc_id (sqlite_sequence d ''reward_crates'') (reward_crates d)"
    "uniq rf_key (reward_crafts d)"
    "uniq ki_key (skype_import_messages d)"
    "uniq kc_key (skype_import_contacts d)"
    "seq_ok of_id (sqlite_sequence d ''offline_messages'') (offline_messages d)"
    "seq_ok rp_id (sqlite_sequence d ''abuse_reports'') (abuse_reports d)"
    "seq_ok cr_id (sqlite_sequence d ''channel_messages'') (channel_messages d)"
    "seq_ok st_id (sqlite_sequence d ''stories'') (stories d)"
    "seq_ok dc_id (sqlite_sequence d ''device_challenges'') (device_challenges d)"
    "seq_ok sk_id (sqlite_sequence d ''whiteboard_strokes'') (whiteboard_strokes d)"
    "seq_ok cl_id (sqlite_sequence d ''calls'') (calls d)"
    "seq_ok sp_id (sqlite_sequence d ''supporter_requests'') (supporter_requests d)"
    "seq_ok bp_id (sqlite_sequence d ''bmc_payments'') (bmc_payments d)"
  using assms by (simp_all add: holds_def schema_table)

lemma holds_change:
  assumes "holds A d"
  shows "uniq u_username x1 \<Longrightarrow> A x1 \<Longrightarrow> holds A (d\<lparr>users := x1\<rparr>)"
    "uniq fr_key x2 \<Longrightarrow> holds A (d\<lparr>friends := x2\<rparr>)"
    "uniq cg_key x3 \<Longrightarrow> holds A (d\<lparr>contact_groups := x3\<rparr>)"
    "uniq cv_id x4 \<Longrightarrow> holds A (d\<lparr>conversations := x4\<rparr>)"
    "uniq (\<lambda>x. x) x5 \<Longrightarrow> holds A (d\<lparr>conversation_members := x5\<rparr>)"
    "uniq bl_key x6 \<Longrightarrow> holds A (d\<lparr>blocks := x6\<rparr>)"
    "uniq se_token x7 \<Longrightarrow> holds A (d\<lparr>session_tokens := x7\<rparr>)"
    "uniq pr_token x8 \<Longrightarrow> holds A (d\<lparr>password_resets := x8\<rparr>)"
    "uniq qr_token x9 \<Longrightarrow> holds A (d\<lparr>qr_login_tokens := x9\<rparr>)"
    "uniq sv_id x10 \<Longrightarrow> uniq sv_invite_code x10 \<Longrightarrow> holds A (d\<lparr>servers := x10\<rparr>)"
    "uniq ch_id x11 \<Longrightarrow> holds A (d\<lparr>channels := x11\<rparr>)"
    "uniq sm_key x12 \<Longrightarrow> holds A (d\<lparr>server_members := x12\<rparr>)"
    "uniq rx_key x13 \<Longrightarrow> holds A (d\<lparr>channel_reactions := x13\<rparr>)"
    "uniq (\<lambda>x. x) x14 \<Longrightarrow> holds A (d\<lparr>story_views := x14\<rparr>)"
    "uniq ust_table_key x15 \<Longrightarrow> holds A (d\<lparr>user_settings := x15\<rparr>)"
    "uniq ps_endpoint x16 \<Longrightarrow> holds A (d\<lparr>push_subscriptions := x16\<rparr>)"
    "uniq iv_code x17 \<Longrightarrow> holds A (d\<lparr>invite_codes := x17\<rparr>)"
    "uniq dr_msg_id x18 \<Longrightarrow> seq_ok dr_id (sqlite_sequence d ''dm_messages'') x18 \<Longrightarrow> holds A (d\<lparr>dm_messages := x18\<rparr>)"
    "uniq dx_key x19 \<Longrightarrow> holds A (d\<lparr>dm_reactions := x19\<rparr>)"
    "uniq kr_username x20 \<Longrightarrow> holds A (d\<lparr>key_backups := x20\<rparr>)"
    "uniq (\<lambda>x. x) x21 \<Longrightarrow> holds A (d\<lparr>blocked_ips := x21\<rparr>)"
    "uniq kd_key x22 \<Longrightarrow> holds A (d\<lparr>known_devices := x22\<rparr>)"
    "uniq rc_source x23 \<Longrightarrow> seq_ok rc_id (sqlite_sequence d ''reward_crates'') x23 \<Longrightarrow> holds A (d\<lparr>reward_crates := x23\<rparr>)"
    "uniq rf_key x24 \<Longrightarrow> holds A (d\<lparr>reward_crafts := x24\<rparr>)"
    "uniq ki_key x25 \<Longrightarrow> holds A (d\<lparr>skype_import_messages := x25\<rparr>)"
    "uniq kc_key x26 \<Longrightarrow> holds A (d\<lparr>skype_import_contacts := x26\<rparr>)"
    "seq_ok of_id (sqlite_sequence d ''offline_messages'') x27 \<Longrightarrow> holds A (d\<lparr>offline_messages := x27\<rparr>)"
    "seq_ok rp_id (sqlite_sequence d ''abuse_reports'') x28 \<Longrightarrow> holds A (d\<lparr>abuse_reports := x28\<rparr>)"
    "seq_ok cr_id (sqlite_sequence d ''channel_messages'') x29 \<Longrightarrow> holds A (d\<lparr>channel_messages := x29\<rparr>)"
    "seq_ok st_id (sqlite_sequence d ''stories'') x30 \<Longrightarrow> holds A (d\<lparr>stories := x30\<rparr>)"
    "seq_ok dc_id (sqlite_sequence d ''device_challenges'') x31 \<Longrightarrow> holds A (d\<lparr>device_challenges := x31\<rparr>)"
    "seq_ok sk_id (sqlite_sequence d ''whiteboard_strokes'') x32 \<Longrightarrow> holds A (d\<lparr>whiteboard_strokes := x32\<rparr>)"
    "seq_ok cl_id (sqlite_sequence d ''calls'') x33 \<Longrightarrow> holds A (d\<lparr>calls := x33\<rparr>)"
    "seq_ok sp_id (sqlite_sequence d ''supporter_requests'') x34 \<Longrightarrow> holds A (d\<lparr>supporter_requests := x34\<rparr>)"
    "seq_ok bp_id (sqlite_sequence d ''bmc_payments'') x35 \<Longrightarrow> holds A (d\<lparr>bmc_payments := x35\<rparr>)"
    "holds A (d\<lparr>convo_messages := cm\<rparr>)" "holds A (d\<lparr>totp_backup_codes := bc\<rparr>)"
  using assms by (simp_all add: holds_def schema_change)

lemma holds_insert:
  assumes "holds A d"
  shows "of_id r1 = nextID ''offline_messages'' d \<Longrightarrow>
      holds A ((takeID ''offline_messages'' d)\<lparr>offline_messages := offline_messages d @ [r1]\<rparr>)"
    "rp_id r2 = nextID ''abuse_reports'' d \<Longrightarrow> holds A ((takeID ''abuse_reports'' d)\<lparr>abuse_reports := abuse_reports d @ [r2]\<rparr>)"
    "cr_id r3 = nextID ''channel_messages'' d \<Longrightarrow>
      holds A ((takeID ''channel_messages'' d)\<lparr>channel_messages := channel_messages d @ [r3]\<rparr>)"
    "st_id r4 = nextID ''stories'' d \<Longrightarrow> holds A ((takeID ''stories'' d)\<lparr>stories := stories d @ [r4]\<rparr>)"
    "dr_id r5 = nextID ''dm_messages'' d \<Longrightarrow> \<not> sql_has dr_msg_id (dr_msg_id r5) (dm_messages d) \<Longrightarrow>
      holds A ((takeID ''dm_messages'' d)\<lparr>dm_messages := dm_messages d @ [r5]\<rparr>)"
    "dc_id r6 = nextID ''device_challenges'' d \<Longrightarrow>
      holds A ((takeID ''device_challenges'' d)\<lparr>device_challenges := device_challenges d @ [r6]\<rparr>)"
    "sk_id r7 = nextID ''whiteboard_strokes'' d \<Longrightarrow>
      holds A ((takeID ''whiteboard_strokes'' d)\<lparr>whiteboard_strokes := whiteboard_strokes d @ [r7]\<rparr>)"
    "cl_id r8 = nextID ''calls'' d \<Longrightarrow> holds A ((takeID ''calls'' d)\<lparr>calls := calls d @ [r8]\<rparr>)"
    "rc_id r9 = nextID ''reward_crates'' d \<Longrightarrow> \<not> sql_has rc_source (rc_source r9) (reward_crates d) \<Longrightarrow>
      holds A ((takeID ''reward_crates'' d)\<lparr>reward_crates := reward_crates d @ [r9]\<rparr>)"
    "sp_id r10 = nextID ''supporter_requests'' d \<Longrightarrow>
      holds A ((takeID ''supporter_requests'' d)\<lparr>supporter_requests := supporter_requests d @ [r10]\<rparr>)"
    "bp_id r11 = nextID ''bmc_payments'' d \<Longrightarrow> holds A ((takeID ''bmc_payments'' d)\<lparr>bmc_payments := bmc_payments d @ [r11]\<rparr>)"
  using assms by (simp_all add: holds_def schema_insert)

lemma holds_insert_row:
  assumes "holds A d"
  shows "sql_insert se_token r (session_tokens d) = Some t \<Longrightarrow> holds A (d\<lparr>session_tokens := t\<rparr>)"
    "sql_insert pr_token r2 (password_resets d) = Some t2 \<Longrightarrow> holds A (d\<lparr>password_resets := t2\<rparr>)"
    "sql_insert qr_token r3 (qr_login_tokens d) = Some t3 \<Longrightarrow> holds A (d\<lparr>qr_login_tokens := t3\<rparr>)"
    "sql_insert u_username r4 (users d) = Some t4 \<Longrightarrow> plain r4 \<Longrightarrow> holds A (d\<lparr>users := t4\<rparr>)"
    "sql_insert ch_id r5 (channels d) = Some t5 \<Longrightarrow> holds A (d\<lparr>channels := t5\<rparr>)"
    "sql_insert sm_key r6 (server_members d) = Some t6 \<Longrightarrow> holds A (d\<lparr>server_members := t6\<rparr>)"
    "sql_insert fr_key r7 (friends d) = Some t7 \<Longrightarrow> holds A (d\<lparr>friends := t7\<rparr>)"
    "sql_insert rf_key r8 (reward_crafts d) = Some t8 \<Longrightarrow> holds A (d\<lparr>reward_crafts := t8\<rparr>)"
    "sql_insert cv_id r9 (conversations d) = Some t9 \<Longrightarrow> holds A (d\<lparr>conversations := t9\<rparr>)"
  using assms by (auto simp: sql_insert_def holds_change holds_table A_insert split: if_splits)

lemmas holds_tabs = holds_insert_row holds_change holds_insert holds_table uniq_intros A_update A_delete

section \<open>Every operation on the database keeps them\<close>

lemma holds_fold: "holds A d \<Longrightarrow> (\<And>x d. holds A d \<Longrightarrow> holds A (f x d)) \<Longrightarrow> holds A (fold f xs d)"
  by (induction xs arbitrary: d) simp_all

lemma holds_updUser [kept]: "holds A d \<Longrightarrow> (\<And>u. rightsOf (f u) = rightsOf u) \<Longrightarrow> holds A (updUser n f d)"
  by (simp add: holds_tabs updUser_def)

lemma holds_updSession [kept]: "holds A d \<Longrightarrow> (\<And>u. se_token (f u) = se_token u) \<Longrightarrow> holds A (updSession P f d)"
  by (simp add: holds_tabs updSession_def)

lemma holds_updChallenge [kept]: "holds A d \<Longrightarrow> (\<And>u. dc_id (f u) = dc_id u) \<Longrightarrow> holds A (updChallenge i f d)"
  by (simp add: holds_tabs updChallenge_def)

lemma holds_updChannelMsg [kept]: "holds A d \<Longrightarrow> (\<And>u. cr_id (f u) = cr_id u) \<Longrightarrow> holds A (updChannelMsg i f d)"
  by (simp add: holds_tabs updChannelMsg_def)

lemma holds_deleteAccount [kept]: "holds A d \<Longrightarrow> holds A (deleteAccount u d)"
  by (simp add: holds_tabs deleteAccount_def Let_def)

lemma holds_social [kept]:
  assumes "holds A d"
  shows "holds A (fst (blockUser now a b d))" "holds A (unblockUser a b d)" "holds A (fst (sendFriendRequest a b d))"
    "holds A (fst (acceptFriendRequest a b d))" "holds A (rejectFriendRequest a b d)" "holds A (removeFriend a b d)"
    "holds A (setContactGroup a b g d)"
  using assms by (auto simp: holds_tabs blockUser_def unblockUser_def sendFriendRequest_def acceptFriendRequest_def
      rejectFriendRequest_def removeFriend_def setContactGroup_def key_defs Let_def split: option.split)

lemma holds_report [kept]: "holds A d \<Longrightarrow> holds A (fst (recordAbuseReport now a b r x d))"
  by (simp add: holds_tabs recordAbuseReport_def Let_def)

lemma holds_accounts [kept]:
  assumes "holds A d"
  shows "holds A (fst (verifyUser u c d))" "holds A (fst (authenticateUser e u p d))" "holds A (storeReferrer u r d)"
  using assms by (auto simp: verifyUser_def authenticateUser_def storeReferrer_def holds_updUser Let_def split: option.split)

lemma holds_remember [kept]: "holds A d \<Longrightarrow> holds A (rememberDevice now u i l ip d)"
  "holds A d \<Longrightarrow> holds A (touchDevice now u i ip d)" "holds A d \<Longrightarrow> holds A (purgeExpiredDeviceChallenges now d)"
  by (simp_all add: holds_tabs rememberDevice_def touchDevice_def purgeExpiredDeviceChallenges_def key_defs)

lemma holds_sessions [kept]:
  assumes "holds A d"
  shows "holds A (markSessionPendingDevice t d)" "holds A (revokeSession t d)"
    "holds A (denyDeviceChallenge i u t d)" "holds A (approveDeviceChallenge now i u dv t l ip d)"
    "holds A (fst (verifyDeviceChallenge now t c d))" "holds A (fst (enableTOTP e u x c d))"
  using assms by (auto simp: markSessionPendingDevice_def revokeSession_def denyDeviceChallenge_def approveDeviceChallenge_def
      verifyDeviceChallenge_def enableTOTP_def Let_def kept split: option.split)

lemma holds_totp [kept]:
  "holds A d \<Longrightarrow> holds A (disableTOTP u d)" "holds A d \<Longrightarrow> holds A (fst (consumeBackupCode e u c d))"
  by (simp_all add: disableTOTP_def consumeBackupCode_def holds_tabs updUser_def Let_def split: option.split)

lemma holds_reset [kept]: "holds A d \<Longrightarrow> holds A (fst (consumePasswordReset e t p d))"
  by (auto simp: consumePasswordReset_def holds_tabs updUser_def updSession_def Let_def split: option.split)

lemma holds_dm [kept]:
  assumes "holds A d"
  shows "holds A (clearFCM u t d)" "holds A (queueOffline now a b x y cv i d)" "holds A (deleteOffline k d)"
    "holds A (persistDM now i a b x d)" "holds A (editDM i a x d)" "holds A (deleteDM i a d)"
    "holds A (fst (toggleReaction i a r d))"
  using assms by (auto simp: holds_tabs clearFCM_def queueOffline_def deleteOffline_def persistDM_def editDM_def deleteDM_def
      toggleReaction_def updUser_def Let_def key_defs)

lemma holds_member [kept]: "holds A d \<Longrightarrow> holds A (insertMember cid u d)"
  "holds A d \<Longrightarrow> holds A (leaveConversation cid u d)" "holds A d \<Longrightarrow> holds A (renameConversation cid n d)"
  by (simp_all add: holds_tabs insertMember_def leaveConversation_def renameConversation_def Let_def)

lemma holds_unseen [kept]: "holds A d \<Longrightarrow> holds A (insertUnseen cid seen us d)"
  by (induction cid seen us d rule: insertUnseen.induct) (simp_all add: kept)

lemma holds_convo [kept]:
  assumes "holds A d"
  shows "holds A (addConversationMembers cid us d)" "holds A (fst (createConversation cid n u ms d))"
proof -
  show "holds A (addConversationMembers cid us d)" using assms by (auto simp: addConversationMembers_def kept intro!: holds_fold)
  show "holds A (fst (createConversation cid n u ms d))"
    using assms by (auto simp: createConversation_def kept holds_insert_row simp del: insertUnseen.simps split: option.split)
qed

lemma holds_crate [kept]: "holds A d \<Longrightarrow> holds A (insertCrate now u src d)"
  by (simp add: holds_tabs insertCrate_def)

lemma holds_grant [kept]: "holds A d \<Longrightarrow> holds A (fst (grantCrates now u cs d))"
  by (induction now u cs d rule: grantCrates.induct) (auto simp: Let_def split_beta kept)

lemma holds_rewards [kept]:
  assumes "holds A d"
  shows "holds A (fst (syncCrates now u d))" "holds A (fst (openCommit q d))" "holds A (fst (craftReward u i d))"
  using assms by (auto simp: syncCrates_def kept) (auto simp: holds_tabs openCommit_def craftReward_def craftInsert_def
      Let_def split_beta key_defs split: sum.split option.split)

lemma holds_joins [kept]: "holds A d \<Longrightarrow> holds A (joinServer now sid u d)" "holds A d \<Longrightarrow> holds A (leaveServer sid u d)"
  by (simp_all add: holds_tabs joinServer_def leaveServer_def)

lemma holds_spaces [kept]:
  assumes "holds A d"
  shows "holds A (autoJoinGlobalSpace now u d)" "holds A (autoJoinPublicSpaces now u d)" "holds A (novaJoins e sid v d)"
    "holds A (insertServerIgnore r d)"
  using assms
  by (auto simp: autoJoinGlobalSpace_def autoJoinPublicSpaces_def novaJoins_def kept intro!: holds_fold)
    (simp add: insertServerIgnore_def holds_tabs)

lemma holds_trimBoard: "holds A d \<Longrightarrow> holds A (trimBoard ch d)"
  by (simp add: trimBoard_def holds_tabs Let_def)

lemma holds_rooms [kept]:
  assumes "holds A d"
  shows "holds A (fst (appendStroke e ch u x d))" "holds A (clearWhiteboard ch d)" "holds A (fst (undoStroke ch u i d))"
    "holds A (fst (undoLastStroke ch u d))" "holds A (toggleChannelReaction k r u d)"
  using assms by (auto simp: holds_tabs appendStroke_def holds_trimBoard clearWhiteboard_def undoStroke_def undoLastStroke_def
      toggleChannelReaction_def Let_def key_defs split: option.split)

lemma holds_calls [kept]:
  "holds A d \<Longrightarrow> holds A (fst (recordCallStart now a b k d))" "holds A d \<Longrightarrow> holds A (fst (finalizeCall now i an st d))"
  by (auto simp: holds_tabs recordCallStart_def finalizeCall_def Let_def split_beta split: option.split)

lemma holds_sweep [kept]: "holds A d \<Longrightarrow> holds A (runSweep sw d)"
  by (cases sw; cases "fst sw") (simp_all add: holds_tabs sweepExpiredSessions_def sweepExpiredResetTokens_def
      sweepUnverifiedAccounts_def sweepOldChannelMessages_def sweepExpiredQRLoginTokens_def purgeExpiredDeviceChallenges_def
      Let_def)

section \<open>Operations of the server that do\<close>

lemma holds_push [kept]: "holds A (DB s) \<Longrightarrow> holds A (DB (pushBoth e r sd p s))"
  by (simp add: pushBoth_def sendFCMPush_def sendWebPush_def Let_def holds_fold kept)

lemma holds_store [kept]: "holds A (DB s) \<Longrightarrow> holds A (DB (storeOfflineMessage e a b x t i s))"
  by (simp add: storeOfflineMessage_def kept)

lemma holds_deliver [kept]: "holds A (DB s) \<Longrightarrow> holds A (DB (deliverOfflineMessages e u c s))"
  by (simp add: DB_deliverOffline holds_fold kept)

lemma holds_fanOut [kept]: "holds A (DB s) \<Longrightarrow> holds A (DB (fanOut e us p t s))"
  by (induction us arbitrary: s) (simp_all add: split_beta kept)

lemma holds_channelMsg [kept]: "holds A (DB s) \<Longrightarrow> holds A (DB (broadcastChannelMsg e sid p s))"
  by (simp add: broadcastChannelMsg_def Let_def kept)

lemma holds_convoFanOut [kept]: "holds A (DB s) \<Longrightarrow> holds A (DB (convoFanOut e u m t us s))"
  by (induction us arbitrary: s) (simp_all add: split_beta Let_def kept)

lemma holds_referral [kept]: "holds A (DB s) \<Longrightarrow> holds A (DB (onReferralVerified e u s))"
  by (auto simp: onReferralVerified_def Let_def split_beta kept split: option.splits)

lemma holds_touchLogin [kept]: "holds A (DB s) \<Longrightarrow> holds A (DB (touchLogin e c u s))"
  by (simp add: touchLogin_def kept)

lemma holds_blockIP [kept]: "holds A (DB s) \<Longrightarrow> holds A (DB (blockIP ip s))" "holds A (DB s) \<Longrightarrow> holds A (DB (autoBlock e c s))"
  by (simp_all add: holds_tabs blockIP_def autoBlock_def)

lemma holds_checkIP [kept]: "holds A (DB s) \<Longrightarrow> holds A (DB (fst (checkIP e c s)))"
  by (simp add: checkIP_def split_beta Let_def kept)

lemma holds_insertSession [kept]: "holds A (DB s) \<Longrightarrow> holds A (DB (fst (insertSession e ttl u dev s)))"
  by (simp add: insertSession_def split_beta holds_insert_row split: option.split)

lemma holds_issue [kept]: "holds A (DB s) \<Longrightarrow> holds A (DB (fst (issueSessionToken e u dev s)))"
  by (simp add: issueSessionToken_def kept)

lemma holds_createReset [kept]: "holds A (DB s) \<Longrightarrow> holds A (DB (fst (createPasswordReset e m s)))"
  by (simp add: createPasswordReset_def split_beta holds_insert_row split: option.split)

lemma holds_createQR [kept]: "holds A (DB s) \<Longrightarrow> holds A (DB (fst (createQRLogin e s)))"
  by (simp add: createQRLogin_def split_beta holds_insert_row split: option.split)

lemma holds_qrUpdate: "holds A d \<Longrightarrow> (\<And>r. qr_token (f r) = qr_token r) \<Longrightarrow>
    holds A (d\<lparr>qr_login_tokens := sql_update P f (qr_login_tokens d)\<rparr>)"
  by (simp add: holds_tabs)

lemma holds_fst: "p = (s', r) \<Longrightarrow> holds A (DB (fst p)) \<Longrightarrow> holds A (DB s')"
  by simp

lemma holds_approveQR [kept]: "holds A (DB s) \<Longrightarrow> holds A (DB (fst (approveQRLogin e t u dev s)))"
  by (auto simp: approveQRLogin_def Let_def kept intro!: holds_qrUpdate dest: holds_fst split: prod.splits option.splits)

lemma holds_codes: "holds A (d\<lparr>totp_backup_codes := t\<rparr>) = holds A d"
  by (simp add: holds_def schema_defs)

lemma holds_genCodes [kept]: "holds A (DB s) \<Longrightarrow> holds A (DB (fst (genBackupCodes e u n s)))"
proof (induction n arbitrary: s)
  case (Suc n)
  then show ?case
    by (auto simp: split_beta Let_def holds_codes split: prod.splits option.splits)
qed simp

lemma holds_backup [kept]: "holds A (DB s) \<Longrightarrow> holds A (DB (fst (generateBackupCodes e u s)))"
  by (simp add: generateBackupCodes_def kept holds_codes)

lemma holds_register [kept]: "holds A (DB s) \<Longrightarrow> holds A (DB (fst (registerUser e u m md pw s)))"
  by (simp add: registerUser_def split_beta split: option.split) (blast intro: holds_insert_row(4) newUser_plain)

lemma holds_openCrate [kept]: "holds A (DB s) \<Longrightarrow> holds A (DB (fst (openCrate e u s)))"
  by (auto simp: openCrate_def Let_def split_beta kept split: sum.splits prod.splits)

lemma holds_insertChannel: "holds A d \<Longrightarrow> insertChannel r d = Some d' \<Longrightarrow> holds A d'"
  by (auto simp: insertChannel_def intro: holds_insert_row)

lemma holds_bootstrap: "holds A d \<Longrightarrow> bootstrapChannels e sid i chs s d = (s', Inr d') \<Longrightarrow> holds A d'"
proof (induction chs arbitrary: i s d)
  case (Cons ch chs)
  then show ?case by (auto simp: split_beta dest: holds_insertChannel split: option.splits)
qed simp

lemma holds_createServer:
  assumes "holds A (DB s)" "createServerTx e r s = (s', Inr d')"
  shows "holds A d'"
proof -
  have "holds A d1" if "insertServer r (DB s) = Some d1" for d1
    using assms(1) that by (auto simp: insertServer_def holds_tabs split: if_splits)
  then show ?thesis
    using assms(2) by (auto simp: createServerTx_def simp del: bootstrapChannels.simps split: option.splits
        intro: holds_insert_row dest: holds_bootstrap [rotated])
qed

section \<open>Every handler keeps them\<close>



lemma holds_settings [kept]:
  assumes "holds A d"
  shows "(\<And>r. ust_table_key (f r) = ust_table_key r) \<Longrightarrow> holds A (d\<lparr>user_settings := sql_upsert ust_table_key f x (user_settings d)\<rparr>)"
    "(\<And>r. ps_endpoint (g r) = ps_endpoint r) \<Longrightarrow> holds A (d\<lparr>push_subscriptions := sql_upsert ps_endpoint g y (push_subscriptions d)\<rparr>)"
    "holds A (d\<lparr>push_subscriptions := sql_delete P (push_subscriptions d)\<rparr>)"
    "(\<And>r. kr_username (k r) = kr_username r) \<Longrightarrow> holds A (d\<lparr>key_backups := sql_upsert kr_username k z (key_backups d)\<rparr>)"
    "holds A (d\<lparr>key_backups := sql_delete Q (key_backups d)\<rparr>)"
    "holds A (d\<lparr>invite_codes := sql_insert_ignore iv_code w (invite_codes d)\<rparr>)"
    "holds A (d\<lparr>convo_messages := v\<rparr>)"
  using assms by (simp_all add: holds_tabs)

lemma holds_account [kept_handlers]:
  "keeps (holds A) h_pstn_call" "keeps (holds A) h_verify_email" "keeps (holds A) h_status_update"
  "keeps (holds A) h_request_phone_link" "keeps (holds A) h_verify_phone_link" "keeps (holds A) h_update_profile"
  "keeps (holds A) h_revoke_session" "keeps (holds A) h_resend_verification" "keeps (holds A) h_enable_totp"
  "keeps (holds A) h_confirm_totp" "keeps (holds A) h_disable_totp" "keeps (holds A) h_forgot_password"
  "keeps (holds A) h_reset_password" "keeps (holds A) h_change_password" "keeps (holds A) h_qr_login_create"
  "keeps (holds A) h_qr_login_approve" "keeps (holds A) h_device_decision" "keeps (holds A) h_register_fcm_token"
  "keeps (holds A) h_subscribe_push" "keeps (holds A) h_unsubscribe_push" "keeps (holds A) h_list_sessions"
  "keeps (holds A) h_revoke_session_by_token" "keeps (holds A) h_key_backup_put" "keeps (holds A) h_key_backup_get"
  "keeps (holds A) h_key_backup_delete" "keeps (holds A) h_link_create" "keeps (holds A) h_link_approve"
  "keeps (holds A) h_link_check" "keeps (holds A) h_purge_email" "keeps (holds A) h_settings_get" "keeps (holds A) h_settings_set"
  by (rule keepsI; simp add: Let_def storeBackup_def split_beta ust_table_key_def kept
    h_pstn_call_def h_verify_email_def h_status_update_def h_request_phone_link_def h_verify_phone_link_def
    h_update_profile_def h_revoke_session_def h_resend_verification_def h_enable_totp_def
    h_confirm_totp_def h_disable_totp_def h_forgot_password_def h_reset_password_def h_change_password_def
    h_qr_login_create_def h_qr_login_approve_def h_device_decision_def h_register_fcm_token_def
    h_subscribe_push_def h_unsubscribe_push_def h_list_sessions_def h_revoke_session_by_token_def
    h_key_backup_put_def h_key_backup_get_def h_key_backup_delete_def h_link_create_def h_link_approve_def
    h_link_check_def h_purge_email_def h_settings_get_def h_settings_set_def
      split: option.split sum.split)+

lemma holds_social_handlers [kept_handlers]:
  "keeps (holds A) h_msg" "keeps (holds A) h_block" "keeps (holds A) h_unblock" "keeps (holds A) h_list_blocks"
  "keeps (holds A) h_get_referral_stats" "keeps (holds A) h_craft_reward" "keeps (holds A) h_invite_email"
  "keeps (holds A) h_report_abuse" "keeps (holds A) h_typing" "keeps (holds A) h_msg_change" "keeps (holds A) h_dm_history"
  "keeps (holds A) h_presence" "keeps (holds A) h_search" "keeps (holds A) h_friend_request" "keeps (holds A) h_friend_accept"
  "keeps (holds A) h_friend_reject" "keeps (holds A) h_friend_remove" "keeps (holds A) h_contact_group_set"
  "keeps (holds A) h_convo_create" "keeps (holds A) h_convo_msg" "keeps (holds A) h_convo_leave"
  "keeps (holds A) h_convo_add_member" "keeps (holds A) h_convo_remove_member" "keeps (holds A) h_convo_rename"
  "keeps (holds A) h_convo_history" "keeps (holds A) h_read_receipt" "keeps (holds A) h_key_request"
  by (rule keepsI; simp add: Let_def handleBotMessage_def split_beta kept
    h_msg_def h_block_def h_unblock_def h_list_blocks_def h_get_referral_stats_def h_craft_reward_def
    h_invite_email_def h_report_abuse_def h_typing_def h_msg_change_def h_dm_history_def h_presence_def
    h_search_def h_friend_request_def h_friend_accept_def h_friend_reject_def h_friend_remove_def
    h_contact_group_set_def h_convo_create_def h_convo_msg_def h_convo_leave_def h_convo_add_member_def
    h_convo_remove_member_def h_convo_rename_def h_convo_history_def h_read_receipt_def h_key_request_def
      split: option.split sum.split)+

lemma holds_space_handlers [kept_handlers]:
  "keeps (holds A) h_server_list" "keeps (holds A) h_server_discover"
  "keeps (holds A) h_server_join" "keeps (holds A) h_server_leave" "keeps (holds A) h_server_info"
  "keeps (holds A) h_channel_msg" "keeps (holds A) h_channel_history"
  "keeps (holds A) h_channel_react" "keeps (holds A) h_channel_edit" "keeps (holds A) h_channel_delete"
  "keeps (holds A) h_channel_pin" "keeps (holds A) h_wb_join" "keeps (holds A) h_wb_stroke" "keeps (holds A) h_wb_undo"
  "keeps (holds A) h_wb_clear" "keeps (holds A) h_voice_join" "keeps (holds A) h_voice_leave" "keeps (holds A) h_voice_signal"
  "keeps (holds A) h_stream_start" "keeps (holds A) h_stream_stop" "keeps (holds A) h_stream_list" "keeps (holds A) h_stream_join"
  "keeps (holds A) h_stream_leave" "keeps (holds A) h_stream_signal" "keeps (holds A) h_remote_register"
  "keeps (holds A) h_remote_unregister" "keeps (holds A) h_remote_lookup" "keeps (holds A) h_remote_relay"
  by (rule keepsI; simp add: Let_def split_beta kept holds_insert
    h_server_list_def h_server_discover_def h_server_join_def h_server_leave_def
    h_server_info_def h_channel_msg_def h_channel_history_def h_channel_react_def
    h_channel_edit_def h_channel_delete_def h_channel_pin_def h_wb_join_def h_wb_stroke_def h_wb_undo_def
    h_wb_clear_def h_voice_join_def h_voice_leave_def h_voice_signal_def h_stream_start_def
    h_stream_stop_def h_stream_list_def h_stream_join_def h_stream_leave_def h_stream_signal_def
    h_remote_register_def h_remote_unregister_def h_remote_lookup_def h_remote_relay_def
      split: option.split sum.split)+

lemma holds_dropCall [kept]: "holds A (DB s) \<Longrightarrow> holds A (DB (fst (closeCallRow e p a b s)))"
  "holds A (DB s) \<Longrightarrow> holds A (DB (dropCall e c s))"
  by (simp_all add: closeCallRow_def dropCall_def Let_def split_beta kept split: option.split)

lemma holds_call_handlers [kept_handlers]:
  "keeps (holds A) h_call_offer" "keeps (holds A) h_call_answer" "keeps (holds A) h_call_signal" "keeps (holds A) h_call_end"
  "keeps (holds A) h_call_invite"
  by (rule keepsI; simp add: Let_def split_beta kept h_call_offer_def h_call_answer_def h_call_signal_def h_call_end_def
    h_call_invite_def split: option.split)+

lemma holds_sign_handlers [kept_handlers]:
  "keeps (holds A) h_auth" "keeps (holds A) h_session_auth" "keeps (holds A) h_qr_login_check" "keeps (holds A) h_delete_account"
  "keeps (holds A) h_open_crate" "keeps (holds A) h_register" "keeps (holds A) h_ignore"
  by (rule keepsI; simp add: Let_def split_beta kept h_auth_def signedIn_def secondFactor_def h_session_auth_def
    h_qr_login_check_def h_delete_account_def h_open_crate_def h_register_def h_ignore_def
    split: option.split sum.split rewardErr.split)+

lemma holds_addChannel:
  "holds A d0 \<Longrightarrow> holds A (DB s) \<Longrightarrow> holds A (DB (case insertChannel r d0 of None \<Rightarrow> Send e c m s
     | Some d \<Rightarrow> Send e c m' (broadcastChannelMsg e sid (f d) (s\<lparr>DB := d\<rparr>))))"
  by (auto simp: kept dest: holds_insertChannel [rotated] split: option.split)

lemma holds_channel_create [kept_handlers]: "keeps (holds A) h_channel_create"
proof (rule keepsI)
  fix e c msg and s :: NexusServer
  assume "holds A (DB s)"
  moreover obtain s1 r where r: "randHex e 12 s = (s1, r)" by fastforce
  moreover have "DB s1 = DB s" using DB_randHex [OF r] .
  ultimately show "holds A (DB (h_channel_create e c msg s))"
    unfolding h_channel_create_def Let_def by (cases r) (simp_all add: holds_addChannel)
qed

lemma holds_server_create [kept_handlers]: "keeps (holds A) h_server_create"
proof (rule keepsI)
  fix e c msg and s :: NexusServer
  assume ok: "holds A (DB s)"
  have "holds A (novaJoins e sid v d)" if "createServerTx e r (fst (randHex e 8 (fst (randHex e 16 s)))) = (s', Inr d)" for sid v d r s'
    using holds_createServer [OF _ that] ok by (simp add: kept)
  then show "holds A (DB (h_server_create e c msg s))"
    using ok unfolding h_server_create_def Let_def
    by (auto simp: split_beta split: option.split sum.split) (metis prod.collapse)+
qed

lemma holds_handler: "map_of handlers t = Some h \<Longrightarrow> keeps (holds A) h"
proof -
  have "list_all (\<lambda>(t, h). keeps (holds A) h) handlers"
    by (simp add: handlers_def signInHandlers_def endingHandlers_def callHandlers_def accountHandlers_def socialHandlers_def
        spaceHandlers_def kept_handlers)
  then show "map_of handlers t = Some h \<Longrightarrow> keeps (holds A) h"
    by (auto simp: list_all_iff dest!: map_of_SomeD)
qed

lemma holds_onMessage: "holds A (DB s) \<Longrightarrow> holds A (DB (onMessage e c msg s))"
  using holds_handler by (auto simp: onMessage_def keeps_def split: option.split)

section \<open>Every step of the server\<close>

lemma holds_accept: "holds A (DB s) \<Longrightarrow> holds A (DB (accept e c ip cookie up s))"
  by (simp add: accept_def cookiePreAuth_def Let_def split_beta kept)

lemma holds_readError: "holds A (DB s) \<Longrightarrow> holds A (DB (onReadError e c s))"
  by (simp add: onReadError_def Let_def split_beta kept)

lemma holds_step: "step s ev s' \<Longrightarrow> holds A (DB s) \<Longrightarrow> holds A (DB s')"
  by (induction rule: step.induct) (simp_all add: holds_accept holds_onMessage holds_readError kept)


lemma holds_reachable: "reachable s0 s \<Longrightarrow> holds A (DB s0) \<Longrightarrow> holds A (DB s)"
  by (induction rule: reachable.induct) (auto intro: holds_step)

end

end
