(* ===== verification/Http.thy ===== *)
theory Http
  imports HandlersAuth
begin

text \<open>
  Plain HTTP: requests and replies, the middleware of \<^verbatim>\<open>nexus_server/middleware.go\<close> and
  \<^verbatim>\<open>nexus_server/netutil.go\<close>, the cookies of \<^verbatim>\<open>session.go\<close> and \<^verbatim>\<open>devices.go\<close>, and the two functions that
  authenticate staff (\<^verbatim>\<open>adminFromRequest\<close>, \<^verbatim>\<open>modFromRequest\<close>).

  \<open>rBody\<close> is what the JSON decoder makes of the body for a struct of string fields: the fields that
  are present, or \<^verbatim>\<open>None\<close> when it reports an error (also because the size limit cut the body off).
  Of the reply the model keeps the status, the cookies with their \<^verbatim>\<open>MaxAge\<close> (0 for a session cookie, -1
  to delete it) and the body; the other headers are fixed texts.
\<close>

section \<open>Requests and replies\<close>

record http_request =
  rMethod :: string
  rPath :: string
  rQuery :: "string \<Rightarrow> string"
  rHeader :: "string \<Rightarrow> string"
  rCookie :: "string \<Rightarrow> string option"
  rRemoteAddr :: string
  rContentLength :: int
  rBody :: "(string \<times> string) list option"
  rRaw :: string

text \<open>\<open>JQuot a b\<close> is the number a/b, \<open>JNull\<close> what a nil slice is written as.\<close>

datatype json = JNull | JStr string | JInt int | JQuot int int | JBool bool | JList "json list"
  | JObj "(string \<times> json) list"

text \<open>\<open>File key content attachment\<close> is a stored file, sent as an attachment or to be shown in the page.\<close>

datatype hbody = NoBody | Text string | Json json | File string string bool

record http_reply =
  hStatus :: nat
  hCookies :: "(string \<times> string \<times> int) list"
  hBody :: hbody

type_synonym http_handler = "env \<Rightarrow> http_request \<Rightarrow> NexusServer \<Rightarrow> NexusServer \<times> http_reply"

abbreviation reply :: "nat \<Rightarrow> hbody \<Rightarrow> http_reply" where
  "reply code b \<equiv> \<lparr> hStatus = code, hCookies = [], hBody = b \<rparr>"

abbreviation httpError :: "string \<Rightarrow> nat \<Rightarrow> http_reply" where
  "httpError txt code \<equiv> reply code (Text txt)"

abbreviation okJSON :: "(string \<times> json) list \<Rightarrow> http_reply" where
  "okJSON fs \<equiv> reply 200 (Json (JObj fs))"

text \<open>A field tagged \<^verbatim>\<open>omitempty\<close> is left out when it holds the zero value of its type.\<close>

definition omitempty :: "string \<Rightarrow> json \<Rightarrow> (string \<times> json) list" where
  "omitempty key v = (if v \<in> {JStr '''', JInt 0, JBool False, JNull} then [] else [(key, v)])"

definition field :: "string \<Rightarrow> (string \<times> string) list \<Rightarrow> string" where
  "field k fs = aget '''' fs k"

text \<open>
  Services only the HTTP endpoints use: the integer SQLite reads from a text it compares with an
  \<^verbatim>\<open>INTEGER\<close> column, the size of the database file, HMAC-SHA256 in hexadecimal, the JSON decoder on the
  body of a payment notice, the two language models (an error or a reply), the geolocation service, the
  release list of GitHub and a download from it, whether a write to the file store succeeds, the content
  sniffer \<^verbatim>\<open>http.DetectContentType\<close> and decoding an image and writing it as PNG.
\<close>

record bmcPayload =
  pyType :: string
  pyDataName :: string
  pyDataEmail :: string
  pyDataAmount :: string
  pyDataMessage :: string
  pyDataNote :: string
  pyName :: string
  pyEmail :: string
  pyAmount :: string
  pyMessage :: string

record ghAsset =
  gaName :: string
  gaURL :: string
  gaSize :: int

record ghRelease =
  grTagName :: string
  grBody :: string
  grHTMLURL :: string
  grPublishedAt :: string
  grAssets :: "ghAsset list"

record services =
  x_sqlInt :: "string \<Rightarrow> int option"
  x_dbSize :: int
  x_hmacSHA256 :: "string \<Rightarrow> string \<Rightarrow> string"
  x_bmcDecode :: "string \<Rightarrow> bmcPayload option"
  x_gemini :: "string \<Rightarrow> (string \<times> string) list \<Rightarrow> string + string"
  x_anthropic :: "string \<Rightarrow> (string \<times> string) list \<Rightarrow> string + string"
  x_geo :: "string \<Rightarrow> string option"
  x_github :: "string \<Rightarrow> ghRelease option"
  x_download :: "string \<Rightarrow> string option"
  x_blobPut :: "string \<Rightarrow> bool"
  x_detect :: "string \<Rightarrow> string"
  x_reencode :: "string \<Rightarrow> string option"

section \<open>Where a request comes from\<close>

definition SplitHost :: "string \<Rightarrow> string option" where
  "SplitHost hp =
     (case cutLast CHR '':'' hp of
        None \<Rightarrow> None
      | Some port \<Rightarrow>
          let i = length hp - length port - 1
          in if hd hp = CHR ''[''
             then (let h = takeWhile (\<lambda>c. c \<noteq> CHR '']'') (tl hp)
                   in if Suc (Suc (length h)) = i \<and> CHR ''['' \<notin> set (tl hp) \<and> CHR '']'' \<notin> set port then Some h else None)
             else (let h = take i hp
                   in if CHR '':'' \<in> set h \<or> CHR ''['' \<in> set hp \<or> CHR '']'' \<in> set hp then None else Some h))"

definition clientIP :: "env \<Rightarrow> http_request \<Rightarrow> string" where
  "clientIP e r =
     (let hdr = TrimSpace (e_getenv e ''PHAZE_TRUST_PROXY_HEADER'');
          v = TrimSpace (rHeader r hdr);
          v1 = (if CHR '','' \<in> set v then TrimSpace (takeWhile (\<lambda>c. c \<noteq> CHR '','') v) else v)
      in if hdr \<noteq> '''' \<and> v \<noteq> '''' \<and> v1 \<noteq> '''' then v1
         else case SplitHost (rRemoteAddr r) of Some h \<Rightarrow> h | None \<Rightarrow> rRemoteAddr r)"

definition originAllowed :: "env \<Rightarrow> http_request \<Rightarrow> bool" where
  "originAllowed e r =
     (let raw = e_getenv e ''Phaze_ALLOWED_ORIGINS''; origin = rHeader r ''Origin''
      in raw = '''' \<or> origin = '''' \<or> origin \<in> set (map TrimSpace (strSplit CHR '','' raw)))"

section \<open>Middleware\<close>

text \<open>
  \<^verbatim>\<open>net.ParseCIDR\<close>, as the network \<^const>\<open>cidrContains\<close> reads: an IPv6 prefix that names IPv4-mapped
  addresses is the IPv4 network.
\<close>

definition maskByte :: "nat \<Rightarrow> nat \<Rightarrow> nat \<Rightarrow> nat" where
  "maskByte n i b = (if 8 * (i + 1) \<le> n then b else if n \<le> 8 * i then 0 else b - b mod 2 ^ (8 - (n - 8 * i)))"

definition ParseCIDR :: "string \<Rightarrow> (nat list \<times> nat) option" where
  "ParseCIDR a =
     (let addr = takeWhile (\<lambda>c. c \<noteq> CHR ''/'') a; mask = drop (Suc (length addr)) a; v4 = CHR '':'' \<notin> set addr
      in case ParseIP addr of
           None \<Rightarrow> None
         | Some ip \<Rightarrow>
             let n = nat (digitsVal mask 0)
             in if CHR ''/'' \<notin> set a \<or> mask = '''' \<or> \<not> list_all isDigitC mask \<or> n > (if v4 then 32 else 128) then None
                else if v4 then Some (To4 ip, n)
                else let m = map (\<lambda>i. maskByte n i (ip ! i)) [0..<16]
                     in Some (To4 m, if length (To4 m) = 4 then n - 96 else n))"

definition adminIPAllowed :: "env \<Rightarrow> string \<Rightarrow> bool" where
  "adminIPAllowed e ip =
     (let raw = TrimSpace (e_getenv e ''PHAZE_ADMIN_IPS'')
      in raw = '''' \<or>
         list_ex (\<lambda>a. a = ip \<or> a = ''0.0.0.0'' \<or>
             (CHR ''/'' \<in> set a \<and>
              (case (ParseCIDR a, ParseIP ip) of (Some net, Some b) \<Rightarrow> cidrContains net b | _ \<Rightarrow> False)))
           (map TrimSpace (strSplit CHR '','' raw)))"

definition adminIPGate :: "http_handler \<Rightarrow> http_handler" where
  "adminIPGate nxt e r s = (if adminIPAllowed e (clientIP e r) then nxt e r s else (s, httpError ''not found'' 404))"

definition adminLoginLimit :: "http_handler \<Rightarrow> http_handler" where
  "adminLoginLimit nxt e r s =
     (if \<not> e_limiter e ''admin'' (clientIP e r)
      then (s, httpError (''too many login attempts '' @ emDash @ '' try again in a minute'') 429)
      else nxt e r s)"

definition rateLimit :: "http_handler \<Rightarrow> http_handler" where
  "rateLimit nxt e r s =
     (if \<not> e_limiter e ''global'' (clientIP e r) then (s, httpError ''rate limit exceeded'' 429) else nxt e r s)"

section \<open>Cookies and tokens\<close>

definition tokenFromRequest :: "http_request \<Rightarrow> string" where
  "tokenFromRequest r =
     (let h = rHeader r ''Authorization''; bearer = (if prefix ''Bearer '' h then drop 7 h else '''')
      in case rCookie r ''phaze_session'' of
           Some v \<Rightarrow> if v \<noteq> '''' then v else bearer
         | None \<Rightarrow> bearer)"

definition deviceIDFromRequest :: "http_request \<Rightarrow> string" where
  "deviceIDFromRequest r = (case rCookie r ''phaze_device'' of Some v \<Rightarrow> v | None \<Rightarrow> '''')"

definition setSessionCookie :: "string \<Rightarrow> http_reply \<Rightarrow> http_reply" where
  "setSessionCookie tok h = h\<lparr>hCookies := hCookies h @ [(''phaze_session'', tok, 30 * 24 * 3600)]\<rparr>"

definition clearSessionCookie :: "http_reply \<Rightarrow> http_reply" where
  "clearSessionCookie h = h\<lparr>hCookies := hCookies h @ [(''phaze_session'', '''', -1)]\<rparr>"

definition setDeviceCookie :: "string \<Rightarrow> http_reply \<Rightarrow> http_reply" where
  "setDeviceCookie i h = h\<lparr>hCookies := hCookies h @ [(''phaze_device'', i, 2 * 365 * 24 * 3600)]\<rparr>"

definition requireAuthHTTP :: "env \<Rightarrow> http_request \<Rightarrow> NexusServer \<Rightarrow> http_reply + string" where
  "requireAuthHTTP e r s =
     (let u = sessionUsername (e_now e) (tokenFromRequest r) (DB s)
      in if u = '''' then Inl (httpError ''auth required'' 401) else Inr u)"

section \<open>Staff\<close>

definition staffToken :: "http_request \<Rightarrow> string" where
  "staffToken r =
     (let tok = (case rCookie r ''phaze_admin_token'' of Some v \<Rightarrow> v | None \<Rightarrow> ''''); h = rHeader r ''Authorization''
      in if tok = '''' \<and> prefix ''Bearer '' h then TrimSpace (drop 7 h) else tok)"

definition adminFromRequest :: "env \<Rightarrow> http_request \<Rightarrow> NexusServer \<Rightarrow> http_reply + string" where
  "adminFromRequest e r s =
     (let tok = staffToken r; u = sessionUsername (e_now e) tok (DB s)
      in if tok = '''' then Inl (httpError ''Authorization required'' 401)
         else if u = '''' then Inl (httpError ''invalid or expired session'' 401)
         else if \<not> userIsAdmin u (DB s) then Inl (httpError ''admin access required'' 403)
         else Inr u)"

definition modFromRequest :: "env \<Rightarrow> string \<Rightarrow> http_request \<Rightarrow> NexusServer \<Rightarrow> http_reply + (string \<times> string)" where
  "modFromRequest e minRole r s =
     (let tok = staffToken r; u = sessionUsername (e_now e) tok (DB s); role = userRole u (DB s)
      in if tok = '''' then Inl (httpError ''Authorization required'' 401)
         else if u = '''' then Inl (httpError ''invalid or expired session'' 401)
         else if roleRank role < roleRank minRole
         then Inl (httpError (''insufficient role (need at least '' @ minRole @ '')'') 403)
         else Inr (u, role))"

lemma adminFromRequest_Inr:
  "adminFromRequest e r s = Inr u \<longleftrightarrow>
     u = sessionUsername (e_now e) (staffToken r) (DB s) \<and> u \<noteq> '''' \<and> userIsAdmin u (DB s)"
  by (auto simp: adminFromRequest_def Let_def sessionUsername_def sessionState_def)

lemma adminFromRequest_Inl: "adminFromRequest e r s = Inl h \<Longrightarrow> hStatus h \<in> {401, 403} \<and> hCookies h = []"
  by (auto simp: adminFromRequest_def Let_def split: if_splits)

lemma modFromRequest_Inr:
  "modFromRequest e m r s = Inr (u, role) \<longleftrightarrow>
     u = sessionUsername (e_now e) (staffToken r) (DB s) \<and> u \<noteq> '''' \<and> role = userRole u (DB s) \<and>
     roleRank m \<le> roleRank role"
  by (auto simp: modFromRequest_def Let_def sessionUsername_def sessionState_def)

lemma modFromRequest_Inl: "modFromRequest e m r s = Inl h \<Longrightarrow> hStatus h \<in> {401, 403} \<and> hCookies h = []"
  by (auto simp: modFromRequest_def Let_def split: if_splits)

end
