(* ===== verification/LoginHttp.thy ===== *)
theory LoginHttp
  imports Http
begin

text \<open>
  Signing in over HTTP, \<^verbatim>\<open>nexus_server/auth_http.go\<close>: the web client's login with the new-device gate, the
  code that lifts it, logout and the \<^verbatim>\<open>me\<close> endpoint, and the password-reset and e-mail verification pages
  of \<^verbatim>\<open>main.go\<close>.  The progressive delay after a failed login leaves no trace in the state.
\<close>

definition profileOf :: "string \<Rightarrow> database \<Rightarrow> string \<times> string" where
  "profileOf username d =
     (case userRow username d of None \<Rightarrow> ('''', '''') | Some u \<Rightarrow> (u_display_name u, u_mood u))"

text \<open>The part of \<^verbatim>\<open>httpLoginHandler\<close> after both factors were accepted.\<close>

definition httpLoginSession ::
  "env \<Rightarrow> http_request \<Rightarrow> string \<Rightarrow> string \<Rightarrow> NexusServer \<Rightarrow> NexusServer \<times> http_reply" where
  "httpLoginSession e r username device s0 =
     (let ip = clientIP e r;
          (s1, tok, err) = issueSessionToken e username (if device = '''' then ''web'' else device) s0;
          sessionError = httpError ''session error'' 500
      in if err \<noteq> None then (s1, sessionError)
         else
           let s2 = withDB (updUser username (\<lambda>u. u\<lparr>u_last_ip := ip, u_last_login_at := Some (sqlNow (e_now e))\<rparr>)) s1;
               deviceID = deviceIDFromRequest r;
               label = deviceLabel e (rHeader r ''User-Agent'') device
           in if deviceVerificationEnabled e \<and> \<not> isKnownDevice username deviceID (DB s2) \<and> canDeliverChallenge e username s2
              then (case (if deviceID = '''' then randHex e 16 s2 else (s2, Some deviceID)) of
                      (s3, None) \<Rightarrow> (s3, sessionError)
                    | (s3, Some devID) \<Rightarrow>
                        let s4 = withDB (markSessionPendingDevice tok) s3;
                            (s5, chID, codeSent) = createDeviceChallenge e username devID tok label ip s4
                        in (s5, setSessionCookie tok (setDeviceCookie devID
                              (okJSON [(''status'', JStr ''device_verification_required''),
                                       (''username'', JStr username), (''device_label'', JStr label),
                                       (''challenge_id'', JInt chID), (''code_sent'', JBool codeSent)]))))
              else
                let (s3, devID) =
                      (if deviceID = ''''
                       then (case randHex e 16 s2 of
                               (s3, None) \<Rightarrow> (s3, '''')
                             | (s3, Some i) \<Rightarrow> (withDB (rememberDevice (e_now e) username i label ip) s3, i))
                       else (withDB (touchDevice (e_now e) username deviceID ip) s2, deviceID));
                    (displayName, mood) = profileOf username (DB s3);
                    h = okJSON [(''status'', JStr ''ok''), (''username'', JStr username),
                                (''display_name'', JStr displayName), (''mood'', JStr mood)]
                in (s3, setSessionCookie tok (if devID \<noteq> '''' then setDeviceCookie devID h else h)))"

definition httpLoginHandler :: http_handler where
  "httpLoginHandler e r s0 =
     (if rMethod r \<noteq> ''POST'' then (s0, httpError ''POST required'' 405)
      else case rBody r of
        None \<Rightarrow> (s0, httpError ''username and password required'' 400)
      | Some body \<Rightarrow>
          let username = field ''username'' body; password = field ''password'' body; ip = clientIP e r
          in if username = '''' \<or> password = '''' then (s0, httpError ''username and password required'' 400)
             else
               let (t1, thr) = isIPThrottled (e_now e) ip (authTracker s0); s1 = s0\<lparr>authTracker := t1\<rparr>
               in if thr then (s1, httpError ''Too many failed attempts. Try again later.'' 429)
                  else
                    let (t2, locked) = isUserLocked (e_now e) username (authTracker s1); s2 = s1\<lparr>authTracker := t2\<rparr>
                    in if locked then (s2, httpError ''Account temporarily locked. Try again in 30 minutes.'' 429)
                       else
                         let (d3, ok) = authenticateUser e username password (DB s2); s3 = s2\<lparr>DB := d3\<rparr>
                         in if \<not> ok
                            then (withTracker (recordFail (e_now e) ip username) s3,
                                  httpError ''Invalid username or password'' 401)
                            else
                              let (banned, reason) = userBanInfo username (DB s3)
                              in if banned then (s3, httpError (suspendedText reason) 403)
                                 else
                                   let (t4, totpThr) = isTOTPThrottled (e_now e) username (authTracker s3);
                                       s4 = s3\<lparr>authTracker := t4\<rparr>
                                   in if totpThr
                                      then (s4, httpError (''Too many 2FA attempts '' @ emDash @ '' wait a few minutes'') 429)
                                      else
                                        let (s5, ok2) = secondFactor e (msg0\<lparr>mSender := username,
                                                           mTOTPCode := field ''totp_code'' body\<rparr>) s4
                                        in if \<not> ok2
                                           then (withTracker (recordTOTPFail (e_now e) username) s5,
                                                 reply 401 (Json (JObj [(''status'', JStr ''totp_required''),
                                                   (''error'', JStr ''2FA code required or invalid'')])))
                                           else httpLoginSession e r username (field ''device_info'' body)
                                                  (withTracker (recordSuccess ip username \<circ> recordTOTPSuccess username) s5))"

definition httpVerifyDeviceHandler :: http_handler where
  "httpVerifyDeviceHandler e r s0 =
     (if rMethod r \<noteq> ''POST'' then (s0, httpError ''POST required'' 405)
      else
        let tok = tokenFromRequest r; (username, pending) = sessionState (e_now e) tok (DB s0); ip = clientIP e r
        in if username = '''' then (s0, httpError ''not authenticated'' 401)
           else if \<not> pending then (s0, okJSON [(''status'', JStr ''ok'')])
           else
             let (t1, thr) = isIPThrottled (e_now e) ip (authTracker s0); s1 = s0\<lparr>authTracker := t1\<rparr>
             in if thr then (s1, httpError ''Too many attempts. Try again later.'' 429)
                else case rBody r of
                  None \<Rightarrow> (s1, httpError ''code required'' 400)
                | Some body \<Rightarrow>
                    if TrimSpace (field ''code'' body) = '''' then (s1, httpError ''code required'' 400)
                    else case verifyDeviceChallenge (e_now e) tok (field ''code'' body) (DB s1) of
                      (d2, Inl err) \<Rightarrow>
                        (withTracker (recordFail (e_now e) ip username) (s1\<lparr>DB := d2\<rparr>),
                         reply 401 (Json (JObj [(''status'', JStr ''invalid_code'')])))
                    | (d2, Inr u) \<Rightarrow>
                        (withTracker (recordSuccess ip username) (s1\<lparr>DB := d2\<rparr>),
                         okJSON [(''status'', JStr ''ok''), (''username'', JStr username)]))"

definition httpLogoutHandler :: http_handler where
  "httpLogoutHandler e r s =
     (if rMethod r \<noteq> ''POST'' then (s, httpError ''POST required'' 405)
      else let tok = tokenFromRequest r
           in (if tok \<noteq> '''' then withDB (revokeSession tok) s else s, clearSessionCookie (reply 204 NoBody)))"

definition httpMeHandler :: http_handler where
  "httpMeHandler e r s =
     (let username = sessionUsername (e_now e) (tokenFromRequest r) (DB s)
      in if username = '''' then (s, httpError ''not authenticated'' 401)
         else let (displayName, mood) = profileOf username (DB s)
              in (s, okJSON [(''username'', JStr username), (''display_name'', JStr displayName), (''mood'', JStr mood)]))"

section \<open>Pages that change accounts\<close>

text \<open>
  \<^verbatim>\<open>/reset\<close> and \<^verbatim>\<open>/verify-email\<close>.  A form post reaches the model with its fields in \<open>rBody\<close>.  Of the
  pages the model keeps the text that varies: the token is written into the form as it came.
\<close>

definition resetHandler :: http_handler where
  "resetHandler e r s =
     (if rMethod r = ''POST''
      then (case rBody r of
              None \<Rightarrow> (s, httpError ''bad form'' 400)
            | Some form \<Rightarrow>
                (case consumePasswordReset e (field ''token'' form) (field ''password'' form) (DB s) of
                   (d1, Some err) \<Rightarrow> (s\<lparr>DB := d1\<rparr>, reply 200 (Text (''Reset failed'' @ errText err)))
                 | (d1, None) \<Rightarrow> (s\<lparr>DB := d1\<rparr>, reply 200 (Text ''Password updated''))))
      else if rQuery r ''token'' = '''' then (s, httpError ''missing token'' 400)
      else (s, reply 200 (Text (''<input type=\"hidden\" name=\"token\" value=\"'' @ rQuery r ''token'' @ ''\">''))))"

definition verifyEmailHandler :: http_handler where
  "verifyEmailHandler e r s =
     (let u = rQuery r ''u''; code = rQuery r ''code''
      in if u = '''' \<or> code = '''' then (s, httpError ''Missing parameters'' 400)
         else case verifyUser u code (DB s) of
                (d1, True) \<Rightarrow> (onReferralVerified e u (s\<lparr>DB := autoJoinGlobalSpace (e_now e) u d1\<rparr>),
                               reply 200 (Text ''You're verified!''))
              | (d1, False) \<Rightarrow> (s\<lparr>DB := d1\<rparr>, reply 200 (Text ''Verification failed'')))"

section \<open>The device gate\<close>

text \<open>What checking the two factors leaves alone.\<close>

lemma emailOf_updUser:
  "(\<And>r. u_username (f r) = u_username r) \<Longrightarrow> (\<And>r. u_email (f r) = u_email r) \<Longrightarrow>
   emailOf v (updUser u f d) = emailOf v d"
  by (auto simp: emailOf_def userRow_updUser split: option.splits)

lemma emailOf_sessions [simp]: "emailOf u (d\<lparr>session_tokens := x\<rparr>) = emailOf u d"
  by (simp add: emailOf_def userRow_def)

lemma known_devices_updUser [simp]: "known_devices (updUser u f d) = known_devices d"
  by (simp add: updUser_def)

lemma authenticate_device_frame [simp]:
  "known_devices (fst (authenticateUser e u pw d)) = known_devices d"
  "session_tokens (fst (authenticateUser e u pw d)) = session_tokens d"
  "device_challenges (fst (authenticateUser e u pw d)) = device_challenges d"
  "emailOf v (fst (authenticateUser e u pw d)) = emailOf v d"
  by (auto simp: authenticateUser_def emailOf_updUser split: option.splits)

lemma secondFactor_frame [simp]:
  "known_devices (DB (fst (secondFactor e msg s))) = known_devices (DB s)"
  "session_tokens (DB (fst (secondFactor e msg s))) = session_tokens (DB s)"
  "device_challenges (DB (fst (secondFactor e msg s))) = device_challenges (DB s)"
  "users (DB (fst (secondFactor e msg s))) = users (DB s)"
  "Clients (fst (secondFactor e msg s)) = Clients s" "mails (fst (secondFactor e msg s)) = mails s"
  by (auto simp: secondFactor_def verifyTOTP_def consumeBackupCode_def Let_def split: prod.splits option.splits if_splits)
definition deviceGate :: "env \<Rightarrow> http_request \<Rightarrow> string \<Rightarrow> NexusServer \<Rightarrow> bool" where
  "deviceGate e r u s \<longleftrightarrow>
     deviceVerificationEnabled e \<and> \<not> isKnownDevice u (deviceIDFromRequest r) (DB s) \<and> canDeliverChallenge e u s"

lemma deviceGate_cong:
  "known_devices (DB s) = known_devices (DB s') \<Longrightarrow> Clients s = Clients s' \<Longrightarrow>
   emailOf u (DB s) = emailOf u (DB s') \<Longrightarrow> deviceGate e r u s = deviceGate e r u s'"
  by (simp add: deviceGate_def isKnownDevice_def canDeliverChallenge_def isOnline_def clientsOf_def)

lemma createDeviceChallenge_sessions:
  "createDeviceChallenge e u did tok label ip s = (s', chID, sent) \<Longrightarrow> session_tokens (DB s') = session_tokens (DB s)"
  by (auto simp: createDeviceChallenge_def Let_def sendTo_eq dest!: randDigits_same split: prod.splits option.splits if_splits)

lemma rememberDevice_sessions [simp]:
  "session_tokens (rememberDevice t u i l ip d) = session_tokens d"
  "session_tokens (touchDevice t u i ip d) = session_tokens d"
  by (simp_all add: rememberDevice_def touchDevice_def)

definition loginTouched :: "env \<Rightarrow> http_request \<Rightarrow> string \<Rightarrow> NexusServer \<Rightarrow> NexusServer" where
  "loginTouched e r u s =
     withDB (updUser u (\<lambda>x. x\<lparr>u_last_ip := clientIP e r, u_last_login_at := Some (sqlNow (e_now e))\<rparr>)) s"

definition loginSession :: "env \<Rightarrow> string \<Rightarrow> string \<Rightarrow> string \<Rightarrow> session_row" where
  "loginSession e tok u dev = newSession e (30 * 24 * hour) tok u (if dev = '''' then ''web'' else dev)"

lemma issueSessionToken_mails: "issueSessionToken e u dev s = (s1, tok, err) \<Longrightarrow> mails s1 = mails s"
  by (auto simp: issueSessionToken_def insertSession_def randHex_def split: option.splits)

lemma sessionRow_cong: "session_tokens d = session_tokens d' \<Longrightarrow> sessionRow t d = sessionRow t d'"
  by (simp add: sessionRow_def)

text \<open>The session row every successful login starts from.\<close>

lemma httpLoginSession_issued:
  assumes "httpLoginSession e r u dev s = (s1, h)" and "hStatus h = 200"
  obtains sa tk where "issueSessionToken e u (if dev = '''' then ''web'' else dev) s = (sa, tk, None)"
    and "deviceGate e r u (loginTouched e r u sa) = deviceGate e r u s"
    and "sessionRow tk (DB (loginTouched e r u sa)) = Some (loginSession e tk u dev)"
    and "mails (loginTouched e r u sa) = mails s"
    and "map_option hexEncode (e_randBytes e (rng s) 32) = Some tk"
proof -
  let ?dev = "if dev = '''' then ''web'' else dev"
  obtain sa tk err where i: "issueSessionToken e u ?dev s = (sa, tk, err)"
    by (cases "issueSessionToken e u ?dev s") auto
  have err: "err = None" using assms i by (auto simp: httpLoginSession_def Let_def split: if_splits)
  note ok = insertSession_ok [OF i [unfolded err issueSessionToken_def]]
  have cl: "Clients sa = Clients s" using i by (auto simp: issueSessionToken_def insertSession_def randHex_def split: option.splits)
  show ?thesis
  proof (rule that)
    show "issueSessionToken e u ?dev s = (sa, tk, None)" using i err by simp
    show "deviceGate e r u (loginTouched e r u sa) = deviceGate e r u s"
      by (rule deviceGate_cong) (use ok cl in \<open>simp_all add: loginTouched_def emailOf_updUser\<close>)
    show "sessionRow tk (DB (loginTouched e r u sa)) = Some (loginSession e tk u dev)"
      using ok by (simp add: loginTouched_def loginSession_def sessionRow_def sql_row_append_new [where K = se_token] newSession_def)
    show "mails (loginTouched e r u sa) = mails s"
      using issueSessionToken_mails [OF i] by (simp add: loginTouched_def)
  qed (use ok in simp)
qed

text \<open>A login that is held back ends with a challenge for the cookie's session, which is pending.\<close>

lemma httpLoginSession_held:
  assumes "httpLoginSession e r u dev s = (s1, h)" and "hStatus h = 200"
    and "(''phaze_session'', tok, m) \<in> set (hCookies h)" and "deviceGate e r u s"
  obtains s4 did label ip chID sent where "createDeviceChallenge e u did tok label ip s4 = (s1, chID, sent)"
    and "sessionRow tok (DB s4) = Some ((loginSession e tok u dev)\<lparr>se_pending_device := True\<rparr>)"
    and "mails s4 = mails s" and "map_option hexEncode (e_randBytes e (rng s) 32) = Some tok"
proof -
  obtain sa tk where i: "issueSessionToken e u (if dev = '''' then ''web'' else dev) s = (sa, tk, None)"
    and g: "deviceGate e r u (loginTouched e r u sa) = deviceGate e r u s"
    and row: "sessionRow tk (DB (loginTouched e r u sa)) = Some (loginSession e tk u dev)"
    and mail: "mails (loginTouched e r u sa) = mails s"
    and rnd: "map_option hexEncode (e_randBytes e (rng s) 32) = Some tk"
    by (rule httpLoginSession_issued [OF assms(1,2)])
  let ?sb = "loginTouched e r u sa"
  obtain s3 did chID sent where
    rh: "(if deviceIDFromRequest r = '''' then randHex e 16 ?sb else (?sb, Some (deviceIDFromRequest r))) = (s3, Some did)"
    and c: "createDeviceChallenge e u did tk (deviceLabel e (rHeader r ''User-Agent'') dev) (clientIP e r)
            (withDB (markSessionPendingDevice tk) s3) = (s1, chID, sent)"
    and h: "hCookies h = [(''phaze_device'', did, 2 * 365 * 24 * 3600), (''phaze_session'', tk, 30 * 24 * 3600)]"
    using assms i g
    by (auto simp: httpLoginSession_def loginTouched_def deviceGate_def setSessionCookie_def setDeviceCookie_def Let_def
        split: prod.splits option.splits if_splits)
  have "DB s3 = DB ?sb" "mails s3 = mails ?sb" using rh by (auto simp: randHex_def split: if_splits)
  moreover have "tok = tk" using assms(3) h by auto
  ultimately show ?thesis
    using that [OF c [folded \<open>tok = tk\<close>]] row mail rnd
    by (simp add: markSessionPendingDevice_def sessionRow_updSession loginSession_def newSession_def)
qed

text \<open>
  A session handed out by the login: the row of the cookie's token belongs to the account and is
  pending exactly when the gate is closed.
\<close>

lemma httpLoginSession_row:
  assumes "httpLoginSession e r u dev s = (s1, h)" and "hStatus h = 200"
    and "(''phaze_session'', tok, m) \<in> set (hCookies h)"
  shows "sessionRow tok (DB s1) = Some ((loginSession e tok u dev)\<lparr>se_pending_device := deviceGate e r u s\<rparr>)
     \<and> map_option hexEncode (e_randBytes e (rng s) 32) = Some tok"
proof (cases "deviceGate e r u s")
  case True
  obtain s4 did label ip chID sent where c: "createDeviceChallenge e u did tok label ip s4 = (s1, chID, sent)"
    and row: "sessionRow tok (DB s4) = Some ((loginSession e tok u dev)\<lparr>se_pending_device := True\<rparr>)"
    and rnd: "map_option hexEncode (e_randBytes e (rng s) 32) = Some tok"
    by (rule httpLoginSession_held [OF assms True])
  have "sessionRow tok (DB s1) = sessionRow tok (DB s4)"
    by (rule sessionRow_cong) (rule createDeviceChallenge_sessions [OF c])
  then show ?thesis using row rnd True by simp
next
  case False
  obtain sa tk where i: "issueSessionToken e u (if dev = '''' then ''web'' else dev) s = (sa, tk, None)"
    and g: "deviceGate e r u (loginTouched e r u sa) = deviceGate e r u s"
    and row: "sessionRow tk (DB (loginTouched e r u sa)) = Some (loginSession e tk u dev)"
    and rnd: "map_option hexEncode (e_randBytes e (rng s) 32) = Some tk"
    by (rule httpLoginSession_issued [OF assms(1,2)])
  have "session_tokens (DB s1) = session_tokens (DB (loginTouched e r u sa)) \<and> tok = tk"
    using assms i g False
    by (auto simp: httpLoginSession_def loginTouched_def deviceGate_def setSessionCookie_def setDeviceCookie_def Let_def randHex_def
        split: prod.splits option.splits if_splits)
  then show ?thesis
    using row rnd False by (simp add: sessionRow_cong [of "DB s1" "DB (loginTouched e r u sa)"] loginSession_def newSession_def)
qed

lemma randDigits_mails: "randDigits e n s = (s', r) \<Longrightarrow> mails s' = mails s"
  by (induction n arbitrary: s s' r) (auto split: option.splits prod.splits)

lemma createDeviceChallenge_mailed:
  assumes "createDeviceChallenge e u did tok label ip s = (s', chID, sent)" and "mails s' \<noteq> mails s"
  obtains row em where "latestChallenge tok (DB s') = Some row" and "dc_id row = chID" and "\<not> dc_consumed row"
    and "dc_attempts row = 0" and "dc_expires_at row = e_now e + deviceChallengeTTL" and "dc_username row = u"
    and "mails s' = mails s @ [MailDeviceCode em label ip (dc_code row)]"
proof -
  from assms obtain s1 code where r: "randDigits e 6 s = (s1, Some code)"
    by (auto simp: createDeviceChallenge_def dest: randDigits_mails split: prod.splits option.splits)
  from assms that [of "\<lparr> dc_id = chID, dc_username = u, dc_device_id = did,
                       dc_session_token = tok, dc_code = code, dc_label = label, dc_ip = ip,
                       dc_attempts = 0, dc_approved = False, dc_consumed = False,
                       dc_expires_at = e_now e + deviceChallengeTTL \<rparr>"] randDigits_mails [OF r]
  show ?thesis
    by (auto simp: createDeviceChallenge_def r Let_def sendTo_eq latestChallenge_def sql_row_def split: if_splits)
qed

lemma secondFactor_email [simp]: "emailOf u (DB (fst (secondFactor e msg s))) = emailOf u (DB s)"
  by (simp add: emailOf_def userRow_def)

text \<open>
  A 200 reply of the handler comes from \<^const>\<open>httpLoginSession\<close> in a state that differs from the one
  before the request only in the tracker, the used codes and the password hash.
\<close>

lemma httpLoginHandler_200:
  assumes "httpLoginHandler e r s = (s1, h)" and "hStatus h = 200"
  obtains body s2 where "rBody r = Some body"
    and "snd (authenticateUser e (field ''username'' body) (field ''password'' body) (DB s))"
    and "\<not> fst (userBanInfo (field ''username'' body) (DB s))"
    and "secondFactorOk e (field ''username'' body) (field ''totp_code'' body) (DB s)"
    and "httpLoginSession e r (field ''username'' body) (field ''device_info'' body) s2 = (s1, h)"
    and "mails s2 = mails s" and "field ''username'' body \<noteq> ''''"
    and "deviceGate e r (field ''username'' body) s2 = deviceGate e r (field ''username'' body) s"
proof -
  obtain body where b: "rBody r = Some body" and post: "rMethod r = ''POST''"
    using assms by (auto simp: httpLoginHandler_def split: if_splits option.splits)
  let ?u = "field ''username'' body" and ?p = "field ''password'' body"
  let ?m = "msg0\<lparr>mSender := ?u, mTOTPCode := field ''totp_code'' body\<rparr>"
  let ?s3 = "\<lambda>t. s\<lparr>DB := fst (authenticateUser e ?u ?p (DB s)), authTracker := t\<rparr>"
  have ne: "?u \<noteq> ''''" using assms b post by (auto simp: httpLoginHandler_def Let_def)
  obtain t where auth: "snd (authenticateUser e ?u ?p (DB s))"
    and nb: "\<not> fst (userBanInfo ?u (DB s))"
    and sf: "snd (secondFactor e ?m (?s3 t))"
    and l: "httpLoginSession e r ?u (field ''device_info'' body)
              (withTracker (recordSuccess (clientIP e r) ?u \<circ> recordTOTPSuccess ?u) (fst (secondFactor e ?m (?s3 t)))) = (s1, h)"
    using assms b post
    by (auto simp: httpLoginHandler_def Let_def split_beta split: if_splits)
  show ?thesis
  proof (rule that [OF b auth nb _ l _ ne])
    show "secondFactorOk e ?u (field ''totp_code'' body) (DB s)"
      using secondFactor_snd [OF sf] by simp
  qed (simp, rule deviceGate_cong, simp_all)
qed

text \<open>C2: Signing in over HTTP.  The web login hands out a session cookie only when the password is right,
  the account is not suspended and the second factor passes.  On a device the account has not approved,
  while device verification is on and there is a channel to ask for approval, the session in the cookie
  authenticates nobody, at any time; otherwise it authenticates exactly that account.
\<close>

theorem http_login_sound:
  assumes "httpLoginHandler e r s = (s1, h)" and "hStatus h = 200"
    and "(''phaze_session'', tok, m) \<in> set (hCookies h)"
    and "\<And>k n bs. e_randBytes e k n = Some bs \<Longrightarrow> length bs = n"
  shows "\<exists>body u. rBody r = Some body \<and> u = field ''username'' body \<and>
     snd (authenticateUser e u (field ''password'' body) (DB s)) \<and> \<not> fst (userBanInfo u (DB s)) \<and>
     secondFactorOk e u (field ''totp_code'' body) (DB s) \<and>
     (if deviceVerificationEnabled e \<and> \<not> isKnownDevice u (deviceIDFromRequest r) (DB s) \<and> canDeliverChallenge e u s
      then \<forall>t. sessionUsername t tok (DB s1) = ''''
      else sessionUsername (e_now e) tok (DB s1) = u)"
proof -
  obtain body s2 where b: "rBody r = Some body"
    and c: "snd (authenticateUser e (field ''username'' body) (field ''password'' body) (DB s))"
      "\<not> fst (userBanInfo (field ''username'' body) (DB s))"
      "secondFactorOk e (field ''username'' body) (field ''totp_code'' body) (DB s)"
    and l: "httpLoginSession e r (field ''username'' body) (field ''device_info'' body) s2 = (s1, h)"
    and g: "deviceGate e r (field ''username'' body) s2 = deviceGate e r (field ''username'' body) s"
    using httpLoginHandler_200 [OF assms(1,2)] by metis
  note row = httpLoginSession_row [OF l assms(2,3)]
  obtain bs where "e_randBytes e (rng s2) 32 = Some bs" "tok = hexEncode bs" using row by auto
  then have "length tok = 64" using assms(4) by (simp add: length_hexEncode)
  then have ne: "tok \<noteq> ''''" by auto
  have "if deviceGate e r (field ''username'' body) s then \<forall>t. sessionUsername t tok (DB s1) = ''''
        else sessionUsername (e_now e) tok (DB s1) = field ''username'' body"
    using row g ne by (simp add: sessionUsername_row loginSession_def newSession_def duration_defs)
  then show ?thesis using b c unfolding deviceGate_def by blast
qed

text \<open>C14: The new-device gate opens with the code that was mailed.  After a login that was held back, posting
  the code of the challenge with the login's cookie within fifteen minutes, from an address that is not
  throttled, answers 200 and makes the session authenticate the account; a wrong code answers 401 and leaves the session useless.
\<close>

theorem device_code_roundtrip:
  assumes "httpLoginHandler e r s = (s1, h)" and "hStatus h = 200"
    and "(''phaze_session'', tok, m) \<in> set (hCookies h)"
    and "\<And>k n bs. e_randBytes e k n = Some bs \<Longrightarrow> length bs = n"
    and "rBody r = Some body" and "u = field ''username'' body"
    and "deviceVerificationEnabled e \<and> \<not> isKnownDevice u (deviceIDFromRequest r) (DB s) \<and> canDeliverChallenge e u s"
    and "mails s1 = mails s @ [MailDeviceCode email label ip code]"
    and "rMethod r2 = ''POST''" and "tokenFromRequest r2 = tok" and "rBody r2 = Some body2"
    and "TrimSpace (field ''code'' body2) \<noteq> ''''"
    and "e_now e \<le> e_now e2" and "e_now e2 \<le> e_now e + 15 * minute"
    and "\<not> snd (isIPThrottled (e_now e2) (clientIP e2 r2) (authTracker s1))"
    and "httpVerifyDeviceHandler e2 r2 s1 = (s2, h2)"
  shows "if TrimSpace (field ''code'' body2) = code
     then hStatus h2 = 200 \<and> sessionUsername (e_now e2) tok (DB s2) = u
     else hStatus h2 = 401 \<and> (\<forall>t. sessionUsername t tok (DB s2) = '''')"
proof -
  obtain s0 where l: "httpLoginSession e r u (field ''device_info'' body) s0 = (s1, h)"
    and m0: "mails s0 = mails s" and u: "u \<noteq> ''''" and g: "deviceGate e r u s0"
    using httpLoginHandler_200 [OF assms(1,2)] assms(5-7) unfolding deviceGate_def by (metis option.inject)
  obtain s4 did lb ip' chID sent where c: "createDeviceChallenge e u did tok lb ip' s4 = (s1, chID, sent)"
    and row4: "sessionRow tok (DB s4) = Some ((loginSession e tok u (field ''device_info'' body))\<lparr>se_pending_device := True\<rparr>)"
    and m4: "mails s4 = mails s0" and rnd: "map_option hexEncode (e_randBytes e (rng s0) 32) = Some tok"
    by (rule httpLoginSession_held [OF l assms(2,3) g])
  obtain row em where ch: "latestChallenge tok (DB s1) = Some row" "\<not> dc_consumed row" "dc_attempts row = 0"
      "dc_expires_at row = e_now e + deviceChallengeTTL" "dc_username row = u"
    and "mails s1 = mails s4 @ [MailDeviceCode em lb ip' (dc_code row)]"
    using createDeviceChallenge_mailed [OF c] assms(8) m0 m4 by auto
  then have code: "dc_code row = code" using assms(8) m0 m4 by simp
  have row: "sessionRow tok (DB s1) = Some ((loginSession e tok u (field ''device_info'' body))\<lparr>se_pending_device := True\<rparr>)"
    using row4 createDeviceChallenge_sessions [OF c] by (metis sessionRow_cong)
  obtain bs where "e_randBytes e (rng s0) 32 = Some bs" "tok = hexEncode bs" using rnd by auto
  then have "length tok = 64" using assms(4) by (simp add: length_hexEncode)
  then have ne: "tok \<noteq> ''''" by auto
  have st: "sessionState (e_now e2) tok (DB s1) = (u, True)"
    using row ne assms(14) by (simp add: sessionState_def loginSession_def newSession_def duration_defs)
  have "verifyDeviceChallenge (e_now e2) tok (field ''code'' body2) (DB s1) =
      (if TrimSpace (field ''code'' body2) = code
       then (approveDeviceChallenge (e_now e2) (dc_id row) u (dc_device_id row) tok (dc_label row) (dc_ip row) (DB s1), Inr u)
       else (updChallenge (dc_id row) (\<lambda>x. x\<lparr>dc_attempts := dc_attempts x + 1\<rparr>) (DB s1), Inl ErrBadCode))"
    using ch code assms(14) by (simp add: verifyDeviceChallenge_def deviceChallengeTTL_def maxDeviceChallengeAttempts_def)
  then have v: "hStatus h2 = (if TrimSpace (field ''code'' body2) = code then 200 else 401) \<and>
      session_tokens (DB s2) = session_tokens (if TrimSpace (field ''code'' body2) = code
        then updSession (\<lambda>r. se_token r = tok) (\<lambda>r. r\<lparr>se_pending_device := False\<rparr>) (DB s1) else DB s1)"
    using assms(9-12,15,16) st u
    by (auto simp: httpVerifyDeviceHandler_def Let_def split_beta approveDeviceChallenge_def updChallenge_def updSession_def
        split: if_splits)
  then have "sessionRow tok (DB s2) = (if TrimSpace (field ''code'' body2) = code
        then sessionRow tok (updSession (\<lambda>r. se_token r = tok) (\<lambda>r. r\<lparr>se_pending_device := False\<rparr>) (DB s1)) else sessionRow tok (DB s1))"
    by (simp add: sessionRow_def)
  then show ?thesis
    using v row ne assms(14)
    by (simp add: sessionUsername_row sessionRow_updSession loginSession_def newSession_def duration_defs)
qed

text \<open>Bob's account, his login from a new browser and the request with the mailed code.\<close>

definition nexusBob :: NexusServer where
  "nexusBob = nexus0\<lparr>DB := emptyDB\<lparr>users := [(newUser 0 ''bob'' ''b@x'' '''' ''$#hunter22'' ''012345'')\<lparr>u_is_verified := True\<rparr>]\<rparr>\<rparr>"

definition request0 :: http_request where
  "request0 = \<lparr> rMethod = ''POST'', rPath = ''/'', rQuery = (\<lambda>_. ''''), rHeader = (\<lambda>_. ''''), rCookie = (\<lambda>_. None),
     rRemoteAddr = ''1.2.3.4:5'', rContentLength = 0, rBody = None, rRaw = '''' \<rparr>"

definition bobLogin :: http_request where
  "bobLogin = request0\<lparr>rBody := Some [(''username'', ''bob''), (''password'', ''hunter22'')]\<rparr>"

definition bobToken :: string where "bobToken = replicate 64 CHR ''0''"

definition bobCode :: http_request where
  "bobCode = request0\<lparr>rBody := Some [(''code'', ''234567'')], rCookie := (\<lambda>_. Some bobToken)\<rparr>"

lemma trim_empty [simp]: "TrimSpace '''' = ''''"
  by (simp add: TrimSpace_def TrimLeft.simps TrimRight.simps goSpaces_def)

lemma trim_code: "TrimSpace ''234567'' = ''234567''"
  by code_simp

lemma bob_ip: "clientIP env0 bobLogin = ''1.2.3.4''"
  by (simp add: clientIP_def SplitHost_def cutLast_def bobLogin_def request0_def)

lemma bob_auth: "authenticateUser env0 ''bob'' ''hunter22'' (DB nexusBob) = (DB nexusBob, True)"
  by (simp add: authenticateUser_def userRow_def sql_row_def nexusBob_def newUser_def)

lemma bob_issue: "issueSessionToken env0 ''bob'' ''web'' s = (s\<lparr>rng := rng s + 1, DB := (DB s)\<lparr>session_tokens := [newSession env0 (720 * hour) (hexEncode (replicate 32 (rng s mod 256))) ''bob'' ''web'']\<rparr>\<rparr>, hexEncode (replicate 32 (rng s mod 256)), None)"
  if "session_tokens (DB s) = []"
  using that by (simp add: issueSessionToken_def insertSession_def randHex_def sql_insert_def sql_has_def)

lemma bobToken: "hexEncode (replicate 32 0) = bobToken"
  by code_simp

lemma bob_login_gate:
  "deviceVerificationEnabled env0 \<and> \<not> isKnownDevice ''bob'' (deviceIDFromRequest bobLogin) (DB nexusBob) \<and>
   canDeliverChallenge env0 ''bob'' nexusBob"
  by (simp add: deviceVerificationEnabled_def isKnownDevice_def deviceIDFromRequest_def bobLogin_def request0_def
      canDeliverChallenge_def emailOf_def userRow_def sql_row_def nexusBob_def newUser_def)

lemma bob_factor: "secondFactor env0 (msg0\<lparr>mSender := ''bob'', mTOTPCode := ''''\<rparr>) nexusBob = (nexusBob, True)"
  by (simp add: secondFactor_def verifyTOTP_def totpStatus_def userRow_def sql_row_def nexusBob_def newUser_def)

lemma bob_tracker: "authTracker nexusBob = authTracker0"
  by (simp add: nexusBob_def nexus0_def)

lemma bob_self:
  "nexusBob\<lparr>DB := DB nexusBob\<rparr> = nexusBob" "nexusBob\<lparr>authTracker := authTracker0\<rparr> = nexusBob"
  "nexusBob\<lparr>DB := DB nexusBob, authTracker := authTracker0\<rparr> = nexusBob"
  "userBanInfo ''bob'' (DB nexusBob) = (False, '''')" "authTracker nexusBob = authTracker0" "mails nexusBob = []"
  "rng nexusBob = 0" "session_tokens (DB nexusBob) = []" "emailOf ''bob'' (DB nexusBob) = ''b@x''"
  by (simp_all add: nexusBob_def nexus0_def userBanInfo_def emailOf_def userRow_def sql_row_def newUser_def emptyDB_def)

lemma tracker0:
  "isIPThrottled t ip authTracker0 = (authTracker0, False)" "isUserLocked t u authTracker0 = (authTracker0, False)"
  "isTOTPThrottled t u authTracker0 = (authTracker0, False)" "recordSuccess ip u authTracker0 = authTracker0"
  "recordTOTPSuccess u authTracker0 = authTracker0"
  by (simp_all add: isIPThrottled_def isUserLocked_def isTOTPThrottled_def recordSuccess_def recordTOTPSuccess_def authTracker0_def Let_def)

lemma bob_login:
  "httpLoginHandler env0 bobLogin nexusBob = httpLoginSession env0 bobLogin ''bob'' '''' nexusBob"
proof -
  have "rMethod bobLogin = ''POST''" "rBody bobLogin = Some [(''username'', ''bob''), (''password'', ''hunter22'')]"
    by (simp_all add: bobLogin_def request0_def)
  then show ?thesis
    by (simp add: httpLoginHandler_def field_def aget_def bob_auth bob_factor bob_self tracker0)
qed

lemma randDigits_env0_step:
  "randDigits env0 (Suc n) s =
     (let (s', r) = randDigits env0 n (s\<lparr>rng := rng s + 1\<rparr>) in (s', map_option (\<lambda>ds. char_of (48 + rng s mod 10) # ds) r))"
  by simp

lemma randDigits_env0:
  assumes "rng s = 2"
  shows "randDigits env0 6 s = (s\<lparr>rng := 8\<rparr>, Some ''234567'')"
proof -
  have "randDigits env0 (Suc (Suc (Suc (Suc (Suc (Suc 0)))))) s = (s\<lparr>rng := 8\<rparr>, Some ''234567'')"
    unfolding randDigits_env0_step by (simp add: assms) code_simp
  moreover have "Suc (Suc (Suc (Suc (Suc (Suc 0))))) = 6" by simp
  ultimately show ?thesis by simp
qed

lemma createDeviceChallenge_sends:
  assumes "randDigits e 6 s = (s1, Some code)" and "emailOf u (DB s1) \<noteq> ''''" and "mailConfigured e" and "e_mailOk e"
  shows "mails (fst (createDeviceChallenge e u did tok label ip s)) = mails s1 @ [MailDeviceCode (emailOf u (DB s1)) label ip code]"
  using assms by (simp add: createDeviceChallenge_def Let_def sendTo_eq emailOf_def userRow_def)

lemma createDeviceChallenge_tracker:
  "authTracker (fst (createDeviceChallenge e u did tok label ip s)) = authTracker s"
  by (auto simp: createDeviceChallenge_def Let_def sendTo_eq dest!: randDigits_same split: prod.splits option.splits)

lemma bob_session:
  "hStatus (snd (httpLoginSession env0 bobLogin ''bob'' '''' nexusBob)) = 200"
  "(''phaze_session'', bobToken, 2592000) \<in> set (hCookies (snd (httpLoginSession env0 bobLogin ''bob'' '''' nexusBob)))"
  "mails (fst (httpLoginSession env0 bobLogin ''bob'' '''' nexusBob)) = [MailDeviceCode ''b@x'' ''Unknown device'' ''1.2.3.4'' ''234567'']"
  "authTracker (fst (httpLoginSession env0 bobLogin ''bob'' '''' nexusBob)) = authTracker0"
proof -
  let ?sa = "nexusBob\<lparr>rng := 1, DB := (DB nexusBob)\<lparr>session_tokens := [newSession env0 (720 * hour) bobToken ''bob'' ''web'']\<rparr>\<rparr>"
  have i: "issueSessionToken env0 ''bob'' ''web'' nexusBob = (?sa, bobToken, None)"
    using bob_issue [of nexusBob] by (simp add: bob_self bobToken)
  have r: "deviceIDFromRequest bobLogin = ''''" "rHeader bobLogin h = ''''" for h
    by (simp_all add: deviceIDFromRequest_def bobLogin_def request0_def)
  have k: "deviceVerificationEnabled env0" "isKnownDevice u '''' d = False" "mailConfigured env0" for u d
    using bob_login_gate by (auto simp: isKnownDevice_def)
  have em: "emailOf ''bob'' (updUser u f ((DB nexusBob)\<lparr>session_tokens := x\<rparr>)) = ''b@x''"
    if "\<And>r. u_username (f r) = u_username r" "\<And>r. u_email (f r) = u_email r" for u f x
    by (simp add: emailOf_updUser that bob_self)
  note defs = Let_def httpLoginSession_def i r k canDeliverChallenge_def em randHex_def bob_ip
  show "hStatus (snd (httpLoginSession env0 bobLogin ''bob'' '''' nexusBob)) = 200"
    "(''phaze_session'', bobToken, 2592000) \<in> set (hCookies (snd (httpLoginSession env0 bobLogin ''bob'' '''' nexusBob)))"
    by (simp_all add: defs split_beta setSessionCookie_def setDeviceCookie_def)
  show "authTracker (fst (httpLoginSession env0 bobLogin ''bob'' '''' nexusBob)) = authTracker0"
    by (simp add: defs split_beta createDeviceChallenge_tracker bob_self)
  show "mails (fst (httpLoginSession env0 bobLogin ''bob'' '''' nexusBob)) = [MailDeviceCode ''b@x'' ''Unknown device'' ''1.2.3.4'' ''234567'']"
    using em by (simp add: defs split_beta createDeviceChallenge_sends [OF randDigits_env0] bob_self
        emailOf_def userRow_def markSessionPendingDevice_def deviceLabel_def ToLower_def isASCII_def)
qed

theorem http_login_sound_witness:
  "snd (authenticateUser env0 ''bob'' ''hunter22'' (DB nexusBob)) \<and>
   (\<forall>t. sessionUsername t bobToken (DB (fst (httpLoginHandler env0 bobLogin nexusBob))) = '''')"
proof -
  have l: "httpLoginHandler env0 bobLogin nexusBob =
      (fst (httpLoginHandler env0 bobLogin nexusBob), snd (httpLoginHandler env0 bobLogin nexusBob))" by simp
  have "rBody bobLogin = Some body \<Longrightarrow> field ''username'' body = ''bob'' \<and> field ''password'' body = ''hunter22''" for body
    by (auto simp: bobLogin_def field_def aget_def)
  then show ?thesis
    using http_login_sound [OF l, of bobToken 2592000] bob_session bob_login_gate bob_login by fastforce
qed

theorem device_code_roundtrip_witness:
  "hStatus (snd (httpVerifyDeviceHandler env0 bobCode (fst (httpLoginHandler env0 bobLogin nexusBob)))) = 200"
proof -
  let ?l = "httpLoginHandler env0 bobLogin nexusBob"
  have b: "rBody bobLogin = Some [(''username'', ''bob''), (''password'', ''hunter22'')]" by (simp add: bobLogin_def)
  have c: "rMethod bobCode = ''POST''" "tokenFromRequest bobCode = bobToken" "rBody bobCode = Some [(''code'', ''234567'')]"
    by (simp_all add: bobCode_def request0_def tokenFromRequest_def bobToken_def)
  have t: "authTracker (fst ?l) = authTracker0" using bob_session bob_login by simp
  show ?thesis
    using device_code_roundtrip [where e = env0 and r = bobLogin and s = nexusBob and ?s1.0 = "fst ?l" and h = "snd ?l"
        and tok = bobToken and m = 2592000 and u = "''bob''" and ?r2.0 = bobCode and ?e2.0 = env0 and code = "''234567''"
        and ?h2.0 = "snd (httpVerifyDeviceHandler env0 bobCode (fst ?l))" and ?s2.0 = "fst (httpVerifyDeviceHandler env0 bobCode (fst ?l))"
        and email = "''b@x''" and label = "''Unknown device''" and ip = "''1.2.3.4''", OF _ _ _ _ b _ _ _ c]
      bob_session bob_login_gate bob_self
    by (simp add: bob_login field_def aget_def trim_code t tracker0 minute_def second_def)
qed

end
