(* ===== verification/Admin.thy ===== *)
theory Admin
  imports LoginHttp HandlersSpaces
begin

text \<open>
  The staff interface of \<^verbatim>\<open>nexus_server/main.go\<close>: the admin portal's login, moderation of users, reports,
  servers and messages, IP blocks, notices and listings.  Every handler but login and logout starts with
  \<^verbatim>\<open>adminFromRequest\<close> (\<open>asAdmin\<close>) or \<^verbatim>\<open>modFromRequest\<close> (\<open>asMod\<close>).  The portal's HTML page is not modelled.
\<close>

definition asAdmin :: "(string \<Rightarrow> http_handler) \<Rightarrow> http_handler" where
  "asAdmin f e r s = (case adminFromRequest e r s of Inl h \<Rightarrow> (s, h) | Inr u \<Rightarrow> f u e r s)"

definition asMod :: "string \<Rightarrow> (string \<Rightarrow> http_handler) \<Rightarrow> http_handler" where
  "asMod minRole f e r s = (case modFromRequest e minRole r s of Inl h \<Rightarrow> (s, h) | Inr (u, role) \<Rightarrow> f u e r s)"

abbreviation okJson :: "json \<Rightarrow> http_reply" where
  "okJson j \<equiv> reply 200 (Json j)"

abbreviation statusOK :: http_reply where
  "statusOK \<equiv> okJSON [(''status'', JStr ''ok'')]"

section \<open>Listings\<close>

definition timeOr :: "env \<Rightarrow> time option \<Rightarrow> string" where
  "timeOr e t = (case t of None \<Rightarrow> '''' | Some v \<Rightarrow> e_timeText e v)"

definition adminPendingVerificationsHandler :: http_handler where
  "adminPendingVerificationsHandler = asAdmin (\<lambda>admin e r s.
     (s, okJson (JList (map (\<lambda>u. JObj [(''username'', JStr (u_username u)), (''email'', JStr (u_email u)),
            (''verification_code'', JStr (the (u_verification_code u))), (''created_at'', JStr (e_timeText e (u_created_at u)))])
        (filter (\<lambda>u. u_verification_code u \<noteq> None)
          (take 100 (sort_key (\<lambda>u. - u_created_at u)
            (filter (\<lambda>u. \<not> u_is_verified u \<and> u_created_at u > sqlNow (e_now e) - 24 * hour) (users (DB s))))))))))"

definition AdminReport :: "env \<Rightarrow> report_row \<Rightarrow> json" where
  "AdminReport e rp = JObj ([(''id'', JInt (rp_id rp)), (''reporter'', JStr (rp_reporter rp)), (''subject'', JStr (rp_subject rp)),
     (''reason'', JStr (rp_reason rp)), (''body'', JStr (rp_body rp)), (''status'', JStr (rp_status rp))] @
     omitempty ''resolved_by'' (JStr (rp_resolved_by rp)) @ omitempty ''resolved_at'' (JStr (timeOr e (rp_resolved_at rp))) @
     [(''created_at'', JStr (e_timeText e (rp_created_at rp)))])"

definition queryStatus :: "http_request \<Rightarrow> string" where
  "queryStatus r = (if rQuery r ''status'' = '''' then ''pending'' else rQuery r ''status'')"

definition adminReportsHandler :: http_handler where
  "adminReportsHandler = asAdmin (\<lambda>admin e r s.
     (s, okJson (JList (map (AdminReport e)
        (sql_last_desc 500 (filter (\<lambda>rp. rp_status rp = queryStatus r) (abuse_reports (DB s))))))))"

definition adminBMCPaymentsHandler :: http_handler where
  "adminBMCPaymentsHandler = asAdmin (\<lambda>admin e r s.
     (s, okJson (JList (map (\<lambda>p. JObj [(''id'', JInt (bp_id p)), (''supporter_name'', JStr (bp_supporter_name p)),
            (''supporter_email'', JStr (bp_supporter_email p)), (''amount'', JStr (bp_amount p)), (''message'', JStr (bp_message p)),
            (''matched_username'', JStr (bp_matched_username p)), (''created_at'', JStr (e_timeText e (bp_created_at p)))])
        (sql_last_desc 200 (bmc_payments (DB s)))))))"

definition pageArg :: "(int \<Rightarrow> bool) \<Rightarrow> int \<Rightarrow> string \<Rightarrow> int" where
  "pageArg ok d txt = (case ParseInt txt of Some v \<Rightarrow> if ok v then v else d | None \<Rightarrow> d)"

definition adminUser :: "env \<Rightarrow> NexusServer \<Rightarrow> user_row \<Rightarrow> json" where
  "adminUser e s u = JObj [(''username'', JStr (u_username u)), (''email'', JStr (u_email u)), (''verified'', JBool (u_is_verified u)),
     (''banned'', JBool (u_is_banned u)), (''is_admin'', JBool (u_is_admin u)), (''role'', JStr (u_role u)),
     (''ban_reason'', JStr (u_ban_reason u)), (''created_at'', JStr (e_timeText e (u_created_at u))), (''last_ip'', JStr (u_last_ip u)),
     (''signup_ip'', JStr (u_signup_ip u)), (''last_login_at'', JStr (timeOr e (u_last_login_at u))),
     (''online'', JBool (u_username u \<in> set (onlineUsernames s)))]"

definition adminUsersHandler :: http_handler where
  "adminUsersHandler = asMod ''helper'' (\<lambda>staff e r s.
     (let limit = min 1000 (pageArg (\<lambda>l. l > 0) 100 (rQuery r ''limit'')); offset = pageArg (\<lambda>v. v \<ge> 0) 0 (rQuery r ''offset'');
          search = rQuery r ''search''; pat = ''%'' @ search @ ''%'';
          hits = (if search \<noteq> ''''
                  then filter (\<lambda>u. sqlLike pat (u_username u) \<or> sqlLike pat (u_email u) \<or> sqlLike pat (u_last_ip u) \<or>
                                   sqlLike pat (u_signup_ip u)) (users (DB s))
                  else users (DB s));
          page = take (nat limit) (drop (nat offset) (sort_key (\<lambda>u. - u_created_at u) hits))
      in (s, okJSON [(''users'', JList (map (adminUser e s) page)), (''total'', JInt (int (length hits))),
                     (''limit'', JInt limit), (''offset'', JInt offset)])))"

definition adminStatsHandler :: "services \<Rightarrow> http_handler" where
  "adminStatsHandler x = asAdmin (\<lambda>admin e r s.
     (s, okJSON [(''online'', JInt (int (onlineUserCount s))), (''total_users'', JInt (int (length (users (DB s))))),
        (''verified'', JInt (int (sql_count u_is_verified (users (DB s))))), (''banned'', JInt (int (sql_count u_is_banned (users (DB s))))),
        (''total_messages'', JInt (int (length (channel_messages (DB s))))), (''total_dms'', JInt (int (length (dm_messages (DB s))))),
        (''db_size_mb'', JQuot (x_dbSize x) (1024 * 1024))]))"

definition adminLogsHandler :: http_handler where
  "adminLogsHandler = asAdmin (\<lambda>admin e r s.
     (s, okJson (JList (map (\<lambda>u. JObj [(''username'', JStr (u_username u)), (''ip'', JStr (u_last_ip u)),
            (''login_at'', JStr (timeOr e (u_last_login_at u))), (''joined_at'', JStr (e_timeText e (u_created_at u)))])
        (take 50 (sort_key (\<lambda>u. - the (u_last_login_at u)) (filter (\<lambda>u. u_last_login_at u \<noteq> None) (users (DB s)))))))))"

definition adminGeoHandler :: "services \<Rightarrow> http_handler" where
  "adminGeoHandler x = asAdmin (\<lambda>admin e r s.
     (if rQuery r ''ip'' = '''' then (s, httpError ''ip required'' 400)
      else case x_geo x (rQuery r ''ip'') of None \<Rightarrow> (s, okJSON []) | Some txt \<Rightarrow> (s, reply 200 (Text txt))))"

definition adminBannedUsersHandler :: http_handler where
  "adminBannedUsersHandler = asAdmin (\<lambda>admin e r s.
     (s, okJson (JList (map (\<lambda>u. JObj [(''username'', JStr (u_username u)), (''reason'', JStr (u_ban_reason u)),
            (''banned_at'', JStr (timeOr e (u_banned_at u)))])
        (take 500 (sort_key (\<lambda>u. - the (u_banned_at u)) (filter (\<lambda>u. u_is_banned u \<and> u_banned_at u \<noteq> None) (users (DB s))) @
                   filter (\<lambda>u. u_is_banned u \<and> u_banned_at u = None) (users (DB s))))))))"

definition adminMeHandler :: http_handler where
  "adminMeHandler = asAdmin (\<lambda>admin e r s.
     (s, okJSON [(''username'', JStr admin), (''role'', JStr (userRole admin (DB s)))]))"

section \<open>Signing in\<close>

definition adminLoginHandler :: http_handler where
  "adminLoginHandler e r s0 =
     (if rMethod r \<noteq> ''POST'' then (s0, httpError ''POST required'' 405)
      else case rBody r of
        None \<Rightarrow> (s0, httpError ''bad json'' 400)
      | Some body \<Rightarrow>
          let u = field ''username'' body; (d1, ok) = authenticateUser e u (field ''password'' body) (DB s0); s1 = s0\<lparr>DB := d1\<rparr>
          in if \<not> ok then (s1, httpError ''invalid credentials'' 401)
             else if roleRank (userRole u (DB s1)) < roleRank ''helper'' \<and> \<not> userIsAdmin u (DB s1)
             then (s1, httpError ''not a staff account'' 403)
             else
               let role = (if roleRank (userRole u (DB s1)) < roleRank ''helper'' then ''super_admin'' else userRole u (DB s1));
                   (s2, tok, err) = issueAdminSessionToken e u s1
               in if err \<noteq> None then (s2, httpError ''session error'' 500)
                  else (s2, \<lparr> hStatus = 200, hCookies = [(''phaze_admin_token'', tok, 0)],
                             hBody = Json (JObj [(''token'', JStr tok), (''username'', JStr u), (''role'', JStr role)]) \<rparr>))"

definition adminLogoutHandler :: http_handler where
  "adminLogoutHandler e r s =
     (s, \<lparr> hStatus = 200, hCookies = [(''phaze_admin_token'', '''', -1)], hBody = Json (JObj [(''ok'', JBool True)]) \<rparr>)"

section \<open>Servers and messages\<close>

text \<open>A text compared with an \<^verbatim>\<open>INTEGER\<close> column matches no row when SQLite reads no integer from it.\<close>

definition sameID :: "services \<Rightarrow> string \<Rightarrow> int \<Rightarrow> bool" where
  "sameID x txt i \<longleftrightarrow> x_sqlInt x txt = Some i"

definition deleteServerRows :: "string \<Rightarrow> database \<Rightarrow> database" where
  "deleteServerRows sid d =
     d\<lparr> channel_messages := sql_delete (\<lambda>m. sql_row (\<lambda>c. ch_server_id c = sid \<and> ch_id c = cr_channel_id m) (channels d) \<noteq> None)
          (channel_messages d),
        channels := sql_delete (\<lambda>c. ch_server_id c = sid) (channels d),
        server_members := sql_delete (\<lambda>m. sm_server_id m = sid) (server_members d),
        servers := sql_delete (\<lambda>v. sv_id v = sid) (servers d) \<rparr>"

definition adminServersHandler :: http_handler where
  "adminServersHandler = asAdmin (\<lambda>admin e r s.
     (if rMethod r = ''DELETE''
      then (if rQuery r ''id'' = '''' then (s, httpError ''id required'' 400)
            else (withDB (deleteServerRows (rQuery r ''id'')) s, statusOK))
      else (s, okJson (JList (map (\<lambda>v. JObj [(''id'', JStr (sv_id v)), (''name'', JStr (sv_name v)), (''owner'', JStr (sv_owner v)),
              (''visibility'', JStr (sv_visibility v)), (''created_at'', JStr (e_timeText e (sv_created_at v))),
              (''member_count'', JInt (int (sql_count (\<lambda>m. sm_server_id m = sv_id v) (server_members (DB s)))))])
            (take 500 (sort_key (\<lambda>v. - sv_created_at v) (servers (DB s)))))))))"

definition searchText :: "http_request \<Rightarrow> string" where
  "searchText r = take 200 (TrimSpace (rQuery r ''q''))"

definition channelMsgHits :: "string \<Rightarrow> database \<Rightarrow> (channel_msg_row \<times> channel_row \<times> server_row) list" where
  "channelMsgHits pat d =
     concat (map (\<lambda>m. concat (map (\<lambda>c. map (\<lambda>v. (m, c, v)) (filter (\<lambda>v. sv_id v = ch_server_id c) (servers d)))
                         (filter (\<lambda>c. ch_id c = cr_channel_id m) (channels d))))
            (filter (\<lambda>m. sqlLike pat (cr_sender m) \<or> sqlLike pat (cr_body m)) (channel_messages d)))"

definition adminMessagesHandler :: "services \<Rightarrow> http_handler" where
  "adminMessagesHandler x = asAdmin (\<lambda>admin e r s.
     (if rMethod r = ''DELETE''
      then (if rQuery r ''id'' = '''' then (s, httpError ''id required'' 400)
            else (withDB (\<lambda>d. d\<lparr>channel_messages := sql_delete (\<lambda>m. sameID x (rQuery r ''id'') (cr_id m)) (channel_messages d)\<rparr>) s, statusOK))
      else if searchText r = '''' then (s, httpError ''q required'' 400)
      else (s, okJson (JList (map (\<lambda>(m, c, v). JObj [(''id'', JInt (cr_id m)), (''channel_id'', JStr (cr_channel_id m)),
              (''channel_name'', JStr (ch_name c)), (''server_name'', JStr (sv_name v)), (''sender'', JStr (cr_sender m)),
              (''body'', JStr (cr_body m)), (''created_at'', JStr (e_timeText e (cr_created_at m)))])
            (take 100 (sort_key (\<lambda>(m, c, v). - cr_created_at m) (channelMsgHits (''%'' @ searchText r @ ''%'') (DB s)))))))))"

definition adminDMsHandler :: "services \<Rightarrow> http_handler" where
  "adminDMsHandler x = asAdmin (\<lambda>admin e r s.
     (let pat = ''%'' @ searchText r @ ''%''
      in if rMethod r = ''DELETE''
         then (if rQuery r ''id'' = '''' then (s, httpError ''id required'' 400)
               else (withDB (\<lambda>d. d\<lparr>dm_messages := sql_delete (\<lambda>m. sameID x (rQuery r ''id'') (dr_id m)) (dm_messages d)\<rparr>) s, statusOK))
         else if searchText r = '''' then (s, httpError ''q required'' 400)
         else (s, okJson (JList (map (\<lambda>m. JObj [(''id'', JInt (dr_id m)), (''sender'', JStr (dr_sender m)),
                 (''recipient'', JStr (dr_recipient m)), (''body'', JStr (dr_body m)), (''created_at'', JStr (e_timeText e (dr_created_at m)))])
               (take 100 (sort_key (\<lambda>m. - dr_created_at m)
                 (filter (\<lambda>m. sqlLike pat (dr_sender m) \<or> sqlLike pat (dr_recipient m) \<or> sqlLike pat (dr_body m))
                   (dm_messages (DB s))))))))))"

section \<open>Supporters\<close>

definition setSupporter :: "string \<Rightarrow> database \<Rightarrow> database" where
  "setSupporter u d = updUser u (\<lambda>r. r\<lparr>u_supporter := True\<rparr>) d"

text \<open>\<^verbatim>\<open>supporter_requests\<close> has no unique key, so \<^verbatim>\<open>INSERT OR IGNORE\<close> always inserts.\<close>

definition insertSupporter :: "time \<Rightarrow> string \<Rightarrow> string \<Rightarrow> string \<Rightarrow> string \<Rightarrow> database \<Rightarrow> database" where
  "insertSupporter now username name email status d =
     (takeID ''supporter_requests'' d)\<lparr>supporter_requests := supporter_requests d @
        [\<lparr> sp_id = nextID ''supporter_requests'' d, sp_username = username, sp_name = name, sp_email = email,
          sp_status = status, sp_created_at = sqlNow now \<rparr>]\<rparr>"

definition adminGrantSupporterHandler :: http_handler where
  "adminGrantSupporterHandler = asAdmin (\<lambda>admin e r s.
     (if rMethod r \<noteq> ''POST'' then (s, httpError ''POST required'' 405)
      else case rBody r of
        None \<Rightarrow> (s, httpError ''username required'' 400)
      | Some body \<Rightarrow>
          let username = TrimSpace (field ''username'' body)
          in if username = '''' then (s, httpError ''username required'' 400)
             else if userRow username (DB s) = None then (s, httpError ''user not found'' 404)
             else (withDB (\<lambda>d. insertSupporter (e_now e) username username '''' ''granted'' (setSupporter username d)) s, statusOK)))"

section \<open>Reports and users\<close>

definition adminResolveReportHandler :: http_handler where
  "adminResolveReportHandler = asAdmin (\<lambda>admin e r s.
     (let parts = strSplit CHR ''/'' (TrimPrefix (rPath r) ''/api/v1/admin/reports/'')
      in if rMethod r \<noteq> ''POST'' then (s, httpError ''method not allowed'' 405)
         else if length parts < 2 \<or> parts ! 1 \<noteq> ''resolve'' then (s, httpError ''expected /api/v1/admin/reports/{id}/resolve'' 400)
         else case ParseInt (parts ! 0) of
                None \<Rightarrow> (s, httpError ''bad report id'' 400)
              | Some i \<Rightarrow>
                  if sql_count (\<lambda>rp. rp_id rp = i) (abuse_reports (DB s)) = 0 then (s, httpError ''report not found'' 404)
                  else (withDB (\<lambda>d. d\<lparr>abuse_reports := sql_update (\<lambda>rp. rp_id rp = i)
                           (\<lambda>rp. rp\<lparr>rp_status := ''resolved'', rp_resolved_by := admin, rp_resolved_at := Some (sqlNow (e_now e))\<rparr>)
                           (abuse_reports d)\<rparr>) s,
                        okJSON [(''ok'', JBool True), (''id'', JInt i)])))"

definition knownRole :: "string \<Rightarrow> bool" where
  "knownRole role \<longleftrightarrow> role \<in> {''user'', ''helper'', ''moderator'', ''admin'', ''super_admin''}"

definition banUser :: "env \<Rightarrow> string \<Rightarrow> string \<Rightarrow> NexusServer \<Rightarrow> NexusServer" where
  "banUser e target reason s =
     (let d1 = updUser target (\<lambda>u. u\<lparr>u_is_banned := True, u_ban_reason := reason, u_banned_at := Some (sqlNow (e_now e))\<rparr>) (DB s);
          d2 = updSession (\<lambda>t. se_username t = target) (\<lambda>t. t\<lparr>se_revoked := True\<rparr>) d1
      in dropAllClients e target (msg0\<lparr>mType := ''kicked'', mBody := suspendedText reason\<rparr>) (s\<lparr>DB := d2\<rparr>))"

definition setRole :: "string \<Rightarrow> string \<Rightarrow> database \<Rightarrow> database" where
  "setRole target role d = updUser target (\<lambda>u. u\<lparr>u_role := role, u_is_admin := roleRank role \<ge> roleRank ''admin''\<rparr>) d"

lemma sessionUsername_revoked:
  "u \<noteq> '''' \<Longrightarrow> sessionUsername now tok (updSession (\<lambda>t. se_username t = u) (\<lambda>t. t\<lparr>se_revoked := True\<rparr>) d) \<noteq> u"
  by (auto simp: sessionUsername_row sessionRow_updSession split: option.splits)

lemma userBanInfo_updSession [simp]: "userBanInfo u (updSession P f d) = userBanInfo u d"
  by (simp add: userBanInfo_def userRow_def updSession_def)

definition adminBanHandler :: http_handler where
  "adminBanHandler = asAdmin (\<lambda>admin e r s.
     (let parts = strSplit CHR ''/'' (TrimPrefix (rPath r) ''/api/v1/admin/users/''); target = parts ! 0; action = parts ! 1;
          body = (if rContentLength r > 0 \<and> rContentLength r < 4096 then case rBody r of None \<Rightarrow> [] | Some b \<Rightarrow> b else []);
          reason = TrimSpace (field ''reason'' body); role = field ''role'' body; missing = userRow target (DB s) = None;
          done = okJSON [(''ok'', JBool True), (''user'', JStr target), (''action'', JStr action)];
          actorRank = roleRank (userRole admin (DB s))
      in if rMethod r \<noteq> ''POST'' then (s, httpError ''method not allowed'' 405)
         else if length parts < 2 then (s, httpError ''expected /api/v1/admin/users/{username}/(ban|unban|role)'' 400)
         else if target = '''' \<or> \<not> validUsername target then (s, httpError ''bad username'' 400)
         else if target = admin then (s, httpError ''cannot ban yourself'' 400)
         else if action = ''ban''
         then (if missing then (s, httpError ''user not found'' 404) else (banUser e target reason s, done))
         else if action = ''unban''
         then (if missing then (s, httpError ''user not found'' 404)
               else (withDB (updUser target (\<lambda>u. u\<lparr>u_is_banned := False, u_ban_reason := '''', u_banned_at := None\<rparr>)) s, done))
         else if action = ''role''
         then (if \<not> knownRole role then (s, httpError ''unknown role (use user|helper|moderator|admin|super_admin)'' 400)
               else if actorRank < roleRank ''admin'' then (s, httpError ''only admins can change roles'' 403)
               else if roleRank (userRole target (DB s)) \<ge> actorRank then (s, httpError ''cannot modify a peer or higher-ranked user'' 403)
               else if roleRank role \<ge> actorRank then (s, httpError ''cannot set a role >= your own'' 403)
               else (withDB (setRole target role) s, done))
         else if action = ''reset_totp'' then (withDB (disableTOTP target) s, reply 204 NoBody)
         else if action = ''delete''
         then (dropAllClients e target (msg0\<lparr>mType := ''kicked'', mBody := ''Account deleted by admin''\<rparr>) (withDB (deleteAccount target) s), done)
         else (s, httpError ''expected /ban, /unban, /role, or /delete'' 400)))"

definition adminVerifyUserHandler :: http_handler where
  "adminVerifyUserHandler = asAdmin (\<lambda>admin e r s.
     (if rMethod r \<noteq> ''POST'' then (s, httpError ''POST required'' 405)
      else case rBody r of
        None \<Rightarrow> (s, httpError ''username required'' 400)
      | Some body \<Rightarrow>
          if field ''username'' body = '''' then (s, httpError ''username required'' 400)
          else (withDB (updUser (field ''username'' body) (\<lambda>u. u\<lparr>u_is_verified := True\<rparr>)) s, okJSON [(''ok'', JStr ''true'')])))"

section \<open>Notices and address blocks\<close>

definition adminBroadcastHandler :: http_handler where
  "adminBroadcastHandler = asAdmin (\<lambda>admin e r s.
     (if rMethod r \<noteq> ''POST'' then (s, httpError ''POST required'' 405)
      else case rBody r of
        None \<Rightarrow> (s, httpError ''bad json or empty message'' 400)
      | Some body \<Rightarrow>
          let txt = TrimSpace (field ''message'' body); i = nextID ''channel_messages'' (DB s); ch = ''global-announcements''
          in if txt = '''' then (s, httpError ''bad json or empty message'' 400)
             else
               let s1 = withDB (\<lambda>d. (takeID ''channel_messages'' d)\<lparr>channel_messages := channel_messages d @
                          [\<lparr> cr_id = i, cr_channel_id = ch, cr_sender = admin, cr_body = txt, cr_created_at = sqlNow (e_now e),
                             cr_edited = False, cr_deleted = False, cr_pinned = False \<rparr>]\<rparr>) s;
                   cm = channelMsg0\<lparr>cmID := i, cmChannelID := ch, cmSender := admin, cmBody := txt, cmCreatedAt := sqlNow (e_now e)\<rparr>
               in (broadcastAll e (msg0\<lparr>mType := ''channel_msg_in'', mChannelID := ch, mServerID := globalSpaceID, mMessages := [cm]\<rparr>) s1,
                   okJSON [(''id'', JInt i), (''ok'', JBool True)])))"

definition adminGlobalNoticeHandler :: http_handler where
  "adminGlobalNoticeHandler = asAdmin (\<lambda>admin e r s.
     (if rMethod r \<noteq> ''POST'' then (s, httpError ''POST required'' 405)
      else case rBody r of
        None \<Rightarrow> (s, httpError ''message required'' 400)
      | Some body \<Rightarrow>
          if field ''message'' body = '''' then (s, httpError ''message required'' 400)
          else (broadcastAll e (msg0\<lparr>mType := ''global_notice'', mBody := field ''message'' body, mSender := admin\<rparr>) s,
                okJSON [(''ok'', JStr ''true'')])))"

definition kickAddress :: "env \<Rightarrow> string \<Rightarrow> NexusServer \<Rightarrow> NexusServer" where
  "kickAddress e ip s =
     closeAll e (filter (\<lambda>c. cIP (conns s c) = ip) (concat (map snd (Clients s))))
       (msg0\<lparr>mType := ''kicked'', mBody := ''Your IP has been blocked''\<rparr>) s"

definition adminIPBlockHandler :: http_handler where
  "adminIPBlockHandler = asAdmin (\<lambda>admin e r s.
     (if rMethod r = ''GET'' then (s, okJson (JList (map JStr (blockedIPs s))))
      else if rMethod r \<noteq> ''POST'' then (s, httpError ''GET or POST'' 405)
      else case rBody r of
        None \<Rightarrow> (s, httpError ''ip required'' 400)
      | Some body \<Rightarrow>
          let ip = field ''ip'' body; done = okJSON [(''ok'', JStr ''true'')]
          in if ip = '''' then (s, httpError ''ip required'' 400)
             else if field ''action'' body = ''unblock'' then (unblockIP ip s, done)
             else (kickAddress e ip (blockIP ip s), done)))"

end
