(* ===== verification/Supporters.thy ===== *)
theory Supporters
  imports Admin
begin

text \<open>
  Supporter badges, \<^verbatim>\<open>nexus_server/supporters.go\<close>: the public form, the staff queue and the payment
  webhook with its signature check.
\<close>

definition bmcURL :: "env \<Rightarrow> string" where
  "bmcURL e = (let u = TrimSpace (e_getenv e ''BMC_URL'') in if u \<noteq> '''' then u else ''https://buymeacoffee.com/phazeworld'')"

definition supportRequestHandler :: http_handler where
  "supportRequestHandler e r s =
     (if rMethod r \<noteq> ''POST'' then (s, httpError ''method not allowed'' 405)
      else case rBody r of
        None \<Rightarrow> (s, httpError ''bad request'' 400)
      | Some body \<Rightarrow>
          let username = TrimSpace (field ''username'' body); name = TrimSpace (field ''name'' body); email = TrimSpace (field ''email'' body)
          in if name = '''' \<or> email = '''' then (s, httpError ''name and email are required'' 400)
             else if \<not> e_parseAddress e email then (s, httpError ''invalid email'' 400)
             else if length username > 64 \<or> length name > 120 \<or> length email > 200 then (s, httpError ''field too long'' 400)
             else let s1 = withDB (insertSupporter (e_now e) username name email ''pending'') s
                  in (s1\<lparr>mails := mails s1 @ [MailSupporter email name]\<rparr>,
                      okJSON [(''status'', JStr ''ok''), (''bmc_url'', JStr (bmcURL e))]))"

definition SupporterRequest :: "env \<Rightarrow> supporter_row \<Rightarrow> json" where
  "SupporterRequest e p = JObj [(''id'', JInt (sp_id p)), (''username'', JStr (sp_username p)), (''name'', JStr (sp_name p)),
     (''email'', JStr (sp_email p)), (''status'', JStr (sp_status p)), (''created_at'', JStr (e_timeText e (sp_created_at p)))]"

definition adminSupportersHandler :: http_handler where
  "adminSupportersHandler = asAdmin (\<lambda>admin e r s.
     (s, okJson (JList (map (SupporterRequest e)
        (sql_last_desc 500 (filter (\<lambda>p. sp_status p = queryStatus r) (supporter_requests (DB s))))))))"

definition setRequestStatus :: "int \<Rightarrow> string \<Rightarrow> database \<Rightarrow> database" where
  "setRequestStatus i st d =
     d\<lparr>supporter_requests := sql_update (\<lambda>p. sp_id p = i) (\<lambda>p. p\<lparr>sp_status := st\<rparr>) (supporter_requests d)\<rparr>"

definition adminSupporterActionHandler :: http_handler where
  "adminSupporterActionHandler = asAdmin (\<lambda>admin e r s.
     (let parts = strSplit CHR ''/'' (TrimPrefix (rPath r) ''/api/v1/admin/supporters/'')
      in if rMethod r \<noteq> ''POST'' then (s, httpError ''method not allowed'' 405)
         else if length parts \<noteq> 2 then (s, httpError ''expected /api/v1/admin/supporters/{id}/(grant|dismiss)'' 400)
         else case ParseInt (parts ! 0) of
                None \<Rightarrow> (s, httpError ''bad id'' 400)
              | Some i \<Rightarrow>
                  if parts ! 1 = ''grant''
                  then (case sql_row (\<lambda>p. sp_id p = i) (supporter_requests (DB s)) of
                          None \<Rightarrow> (s, httpError ''not found'' 404)
                        | Some p \<Rightarrow>
                            let d1 = setRequestStatus i ''granted'' (DB s)
                            in (s\<lparr>DB := if TrimSpace (sp_username p) \<noteq> '''' then setSupporter (sp_username p) d1 else d1\<rparr>, statusOK))
                  else if parts ! 1 = ''dismiss'' then (withDB (setRequestStatus i ''dismissed'') s, statusOK)
                  else (s, httpError ''unknown action'' 400)))"

section \<open>The payment webhook\<close>

fun hexDecode :: "string \<Rightarrow> string option" where
  "hexDecode [] = Some []"
| "hexDecode [c] = None"
| "hexDecode (a # b # cs) =
     (case (hexVal a, hexVal b, hexDecode cs) of
        (Some x, Some y, Some ds) \<Rightarrow> Some (char_of (16 * x + y) # ds)
      | _ \<Rightarrow> None)"

definition bmcSigningKeys :: "string \<Rightarrow> string list" where
  "bmcSigningKeys secret = (case hexDecode secret of Some k \<Rightarrow> [k, secret] | None \<Rightarrow> [secret])"

definition bmcGrantByEmail :: "env \<Rightarrow> string \<Rightarrow> string \<Rightarrow> database \<Rightarrow> database \<times> string" where
  "bmcGrantByEmail e email name d =
     (let hit = sql_row (\<lambda>p. map asciiLower (sp_email p) = email \<and> sp_status p = ''pending'') (rev (supporter_requests d));
          d1 = (case hit of None \<Rightarrow> d | Some p \<Rightarrow> setRequestStatus (sp_id p) ''granted'' d);
          byAccount = (case sql_row (\<lambda>u. map asciiLower (u_email u) = email \<and> u_is_verified u) (users d1) of
                         None \<Rightarrow> (d1, '''')
                       | Some u \<Rightarrow>
                           if u_username u \<noteq> ''''
                           then (insertSupporter (e_now e) (u_username u) name email ''granted'' (setSupporter (u_username u) d1), u_username u)
                           else (d1, ''''))
      in case hit of
           None \<Rightarrow> byAccount
         | Some p \<Rightarrow> if sp_username p \<noteq> '''' then (setSupporter (sp_username p) d1, sp_username p) else byAccount)"

definition bmcSignatureOk :: "env \<Rightarrow> services \<Rightarrow> http_request \<Rightarrow> bool" where
  "bmcSignatureOk e x r =
     (let secret = TrimSpace (e_getenv e ''BMC_WEBHOOK_SECRET'');
          sig0 = (if rHeader r ''X-BMC-Signature'' = '''' then rHeader r ''X-Signature-Hmac-Sha256'' else rHeader r ''X-BMC-Signature'');
          sig = TrimPrefix sig0 ''sha256='';
          valid = list_ex (\<lambda>key. x_hmacSHA256 x key (rRaw r) = sig) (bmcSigningKeys secret)
      in secret = '''' \<or> sig = '''' \<or> valid)"

definition bmcWebhookHandler :: "services \<Rightarrow> http_handler" where
  "bmcWebhookHandler x e r s =
     (if rMethod r \<noteq> ''POST'' then (s, httpError ''POST required'' 405)
      else if \<not> bmcSignatureOk e x r then (s, httpError ''invalid signature'' 401)
      else case x_bmcDecode x (rRaw r) of
        None \<Rightarrow> (s, httpError ''bad json'' 400)
      | Some p \<Rightarrow>
          let name = (if pyDataName p = '''' then pyName p else pyDataName p);
              e1 = ToLower (e_uniLower e) (TrimSpace (pyDataEmail p));
              email = (if e1 = '''' then ToLower (e_uniLower e) (TrimSpace (pyEmail p)) else e1);
              amount = (if pyDataAmount p = '''' \<or> pyDataAmount p = ''0'' then pyAmount p else pyDataAmount p);
              m1 = (if pyDataNote p = '''' then pyDataMessage p else pyDataNote p);
              message = (if m1 = '''' then pyMessage p else m1)
          in if email = '''' then (s, reply 200 NoBody)
             else
               let (d1, matched) = bmcGrantByEmail e email name (DB s);
                   d2 = (takeID ''bmc_payments'' d1)\<lparr>bmc_payments := bmc_payments d1 @
                          [\<lparr> bp_id = nextID ''bmc_payments'' d1, bp_supporter_name = name, bp_supporter_email = email,
                             bp_amount = amount, bp_message = message, bp_matched_username = matched,
                             bp_created_at = sqlNow (e_now e) \<rparr>]\<rparr>
               in (s\<lparr>DB := d2\<rparr>, reply 200 NoBody))"

section \<open>The signature check can be skipped\<close>

text \<open>
  With a webhook secret configured, a request without any signature header is accepted: anybody can
  report a payment and so give a badge to the account of any verified e-mail address.
\<close>

theorem unsigned_payment_accepted:
  assumes "rMethod r = ''POST''" and "rHeader r ''X-BMC-Signature'' = ''''" and "rHeader r ''X-Signature-Hmac-Sha256'' = ''''"
    and "x_bmcDecode x (rRaw r) = Some p" and "ToLower (e_uniLower e) (TrimSpace (pyDataEmail p)) = email" and "email \<noteq> ''''"
    and "supporter_requests (DB s) = []" and "userRow v (DB s) = Some u" and "v \<noteq> ''''" and "u_is_verified u"
    and "\<And>w. w \<in> set (users (DB s)) \<Longrightarrow> map asciiLower (u_email w) = email \<longleftrightarrow> u_username w = v"
  shows "isSupporter v (DB (fst (bmcWebhookHandler x e r s)))"
proof -
  have "sql_row (\<lambda>w. map asciiLower (u_email w) = email \<and> u_is_verified w) (users (DB s)) \<noteq> None"
    using userRow_SomeD [OF assms(8)] assms(10,11) by (auto simp: sql_row_None)
  then obtain w where w: "sql_row (\<lambda>w. map asciiLower (u_email w) = email \<and> u_is_verified w) (users (DB s)) = Some w" by auto
  from sql_row_SomeD [OF w] assms(11) have "u_username w = v" by auto
  moreover have "bmcSignatureOk e x r" using assms(2,3) by (simp add: bmcSignatureOk_def TrimPrefix_def)
  moreover have "sql_row P (rev (supporter_requests (DB s))) = None" for P using assms(7) by (simp add: sql_row_def)
  ultimately have "users (DB (fst (bmcWebhookHandler x e r s))) = users (setSupporter v (DB s))"
    using assms w by (simp add: bmcWebhookHandler_def bmcGrantByEmail_def Let_def insertSupporter_def)
  then have "userRow v (DB (fst (bmcWebhookHandler x e r s))) = userRow v (setSupporter v (DB s))"
    by (simp add: userRow_def)
  then show ?thesis using assms(8) by (simp add: isSupporter_def setSupporter_def userRow_updUser)
qed

end
