(* ===== verification/Stories.thy ===== *)
theory Stories
  imports LoginHttp
begin

text \<open>
  Stories, \<^verbatim>\<open>nexus_server/stories.go\<close>: posts that expire after a day.  \<^verbatim>\<open>expires_at\<close> is written in the
  format \<^verbatim>\<open>RFC3339\<close> and compared with \<^verbatim>\<open>CURRENT_TIMESTAMP\<close> as text (\<^const>\<open>rfcAfterNow\<close>).
\<close>

definition storyTTL :: time where "storyTTL = 24 * hour"

definition storyJson :: "env \<Rightarrow> story_row \<Rightarrow> nat \<Rightarrow> json" where
  "storyJson e st views = JObj ([(''id'', JInt (st_id st)), (''author'', JStr (st_author st)), (''media_url'', JStr (st_media_url st)),
     (''media_kind'', JStr (st_media_kind st))] @ omitempty ''caption'' (JStr (st_caption st)) @
     [(''created_at'', JStr (e_timeText e (st_created_at st))), (''expires_at'', JStr (e_timeText e (st_expires_at st)))] @
     omitempty ''views'' (JInt (int views)))"

definition storiesCreateHandler :: http_handler where
  "storiesCreateHandler e r s =
     (case requireAuthHTTP e r s of
        Inl h \<Rightarrow> (s, h)
      | Inr user \<Rightarrow>
          if rMethod r \<noteq> ''POST'' then (s, httpError ''POST required'' 405)
          else case rBody r of
            None \<Rightarrow> (s, httpError ''bad json'' 400)
          | Some body \<Rightarrow>
              let url = field ''media_url'' body; kind = field ''media_kind'' body
              in if url = '''' then (s, httpError ''media_url required'' 400)
                 else if kind \<noteq> ''image'' \<and> kind \<noteq> ''video'' then (s, httpError ''media_kind must be image or video'' 400)
                 else
                   let row = \<lparr> st_id = nextID ''stories'' (DB s), st_author = user, st_media_url = url, st_media_kind = kind,
                               st_caption = take 280 (field ''caption'' body), st_created_at = sqlNow (e_now e),
                               st_expires_at = sqlNow (e_now e + storyTTL) \<rparr>
                   in (withDB (\<lambda>d. (takeID ''stories'' d)\<lparr>stories := stories d @ [row]\<rparr>) s, reply 200 (Json (storyJson e row 0))))"

definition activeStories :: "time \<Rightarrow> database \<Rightarrow> story_row list" where
  "activeStories now d = filter (\<lambda>st. rfcAfterNow (st_expires_at st) now) (stories d)"

definition storiesFeedHandler :: http_handler where
  "storiesFeedHandler e r s =
     (case requireAuthHTTP e r s of
        Inl h \<Rightarrow> (s, h)
      | Inr user \<Rightarrow>
          (s, reply 200 (Json (JList (map (\<lambda>st. storyJson e st 0)
                (take 500 (sort_key st_author (rev (activeStories (e_now e) (DB s))))))))))"

definition storyReplyText :: "string \<Rightarrow> string" where
  "storyReplyText body = [chr 226, chr 134, chr 169] @ '' reply to your story: '' @ TrimSpace body"

definition storyView :: "string \<Rightarrow> string \<Rightarrow> http_handler" where
  "storyView user idText e r s =
     (case ParseInt idText of
        None \<Rightarrow> (s, httpError ''bad id'' 400)
      | Some i \<Rightarrow> (withDB (\<lambda>d. d\<lparr>story_views := sql_insert_ignore (\<lambda>v. v) (i, user) (story_views d)\<rparr>) s, okJSON [(''ok'', JBool True)]))"

definition storyReply :: "string \<Rightarrow> string \<Rightarrow> http_handler" where
  "storyReply user idText e r s =
     (case ParseInt idText of
        None \<Rightarrow> (s, httpError ''bad id'' 400)
      | Some i \<Rightarrow>
          (case rBody r of
             None \<Rightarrow> (s, httpError ''bad json'' 400)
           | Some body \<Rightarrow>
               if TrimSpace (field ''body'' body) = '''' then (s, httpError ''empty reply'' 400)
               else case sql_row (\<lambda>st. st_id st = i) (stories (DB s)) of
                      None \<Rightarrow> (s, httpError ''404 page not found'' 404)
                    | Some st \<Rightarrow>
                        if isBlocked (st_author st) user (DB s) \<or> isBlocked user (st_author st) (DB s)
                        then (s, httpError ''cannot reply to this story'' 403)
                        else let (s1, delivered) = sendTo e (st_author st) (msg0\<lparr>mType := ''msg'', mSender := user,
                                   mRecipient := st_author st, mBody := storyReplyText (field ''body'' body)\<rparr>) s
                             in (s1, okJSON [(''ok'', JBool True), (''delivered'', JBool delivered)])))"

definition storyDelete :: "string \<Rightarrow> string \<Rightarrow> http_handler" where
  "storyDelete user idText e r s =
     (case ParseInt idText of
        None \<Rightarrow> (s, httpError ''bad id'' 400)
      | Some i \<Rightarrow>
          (case sql_row (\<lambda>st. st_id st = i) (stories (DB s)) of
             None \<Rightarrow> (s, httpError ''404 page not found'' 404)
           | Some st \<Rightarrow>
               if st_author st \<noteq> user \<and> \<not> roleAtLeast user ''moderator'' (DB s) then (s, httpError ''forbidden'' 403)
               else (withDB (\<lambda>d. d\<lparr>stories := sql_delete (\<lambda>x. st_id x = i) (stories d),
                                   story_views := sql_delete (\<lambda>v. fst v = i) (story_views d)\<rparr>) s, okJSON [(''ok'', JBool True)])))"

definition storyList :: "string \<Rightarrow> http_handler" where
  "storyList author e r s =
     (if \<not> validUsername author then (s, httpError ''bad author'' 400)
      else (s, reply 200 (Json (JList (map (\<lambda>st. storyJson e st (sql_count (\<lambda>v. fst v = st_id st) (story_views (DB s))))
              (filter (\<lambda>st. st_author st = author) (activeStories (e_now e) (DB s))))))))"

definition storiesItemHandler :: http_handler where
  "storiesItemHandler e r s =
     (case requireAuthHTTP e r s of
        Inl h \<Rightarrow> (s, h)
      | Inr user \<Rightarrow>
          let parts = strSplit CHR ''/'' (TrimPrefix (rPath r) ''/api/v1/stories/''); p0 = parts ! 0; post = rMethod r = ''POST''
          in if p0 = '''' then (s, httpError ''missing id'' 400)
             else if length parts \<ge> 2 \<and> parts ! 1 = ''view'' \<and> post then storyView user p0 e r s
             else if length parts \<ge> 2 \<and> parts ! 1 = ''reply'' \<and> post then storyReply user p0 e r s
             else if rMethod r = ''DELETE'' \<and> length parts = 1 then storyDelete user p0 e r s
             else if rMethod r = ''GET'' \<and> length parts = 1 then storyList p0 e r s
             else (s, httpError ''unsupported'' 405))"

definition storiesHandler :: http_handler where
  "storiesHandler e r s = (if rMethod r = ''POST'' then storiesCreateHandler e r s else storiesFeedHandler e r s)"

text \<open>One tick of \<^verbatim>\<open>storiesExpireSweeper\<close>.\<close>

definition storiesExpireSweeper :: "time \<Rightarrow> database \<Rightarrow> database" where
  "storiesExpireSweeper now d =
     (let d1 = d\<lparr>stories := sql_delete (\<lambda>st. \<not> rfcAfterNow (st_expires_at st) now) (stories d)\<rparr>
      in if length (stories d1) < length (stories d)
         then d1\<lparr>story_views := sql_delete (\<lambda>v. fst v \<notin> st_id ` set (stories d1)) (story_views d1)\<rparr> else d1)"

section \<open>Lifetime\<close>

lemma sqlNow_day: "sqlNow x div day = x div day"
  by (simp add: sqlNow_def duration_defs)

lemma rfc_min: "t < p + storyTTL \<Longrightarrow> rfcAfterNow (sqlNow (p + storyTTL)) t"
proof -
  assume "t < p + storyTTL"
  then have "t div day \<le> (p + storyTTL) div day" by (simp add: zdiv_mono1 duration_defs)
  then show ?thesis by (simp add: rfcAfterNow_def sqlNow_day)
qed

lemma rfc_max: "p + 2 * storyTTL \<le> t \<Longrightarrow> \<not> rfcAfterNow (sqlNow (p + storyTTL)) t"
proof -
  assume "p + 2 * storyTTL \<le> t"
  then have "(p + storyTTL + day) div day \<le> t div day"
    by (intro zdiv_mono1) (simp_all add: storyTTL_def duration_defs)
  moreover have "(p + storyTTL + day) div day = (p + storyTTL) div day + 1" by (simp add: duration_defs)
  ultimately show ?thesis by (simp add: rfcAfterNow_def sqlNow_day)
qed

lemma rfc_earlier: "rfcAfterNow x t' \<Longrightarrow> t \<le> t' \<Longrightarrow> rfcAfterNow x t"
  unfolding rfcAfterNow_def using zdiv_mono1 [of t t' day] by (simp add: duration_defs)

lemma sweep_stories: "stories (storiesExpireSweeper t d) = filter (\<lambda>st. rfcAfterNow (st_expires_at st) t) (stories d)"
  by (simp add: storiesExpireSweeper_def Let_def sql_delete_def)

lemma sweeps_subset: "set (stories (fold storiesExpireSweeper ts d)) \<subseteq> set (stories d)"
  by (induction ts arbitrary: d) (simp, fastforce simp: sweep_stories)

lemma sweeps_keep:
  "\<forall>t \<in> set ts. t \<le> now \<Longrightarrow> st \<in> set (stories d) \<Longrightarrow> rfcAfterNow (st_expires_at st) now \<Longrightarrow>
   st \<in> set (stories (fold storiesExpireSweeper ts d))"
  by (induction ts arbitrary: d) (auto simp: sweep_stories rfc_earlier)

definition storyEntries :: "http_reply \<Rightarrow> json list" where
  "storyEntries h = (case hBody h of Json (JList js) \<Rightarrow> js | _ \<Rightarrow> [])"

lemma storyJson_id: "storyJson e a v = storyJson e b w \<Longrightarrow> st_id a = st_id b"
  by (simp add: storyJson_def)

lemma storyEntries_list:
  assumes "requireAuthHTTP e r s = Inr reader" and "rMethod r = ''GET''" and "rPath r = ''/api/v1/stories/'' @ author"
    and "validUsername author"
  shows "set (storyEntries (snd (storiesItemHandler e r s))) =
     (\<lambda>st. storyJson e st (sql_count (\<lambda>v. fst v = st_id st) (story_views (DB s)))) `
       {st \<in> set (stories (DB s)). st_author st = author \<and> rfcAfterNow (st_expires_at st) (e_now e)}"
proof -
  have "CHR ''/'' \<notin> set author"
    using assms(4) by (auto simp: validUsername_def list_all_iff usernameChar_def isAlphaC_def isLowerC_def isDigitC_def)
  moreover have "author \<noteq> ''''" using assms(4) by (auto simp: validUsername_def)
  ultimately show ?thesis
    using assms by (auto simp: storiesItemHandler_def Let_def TrimPrefix_def strSplit_single storyList_def storyEntries_def activeStories_def)
qed

text \<open>C36: A story lives for at least its 24 hours and less than 48.  Whatever ticks of the sweeper ran in
  between, for 24 hours after it was posted a signed-in user who opens the author's stories finds it, and
  from 48 hours on it is gone.  (The day in between is the text comparison: the story stays until the end
  of the UTC day on which it expires.)
\<close>

theorem story_lifetime:
  assumes "storiesCreateHandler e r s = (s1, h)" and "hStatus h = 200" and "uniq st_id (stories (DB s1))"
    and "DB s2 = fold storiesExpireSweeper ts (DB s1)" and "\<forall>t \<in> set ts. t \<le> e_now e2"
    and "requireAuthHTTP e2 r2 s2 = Inr reader" and "rMethod r2 = ''GET''"
    and "rPath r2 = ''/api/v1/stories/'' @ author" and "validUsername author"
    and "requireAuthHTTP e r s = Inr author"
  shows "\<exists>st \<in> set (stories (DB s1)). st_author st = author \<and> st_id st = nextID ''stories'' (DB s) \<and>
     (e_now e2 < e_now e + 24 * hour \<longrightarrow> (\<exists>v. storyJson e2 st v \<in> set (storyEntries (snd (storiesItemHandler e2 r2 s2))))) \<and>
     (e_now e + 48 * hour \<le> e_now e2 \<longrightarrow> (\<forall>v. storyJson e2 st v \<notin> set (storyEntries (snd (storiesItemHandler e2 r2 s2)))))"
proof -
  have "\<exists>row. stories (DB s1) = stories (DB s) @ [row] \<and> st_author row = author \<and> st_id row = nextID ''stories'' (DB s) \<and>
      st_expires_at row = sqlNow (e_now e + storyTTL)"
    using assms(1,2,10) by (auto simp: storiesCreateHandler_def Let_def split: option.splits if_splits)
  then obtain st where st: "st \<in> set (stories (DB s1))" "st_author st = author" "st_id st = nextID ''stories'' (DB s)"
    "st_expires_at st = sqlNow (e_now e + storyTTL)" by (metis in_set_conv_decomp)
  note list = storyEntries_list [OF assms(6-9)]
  have "\<exists>v. storyJson e2 st v \<in> set (storyEntries (snd (storiesItemHandler e2 r2 s2)))" if "e_now e2 < e_now e + 24 * hour"
  proof -
    have "rfcAfterNow (st_expires_at st) (e_now e2)" using rfc_min [of "e_now e2" "e_now e"] that st(4) by (simp add: storyTTL_def)
    then show ?thesis unfolding list assms(4) using sweeps_keep [OF assms(5) st(1)] st(2) by auto
  qed
  moreover have "storyJson e2 st v \<notin> set (storyEntries (snd (storiesItemHandler e2 r2 s2)))" if late: "e_now e + 48 * hour \<le> e_now e2" for v
  proof
    assume "storyJson e2 st v \<in> set (storyEntries (snd (storiesItemHandler e2 r2 s2)))"
    then obtain st' w where st': "st' \<in> set (stories (DB s2))" "rfcAfterNow (st_expires_at st') (e_now e2)"
      and eq: "storyJson e2 st v = storyJson e2 st' w"
      unfolding list by blast
    note i = storyJson_id [OF eq]
    from st' have "st' \<in> set (stories (DB s1))" using sweeps_subset assms(4) by auto
    with i st(1) assms(3) have "st' = st" by (auto simp: uniq_def distinct_map dest: inj_onD)
    with st' st(4) rfc_max [of "e_now e" "e_now e2"] late show False by (simp add: storyTTL_def)
  qed
  ultimately show ?thesis using st by blast
qed

text \<open>Bob posts a story and looks at it an hour later.\<close>

definition storyNexus :: NexusServer where
  "storyNexus = nexusBob\<lparr>DB := (DB nexusBob)\<lparr>session_tokens := [newSession env0 (720 * hour) ''t'' ''bob'' ''web'']\<rparr>\<rparr>"

definition storyPost :: http_request where
  "storyPost = request0\<lparr>rCookie := (\<lambda>_. Some ''t''), rBody := Some [(''media_url'', ''/uploads/a.png''), (''media_kind'', ''image'')]\<rparr>"

definition storyGet :: http_request where
  "storyGet = request0\<lparr>rMethod := ''GET'', rPath := ''/api/v1/stories/bob'', rCookie := (\<lambda>_. Some ''t'')\<rparr>"

theorem story_lifetime_witness:
  "\<exists>st v. storyJson (env0\<lparr>e_now := 4600 * second\<rparr>) st v \<in>
     set (storyEntries (snd (storiesItemHandler (env0\<lparr>e_now := 4600 * second\<rparr>) storyGet
       (fst (storiesCreateHandler env0 storyPost storyNexus)))))"
proof -
  let ?s1 = "fst (storiesCreateHandler env0 storyPost storyNexus)" and ?e2 = "env0\<lparr>e_now := 4600 * second\<rparr>"
  have auth: "requireAuthHTTP e r s = Inr ''bob''"
    if "session_tokens (DB s) = [newSession env0 (720 * hour) ''t'' ''bob'' ''web'']" "rCookie r = (\<lambda>_. Some ''t'')"
      "e_now e \<le> 4600 * second" for e r s
    using that by (simp add: requireAuthHTTP_def tokenFromRequest_def sessionUsername_row sessionRow_def sql_row_def newSession_def duration_defs)
  have a1: "requireAuthHTTP env0 storyPost storyNexus = Inr ''bob''"
    by (rule auth) (simp_all add: storyNexus_def storyPost_def second_def)
  have c: "storiesCreateHandler env0 storyPost storyNexus = (?s1, snd (storiesCreateHandler env0 storyPost storyNexus))" by simp
  have f: "hStatus (snd (storiesCreateHandler env0 storyPost storyNexus)) = 200"
    "stories (DB ?s1) = [\<lparr> st_id = 1, st_author = ''bob'', st_media_url = ''/uploads/a.png'', st_media_kind = ''image'',
       st_caption = '''', st_created_at = sqlNow (1000 * second), st_expires_at = sqlNow (1000 * second + storyTTL) \<rparr>]"
    "session_tokens (DB ?s1) = [newSession env0 (720 * hour) ''t'' ''bob'' ''web'']"
    using a1 by (simp_all add: storiesCreateHandler_def storyPost_def request0_def field_def aget_def storyNexus_def nexusBob_def
        nexus0_def emptyDB_def nextID_def Let_def takeID_def)
  have a2: "requireAuthHTTP ?e2 storyGet ?s1 = Inr ''bob''"
    by (rule auth [OF f(3)]) (simp_all add: storyGet_def)
  have v: "validUsername ''bob''" by code_simp
  have "rMethod storyGet = ''GET''" "rPath storyGet = ''/api/v1/stories/'' @ ''bob''" by (simp_all add: storyGet_def)
  from story_lifetime [OF c f(1) _ _ _ a2 this v a1, of "[]"] f
  show ?thesis by (auto simp: uniq_def duration_defs)
qed

end
