(* ===== verification/Files.thy ===== *)
theory Files
  imports Stories
begin

text \<open>
  Files of users: the blob store of \<^verbatim>\<open>nexus_server/blobstore.go\<close>, profile pictures (\<^verbatim>\<open>avatars.go\<close>) and chat
  attachments (\<^verbatim>\<open>uploadHandler\<close> and \<^verbatim>\<open>uploadsServeHandler\<close> of \<^verbatim>\<open>main.go\<close>).  What is stored is a map from keys
  to contents, passed through the handlers next to the server state.  Whether a write succeeds is
  up to the environment; a key the disk store refuses is refused here.
\<close>

type_synonym blobs = "(string \<times> string) list"

type_synonym file_handler = "env \<Rightarrow> http_request \<Rightarrow> NexusServer \<Rightarrow> blobs \<Rightarrow> blobs \<times> http_reply"

section \<open>Paths\<close>

text \<open>\<^verbatim>\<open>filepath.Base\<close> and \<^verbatim>\<open>filepath.Ext\<close> on Unix.\<close>

definition fileBase :: "string \<Rightarrow> string" where
  "fileBase p =
     (if p = '''' then ''.''
      else let q = rev (dropWhile (\<lambda>c. c = CHR ''/'') (rev p))
           in if q = '''' then ''/'' else last (strSplit CHR ''/'' q))"

definition fileExt :: "string \<Rightarrow> string" where
  "fileExt p =
     (let b = last (strSplit CHR ''/'' p)
      in if CHR ''.'' \<in> set b then CHR ''.'' # last (strSplit CHR ''.'' b) else '''')"

section \<open>The blob store\<close>

definition uploadDir :: "env \<Rightarrow> string" where
  "uploadDir e = (if e_getenv e ''PHAZE_UPLOAD_DIR'' \<noteq> '''' then e_getenv e ''PHAZE_UPLOAD_DIR'' else ''public/uploads'')"

definition dirFor :: "env \<Rightarrow> string \<Rightarrow> string" where
  "dirFor e pre = (if pre = ''uploads'' then uploadDir e else pre)"

text \<open>The directory and the name of the file of a key, or \<^verbatim>\<open>None\<close> for a bad key.\<close>

definition diskPath :: "env \<Rightarrow> string \<Rightarrow> (string \<times> string) option" where
  "diskPath e key =
     (let pre = takeWhile (\<lambda>c. c \<noteq> CHR ''/'') key; name = drop (Suc (length pre)) key
      in if CHR ''/'' \<notin> set key \<or> name = '''' \<or> name \<noteq> fileBase name \<or> name = ''.'' \<or> name = ''..'' then None
         else Some (dirFor e pre, name))"

datatype store = Disk | S3

definition blobStoreFromEnv :: "env \<Rightarrow> store option" where
  "blobStoreFromEnv e =
     (let mode = ToLower (e_uniLower e) (TrimSpace (e_getenv e ''PHAZE_BLOB_STORE''));
          bucket = (if e_getenv e ''BUCKET_NAME'' = '''' then e_getenv e ''LITESTREAM_BUCKET'' else e_getenv e ''BUCKET_NAME'')
      in if mode = '''' \<or> mode = ''disk'' then Some Disk
         else if mode = ''s3''
         then (if bucket = '''' \<or> e_getenv e ''AWS_ENDPOINT_URL_S3'' = '''' \<or> e_getenv e ''AWS_ACCESS_KEY_ID'' = '''' \<or>
                  e_getenv e ''AWS_SECRET_ACCESS_KEY'' = '''' then None else Some S3)
         else None)"

definition keyOk :: "env \<Rightarrow> string \<Rightarrow> bool" where
  "keyOk e key \<longleftrightarrow> (case blobStoreFromEnv e of None \<Rightarrow> False | Some S3 \<Rightarrow> True | Some Disk \<Rightarrow> diskPath e key \<noteq> None)"

definition blobPut :: "env \<Rightarrow> services \<Rightarrow> string \<Rightarrow> string \<Rightarrow> blobs \<Rightarrow> blobs \<times> bool" where
  "blobPut e x key content b = (if keyOk e key \<and> x_blobPut x key then (aput key content b, True) else (b, False))"

definition blobOpen :: "env \<Rightarrow> string \<Rightarrow> blobs \<Rightarrow> string option" where
  "blobOpen e key b = (if keyOk e key then map_of b key else None)"

definition serveBlob :: "env \<Rightarrow> string \<Rightarrow> bool \<Rightarrow> blobs \<Rightarrow> http_reply" where
  "serveBlob e key attachment b =
     (case blobOpen e key b of
        None \<Rightarrow> httpError ''404 page not found'' 404
      | Some content \<Rightarrow> reply 200 (File key content attachment))"

section \<open>Profile pictures\<close>

definition maxAvatarBytes :: nat where "maxAvatarBytes = 2 * 1024 * 1024"

definition validateAvatar :: "services \<Rightarrow> string \<Rightarrow> string option" where
  "validateAvatar x data =
     (if data = '''' then Some ''empty upload''
      else if length data > maxAvatarBytes then Some ''avatar too large (2 MB max)''
      else if x_detect x data = ''image/png'' \<or> x_detect x data = ''image/jpeg'' then None
      else Some ''avatar must be a PNG or JPEG image'')"

definition avatarUploadHandler :: "services \<Rightarrow> file_handler" where
  "avatarUploadHandler x e r s b =
     (let u = sessionUsername (e_now e) (tokenFromRequest r) (DB s); data = rRaw r
      in if rMethod r \<noteq> ''POST'' then (b, httpError ''POST required'' 405)
         else if u = '''' then (b, httpError ''auth required'' 401)
         else if fst (userBanInfo u (DB s)) then (b, httpError ''account suspended'' 403)
         else if length data > maxAvatarBytes + 4096 then (b, httpError ''avatar too large (2 MB max)'' 413)
         else case validateAvatar x data of
                Some err \<Rightarrow> (b, httpError err 400)
              | None \<Rightarrow>
                  (case x_reencode x data of
                     None \<Rightarrow> (b, httpError ''could not read image'' 400)
                   | Some png \<Rightarrow>
                       (case blobPut e x (''avatars/'' @ u @ ''.png'') png b of
                          (b1, False) \<Rightarrow> (b1, httpError ''storage error'' 500)
                        | (b1, True) \<Rightarrow> (b1, okJSON [(''ok'', JBool True)]))))"

definition avatarHandler :: file_handler where
  "avatarHandler e r s b =
     (let u = TrimPrefix (rPath r) ''/api/v1/avatars/''
      in if u = '''' then (b, httpError ''Username required'' 400)
         else if \<not> validUsername u then (b, httpError ''404 page not found'' 404)
         else (b, serveBlob e (''avatars/'' @ u @ ''.png'') False b))"

section \<open>Attachments\<close>

definition maxUploadBytes :: int where "maxUploadBytes = 25 * 1024 * 1024"

text \<open>The multipart form: too large or malformed, without a file, or with one.\<close>

datatype upload = BadForm | NoFile | Upload string int string string

definition allowedExts :: "string list" where
  "allowedExts = [''.png'', ''.jpg'', ''.jpeg'', ''.gif'', ''.webp'', ''.bmp'', ''.heic'', ''.mp4'', ''.mov'', ''.webm'', ''.m4a'',
     ''.mp3'', ''.ogg'', ''.wav'', ''.pdf'', ''.txt'', ''.md'', ''.log'', ''.csv'', ''.json'']"

definition imageExts :: "string list" where
  "imageExts = [''.png'', ''.jpg'', ''.jpeg'', ''.gif'', ''.webp'', ''.bmp'', ''.heic'']"

definition contentMatches :: "string \<Rightarrow> string \<Rightarrow> bool" where
  "contentMatches ext detected =
     (if list_ex (hasPrefix ext) [''.png'', ''.jpg'', ''.jpeg'', ''.gif'', ''.webp'', ''.bmp''] then hasPrefix detected ''image/''
      else if ext = ''.pdf'' then detected = ''application/pdf''
      else True)"

definition uploadHandler :: "services \<Rightarrow> upload \<Rightarrow> env \<Rightarrow> http_request \<Rightarrow> NexusServer \<Rightarrow> blobs \<Rightarrow> NexusServer \<times> blobs \<times> http_reply" where
  "uploadHandler x form e r s b =
     (let u = sessionUsername (e_now e) (tokenFromRequest r) (DB s)
      in if rMethod r \<noteq> ''POST'' then (s, b, httpError ''POST required'' 405)
         else if u = '''' then (s, b, httpError ''auth required'' 401)
         else if fst (userBanInfo u (DB s)) then (s, b, httpError ''account suspended'' 403)
         else case form of
                BadForm \<Rightarrow> (s, b, httpError ''file too large or malformed'' 413)
              | NoFile \<Rightarrow> (s, b, httpError ''missing file field'' 400)
              | Upload filename sz content mime \<Rightarrow>
                  let ext = ToLower (e_uniLower e) (fileExt filename); detected = x_detect x (take 512 content)
                  in if sz > maxUploadBytes then (s, b, httpError ''file exceeds 25MB'' 413)
                     else if \<not> e_limiter e ''upload'' u
                     then (s, b, httpError (''upload rate limit exceeded '' @ emDash @ '' try again later'') 429)
                     else if ext \<notin> set allowedExts then (s, b, httpError ''file type not allowed'' 415)
                     else if \<not> contentMatches ext detected then (s, b, httpError ''file content does not match extension'' 415)
                     else (case randHex e 16 s of
                             (s1, None) \<Rightarrow> (s1, b, httpError ''rng error'' 500)
                           | (s1, Some rnd) \<Rightarrow>
                               (case blobPut e x (''uploads/'' @ rnd @ ext) content b of
                                  (b1, False) \<Rightarrow> (s1, b1, httpError ''write error'' 500)
                                | (b1, True) \<Rightarrow>
                                    (s1, b1, okJSON [(''url'', JStr (''/uploads/'' @ rnd @ ext)), (''name'', JStr (fileBase filename)),
                                                     (''size'', JInt sz), (''mime'', JStr mime)]))))"

definition uploadsServeHandler :: file_handler where
  "uploadsServeHandler e r s b =
     (let name = fileBase (TrimPrefix (rPath r) ''/uploads/''); ext = ToLower (e_uniLower e) (fileExt name)
      in if name = '''' \<or> name = ''.'' \<or> name = ''/'' then (b, httpError ''404 page not found'' 404)
         else (b, serveBlob e (''uploads/'' @ name) (ext \<notin> set imageExts) b))"

section \<open>What is served\<close>

lemma last_split_no_sep: "sep \<notin> set (last (strSplit sep s))"
  by (rule strSplit_no_sep [of _ sep s]) simp

lemma fileBase_slash: "CHR ''/'' \<in> set (fileBase p) \<Longrightarrow> fileBase p = ''/''"
  by (auto simp: fileBase_def Let_def last_split_no_sep split: if_splits)

lemma fileBase_name: "CHR ''/'' \<notin> set n \<Longrightarrow> n \<noteq> '''' \<Longrightarrow> fileBase n = n"
proof -
  assume n: "CHR ''/'' \<notin> set n" "n \<noteq> ''''"
  then have "rev (dropWhile (\<lambda>c. c = CHR ''/'') (rev n)) = n"
    by (metis dropWhile_eq_self_iff hd_rev last_in_set rev_rev_ident)
  with n show ?thesis by (simp add: fileBase_def Let_def strSplit_single)
qed

lemma diskPath_name:
  assumes "CHR ''/'' \<notin> set pre" and "CHR ''/'' \<notin> set name"
  shows "diskPath e (pre @ CHR ''/'' # name) =
     (if name = '''' \<or> name = ''.'' \<or> name = ''..'' then None else Some (dirFor e pre, name))"
proof -
  have "takeWhile (\<lambda>c. c \<noteq> CHR ''/'') (pre @ CHR ''/'' # name) = pre"
    using assms(1) by (induction pre) auto
  then show ?thesis using fileBase_name [OF assms(2)] by (simp add: diskPath_def)
qed

lemma validUsername_no_slash: "validUsername u \<Longrightarrow> CHR ''/'' \<notin> set u"
  by (auto simp: validUsername_def list_all_iff usernameChar_def isAlphaC_def isLowerC_def isDigitC_def)


definition blobs0 :: blobs where "blobs0 = [(''uploads/a.png'', ''img'')]"


section \<open>Attachments come back as they were sent\<close>

lemma hexDigit_plain: "n < 16 \<Longrightarrow> hexDigit n \<notin> {CHR ''/'', CHR ''.''}"
  by (auto simp: hexDigit_def split: if_splits dest!: arg_cong [of _ _ "of_char :: char \<Rightarrow> nat"])

lemma hexEncode_plain:
  assumes "list_all (\<lambda>b. b < 256) bs"
  shows "CHR ''/'' \<notin> set (hexEncode bs)" and "CHR ''.'' \<notin> set (hexEncode bs)"
proof -
  have "c \<notin> {CHR ''/'', CHR ''.''}" if "c \<in> set (hexEncode bs)" for c
  proof -
    from that obtain b where b: "b \<in> set bs" "c = hexDigit (b div 16) \<or> c = hexDigit (b mod 16)"
      by (auto simp: hexEncode_def)
    then have "b < 256" using assms by (auto simp: list_all_iff)
    then have "b div 16 < 16" by auto
    with b hexDigit_plain [of "b div 16"] hexDigit_plain [of "b mod 16"] show ?thesis by auto
  qed
  then show "CHR ''/'' \<notin> set (hexEncode bs)" "CHR ''.'' \<notin> set (hexEncode bs)" by auto
qed

lemma allowed_ext:
  "ext \<in> set allowedExts \<Longrightarrow>
   CHR ''/'' \<notin> set ext \<and> (\<exists>t. ext = CHR ''.'' # t \<and> CHR ''.'' \<notin> set t) \<and> ToLower f ext = ext"
  unfolding allowedExts_def list.set insert_iff empty_iff
  by (elim disjE) (simp_all add: ToLower_def isASCII_def asciiLower_def)

lemma strSplit_append: "sep \<notin> set a \<Longrightarrow> strSplit sep (a @ sep # b) = a # strSplit sep b"
  by (induction a) auto

lemma fileExt_name:
  assumes "CHR ''/'' \<notin> set a" and "CHR ''.'' \<notin> set a" and "ext = CHR ''.'' # t" and "CHR ''.'' \<notin> set t" and "CHR ''/'' \<notin> set ext"
  shows "fileExt (a @ ext) = ext"
  using assms by (simp add: fileExt_def strSplit_single strSplit_append)

text \<open>C35: An attachment comes back byte for byte.  After an upload that was accepted, a request for the URL in
  its reply sends the content that was uploaded; only a picture is shown in the page, every other type
  is sent as an attachment.  Accepted are only the listed extensions, and no other stored file changes.
\<close>

theorem attachment_roundtrip:
  assumes "uploadHandler x (Upload filename sz content mime) e r s b = (s1, b1, h)" and "hStatus h = 200"
    and "\<forall>k n bs. e_randBytes e k n = Some bs \<longrightarrow> list_all (\<lambda>v. v < 256) bs"
    and "hBody h = Json (JObj ((''url'', JStr url) # rest))" and "rPath r2 = url"
  shows "snd (uploadsServeHandler e r2 s2 b1) =
       reply 200 (File (drop 1 url) content (ToLower (e_uniLower e) (fileExt filename) \<notin> set imageExts)) \<and>
     ToLower (e_uniLower e) (fileExt filename) \<in> set allowedExts \<and>
     (\<forall>key. key \<noteq> drop 1 url \<longrightarrow> map_of b1 key = map_of b key)"
proof -
  define ext where "ext = ToLower (e_uniLower e) (fileExt filename)"
  obtain bs where ext: "ext \<in> set allowedExts" and rnd: "e_randBytes e (rng s) 16 = Some bs"
    and ok: "keyOk e (''uploads/'' @ hexEncode bs @ ext)"
    and b1: "b1 = aput (''uploads/'' @ hexEncode bs @ ext) content b"
    and url: "url = ''/uploads/'' @ hexEncode bs @ ext"
    using assms(1,2,4)
    by (auto simp: uploadHandler_def Let_def ext_def [symmetric] randHex_def blobPut_def split: if_splits option.splits)
  let ?n = "hexEncode bs @ ext"
  obtain t where t: "ext = CHR ''.'' # t" "CHR ''.'' \<notin> set t" "CHR ''/'' \<notin> set ext" and low: "ToLower f ext = ext" for f
    using allowed_ext [OF ext] by blast
  note plain = hexEncode_plain [OF assms(3) [rule_format, OF rnd]]
  have n: "CHR ''/'' \<notin> set ?n" "?n \<noteq> ''''" "?n \<noteq> ''.''" "?n \<noteq> ''/''"
    using plain(1) t ext by (auto simp: allowedExts_def append_eq_Cons_conv)
  have "fileBase (TrimPrefix url ''/uploads/'') = ?n"
    using fileBase_name [OF n(1,2)] by (simp add: url TrimPrefix_def)
  moreover have "fileExt ?n = ext" using fileExt_name [OF plain t] .
  ultimately have "snd (uploadsServeHandler e r2 s2 b1) = reply 200 (File (''uploads/'' @ ?n) content (ext \<notin> set imageExts))"
    using n assms(5) ok by (simp add: uploadsServeHandler_def Let_def serveBlob_def blobOpen_def b1 low)
  then show ?thesis using ext b1 url by (simp add: ext_def [symmetric])
qed

definition services0 :: services where
  "services0 = \<lparr> x_sqlInt = ParseInt, x_dbSize = 4096, x_hmacSHA256 = (\<lambda>k m. k @ m), x_bmcDecode = (\<lambda>_. None),
     x_gemini = (\<lambda>_ _. Inl ''down''), x_anthropic = (\<lambda>_ _. Inl ''down''), x_geo = (\<lambda>_. None), x_github = (\<lambda>_. None),
     x_download = (\<lambda>_. None), x_blobPut = (\<lambda>_. True), x_detect = (\<lambda>_. ''text/plain''), x_reencode = Some \<rparr>"

definition bobUpload :: http_request where
  "bobUpload = request0\<lparr>rCookie := (\<lambda>_. Some ''t'')\<rparr>"

theorem attachment_roundtrip_witness:
  "\<exists>url. snd (uploadsServeHandler env0 (request0\<lparr>rPath := url\<rparr>) storyNexus
      (fst (snd (uploadHandler services0 (Upload ''a.txt'' 2 ''hi'' '''') env0 bobUpload storyNexus [])))) =
    reply 200 (File (drop 1 url) ''hi'' True)"
proof -
  let ?u = "uploadHandler services0 (Upload ''a.txt'' 2 ''hi'' '''') env0 bobUpload storyNexus []"
  let ?n = "hexEncode (replicate 16 0)"
  have x: "ToLower (e_uniLower env0) (fileExt ''a.txt'') = ''.txt''" by code_simp
  have fb: "fileBase ''a.txt'' = ''a.txt''" by code_simp
  have d: "blobStoreFromEnv env0 = Some Disk" by (simp add: blobStoreFromEnv_def ToLower_def isASCII_def)
  have hx: "?n = replicate 32 (CHR ''0'')" by code_simp
  have k: "keyOk env0 (''uploads/'' @ ?n @ ''.txt'')"
    using diskPath_name [of "''uploads''" "?n @ ''.txt''" env0] by (simp add: keyOk_def d hx)
  have u: "sessionUsername (1000 * second) (tokenFromRequest bobUpload) (DB storyNexus) = ''bob''"
    by (simp add: bobUpload_def tokenFromRequest_def sessionUsername_row sessionRow_def sql_row_def storyNexus_def newSession_def duration_defs)
  have ub: "fst (userBanInfo ''bob'' (DB storyNexus)) = False"
    by (simp add: storyNexus_def userBanInfo_def userRow_def sql_row_def nexusBob_def newUser_def)
  have m: "rMethod bobUpload = ''POST''" "rng storyNexus = 0"
    by (simp_all add: bobUpload_def request0_def storyNexus_def nexusBob_def nexus0_def)
  have up: "snd (snd ?u) = okJSON [(''url'', JStr (''/uploads/'' @ ?n @ ''.txt'')), (''name'', JStr ''a.txt''),
      (''size'', JInt 2), (''mime'', JStr '''')]"
    using k by (simp add: Let_def uploadHandler_def u ub m x fb maxUploadBytes_def allowedExts_def contentMatches_def services0_def
        randHex_def blobPut_def hasPrefix_def)
  have e: "?u = (fst ?u, fst (snd ?u), snd (snd ?u))" by simp
  have r: "\<forall>j n bs. e_randBytes env0 j n = Some bs \<longrightarrow> list_all (\<lambda>v. v < 256) bs"
    by (auto simp: list_all_iff)
  have "hStatus (snd (snd ?u)) = 200" "hBody (snd (snd ?u)) = Json (JObj ((''url'', JStr (''/uploads/'' @ ?n @ ''.txt'')) #
      [(''name'', JStr ''a.txt''), (''size'', JInt 2), (''mime'', JStr '''')]))" by (simp_all add: up)
  from attachment_roundtrip [OF e this(1) r this(2), where ?r2.0 = "request0\<lparr>rPath := ''/uploads/'' @ ?n @ ''.txt''\<rparr>" and ?s2.0 = storyNexus]
  show ?thesis by (intro exI [of _ "''/uploads/'' @ ?n @ ''.txt''"]) (simp add: x imageExts_def)
qed

end
