(* ===== verification/Portal.thy ===== *)
theory Portal
  imports Files
begin

text \<open>
  Smaller HTTP endpoints: profiles, statistics and data export (\<^verbatim>\<open>nexus_server/main.go\<close>), the support
  assistant (\<^verbatim>\<open>support.go\<close>) and the Skype import (\<^verbatim>\<open>skype_import.go\<close>).
\<close>

section \<open>Profiles, statistics, export\<close>

definition profileHandler :: http_handler where
  "profileHandler e r s =
     (let username = TrimPrefix (rPath r) ''/api/v1/profile/''
      in if username = '''' then (s, httpError ''Username required'' 400)
         else case userRow username (DB s) of
                None \<Rightarrow> (s, httpError ''User not found'' 404)
              | Some u \<Rightarrow> (s, okJSON [(''username'', JStr username), (''display_name'', JStr (u_display_name u)), (''mood'', JStr (u_mood u)),
                              (''supporter'', JBool (u_supporter u)), (''ambassador'', JBool (isAmbassador username (DB s)))]))"

definition statsHandler :: http_handler where
  "statsHandler e r s =
     (s, okJSON [(''active_nodes'', JInt (int (onlineUserCount s))), (''total_members'', JInt (int (length (users (DB s))))),
        (''timestamp'', JInt (e_now e div second)), (''status'', JStr ''online'')])"

definition vapidKeyHandler :: http_handler where
  "vapidKeyHandler e r s = (s, okJSON [(''publicKey'', JStr (e_getenv e ''VAPID_PUBLIC_KEY''))])"

text \<open>A nil slice is written as \<^verbatim>\<open>null\<close>.\<close>

definition goSlice :: "json list \<Rightarrow> json" where
  "goSlice js = (if js = [] then JNull else JList js)"

definition exportUserData :: "env \<Rightarrow> string \<Rightarrow> database \<Rightarrow> json" where
  "exportUserData e username d =
     (let u = userRow username d; get = (\<lambda>f. JStr (case u of None \<Rightarrow> '''' | Some r \<Rightarrow> f r));
          frs = map (\<lambda>r. JStr (if fr_user_a r = username then fr_user_b r else fr_user_a r))
                  (filter (\<lambda>r. (fr_user_a r = username \<or> fr_user_b r = username) \<and> fr_status r = ''accepted'') (friends d));
          msgs = map (\<lambda>m. JObj [(''from'', JStr (of_sender m)), (''to'', JStr (of_recipient m)), (''body'', JStr (of_body m)),
                              (''at'', JStr (e_timeText e (of_created_at m)))])
                   (sort_key of_created_at (filter (\<lambda>m. of_sender m = username \<or> of_recipient m = username) (offline_messages d)))
      in JObj [(''username'', JStr username), (''email'', get u_email), (''mood'', get u_mood), (''display_name'', get u_display_name),
               (''friends'', goSlice frs), (''messages'', goSlice msgs), (''exported_at'', JStr (e_timeText e (sqlNow (e_now e)))),
               (''note'', JStr ''Live E2EE messages are not stored server-side. This export contains only metadata and queued offline messages.'')])"

definition exportHandler :: http_handler where
  "exportHandler e r s =
     (let t0 = TrimSpace (tokenFromRequest r); tok = (if t0 = '''' then rQuery r ''token'' else t0);
          u = sessionUsername (e_now e) tok (DB s)
      in if tok = '''' then (s, httpError ''token required'' 401)
         else if u = '''' then (s, httpError ''invalid or expired session'' 401)
         else (s, reply 200 (Json (exportUserData e u (DB s)))))"

section \<open>The support assistant\<close>

text \<open>The transcript arrives decoded: roles and contents, or \<^verbatim>\<open>None\<close> when it is not JSON.\<close>

definition clipMessage :: "string \<times> string \<Rightarrow> string \<times> string" where
  "clipMessage m = (if fst m \<noteq> ''user'' \<and> fst m \<noteq> ''assistant'' then ''user'' else fst m, take 4000 (snd m))"

definition clipTranscript :: "(string \<times> string) list \<Rightarrow> (string \<times> string) list" where
  "clipTranscript ms = map clipMessage (drop (length ms - 30) ms)"

definition geminiRole :: "string \<times> string \<Rightarrow> string \<times> string" where
  "geminiRole m = (if fst m = ''assistant'' then ''model'' else ''user'', snd m)"

definition supportSystem :: "env \<Rightarrow> http_request \<Rightarrow> string \<Rightarrow> NexusServer \<Rightarrow> string" where
  "supportSystem e r prompt s =
     (let u = sessionUsername (e_now e) (tokenFromRequest r) (DB s)
      in if u \<noteq> '''' then prompt @ [chr 10, chr 10] @ ''The user you are talking to is signed in as: '' @ u else prompt)"

definition supportChatHandler :: "services \<Rightarrow> string \<Rightarrow> (string \<times> string) list option \<Rightarrow> http_handler" where
  "supportChatHandler x prompt transcript e r s =
     (let gKey = e_getenv e ''GEMINI_API_KEY''; aKey = e_getenv e ''ANTHROPIC_API_KEY''; sys = supportSystem e r prompt s
      in if rMethod r \<noteq> ''POST'' then (s, httpError ''POST required'' 405)
         else if gKey = '''' \<and> aKey = '''' then (s, httpError ''support bot offline (no LLM key configured)'' 503)
         else case transcript of
                None \<Rightarrow> (s, httpError ''bad json'' 400)
              | Some ms \<Rightarrow>
                  if ms = [] then (s, httpError ''no messages'' 400)
                  else
                    let clipped = clipTranscript ms;
                        first = (if gKey \<noteq> '''' then x_gemini x sys (map geminiRole clipped) else Inr '''');
                        second = (if (case first of Inl _ \<Rightarrow> True | Inr t \<Rightarrow> t = '''') \<and> aKey \<noteq> '''' then x_anthropic x sys clipped else first)
                    in case second of
                         Inl err \<Rightarrow> (s, httpError (''support bot unavailable: '' @ err) 502)
                       | Inr t \<Rightarrow> if t = '''' then (s, httpError ''support bot returned empty reply'' 502)
                                  else (s, okJSON [(''reply'', JStr t)]))"

definition supportEscalateHandler :: http_handler where
  "supportEscalateHandler e r s =
     (if rMethod r \<noteq> ''POST'' then (s, httpError ''POST required'' 405)
      else case rBody r of
        None \<Rightarrow> (s, httpError ''bad json'' 400)
      | Some body \<Rightarrow>
          let u = sessionUsername (e_now e) (tokenFromRequest r) (DB s);
              n1 = (if u \<noteq> '''' then u else field ''username'' body);
              name = (if n1 = '''' then ''Anonymous visitor'' else n1);
              n2 = TrimSpace (field ''note'' body); note = (if n2 = '''' then ''(no description)'' else n2);
              staff = concat (map snd (filter (\<lambda>(v, cs). roleAtLeast v ''helper'' (DB s)) (Clients s)))
          in (SendAll e staff (msg0\<lparr>mType := ''support_escalation'', mSender := name, mBody := note\<rparr>) s,
              okJSON [(''ok'', JBool True), (''agents_online'', JInt (int (length staff))), (''escalation_for'', JStr name)]))"

section \<open>Skype import\<close>

record skypeMessage =
  km_time :: string
  km_type :: string
  km_content :: string
  km_display :: string

record skypeConversation =
  kv_id :: string
  kv_display :: string
  kv_messages :: "skypeMessage list"

text \<open>
  \<^verbatim>\<open>stripHTML\<close>: remove the leftmost matches of \<^verbatim>\<open><[^>]+>\<close>, then replace the five entities in one pass,
  then trim.
\<close>

function stripTags :: "string \<Rightarrow> string" where
  "stripTags [] = []"
| "stripTags (c # cs) =
     (let inside = takeWhile (\<lambda>d. d \<noteq> CHR ''>'') cs; rest = dropWhile (\<lambda>d. d \<noteq> CHR ''>'') cs
      in if c = CHR ''<'' \<and> inside \<noteq> [] \<and> rest \<noteq> [] then stripTags (tl rest) else c # stripTags cs)"
  by pat_completeness auto
termination
proof (relation "measure length", goal_cases)
  case (2 c cs inside rest)
  then have "length (tl rest) \<le> length cs"
    by (simp add: dropWhile_eq_drop)
  then show ?case by simp
qed auto

definition entities :: "(string \<times> string) list" where
  "entities = [(''&lt;'', ''<''), (''&gt;'', ''>''), (''&amp;'', ''&''), (''&quot;'', [chr 34]), (''&#39;'', [chr 39])]"

function replaceEntities :: "string \<Rightarrow> string" where
  "replaceEntities s =
     (case s of
        [] \<Rightarrow> []
      | c # cs \<Rightarrow>
          (case find (\<lambda>(old, new). prefix old s) entities of
             Some (old, new) \<Rightarrow> new @ replaceEntities (drop (length old) s)
           | None \<Rightarrow> c # replaceEntities cs))"
  by pat_completeness auto
termination
proof (relation "measure length")
  fix s :: string and c cs and p :: "string \<times> string" and old new
  assume s: "s = c # cs" and p: "find (\<lambda>(old, new). prefix old s) entities = Some p" "(old, new) = p"
  have "find (\<lambda>(old, new). prefix old s) entities = Some (old, new)" using p by simp
  then have "(old, new) \<in> set entities" by (metis find_Some_iff nth_mem)
  then have "old \<noteq> []" by (auto simp: entities_def)
  with s show "(drop (length old) s, s) \<in> measure length" by (cases old) auto
qed auto

declare replaceEntities.simps [simp del]

definition stripHTML :: "string \<Rightarrow> string" where
  "stripHTML s = TrimSpace (replaceEntities (stripTags s))"

definition importMessage :: "string \<Rightarrow> skypeConversation \<Rightarrow> skypeMessage \<Rightarrow> database \<times> int \<Rightarrow> database \<times> int" where
  "importMessage username convo m acc =
     (let (d, n) = acc; body = stripHTML (km_content m);
          row = \<lparr> ki_username = username, ki_conversation_id = kv_id convo, ki_conversation_display = kv_display convo,
                  ki_sender_display = km_display m, ki_body = body, ki_sent_at = km_time m \<rparr>
      in if km_type m \<noteq> ''RichText'' \<and> km_type m \<noteq> ''Text'' then acc
         else if body = '''' \<or> length body > 4000 then acc
         else if sql_has ki_key (ki_key row) (skype_import_messages d) then acc
         else (d\<lparr>skype_import_messages := skype_import_messages d @ [row]\<rparr>, n + 1))"

definition matchUser :: "string \<Rightarrow> database \<Rightarrow> string" where
  "matchUser name d =
     (let low = map asciiLower name
      in case sql_row (\<lambda>u. map asciiLower (u_display_name u) = low) (users d) of
           Some u \<Rightarrow> u_username u
         | None \<Rightarrow> (case sql_row (\<lambda>u. map asciiLower (u_username u) = low) (users d) of
                      Some u \<Rightarrow> u_username u | None \<Rightarrow> ''''))"

type_synonym import_state = "database \<times> int \<times> string list \<times> json list"

definition importConversation :: "string \<Rightarrow> skypeConversation \<Rightarrow> import_state \<Rightarrow> import_state" where
  "importConversation username convo acc =
     (case acc of (d, n, seen, out) \<Rightarrow>
        let (d1, n1) = fold (importMessage username convo) (kv_messages convo) (d, n)
        in if kv_id convo \<in> set seen \<or> kv_display convo = '''' \<or> strContains (kv_id convo) ''@thread'' then (d1, n1, seen, out)
           else
             let pu = matchUser (kv_display convo) d1;
                 row = \<lparr> kc_username = username, kc_skype_id = kv_id convo, kc_display_name = kv_display convo,
                         kc_phaze_username = (if pu \<noteq> '''' then Some pu else None), kc_invite_sent = False \<rparr>
             in (d1\<lparr>skype_import_contacts := sql_insert_ignore kc_key row (skype_import_contacts d1)\<rparr>, n1, kv_id convo # seen,
                 out @ [JObj ((''display_name'', JStr (kv_display convo)) # omitempty ''phaze_username'' (JStr pu) @
                          [(''on_phaze'', JBool (pu \<noteq> ''''))])]))"

text \<open>The upload: too large, without a file, not a ZIP, or the names and decoded exports of its files.\<close>

datatype zipUpload = ZipTooLarge | ZipMissing | ZipInvalid | Zip "(string \<times> skypeConversation list) list"

definition skypeImportHandler :: "zipUpload \<Rightarrow> http_handler" where
  "skypeImportHandler form e r s =
     (let u = sessionUsername (e_now e) (tokenFromRequest r) (DB s)
      in if rMethod r \<noteq> ''POST'' then (s, httpError ''POST required'' 405)
         else if u = '''' then (s, httpError ''auth required'' 401)
         else case form of
                ZipTooLarge \<Rightarrow> (s, httpError ''file too large'' 413)
              | ZipMissing \<Rightarrow> (s, httpError ''file required'' 400)
              | ZipInvalid \<Rightarrow> (s, httpError ''invalid zip'' 400)
              | Zip files \<Rightarrow>
                  (case fold (\<lambda>f. fold (importConversation u) (snd f)) (filter (\<lambda>f. hasSuffix (fst f) ''.json'') files) (DB s, 0, [], []) of
                     (d1, n, seen, out) \<Rightarrow>
                       (s\<lparr>DB := d1\<rparr>, okJSON [(''messages_imported'', JInt n), (''contacts'', goSlice out)])))"

definition skypeContactsHandler :: http_handler where
  "skypeContactsHandler e r s =
     (let u = sessionUsername (e_now e) (tokenFromRequest r) (DB s)
      in if u = '''' then (s, httpError ''auth required'' 401)
         else (s, reply 200 (Json (JList (map (\<lambda>c. JObj ((''display_name'', JStr (kc_display_name c)) #
                  omitempty ''phaze_username'' (JStr (case kc_phaze_username c of None \<Rightarrow> '''' | Some p \<Rightarrow> p)) @
                  [(''invite_sent'', JBool (kc_invite_sent c)), (''on_phaze'', JBool (kc_phaze_username c \<notin> {None, Some ''''}))]))
                (sort_key kc_display_name (filter (\<lambda>c. kc_username c = u) (skype_import_contacts (DB s)))))))))"

definition skypeMessagesHandler :: http_handler where
  "skypeMessagesHandler e r s =
     (let u = sessionUsername (e_now e) (tokenFromRequest r) (DB s); contact = rQuery r ''contact''
      in if u = '''' then (s, httpError ''auth required'' 401)
         else if contact = '''' then (s, httpError ''contact required'' 400)
         else (s, reply 200 (Json (JList (map (\<lambda>m. JObj [(''sender'', JStr (ki_sender_display m)), (''body'', JStr (ki_body m)),
                  (''sent_at'', JStr (ki_sent_at m))])
                (take 200 (sort_key ki_sent_at
                  (filter (\<lambda>m. ki_username m = u \<and> ki_conversation_display m = contact) (skype_import_messages (DB s))))))))))"

definition skypeInviteHandler :: http_handler where
  "skypeInviteHandler e r s =
     (let u = sessionUsername (e_now e) (tokenFromRequest r) (DB s)
      in if u = '''' then (s, httpError ''auth required'' 401)
         else (s, okJSON [(''invite_link'', JStr (''https://phazechat.world/?ref='' @ u))]))"

end
