(* ===== verification/Router.thy ===== *)
theory Router
  imports Supporters Portal
begin

text \<open>
  Which handler answers which path (\<^verbatim>\<open>main\<close> in \<^verbatim>\<open>nexus_server/main.go\<close>, \<^verbatim>\<open>initSupportRoutes\<close>, \<^verbatim>\<open>initStoriesRoutes\<close>),
  with the middleware each is wrapped in, and what the staff interface guarantees as a whole.  Paths are
  clean: \<^verbatim>\<open>http.ServeMux\<close> redirects others before it calls a handler.  Endpoints that serve pages, files,
  the WebSocket and forms with files are not in the table.
\<close>

section \<open>Routes\<close>

definition configHandler :: http_handler where
  "configHandler e r s =
     (s, okJSON [(''bmc_url'', JStr (let b = e_getenv e ''BMC_URL'' in if b = '''' then ''https://buymeacoffee.com/phazeworld'' else b)),
        (''support_email'', JStr (e_getenv e ''PHAZE_SUPPORT_EMAIL'')), (''version'', JStr ''1.0.0-Phaze'')])"

text \<open>\<open>dbOK\<close> is the answer of \<^verbatim>\<open>PingContext\<close>, \<open>fcmOK\<close> whether Firebase was configured.\<close>

definition healthHandler :: "bool \<Rightarrow> bool \<Rightarrow> http_handler" where
  "healthHandler dbOK fcmOK e r s =
     (let has = (\<lambda>k. e_getenv e k \<noteq> ''''); v = e_getenv e ''Phaze_LATEST_VERSION''; tp = turnProvider e
      in (s, reply (if dbOK then 200 else 503) (Json (JObj
          [(''status'', JStr (if dbOK then ''ok'' else ''degraded'')), (''server'', JStr ''phaze-nexus''),
           (''version'', JStr (if v = '''' then ''1.0.0-Phaze'' else v)), (''database_ok'', JBool dbOK),
           (''turn_configured'', JBool (tp \<noteq> '''')), (''turn_public_fallback'', JBool (tp = '''')), (''turn_provider'', JStr tp),
           (''mail_relay_configured'', JBool (mailRelayURL e \<noteq> '''')),
           (''smtp_configured'', JBool (has ''RESEND_API_KEY'' \<or> has ''BREVO_API_KEY'' \<or> has ''SMTP_HOST'' \<and> has ''SMTP_USER'')),
           (''brevo_configured'', JBool (has ''BREVO_API_KEY'')), (''resend_configured'', JBool (has ''RESEND_API_KEY'')),
           (''webpush_configured'', JBool (has ''VAPID_PUBLIC_KEY'' \<and> has ''VAPID_PRIVATE_KEY'')),
           (''fcm_configured'', JBool fcmOK), (''sentry_configured'', JBool (has ''SENTRY_DSN'')),
           (''litestream_configured'', JBool (has ''LITESTREAM_BUCKET'' \<or> has ''BUCKET_NAME'')),
           (''connected_clients'', JInt (int (onlineUserCount s)))]))))"

abbreviation staffRoute :: "http_handler \<Rightarrow> http_handler" where
  "staffRoute h \<equiv> adminIPGate (rateLimit h)"

definition adminRoutes :: "services \<Rightarrow> (string \<times> http_handler) list" where
  "adminRoutes x =
     [(''/api/v1/admin/me'', staffRoute adminMeHandler),
      (''/api/v1/admin/users'', staffRoute adminUsersHandler),
      (''/api/v1/admin/broadcast'', staffRoute adminBroadcastHandler),
      (''/api/v1/admin/ip-block'', staffRoute adminIPBlockHandler),
      (''/api/v1/admin/global-notice'', staffRoute adminGlobalNoticeHandler),
      (''/api/v1/admin/verify-user'', staffRoute adminVerifyUserHandler),
      (''/api/v1/admin/stats'', staffRoute (adminStatsHandler x)),
      (''/api/v1/admin/logs'', staffRoute adminLogsHandler),
      (''/api/v1/admin/geo'', staffRoute (adminGeoHandler x)),
      (''/api/v1/admin/pending-verifications'', staffRoute adminPendingVerificationsHandler),
      (''/api/v1/admin/reports'', staffRoute adminReportsHandler),
      (''/api/v1/admin/reports/'', staffRoute adminResolveReportHandler),
      (''/api/v1/admin/users/'', staffRoute adminBanHandler),
      (''/api/v1/admin/banned'', staffRoute adminBannedUsersHandler),
      (''/api/v1/admin/supporters'', staffRoute adminSupportersHandler),
      (''/api/v1/admin/supporters/'', staffRoute adminSupporterActionHandler),
      (''/api/v1/admin/grant-supporter'', staffRoute adminGrantSupporterHandler),
      (''/api/v1/admin/servers'', staffRoute adminServersHandler),
      (''/api/v1/admin/messages'', staffRoute (adminMessagesHandler x)),
      (''/api/v1/admin/dms'', staffRoute (adminDMsHandler x)),
      (''/api/v1/admin/bmc-payments'', staffRoute adminBMCPaymentsHandler)]"

definition openRoutes :: "services \<Rightarrow> (string \<times> http_handler) list" where
  "openRoutes x =
     [(''/api/v1/admin/login'', adminIPGate (adminLoginLimit adminLoginHandler)),
      (''/api/v1/admin/logout'', staffRoute adminLogoutHandler),
      (''/api/v1/profile/'', rateLimit profileHandler),
      (''/verify-email'', verifyEmailHandler),
      (''/reset'', resetHandler),
      (''/api/v1/support/escalate'', rateLimit supportEscalateHandler),
      (''/api/v1/stories'', rateLimit storiesHandler),
      (''/api/v1/stories/'', rateLimit storiesItemHandler),
      (''/api/v1/config'', rateLimit configHandler),
      (''/api/v1/support/request'', rateLimit supportRequestHandler),
      (''/api/v1/webhooks/buymeacoffee'', rateLimit (bmcWebhookHandler x)),
      (''/api/v1/import/skype/contacts'', rateLimit skypeContactsHandler),
      (''/api/v1/import/skype/messages'', rateLimit skypeMessagesHandler),
      (''/api/v1/import/skype/invite-link'', rateLimit skypeInviteHandler),
      (''/api/v1/auth/login'', rateLimit httpLoginHandler),
      (''/api/v1/auth/verify-device'', rateLimit httpVerifyDeviceHandler),
      (''/api/v1/auth/logout'', rateLimit httpLogoutHandler),
      (''/api/v1/auth/me'', rateLimit httpMeHandler),
      (''/api/v1/stats'', rateLimit statsHandler),
      (''/api/v1/export'', rateLimit exportHandler),
      (''/api/v1/vapid-key'', vapidKeyHandler)]"

text \<open>A pattern that ends in a slash matches every path below it; the longest pattern wins.\<close>

definition patternMatches :: "string \<Rightarrow> string \<Rightarrow> bool" where
  "patternMatches p path \<longleftrightarrow> p = path \<or> hasSuffix p ''/'' \<and> hasPrefix path p"

definition routeFor :: "(string \<times> http_handler) list \<Rightarrow> string \<Rightarrow> http_handler option" where
  "routeFor routes path =
     (case filter (\<lambda>t. patternMatches (fst t) path) routes of
        [] \<Rightarrow> None
      | t # ts \<Rightarrow> Some (snd (fold (\<lambda>a b. if length (fst a) > length (fst b) then a else b) ts t)))"

definition serveHTTP :: "services \<Rightarrow> http_handler" where
  "serveHTTP x e r s =
     (case routeFor (adminRoutes x @ openRoutes x) (rPath r) of
        Some h \<Rightarrow> h e r s
      | None \<Rightarrow> (s, httpError ''404 page not found'' 404))"

lemma fold_longest_in: "fold (\<lambda>a b. if length (fst a) > length (fst b) then a else b) ts t \<in> set (t # ts)"
  by (induction ts arbitrary: t) auto

lemma routeFor_in:
  assumes "routeFor routes path = Some h"
  shows "\<exists>p. (p, h) \<in> set routes \<and> patternMatches p path"
proof -
  obtain t ts where f: "filter (\<lambda>t. patternMatches (fst t) path) routes = t # ts"
    and h: "h = snd (fold (\<lambda>a b. if length (fst a) > length (fst b) then a else b) ts t)"
    using assms by (auto simp: routeFor_def split: list.splits)
  let ?b = "fold (\<lambda>a b. if length (fst a) > length (fst b) then a else b) ts t"
  have "?b \<in> set (filter (\<lambda>t. patternMatches (fst t) path) routes)" unfolding f by (rule fold_longest_in)
  then show ?thesis using h by (intro exI [of _ "fst ?b"]) auto
qed

section \<open>Only staff\<close>

abbreviation adminAPI :: string where
  "adminAPI \<equiv> ''/api/v1/admin/''"

text \<open>\<open>guarded P h\<close>: whenever the handler changes the state or succeeds, \<open>P\<close> holds of the request.\<close>

definition guarded :: "(env \<Rightarrow> http_request \<Rightarrow> NexusServer \<Rightarrow> bool) \<Rightarrow> http_handler \<Rightarrow> bool" where
  "guarded P h \<longleftrightarrow> (\<forall>e r s. fst (h e r s) \<noteq> s \<or> hStatus (snd (h e r s)) < 400 \<longrightarrow> P e r s)"

definition fromAdmin :: "env \<Rightarrow> http_request \<Rightarrow> NexusServer \<Rightarrow> bool" where
  "fromAdmin e r s \<longleftrightarrow> (\<exists>u. u = sessionUsername (e_now e) (staffToken r) (DB s) \<and> u \<noteq> '''' \<and> userIsAdmin u (DB s))"

definition fromStaff :: "env \<Rightarrow> http_request \<Rightarrow> NexusServer \<Rightarrow> bool" where
  "fromStaff e r s \<longleftrightarrow>
     (\<exists>u. u = sessionUsername (e_now e) (staffToken r) (DB s) \<and> u \<noteq> '''' \<and> roleRank ''helper'' \<le> roleRank (userRole u (DB s)))"

lemma guarded_asAdmin: "guarded fromAdmin (asAdmin f)"
  unfolding guarded_def
proof (intro allI impI)
  fix e r s assume h: "fst (asAdmin f e r s) \<noteq> s \<or> hStatus (snd (asAdmin f e r s)) < 400"
  show "fromAdmin e r s"
  proof (cases "adminFromRequest e r s")
    case (Inl a)
    with h adminFromRequest_Inl [OF Inl] show ?thesis by (auto simp: asAdmin_def)
  next
    case (Inr u)
    then show ?thesis by (auto simp: adminFromRequest_Inr fromAdmin_def)
  qed
qed

lemma guarded_asMod: "guarded fromStaff (asMod ''helper'' f)"
  unfolding guarded_def
proof (intro allI impI)
  fix e r s assume h: "fst (asMod ''helper'' f e r s) \<noteq> s \<or> hStatus (snd (asMod ''helper'' f e r s)) < 400"
  show "fromStaff e r s"
  proof (cases "modFromRequest e ''helper'' r s")
    case (Inl a)
    with h modFromRequest_Inl [OF Inl] show ?thesis by (auto simp: asMod_def)
  next
    case (Inr p)
    then show ?thesis by (cases p) (auto simp: modFromRequest_Inr fromStaff_def)
  qed
qed

lemma guarded_staffRoute:
  "guarded P h \<Longrightarrow> guarded (\<lambda>e r s. adminIPAllowed e (clientIP e r) \<and> P e r s) (staffRoute h)"
  by (auto simp: guarded_def adminIPGate_def rateLimit_def split: if_splits)

lemmas staff_handler_defs =
  adminMeHandler_def adminBroadcastHandler_def adminIPBlockHandler_def adminGlobalNoticeHandler_def
  adminVerifyUserHandler_def adminStatsHandler_def adminLogsHandler_def adminGeoHandler_def
  adminPendingVerificationsHandler_def adminReportsHandler_def adminResolveReportHandler_def adminBanHandler_def
  adminBannedUsersHandler_def adminSupportersHandler_def adminSupporterActionHandler_def adminGrantSupporterHandler_def
  adminServersHandler_def adminMessagesHandler_def adminDMsHandler_def adminBMCPaymentsHandler_def

lemma admin_handlers:
  "\<exists>f. adminMeHandler = asAdmin f" "\<exists>f. adminBroadcastHandler = asAdmin f" "\<exists>f. adminIPBlockHandler = asAdmin f"
  "\<exists>f. adminGlobalNoticeHandler = asAdmin f" "\<exists>f. adminVerifyUserHandler = asAdmin f" "\<exists>f. adminStatsHandler x = asAdmin f"
  "\<exists>f. adminLogsHandler = asAdmin f" "\<exists>f. adminGeoHandler x = asAdmin f"
  "\<exists>f. adminPendingVerificationsHandler = asAdmin f" "\<exists>f. adminReportsHandler = asAdmin f"
  "\<exists>f. adminResolveReportHandler = asAdmin f" "\<exists>f. adminBanHandler = asAdmin f" "\<exists>f. adminBannedUsersHandler = asAdmin f"
  "\<exists>f. adminSupportersHandler = asAdmin f" "\<exists>f. adminSupporterActionHandler = asAdmin f"
  "\<exists>f. adminGrantSupporterHandler = asAdmin f" "\<exists>f. adminServersHandler = asAdmin f" "\<exists>f. adminMessagesHandler x = asAdmin f"
  "\<exists>f. adminDMsHandler x = asAdmin f" "\<exists>f. adminBMCPaymentsHandler = asAdmin f"
  by (rule exI, rule staff_handler_defs)+

text \<open>Every staff route is \<^const>\<open>asAdmin\<close> of something, but for the list of users, which helpers may see.\<close>

lemma adminRoutes_form:
  assumes "(p, h) \<in> set (adminRoutes x)"
  shows "(\<exists>h'. h = staffRoute h' \<and> (\<exists>f. h' = asAdmin f)) \<or> p = ''/api/v1/admin/users'' \<and> h = staffRoute adminUsersHandler"
proof -
  define ok where "ok = (\<lambda>(p, h). (\<exists>h'. h = staffRoute h' \<and> (\<exists>f. h' = asAdmin f)) \<or>
    p = ''/api/v1/admin/users'' \<and> h = staffRoute adminUsersHandler)"
  have ok: "\<exists>f. h' = asAdmin f \<Longrightarrow> ok (p, staffRoute h')" "ok (''/api/v1/admin/users'', staffRoute adminUsersHandler)" for p h'
    unfolding ok_def by blast+
  have "list_all ok (adminRoutes x)"
    unfolding adminRoutes_def by (simp only: list.pred_inject admin_handlers ok simp_thms)
  then show ?thesis using assms by (auto simp: list_all_iff ok_def)
qed

lemma openRoutes_miss:
  assumes "(p, h) \<in> set (openRoutes x)" "hasPrefix path adminAPI" "patternMatches p path"
  shows "p = path \<and> path \<in> {''/api/v1/admin/login'', ''/api/v1/admin/logout''}"
proof -
  define far where "far = (\<lambda>p. \<not> prefix p adminAPI \<and> \<not> prefix adminAPI p)"
  define near where "near = (\<lambda>p. p \<in> {''/api/v1/admin/login'', ''/api/v1/admin/logout''} \<and> \<not> hasSuffix p ''/'')"
  have "list_all (\<lambda>p. far p \<or> near p) (map fst (openRoutes x))"
    by (simp add: openRoutes_def far_def near_def hasSuffix_def suffix_to_prefix)
  then have "far p \<or> near p" using assms(1) by (force simp: list_all_iff)
  moreover have "prefix p path" "prefix adminAPI path" using assms(2,3) by (auto simp: patternMatches_def hasPrefix_def)
  then have "\<not> far p" using prefix_same_cases [of p path adminAPI] by (auto simp: far_def)
  ultimately have "near p" by simp
  with assms(3) show ?thesis unfolding near_def patternMatches_def by blast
qed

text \<open>C5: The staff interface is closed to everyone else.  Whatever request arrives for a path below
  \<^verbatim>\<open>/api/v1/admin/\<close>, other than signing in or out: if it changes the server's state in any way, or is answered with a
  status below 400, it came from an address on the allow-list and carried the valid session token of an
  administrator (of a helper at least, for the list of users).\<close>

theorem admin_only:
  assumes "hasPrefix (rPath r) ''/api/v1/admin/''" "rPath r \<notin> {''/api/v1/admin/login'', ''/api/v1/admin/logout''}"
    and "serveHTTP x e r s = (s', h)" "s' \<noteq> s \<or> hStatus h < 400"
  shows "adminIPAllowed e (clientIP e r) \<and>
     (\<exists>u. u = sessionUsername (e_now e) (staffToken r) (DB s) \<and> u \<noteq> '''' \<and>
        (userIsAdmin u (DB s) \<or> rPath r = ''/api/v1/admin/users'' \<and> roleRank ''helper'' \<le> roleRank (userRole u (DB s))))"
proof -
  obtain f where f: "routeFor (adminRoutes x @ openRoutes x) (rPath r) = Some f" "f e r s = (s', h)"
    using assms(3,4) by (auto simp: serveHTTP_def split: option.splits)
  obtain p where p: "(p, f) \<in> set (adminRoutes x @ openRoutes x)" "patternMatches p (rPath r)"
    using routeFor_in [OF f(1)] by blast
  then have route: "(p, f) \<in> set (adminRoutes x)" using openRoutes_miss [OF _ assms(1) p(2)] assms(2) by auto
  have acts: "fst (f e r s) \<noteq> s \<or> hStatus (snd (f e r s)) < 400" using f(2) assms(4) by simp
  from adminRoutes_form [OF route] show ?thesis
  proof
    assume "\<exists>h'. f = staffRoute h' \<and> (\<exists>g. h' = asAdmin g)"
    then obtain g where "f = staffRoute (asAdmin g)" by blast
    then have "adminIPAllowed e (clientIP e r) \<and> fromAdmin e r s"
      using guarded_staffRoute [OF guarded_asAdmin, of g] acts unfolding guarded_def by blast
    then show ?thesis by (auto simp: fromAdmin_def)
  next
    assume users: "p = ''/api/v1/admin/users'' \<and> f = staffRoute adminUsersHandler"
    then have "adminIPAllowed e (clientIP e r) \<and> fromStaff e r s"
      using guarded_staffRoute [OF guarded_asMod] acts unfolding guarded_def adminUsersHandler_def by blast
    moreover have "rPath r = p" using p(2) users by (auto simp: patternMatches_def hasSuffix_def suffix_to_prefix)
    ultimately show ?thesis using users by (auto simp: fromStaff_def)
  qed
qed

section \<open>The hierarchy of roles\<close>

definition rights :: "string \<Rightarrow> user_row list \<Rightarrow> (string \<times> bool) option" where
  "rights t us = map_option (\<lambda>u. (u_role u, u_is_admin u)) (sql_row (\<lambda>u. u_username u = t) us)"

lemma rights_update:
  assumes "\<And>u. u_username (f u) = u_username u" "\<And>u. u_role (f u) = u_role u" "\<And>u. u_is_admin (f u) = u_is_admin u"
  shows "rights t (sql_update P f us) = rights t us"
  by (induction us) (simp_all add: rights_def sql_update_def sql_row_def assms)

lemma rights_updUser:
  assumes "\<And>u. u_username (f u) = u_username u" "\<And>u. u_role (f u) = u_role u" "\<And>u. u_is_admin (f u) = u_is_admin u"
  shows "rights t (users (updUser v f d)) = rights t (users d)"
  using rights_update [OF assms] by (simp add: updUser_def)

lemma DB_closeAll [simp]: "DB (closeAll e cs m s) = DB s"
  by (induction cs arbitrary: s) (simp_all add: Send_eq)

lemma DB_dropAllClients [simp]: "DB (dropAllClients e u m s) = DB s"
  by (simp add: dropAllClients_def)

lemma DB_broadcastAll [simp]: "DB (broadcastAll e m s) = DB s"
  by (simp add: broadcastAll_eq)

text \<open>\<open>keepsRights h\<close>: the handler changes the role of no account.\<close>

definition keepsRights :: "http_handler \<Rightarrow> bool" where
  "keepsRights h \<longleftrightarrow> (\<forall>e r s t. rights t (users (DB (fst (h e r s)))) = rights t (users (DB s)))"

lemma keepsRights_staffRoute: "keepsRights h \<Longrightarrow> keepsRights (staffRoute h)"
  by (simp add: keepsRights_def adminIPGate_def rateLimit_def)

lemma keepsRights_asAdmin: "(\<And>u. keepsRights (f u)) \<Longrightarrow> keepsRights (asAdmin f)"
  by (simp add: keepsRights_def asAdmin_def split: sum.splits)

lemma keepsRights_asMod: "(\<And>u. keepsRights (f u)) \<Longrightarrow> keepsRights (asMod m f)"
  by (auto simp: keepsRights_def asMod_def split: sum.splits)

lemma keepsRights_reads [simp]: "keepsRights (\<lambda>e r s. (s, h e r s))"
  by (simp add: keepsRights_def)

lemma keepsRights_listings:
  "keepsRights adminMeHandler" "keepsRights adminUsersHandler" "keepsRights (adminStatsHandler x)" "keepsRights adminLogsHandler"
  "keepsRights adminPendingVerificationsHandler" "keepsRights adminReportsHandler" "keepsRights adminBannedUsersHandler"
  "keepsRights adminSupportersHandler" "keepsRights adminBMCPaymentsHandler"
  unfolding staff_handler_defs adminUsersHandler_def
  by (intro keepsRights_asAdmin keepsRights_asMod, simp add: keepsRights_def Let_def)+

lemma keepsRights_notices: "keepsRights adminBroadcastHandler" "keepsRights adminIPBlockHandler" "keepsRights adminGlobalNoticeHandler"
  unfolding staff_handler_defs
  by (rule keepsRights_asAdmin, simp add: keepsRights_def Let_def takeID_def kickAddress_def blockIP_def unblockIP_def split: option.splits)+

lemma keepsRights_contents:
  "keepsRights (adminGeoHandler x)" "keepsRights adminResolveReportHandler" "keepsRights adminServersHandler"
  "keepsRights (adminMessagesHandler x)" "keepsRights (adminDMsHandler x)"
  unfolding staff_handler_defs
  by (rule keepsRights_asAdmin, simp add: keepsRights_def Let_def deleteServerRows_def split: option.splits)+

lemma keepsRights_accounts:
  "keepsRights adminVerifyUserHandler" "keepsRights adminSupporterActionHandler" "keepsRights adminGrantSupporterHandler"
  unfolding staff_handler_defs
  by (rule keepsRights_asAdmin, simp add: keepsRights_def Let_def rights_updUser setSupporter_def insertSupporter_def takeID_def
        setRequestStatus_def split: option.splits)+

lemmas keepsRights_handlers = keepsRights_listings keepsRights_notices keepsRights_contents keepsRights_accounts
lemma rights_userRow: "rights t (users d) = map_option (\<lambda>u. (u_role u, u_is_admin u)) (userRow t d)"
  by (simp add: rights_def userRow_def)

lemma rights_delete: "rights t (sql_delete (\<lambda>u. u_username u = v) us) = (if t = v then None else rights t us)"
  by (induction us) (auto simp: rights_def sql_delete_def sql_row_def)

lemma rights_banUser: "rights t (users (DB (banUser e v why s))) = rights t (users (DB s))"
  by (simp add: banUser_def Let_def updSession_def rights_updUser)

lemma rights_disableTOTP: "rights t (users (disableTOTP v d)) = rights t (users d)"
  by (simp add: disableTOTP_def Let_def rights_updUser)

text \<open>A staff action on one account: what it leaves of everybody's role.\<close>

lemma adminBanHandler_rights:
  assumes "adminBanHandler e r s = (s', h)" "rights t (users (DB s')) \<noteq> rights t (users (DB s))" "rights t (users (DB s')) \<noteq> None"
  shows "\<exists>u role. adminFromRequest e r s = Inr u \<and> t \<noteq> u \<and> roleRank (userRole t (DB s)) < roleRank (userRole u (DB s)) \<and>
     roleRank role < roleRank (userRole u (DB s)) \<and> DB s' = setRole t role (DB s)"
proof -
  obtain u where u: "adminFromRequest e r s = Inr u"
    using assms(1,2) by (auto simp: adminBanHandler_def asAdmin_def split: sum.splits)
  let ?parts = "strSplit CHR ''/'' (TrimPrefix (rPath r) ''/api/v1/admin/users/'')"
  define target where "target = ?parts ! 0"
  define role where "role = field ''role''
    (if rContentLength r > 0 \<and> rContentLength r < 4096 then case rBody r of None \<Rightarrow> [] | Some b \<Rightarrow> b else [])"
  have "target \<noteq> u \<and> roleRank (userRole target (DB s)) < roleRank (userRole u (DB s)) \<and>
      roleRank role < roleRank (userRole u (DB s)) \<and> DB s' = setRole target role (DB s)"
    using assms unfolding adminBanHandler_def asAdmin_def u sum.case
    by (auto simp: Let_def target_def [symmetric] role_def [symmetric] rights_banUser rights_disableTOTP rights_updUser rights_delete
        deleteAccount_def split: if_splits)
  moreover from this assms(2) have "t = target"
    by (auto simp: setRole_def rights_userRow userRow_updUser split: if_splits)
  ultimately show ?thesis using u by blast
qed

text \<open>C10: Roles are handed down, never up: a request to the staff interface changes the role or the administrator flag of an
  account only if the requester is another account, an administrator by flag, whose rank is above the
  account's old rank and above its new one.\<close>

theorem role_hierarchy:
  assumes "hasPrefix (rPath r) ''/api/v1/admin/''" "rPath r \<notin> {''/api/v1/admin/login'', ''/api/v1/admin/logout''}"
    and "serveHTTP x e r s = (s', h)" "userRow t (DB s) = Some a" "userRow t (DB s') = Some b"
    and "u_role b \<noteq> u_role a \<or> u_is_admin b \<noteq> u_is_admin a"
  shows "\<exists>u. u = sessionUsername (e_now e) (staffToken r) (DB s) \<and> userIsAdmin u (DB s) \<and> u \<noteq> t \<and>
     roleRank (userRole t (DB s)) < roleRank (userRole u (DB s)) \<and> roleRank (u_role b) < roleRank (userRole u (DB s))"
proof -
  have changed: "rights t (users (DB s')) \<noteq> rights t (users (DB s))" "rights t (users (DB s')) \<noteq> None"
    using assms(4-6) by (auto simp: rights_userRow)
  obtain f where f: "routeFor (adminRoutes x @ openRoutes x) (rPath r) = Some f" "f e r s = (s', h)"
    using assms(3) changed by (auto simp: serveHTTP_def split: option.splits)
  obtain p where p: "(p, f) \<in> set (adminRoutes x @ openRoutes x)" "patternMatches p (rPath r)"
    using routeFor_in [OF f(1)] by blast
  then have "(p, f) \<in> set (adminRoutes x)" using openRoutes_miss [OF _ assms(1) p(2)] assms(2) by auto
  moreover have "\<not> keepsRights f" using f(2) changed(1) unfolding keepsRights_def by (metis fst_conv)
  ultimately have "f = staffRoute adminBanHandler"
    using keepsRights_handlers [THEN keepsRights_staffRoute] unfolding adminRoutes_def by auto
  then have "adminBanHandler e r s = (s', h)"
    using f(2) changed(1) by (auto simp: adminIPGate_def rateLimit_def split: if_splits)
  then obtain u role where "adminFromRequest e r s = Inr u" "t \<noteq> u"
    and ranks: "roleRank (userRole t (DB s)) < roleRank (userRole u (DB s))" "roleRank role < roleRank (userRole u (DB s))"
    and s': "DB s' = setRole t role (DB s)"
    using adminBanHandler_rights changed by blast
  moreover have "u_role b = role" using assms(4,5) s' by (auto simp: setRole_def userRow_updUser)
  ultimately show ?thesis by (auto simp: adminFromRequest_Inr)
qed
lemma clientsOf_dropAllClients [simp]: "clientsOf u (dropAllClients e v m s) = (if u = v then [] else clientsOf u s)"
  by (simp add: clientsOf_def dropAllClients_def)

text \<open>C15: A ban takes effect at once and completely, whatever the role of the account: after an administrator's request to ban
  it, the account is marked as banned, no session token of it is accepted at any time, it has no
  connection left and every connection it had is closed.\<close>

theorem ban_takes_effect:
  assumes "adminFromRequest e r s = Inr admin" "rMethod r = ''POST''" "rPath r = ''/api/v1/admin/users/'' @ target @ ''/ban''"
    and "validUsername target" "target \<noteq> admin" "userRow target (DB s) \<noteq> None"
    and "adminBanHandler e r s = (s', h)"
  shows "hStatus h = 200 \<and> fst (userBanInfo target (DB s')) \<and> (\<forall>now tok. sessionUsername now tok (DB s') \<noteq> target) \<and>
     clientsOf target s' = [] \<and> list_all (\<lambda>c. cClosed (conns s' c)) (clientsOf target s)"
proof -
  have parts: "strSplit CHR ''/'' (target @ ''/ban'') = [target, ''ban'']"
    using strSplit_append [OF validUsername_no_slash [OF assms(4)], of "''ban''"] by simp
  have ne: "target \<noteq> ''''" using assms(4) by (auto simp: validUsername_def)
  obtain why where s': "s' = banUser e target why s" and h: "hStatus h = 200"
    using assms ne by (auto simp: adminBanHandler_def asAdmin_def Let_def parts TrimPrefix_def)
  have "userBanInfo target (DB s') = (True, why)"
    using assms(6) by (auto simp: s' banUser_def Let_def) (simp add: userBanInfo_def userRow_updUser)
  moreover have "\<forall>now tok. sessionUsername now tok (DB s') \<noteq> target"
    by (simp add: s' banUser_def Let_def sessionUsername_revoked [OF ne])
  moreover have "clientsOf target s' = []" by (simp add: s' banUser_def Let_def)
  moreover have "list_all (\<lambda>c. cClosed (conns s' c)) (clientsOf target s)"
    by (auto simp: s' banUser_def Let_def dropAllClients_def list_all_iff clientsOf_def intro!: closeAll_closed)
  ultimately show ?thesis using h by simp
qed

text \<open>Bob is the super-administrator, Eve an account he acts upon.\<close>

definition nexusStaff :: NexusServer where
  "nexusStaff = nexus0\<lparr>DB := emptyDB\<lparr>
     users := [(newUser 0 ''bob'' ''b@x'' '''' ''$#hunter22'' ''012345'')\<lparr>u_is_verified := True, u_is_admin := True, u_role := ''super_admin''\<rparr>,
       newUser 0 ''eve'' ''e@x'' '''' ''$#x'' ''012345''],
     session_tokens := [newSession env0 (4 * hour) ''t'' ''bob'' ''admin-portal'']\<rparr>\<rparr>"

definition staffPost :: "string \<Rightarrow> http_request" where
  "staffPost act = request0\<lparr>rPath := ''/api/v1/admin/users/eve/'' @ act, rCookie := (\<lambda>_. Some ''t''),
     rBody := Some [(''role'', ''helper'')], rContentLength := 17\<rparr>"

lemma staffPost_admin: "adminFromRequest env0 (staffPost act) nexusStaff = Inr ''bob''"
  by (simp add: adminFromRequest_def staffToken_def staffPost_def sessionUsername_def sessionState_def sessionRow_def sql_row_def
      nexusStaff_def newSession_def duration_defs userIsAdmin_def userRow_def newUser_def)

lemma staffPost_route:
  "routeFor (adminRoutes x @ openRoutes x) (rPath (staffPost ''role'')) = Some (staffRoute adminBanHandler)"
  by (simp add: routeFor_def adminRoutes_def openRoutes_def staffPost_def patternMatches_def hasSuffix_def suffix_to_prefix hasPrefix_def)

lemma eve_valid: "validUsername ''eve''" by code_simp

lemma staffPost_role:
  "serveHTTP x env0 (staffPost ''role'') nexusStaff =
     (withDB (setRole ''eve'' ''helper'') nexusStaff,
      okJSON [(''ok'', JBool True), (''user'', JStr ''eve''), (''action'', JStr ''role'')])"
proof -
  have "adminIPAllowed env0 ip" for ip by (simp add: adminIPAllowed_def)
  moreover have "adminBanHandler env0 (staffPost ''role'') nexusStaff = (withDB (setRole ''eve'' ''helper'') nexusStaff,
      okJSON [(''ok'', JBool True), (''user'', JStr ''eve''), (''action'', JStr ''role'')])"
    unfolding adminBanHandler_def asAdmin_def staffPost_admin
    by (simp add: Let_def staffPost_def request0_def TrimPrefix_def eve_valid field_def aget_def knownRole_def roleRank_def userRole_def
        userRow_def sql_row_def nexusStaff_def newUser_def)
  ultimately show ?thesis unfolding serveHTTP_def staffPost_route by (simp add: adminIPGate_def rateLimit_def)
qed

theorem admin_only_witness:
  "adminIPAllowed env0 (clientIP env0 (staffPost ''role'')) \<and>
   (\<exists>u. u = sessionUsername (e_now env0) (staffToken (staffPost ''role'')) (DB nexusStaff) \<and> u \<noteq> '''')"
  using admin_only [OF _ _ staffPost_role] by (auto simp: staffPost_def hasPrefix_def)

theorem role_hierarchy_witness:
  "\<exists>u. u = sessionUsername (e_now env0) (staffToken (staffPost ''role'')) (DB nexusStaff) \<and> u \<noteq> ''eve'' \<and>
     roleRank ''helper'' < roleRank (userRole u (DB nexusStaff))"
proof -
  have a: "userRow ''eve'' (DB nexusStaff) = Some (newUser 0 ''eve'' ''e@x'' '''' ''$#x'' ''012345'')"
    by (simp add: nexusStaff_def userRow_def sql_row_def newUser_def)
  have b: "userRow ''eve'' (DB (withDB (setRole ''eve'' ''helper'') nexusStaff)) =
      Some ((newUser 0 ''eve'' ''e@x'' '''' ''$#x'' ''012345'')\<lparr>u_role := ''helper'', u_is_admin := False\<rparr>)"
    by (simp add: setRole_def userRow_updUser a roleRank_def aget_def)
  from role_hierarchy [OF _ _ staffPost_role a b] show ?thesis
    by (auto simp: staffPost_def hasPrefix_def newUser_def)
qed

theorem ban_takes_effect_witness:
  "fst (userBanInfo ''eve'' (DB (fst (adminBanHandler env0 (staffPost ''ban'') nexusStaff))))"
proof -
  have "userRow ''eve'' (DB nexusStaff) \<noteq> None" by (simp add: nexusStaff_def userRow_def sql_row_def newUser_def)
  then show ?thesis
    using ban_takes_effect [OF staffPost_admin, of "''ban''" "''eve''"] eve_valid
    by (simp add: staffPost_def request0_def prod_eq_iff)
qed

end
