(* ===== verification/Tools.thy ===== *)
theory Tools
  imports Supporters
begin

text \<open>
  The operator's command-line tools that write the server's data, \<^verbatim>\<open>nexus_server/cmd\<close>: \<^verbatim>\<open>grant-supporter\<close>,
  \<^verbatim>\<open>seed-admin\<close> and \<^verbatim>\<open>fetch-seed\<close>.  A run of a tool ends with an error message (\<^const>\<open>Inl\<close>) or with the new
  data.  \<^verbatim>\<open>seed-admin\<close> adds columns an old database lacks; on the schema of \<^verbatim>\<open>Store\<close> there are none.
\<close>

section \<open>grant-supporter\<close>

definition grantSupporter :: "time \<Rightarrow> string \<Rightarrow> bool \<Rightarrow> database \<Rightarrow> string + database" where
  "grantSupporter now username revoke d =
     (if username = '''' then Inl ''-username required''
      else if userRow username d = None then Inl ''user not found''
      else if revoke then Inr (updUser username (\<lambda>u. u\<lparr>u_supporter := False\<rparr>) d)
      else Inr (insertSupporter now username username '''' ''granted'' (setSupporter username d)))"

section \<open>seed-admin\<close>

definition seedUser :: "time \<Rightarrow> string \<Rightarrow> string \<Rightarrow> string \<Rightarrow> user_row" where
  "seedUser now username email hash =
     (newUser now username email '''' hash '''')\<lparr>u_display_name := username, u_is_verified := True, u_verification_code := None\<rparr>"

definition seedAdmin :: "env \<Rightarrow> string \<Rightarrow> string \<Rightarrow> string \<Rightarrow> bool \<Rightarrow> database \<Rightarrow> string + database" where
  "seedAdmin e username password email makeAdmin d =
     (let pw = (if password = '''' then TrimSpace (e_getenv e ''PHAZE_SEED_PASSWORD'') else password)
      in if username = '''' then Inl ''-username required''
         else if \<not> validUsername username then Inl ''invalid username (3-32 chars, a-z A-Z 0-9 . _ -)''
         else if pw = '''' then Inl ''password required''
         else if length pw < 8 then Inl ''password must be at least 8 characters''
         else case e_bcryptHash e pw of
           None \<Rightarrow> Inl ''bcrypt''
         | Some hash \<Rightarrow>
             if userRow username d = None \<and> email = '''' then Inl ''-email required when creating a new account''
             else
               let d1 = (if userRow username d = None then d\<lparr>users := users d @ [seedUser (e_now e) username email hash]\<rparr>
                         else updUser username (\<lambda>u. u\<lparr>u_password_hash := hash, u_is_verified := True\<rparr>) d);
                   d2 = (if makeAdmin then updUser username (\<lambda>u. u\<lparr>u_is_admin := True, u_role := ''super_admin''\<rparr>) d1 else d1);
                   d3 = updUser username (\<lambda>u. u\<lparr>u_is_banned := False, u_ban_reason := ''''\<rparr>) d2
               in Inr (updSession (\<lambda>t. se_username t = username) (\<lambda>t. t\<lparr>se_revoked := True\<rparr>) d3))"

text \<open>The row of the account, and of every other account, after a run.\<close>

lemma sql_row_append: "sql_row P (t @ [u]) = (case sql_row P t of Some r \<Rightarrow> Some r | None \<Rightarrow> if P u then Some u else None)"
  by (induction t) (auto simp: sql_row_def)

lemma userRow_append:
  "userRow v (d\<lparr>users := users d @ [u]\<rparr>) =
     (case userRow v d of Some r \<Rightarrow> Some r | None \<Rightarrow> if u_username u = v then Some u else None)"
  by (simp add: userRow_def sql_row_append)

lemma userRow_updSession [simp]: "userRow v (updSession P f d) = userRow v d"
  by (simp add: userRow_def updSession_def)

lemma seedAdmin_row:
  assumes "seedAdmin e username password email makeAdmin d = Inr d'"
    and "pw = (if password = '''' then TrimSpace (e_getenv e ''PHAZE_SEED_PASSWORD'') else password)"
  shows "\<exists>u hash. userRow username d' = Some u \<and> e_bcryptHash e pw = Some hash \<and> u_password_hash u = hash \<and> u_is_verified u \<and>
     \<not> u_is_banned u \<and> (makeAdmin \<longrightarrow> u_is_admin u \<and> u_role u = ''super_admin'')"
    and "v \<noteq> username \<Longrightarrow> userRow v d' = userRow v d"
  using assms
  by (auto simp: seedAdmin_def Let_def userRow_updUser userRow_append seedUser_def newUser_def
      split: if_splits option.splits)

text \<open>The operator's recovery tool recovers an account.  When it succeeds the account exists, can sign in with the
  password, is not suspended and is a super-administrator if that was asked for; no older session of it works any
  more, and no other account has changed.\<close>

theorem seed_admin_recovers:
  assumes "seedAdmin e username password email makeAdmin d = Inr d'" "password \<noteq> ''''"
    and "\<forall>p h. e_bcryptHash e p = Some h \<longrightarrow> e_bcryptCompare e h p"
  shows "snd (authenticateUser e username password d') \<and> \<not> fst (userBanInfo username d') \<and>
     (makeAdmin \<longrightarrow> userIsAdmin username d' \<and> userRole username d' = ''super_admin'') \<and>
     (\<forall>now tok. sessionUsername now tok d' \<noteq> username) \<and> (\<forall>v. v \<noteq> username \<longrightarrow> userRow v d' = userRow v d)"
proof -
  obtain u hash where u: "userRow username d' = Some u" "e_bcryptHash e password = Some hash" "u_password_hash u = hash"
    "u_is_verified u" "\<not> u_is_banned u" "makeAdmin \<longrightarrow> u_is_admin u \<and> u_role u = ''super_admin''"
    using seedAdmin_row(1) [OF assms(1) refl] assms(2) by auto
  have "e_bcryptCompare e hash password" using assms(3) u(2) by blast
  then have "snd (authenticateUser e username password d')" using u by (simp add: authenticateUser_def split: option.splits)
  moreover have "username \<noteq> ''''" and "\<exists>d0. d' = updSession (\<lambda>t. se_username t = username) (\<lambda>t. t\<lparr>se_revoked := True\<rparr>) d0"
    using assms(1) by (auto simp: seedAdmin_def Let_def split: if_splits option.splits)
  then have "\<forall>now tok. sessionUsername now tok d' \<noteq> username"
    by (auto dest: sessionUsername_revoked)
  ultimately show ?thesis
    using u seedAdmin_row(2) [OF assms(1) refl] by (simp add: userBanInfo_def userIsAdmin_def userRole_def)
qed

text \<open>A fresh account for the operator of an empty installation.\<close>

theorem seed_admin_recovers_witness:
  "snd (authenticateUser env0 ''jack'' ''hunter22'' (projr (seedAdmin env0 ''jack'' ''hunter22'' ''j@x'' True emptyDB)))"
proof -
  have v: "validUsername ''jack''" by code_simp
  have "userRow ''jack'' emptyDB = None" by (simp add: userRow_def sql_row_def emptyDB_def)
  with v obtain d' where "seedAdmin env0 ''jack'' ''hunter22'' ''j@x'' True emptyDB = Inr d'"
    by (simp add: seedAdmin_def Let_def)
  from seed_admin_recovers [OF this] this show ?thesis by simp
qed

section \<open>fetch-seed\<close>

text \<open>
  The directory of the database is a map from file names to contents.  The outside of a run: what the
  bucket holds under a key, what SQLite answers, and the errors of the file system.  A download that
  breaks off has already written a part of the object.
\<close>

datatype fetched = Absent | Unreadable string | Broken string string | Content string

datatype seedError = NoSeed | Failed string

type_synonym dir = "string \<rightharpoonup> string"

record seedWorld =
  sw_get :: "string \<Rightarrow> fetched"
  sw_temp :: "string + string"                               \<comment> \<open>\<^verbatim>\<open>MkdirAll\<close> and \<^verbatim>\<open>CreateTemp\<close>: the error or the fresh name\<close>
  sw_checkpoint :: "string \<Rightarrow> string \<Rightarrow> string + (int \<times> string)"  \<comment> \<open>\<^verbatim>\<open>wal_checkpoint\<close>: the busy flag and the new file\<close>
  sw_journal :: "string \<Rightarrow> string + string"                    \<comment> \<open>the journal mode after \<^verbatim>\<open>journal_mode=DELETE\<close>\<close>
  sw_quick :: "string \<Rightarrow> string + string"                      \<comment> \<open>\<^verbatim>\<open>quick_check\<close>\<close>
  sw_rename :: "string option"

definition newClient :: "(string \<Rightarrow> (string \<times> string) option) \<Rightarrow> string \<Rightarrow> string \<Rightarrow> string \<Rightarrow> string + (string \<times> bool)" where
  "newClient parse endpoint accessKey secretKey =
     (if endpoint = '''' \<or> accessKey = '''' \<or> secretKey = ''''
      then Inl ''need AWS_ENDPOINT_URL_S3, AWS_ACCESS_KEY_ID and AWS_SECRET_ACCESS_KEY''
      else case parse endpoint of
             None \<Rightarrow> Inl ''bad AWS_ENDPOINT_URL_S3''
           | Some (scheme, host) \<Rightarrow> if host = '''' then Inl ''bad AWS_ENDPOINT_URL_S3'' else Inr (host, scheme \<noteq> ''http''))"

definition download :: "seedWorld \<Rightarrow> string \<Rightarrow> string \<Rightarrow> dir \<Rightarrow> dir \<times> seedError option" where
  "download w key path fs =
     (case sw_get w key of
        Absent \<Rightarrow> (fs, Some NoSeed)
      | Unreadable err \<Rightarrow> (fs, Some (Failed (''reading '' @ key @ '': '' @ err)))
      | Broken part err \<Rightarrow> (fs(path \<mapsto> part), Some (Failed (''downloading '' @ key @ '': '' @ err)))
      | Content c \<Rightarrow> (fs(path \<mapsto> c), None))"

definition content :: "string \<Rightarrow> dir \<Rightarrow> string" where
  "content path fs = (case fs path of Some c \<Rightarrow> c | None \<Rightarrow> '''')"

definition foldWAL :: "seedWorld \<Rightarrow> string \<Rightarrow> dir \<Rightarrow> dir \<times> seedError option" where
  "foldWAL w path fs =
     (case sw_checkpoint w (content path fs) (content (path @ ''-wal'') fs) of
        Inl err \<Rightarrow> (fs, Some (Failed err))
      | Inr (busy, db) \<Rightarrow>
          let fs1 = fs(path \<mapsto> db, path @ ''-wal'' \<mapsto> '''')
          in if busy \<noteq> 0 then (fs1, Some (Failed ''checkpoint did not complete''))
             else case sw_journal w db of
                    Inl err \<Rightarrow> (fs1, Some (Failed err))
                  | Inr mode \<Rightarrow>
                      if mode \<noteq> ''delete'' then (fs1, Some (Failed (''journal mode stayed '' @ mode)))
                      else (fs1(path @ ''-wal'' := None), None))"

definition sqliteHeader :: string where
  "sqliteHeader = ''SQLite format 3'' @ [chr 0]"

definition checkSQLite :: "seedWorld \<Rightarrow> string \<Rightarrow> dir \<Rightarrow> string option" where
  "checkSQLite w path fs =
     (if take 16 (content path fs) \<noteq> sqliteHeader then Some ''missing SQLite header''
      else case sw_quick w (content path fs) of
             Inl err \<Rightarrow> Some err
           | Inr result \<Rightarrow> if result \<noteq> ''ok'' then Some (''quick_check: '' @ result) else None)"

fun applying :: "seedError \<Rightarrow> seedError" where
  "applying (Failed err) = Failed (''applying seed/nexus.db-wal: '' @ err)"
| "applying NoSeed = Failed ''applying seed/nexus.db-wal: no seed in bucket''"

definition applyWAL :: "seedWorld \<Rightarrow> string \<Rightarrow> dir \<Rightarrow> dir \<times> seedError option" where
  "applyWAL w path fs = (let (fs1, err) = foldWAL w path fs in (fs1, map_option applying err))"

text \<open>The part of \<^verbatim>\<open>fetchSeed\<close> after the temporary file exists.\<close>

definition fetchInto :: "seedWorld \<Rightarrow> string \<Rightarrow> string \<Rightarrow> dir \<Rightarrow> dir \<times> seedError option" where
  "fetchInto w tmp dbPath fs =
     (case download w ''seed/nexus.db'' tmp fs of
        (fs1, Some err) \<Rightarrow> (fs1, Some err)
      | (fs1, None) \<Rightarrow>
          let (fs2, werr) = download w ''seed/nexus.db-wal'' (tmp @ ''-wal'') fs1;
              (fs3, err3) = (case werr of Some NoSeed \<Rightarrow> (fs2, None) | Some err \<Rightarrow> (fs2, Some err) | None \<Rightarrow> applyWAL w tmp fs2)
          in case err3 of
               Some err \<Rightarrow> (fs3, Some err)
             | None \<Rightarrow>
                 (case checkSQLite w tmp fs3 of
                    Some err \<Rightarrow> (fs3, Some (Failed (''seed/nexus.db is not a usable database: '' @ err)))
                  | None \<Rightarrow>
                      (case sw_rename w of
                         Some err \<Rightarrow> (fs3, Some (Failed err))
                       | None \<Rightarrow> (fs3(dbPath := fs3 tmp, tmp := None), None))))"

definition fetchSeed :: "seedWorld \<Rightarrow> string \<Rightarrow> dir \<Rightarrow> dir \<times> seedError option" where
  "fetchSeed w dbPath fs =
     (if fs dbPath \<noteq> None then (fs, Some (Failed (dbPath @ '' already exists; refusing to overwrite it'')))
      else case sw_temp w of
             Inl err \<Rightarrow> (fs, Some (Failed err))
           | Inr tmp \<Rightarrow>
               let (fs1, err) = fetchInto w tmp dbPath (fs(tmp \<mapsto> ''''))
               in (fs1(tmp @ ''-shm'' := None, tmp @ ''-wal'' := None, tmp := None), err))"

text \<open>\<^verbatim>\<open>main\<close>: the run ends in a fatal error, in an import, or in nothing to import.\<close>

datatype seedExit = Fatal string | NothingToImport | Imported

definition fetchSeedMain ::
  "(string \<Rightarrow> (string \<times> string) option) \<Rightarrow> (string \<Rightarrow> string) \<Rightarrow> seedWorld \<Rightarrow> string \<Rightarrow> dir \<Rightarrow> dir \<times> seedExit" where
  "fetchSeedMain parse getenv w dbPath fs =
     (let bucket = (if getenv ''BUCKET_NAME'' = '''' then getenv ''LITESTREAM_BUCKET'' else getenv ''BUCKET_NAME'')
      in case newClient parse (getenv ''AWS_ENDPOINT_URL_S3'') (getenv ''AWS_ACCESS_KEY_ID'') (getenv ''AWS_SECRET_ACCESS_KEY'') of
           Inl err \<Rightarrow> (fs, Fatal (''bucket settings incomplete: '' @ err))
         | Inr _ \<Rightarrow>
             if bucket = '''' then (fs, Fatal ''bucket settings incomplete: <nil>'')
             else (case fetchSeed w dbPath fs of
                     (fs1, Some NoSeed) \<Rightarrow> (fs1, NothingToImport)
                   | (fs1, Some (Failed err)) \<Rightarrow> (fs1, Fatal err)
                   | (fs1, None) \<Rightarrow> (fs1, Imported)))"

text \<open>Before the final rename only the temporary files change.\<close>

definition scratch :: "string \<Rightarrow> string set" where
  "scratch tmp = {tmp, tmp @ ''-wal'', tmp @ ''-shm''}"

lemma download_frame: "download w key path fs = (fs', err) \<Longrightarrow> p \<noteq> path \<Longrightarrow> fs' p = fs p"
  by (auto simp: download_def split: fetched.splits)

lemma foldWAL_frame: "foldWAL w tmp fs = (fs', err) \<Longrightarrow> p \<notin> scratch tmp \<Longrightarrow> fs' p = fs p"
  by (auto simp: foldWAL_def scratch_def Let_def split: sum.splits prod.splits if_splits)

lemma applyWAL_frame: "applyWAL w tmp fs = (fs', err) \<Longrightarrow> p \<notin> scratch tmp \<Longrightarrow> fs' p = fs p"
  using foldWAL_frame [of w tmp fs "fst (foldWAL w tmp fs)" "snd (foldWAL w tmp fs)" p] by (auto simp: applyWAL_def split_beta)

lemma fetchInto_cases:
  assumes "fetchInto w tmp dbPath fs = (fs', err)"
  shows "\<exists>fs3. (\<forall>p. p \<notin> scratch tmp \<longrightarrow> fs3 p = fs p) \<and>
    (if err = None then fs' = fs3(dbPath := fs3 tmp, tmp := None) \<and> checkSQLite w tmp fs3 = None else fs' = fs3)"
proof -
  obtain fs1 e1 where d1: "download w ''seed/nexus.db'' tmp fs = (fs1, e1)" by fastforce
  obtain fs2 e2 where d2: "download w ''seed/nexus.db-wal'' (tmp @ ''-wal'') fs1 = (fs2, e2)" by fastforce
  obtain fs3 e3 where d3: "(case e2 of Some NoSeed \<Rightarrow> (fs2, None) | Some err \<Rightarrow> (fs2, Some err) | None \<Rightarrow> applyWAL w tmp fs2) = (fs3, e3)"
    by fastforce
  have f1: "\<forall>p. p \<notin> scratch tmp \<longrightarrow> fs1 p = fs p" using download_frame [OF d1] by (auto simp: scratch_def)
  moreover have "\<forall>p. p \<notin> scratch tmp \<longrightarrow> fs2 p = fs1 p" using download_frame [OF d2] by (auto simp: scratch_def)
  moreover have "\<forall>p. p \<notin> scratch tmp \<longrightarrow> fs3 p = fs2 p"
    using d3 applyWAL_frame [of w tmp fs2] by (auto split: option.splits seedError.splits)
  ultimately have f3: "\<forall>p. p \<notin> scratch tmp \<longrightarrow> fs3 p = fs p" by simp
  show ?thesis
  proof (cases e1)
    case (Some e)
    then show ?thesis using assms d1 f1 by (auto simp: fetchInto_def)
  next
    case None
    then show ?thesis using assms f3 by (auto simp: fetchInto_def d1 d2 d3 split: option.splits)
  qed
qed


text \<open>A bucket with a one-page database and no log: it is installed.\<close>

abbreviation goodSeed :: seedWorld where
  "goodSeed \<equiv> \<lparr> sw_get = (\<lambda>k. if k = ''seed/nexus.db'' then Content (sqliteHeader @ ''page'') else Absent), sw_temp = Inr ''.seed-1.db'',
     sw_checkpoint = (\<lambda>_ _. Inl ''''), sw_journal = (\<lambda>_. Inl ''''), sw_quick = (\<lambda>_. Inr ''ok''), sw_rename = None \<rparr>"


end
