(* ===== verification/Startup.thy ===== *)
theory Startup
  imports Files Spaces
begin

text \<open>
  What \<^verbatim>\<open>main\<close> in \<^verbatim>\<open>nexus_server/main.go\<close> does before and around the handlers: the working directory, the settings, the
  part of \<^verbatim>\<open>initDB\<close> that is not the schema, the spaces everybody is in, and the pages of the site.  \<open>isFile\<close> tells which
  paths are readable files; paths of requests are clean, as \<^verbatim>\<open>http.ServeMux\<close> makes them.
\<close>

section \<open>Settings\<close>

definition envDefault :: "env \<Rightarrow> string \<Rightarrow> string \<Rightarrow> string" where
  "envDefault e key dflt = (if e_getenv e key = '''' then dflt else e_getenv e key)"

definition TrimLeftSlash :: "string \<Rightarrow> string" where
  "TrimLeftSlash p = dropWhile (\<lambda>c. c = CHR ''/'') p"

record settings =
  cfPort :: string
  cfDBPath :: string
  cfWebDir :: string
  cfIndexNowKey :: string
  cfAdminPath :: string
  cfBindAddr :: string

definition settingsOf :: "env \<Rightarrow> settings" where
  "settingsOf e =
     \<lparr> cfPort = envDefault e ''PORT'' ''8080'', cfDBPath = envDefault e ''DB_PATH'' ''nexus.db'',
       cfWebDir = (let d = TrimSpace (e_getenv e ''PHAZE_WEB_DIR'') in if d = '''' then ''web'' else d),
       cfIndexNowKey = envDefault e ''INDEXNOW_KEY'' ''c7b5c55a52c28ecfa0b858dbce7c2a3e'',
       cfAdminPath = (let p = TrimSpace (e_getenv e ''PHAZE_ADMIN_PATH'')
                      in CHR ''/'' # TrimLeftSlash (if p = '''' then ''/nexus-cmd'' else p)),
       cfBindAddr = envDefault e ''BIND_ADDR'' ''0.0.0.0'' \<rparr>"

text \<open>
  \<^verbatim>\<open>resolveWorkingDir\<close>: the directory the process ends in.  \<open>absP\<close> is \<^verbatim>\<open>filepath.Abs\<close>, which also cleans a path, \<open>chdir\<close> whether a change of
  directory succeeds, \<open>exeDir\<close> the cleaned directory of the executable when it is known.
\<close>

fun firstDir :: "(string \<Rightarrow> string option) \<Rightarrow> (string \<Rightarrow> bool) \<Rightarrow> (string \<Rightarrow> bool) \<Rightarrow> string \<Rightarrow> string list \<Rightarrow> string" where
  "firstDir absP isFile chdir wd [] = wd"
| "firstDir absP isFile chdir wd (c # cs) =
     (case absP c of
        None \<Rightarrow> firstDir absP isFile chdir wd cs
      | Some a \<Rightarrow> if isFile (a @ ''/templates/landing.html'') \<and> chdir a then a else firstDir absP isFile chdir wd cs)"

definition resolveWorkingDir ::
  "env \<Rightarrow> (string \<Rightarrow> string option) \<Rightarrow> (string \<Rightarrow> bool) \<Rightarrow> (string \<Rightarrow> bool) \<Rightarrow> string option \<Rightarrow> string \<Rightarrow> string" where
  "resolveWorkingDir e absP isFile chdir exeDir wd =
     (let d = TrimSpace (e_getenv e ''PHAZE_ASSET_ROOT'')
      in if d \<noteq> '''' then (case absP d of None \<Rightarrow> wd | Some a \<Rightarrow> if chdir a then a else wd)
         else if isFile (wd @ ''/templates/landing.html'') then wd
         else case exeDir of
                None \<Rightarrow> wd
              | Some x \<Rightarrow> firstDir absP isFile chdir wd [x, x @ ''/../nexus_server'', x @ ''/../../nexus_server''])"

text \<open>
  The libraries the start configures.  Constructing a Firebase application and its messaging client, and starting the crash reporter, may
  fail; the server then runs without them.  The store of uploads is chosen once: a bad setting (\<open>None\<close>) ends the process, and
  later calls return what the first one chose.
\<close>

definition initFCM :: "env \<Rightarrow> (string \<Rightarrow> 'app option) \<Rightarrow> ('app \<Rightarrow> 'client option) \<Rightarrow> 'client option" where
  "initFCM e newApp messaging =
     (let keyJSON = e_getenv e ''FCM_SERVICE_ACCOUNT_JSON''
      in if keyJSON = '''' then None else Option.bind (newApp keyJSON) messaging)"

record sentryOptions =
  so_Dsn :: string
  so_Environment :: string
  so_Release :: string
  so_ServerName :: string

definition initSentry :: "env \<Rightarrow> string \<Rightarrow> (sentryOptions \<Rightarrow> bool) \<Rightarrow> string \<Rightarrow> sentryOptions option" where
  "initSentry e version started component =
     (let dsn = e_getenv e ''SENTRY_DSN'';
          opts = \<lparr> so_Dsn = dsn, so_Environment = envDefault e ''SENTRY_ENVIRONMENT'' ''production'', so_Release = version,
                   so_ServerName = component \<rparr>
      in if dsn = '''' \<or> \<not> started opts then None else Some opts)"

definition blobsOnce :: "env \<Rightarrow> store option \<Rightarrow> store option" where
  "blobsOnce e chosen = (case chosen of None \<Rightarrow> blobStoreFromEnv e | Some b \<Rightarrow> Some b)"

lemma blobsOnce_stable: "blobsOnce e chosen = Some b \<Longrightarrow> blobsOnce e' (blobsOnce e chosen) = Some b"
  by (simp add: blobsOnce_def)

section \<open>The accounts at start\<close>

definition promoteAdmin :: "string \<Rightarrow> database \<Rightarrow> database" where
  "promoteAdmin u d = updUser u (\<lambda>r. r\<lparr>u_is_admin := True, u_role := ''super_admin''\<rparr>) d"

definition adminNames :: "env \<Rightarrow> string list" where
  "adminNames e =
     (let raw = TrimSpace (e_getenv e ''PHAZE_ADMIN_USERS'')
      in if raw = '''' then [] else filter (\<lambda>u. u \<noteq> '''') (map TrimSpace (strSplit CHR '','' raw)))"

definition backfillRoles :: "database \<Rightarrow> database" where
  "backfillRoles d = d\<lparr>users := sql_update (\<lambda>u. u_is_admin u \<and> (u_role u = '''' \<or> u_role u = ''user''))
     (\<lambda>u. u\<lparr>u_role := ''admin''\<rparr>) (users d)\<rparr>"

definition initAccounts :: "env \<Rightarrow> database \<Rightarrow> database" where
  "initAccounts e d = backfillRoles (fold promoteAdmin (adminNames e) d)"

text \<open>The state a server starts with on a database.\<close>

definition boot :: "env \<Rightarrow> database \<Rightarrow> NexusServer" where
  "boot e d =
     (let s1 = loadBlockedIPs (nexus0\<lparr>DB := initAccounts e d\<rparr>);
          s2 = withDB (ensureGlobalSpace (e_now e)) s1; bot = e_getenv e ''NOVA_USERNAME''
      in if bot \<noteq> '''' then withDB (autoJoinPublicSpaces (e_now e) bot) s2 else s2)"

section \<open>Pages\<close>

datatype page = NotFound | ServeFile string | Inline string | Redirect string

record page_reply =
  pgHeaders :: "(string \<times> string) list"
  pgBody :: page

text \<open>Go's file server answers a path that ends in \<^verbatim>\<open>/index.html\<close> with a redirect to the directory.\<close>

definition serveFile :: "string \<Rightarrow> string \<Rightarrow> page" where
  "serveFile path f = (if hasSuffix path ''/index.html'' then Redirect ''./'' else ServeFile f)"

definition landingHandler :: "(string \<Rightarrow> bool) \<Rightarrow> string \<Rightarrow> string \<Rightarrow> page_reply" where
  "landingHandler isFile rootHTML path =
     (if path \<noteq> ''/'' then \<lparr> pgHeaders = [], pgBody = NotFound \<rparr>
      else if isFile ''templates/landing.html'' then \<lparr> pgHeaders = [], pgBody = ServeFile ''templates/landing.html'' \<rparr>
      else \<lparr> pgHeaders = [(''Content-Type'', ''text/html'')], pgBody = Inline rootHTML \<rparr>)"

definition downloadHandler :: "string \<Rightarrow> page_reply" where
  "downloadHandler path =
     \<lparr> pgHeaders = (if hasSuffix path ''.apk'' then [(''Content-Type'', ''application/vnd.android.package-archive'')] else []),
       pgBody = ServeFile ''templates/download.html'' \<rparr>"

definition attachHeaders :: "string \<Rightarrow> (string \<times> string) list" where
  "attachHeaders name = [(''Content-Type'', ''application/octet-stream''),
     (''Content-Disposition'', ''attachment; filename='' @ [chr 34] @ name @ [chr 34])]"

definition fileDownloadHandler :: "string \<Rightarrow> page_reply" where
  "fileDownloadHandler path =
     (let name = fileBase (TrimPrefix path ''/downloads/'')
      in if name = '''' \<or> name = ''.'' \<or> name = ''/'' then \<lparr> pgHeaders = [], pgBody = NotFound \<rparr>
         else \<lparr> pgHeaders =
                  (if hasSuffix name ''.apk'' then attachHeaders ''Phaze.apk'' @ [(''X-Content-Type-Options'', ''nosniff''), (''Cache-Control'', ''no-store'')]
                   else if hasSuffix name ''.exe'' then attachHeaders ''Phaze.exe'' @ [(''Cache-Control'', ''no-store'')]
                   else if hasSuffix name ''.linux'' then attachHeaders ''Phaze.linux'' @ [(''Cache-Control'', ''no-store'')]
                   else []),
                pgBody = serveFile path (''public/downloads/'' @ name) \<rparr>)"

definition webPolicy :: "(string \<times> string) list" where
  "webPolicy =
     [(''Permissions-Policy'', ''camera=(self), microphone=(self), display-capture=(self), autoplay=(self)''),
      (''Content-Security-Policy'', ''default-src 'self'; connect-src 'self' wss://phazechat.world wss://*.phazechat.world; img-src 'self' data: blob:; media-src 'self' blob:; style-src 'self' 'unsafe-inline' https://fonts.googleapis.com; font-src 'self' https://fonts.gstatic.com; script-src 'self'; frame-ancestors '' @ [chr 39] @ ''none'' @ [chr 39])]"

definition webHandler :: "(string \<Rightarrow> bool) \<Rightarrow> string \<Rightarrow> string \<Rightarrow> page_reply" where
  "webHandler isFile webDir path =
     (let rel = TrimPrefix path ''/web/''; candidate = webDir @ ''/'' @ rel
      in if rel \<noteq> '''' \<and> isFile candidate
         then \<lparr> pgHeaders = webPolicy @ (if hasPrefix rel ''assets/'' then [(''Cache-Control'', ''public, max-age=31536000, immutable'')] else []),
                pgBody = serveFile path candidate \<rparr>
         else \<lparr> pgHeaders = webPolicy @ [(''Cache-Control'', ''no-cache'')], pgBody = serveFile path (webDir @ ''/index.html'') \<rparr>)"

text \<open>The small pages registered in \<^verbatim>\<open>main\<close>; \<open>today\<close> is the date.\<close>

definition robotsTxt :: page_reply where
  "robotsTxt =
     \<lparr> pgHeaders = [(''Content-Type'', ''text/plain; charset=utf-8''), (''Cache-Control'', ''public, max-age=86400'')],
       pgBody = Inline (concat (map (\<lambda>l. l @ [chr 10])
         [''User-agent: *'', ''Allow: /'', ''Disallow: /api/'', ''Disallow: /ws'', ''Disallow: /reset'',
          ''Sitemap: https://phazechat.world/sitemap.xml''])) \<rparr>"

definition sitemapPaths :: "string list" where
  "sitemapPaths = [''/'', ''/download'', ''/features'', ''/rates'', ''/about'', ''/support'', ''/privacy'', ''/terms'', ''/legal'', ''/status'', ''/web/'']"

definition sitemap :: "string \<Rightarrow> page_reply" where
  "sitemap today =
     \<lparr> pgHeaders = [(''Content-Type'', ''application/xml; charset=utf-8''), (''Cache-Control'', ''public, max-age=86400'')],
       pgBody = Inline (
         ''<?xml version='' @ [chr 34] @ ''1.0'' @ [chr 34] @ '' encoding='' @ [chr 34] @ ''UTF-8'' @ [chr 34] @ ''?>'' @
         ''<urlset xmlns='' @ [chr 34] @ ''http://www.sitemaps.org/schemas/sitemap/0.9'' @ [chr 34] @ ''>'' @
         concat (map (\<lambda>p. ''<url><loc>https://phazechat.world'' @ p @ ''</loc><lastmod>'' @ today @
                           ''</lastmod><changefreq>weekly</changefreq></url>'') sitemapPaths) @ ''</urlset>'') \<rparr>"

text \<open>A page that exists only when a variable is set.\<close>

definition verificationPage :: "env \<Rightarrow> string \<Rightarrow> string \<Rightarrow> (string \<Rightarrow> string) \<Rightarrow> page_reply" where
  "verificationPage e key ctype f =
     (let v = e_getenv e key
      in if v = '''' then \<lparr> pgHeaders = [], pgBody = NotFound \<rparr>
         else \<lparr> pgHeaders = [(''Content-Type'', ctype)], pgBody = Inline (f v) \<rparr>)"

definition googlePage :: "env \<Rightarrow> page_reply" where
  "googlePage e = verificationPage e ''PHAZE_GSC_VERIFICATION'' ''text/html; charset=utf-8'' (\<lambda>v. ''google-site-verification: '' @ v)"

definition bingPage :: "env \<Rightarrow> page_reply" where
  "bingPage e = verificationPage e ''PHAZE_BING_VERIFICATION'' ''application/xml; charset=utf-8''
     (\<lambda>v. ''<?xml version='' @ [chr 34] @ ''1.0'' @ [chr 34] @ ''?><users><user>'' @ v @ ''</user></users>'')"

definition yandexPage :: "env \<Rightarrow> page_reply" where
  "yandexPage e = verificationPage e ''PHAZE_YANDEX_VERIFICATION'' ''text/html; charset=utf-8''
     (\<lambda>v. ''<html><head><meta name='' @ [chr 34] @ ''yandex-verification'' @ [chr 34] @ '' content='' @ [chr 34] @ v @ [chr 34] @ '' /></head></html>'')"

definition indexNowPage :: "env \<Rightarrow> page_reply" where
  "indexNowPage e = \<lparr> pgHeaders = [(''Content-Type'', ''text/plain'')], pgBody = Inline (cfIndexNowKey (settingsOf e)) \<rparr>"

definition templatePages :: "string list" where
  "templatePages = [''features'', ''rates'', ''about'', ''support'', ''privacy'', ''terms'', ''legal'']"

text \<open>
  The pages of the site, for paths the tables of theory \<open>Router\<close> and the file server do not have, as \<^verbatim>\<open>http.ServeMux\<close> chooses among them: a pattern without a slash at its end is one path, one with a
  slash every path below it, and \<^verbatim>\<open>/\<close> whatever is left.
\<close>

definition sitePage :: "env \<Rightarrow> (string \<Rightarrow> bool) \<Rightarrow> string \<Rightarrow> string \<Rightarrow> string \<Rightarrow> page_reply" where
  "sitePage e isFile rootHTML today path =
     (let cfg = settingsOf e; spa = isFile (cfWebDir cfg @ ''/index.html'')
      in if hasPrefix path ''/downloads/'' then fileDownloadHandler path
         else if spa \<and> hasPrefix path ''/web/'' then webHandler isFile (cfWebDir cfg) path
         else if spa \<and> path = ''/web'' then \<lparr> pgHeaders = [], pgBody = Redirect ''/web/'' \<rparr>
         else if path = ''/robots.txt'' then robotsTxt
         else if path = ''/sitemap.xml'' then sitemap today
         else if path = ''/google'' then googlePage e
         else if path = ''/BingSiteAuth.xml'' then bingPage e
         else if path = ''/yandex_'' then yandexPage e
         else if path = CHR ''/'' # cfIndexNowKey cfg @ ''.txt'' then indexNowPage e
         else if path = ''/download'' then downloadHandler path
         else if path \<in> set (map (\<lambda>p. CHR ''/'' # p) templatePages)
         then \<lparr> pgHeaders = [], pgBody = ServeFile (''templates'' @ path @ ''.html'') \<rparr>
         else landingHandler isFile rootHTML path)"

section \<open>Who is an administrator after a start\<close>

lemma users_joins: "users (fold (\<lambda>x. joinServer now (f x) (g x)) xs d) = users d"
  by (induction xs arbitrary: d) (simp_all add: joinServer_def)

lemma users_ensure [simp]: "users (ensureGlobalSpace now d) = users d"
  unfolding ensureGlobalSpace_def Let_def users_joins [where f = "\<lambda>_. globalSpaceID" and g = u_username]
  by (simp add: insertServerIgnore_def)

lemma users_autoJoin [simp]: "users (autoJoinPublicSpaces now u d) = users d"
  unfolding autoJoinPublicSpaces_def by (rule users_joins)

lemma users_boot: "users (DB (boot e d)) = users (initAccounts e d)"
  by (simp add: boot_def loadBlockedIPs_def Let_def)

lemma userRow_cong_users: "users d = users d' \<Longrightarrow> userRow u d = userRow u d'"
  by (simp add: userRow_def)

lemma userRow_promote:
  "userRow u (fold promoteAdmin us d) =
     map_option (\<lambda>r. if u \<in> set us then r\<lparr>u_is_admin := True, u_role := ''super_admin''\<rparr> else r) (userRow u d)"
proof (induction us arbitrary: d)
  case (Cons x us)
  have "userRow u (promoteAdmin x d) =
      map_option (\<lambda>r. if u = x then r\<lparr>u_is_admin := True, u_role := ''super_admin''\<rparr> else r) (userRow u d)"
    by (cases "userRow u d") (auto simp: promoteAdmin_def userRow_updUser)
  then show ?case by (cases "userRow u d") (auto simp: Cons.IH)
qed (simp add: option.map_ident)

lemma userRow_backfill:
  "userRow u (backfillRoles d) =
     map_option (\<lambda>r. if u_is_admin r \<and> (u_role r = '''' \<or> u_role r = ''user'') then r\<lparr>u_role := ''admin''\<rparr> else r) (userRow u d)"
proof -
  have "sql_row (\<lambda>x. u_username x = u) (sql_update P f t) = map_option (\<lambda>r. if P r then f r else r) (sql_row (\<lambda>x. u_username x = u) t)"
    if "\<And>r. u_username (f r) = u_username r" for P f and t :: "user_row list"
    by (induction t) (simp_all add: sql_row_def sql_update_def that)
  then show ?thesis by (simp add: userRow_def backfillRoles_def)
qed

text \<open>A start makes every account listed in \<^verbatim>\<open>PHAZE_ADMIN_USERS\<close> that exists a super-administrator, gives an administrator
  without a role the role \<^verbatim>\<open>admin\<close> and leaves every other account as it was, so that taking a name off the list
  takes nothing from the account.\<close>

theorem boot_admins:
  assumes "userRow u d = Some a"
  shows "userRow u (DB (boot e d)) = Some
     (if u \<in> set (adminNames e) then a\<lparr>u_is_admin := True, u_role := ''super_admin''\<rparr>
      else if u_is_admin a \<and> (u_role a = '''' \<or> u_role a = ''user'') then a\<lparr>u_role := ''admin''\<rparr> else a)"
  using userRow_cong_users [OF users_boot [of e d]] assms
  by (auto simp: initAccounts_def userRow_backfill userRow_promote)

lemma adminNames_env0: "adminNames env0 = []"
  by (simp add: adminNames_def TrimSpace_def TrimLeft.simps [of "[]"] TrimRight.simps [of "[]"] goSpaces_def)

lemma boot_admins_witness:
  "userRow ''eve'' (DB (boot env0 (emptyDB\<lparr>users := [(newUser 0 ''eve'' ''e@x'' '''' ''h'' '''')\<lparr>u_is_admin := True, u_role := ''user''\<rparr>]\<rparr>))) =
     Some ((newUser 0 ''eve'' ''e@x'' '''' ''h'' '''')\<lparr>u_is_admin := True, u_role := ''admin''\<rparr>)"
proof -
  let ?a = "(newUser 0 ''eve'' ''e@x'' '''' ''h'' '''')\<lparr>u_is_admin := True, u_role := ''user''\<rparr>"
  have "userRow ''eve'' (emptyDB\<lparr>users := [?a]\<rparr>) = Some ?a" by (simp add: userRow_def sql_row_def newUser_def)
  from boot_admins [OF this, of env0] show ?thesis by (simp add: adminNames_env0)
qed

section \<open>Paths of pages\<close>

text \<open>A download is a file directly in the directory of downloads.\<close>

lemma download_confined:
  assumes "pgBody (fileDownloadHandler path) = ServeFile f"
  shows "\<exists>name. f = ''public/downloads/'' @ name \<and> name \<notin> {'''', ''.''} \<and> CHR ''/'' \<notin> set name"
  using assms fileBase_slash [of "TrimPrefix path ''/downloads/''"]
  by (auto simp: fileDownloadHandler_def serveFile_def Let_def split: if_splits)

lemma admin_path_one_slash: "\<exists>p. cfAdminPath (settingsOf e) = CHR ''/'' # p \<and> (p = [] \<or> hd p \<noteq> CHR ''/'')"
  using hd_dropWhile [of "\<lambda>c. c = CHR ''/''"] by (auto simp: settingsOf_def TrimLeftSlash_def Let_def)

text \<open>The working directory is one the assets are in, whenever one of the candidates is.\<close>

lemma firstDir_found:
  assumes "c \<in> set cs" "absP c = Some a" "isFile (a @ ''/templates/landing.html'')" "chdir a"
  shows "isFile (firstDir absP isFile chdir wd cs @ ''/templates/landing.html'')"
  using assms by (induction cs) (auto split: option.splits)

text \<open>
  The verification file the comment in the code names, \<^verbatim>\<open>google123abc.html\<close>, is not found, whatever the variable holds: the
  pattern is the one path \<^verbatim>\<open>/google\<close>.
\<close>

lemma verification_file_missing:
  assumes "cfIndexNowKey (settingsOf e) @ ''.txt'' \<noteq> ''google123abc.html''"
  shows "sitePage e isFile rootHTML today ''/google123abc.html'' = \<lparr> pgHeaders = [], pgBody = NotFound \<rparr>"
  using assms by (simp add: sitePage_def Let_def hasPrefix_def templatePages_def landingHandler_def)


end
