(* ===== verification/System.thy ===== *)
theory System
  imports Schema Router Tools Startup
begin

text \<open>
  The whole program around its database: connections, HTTP requests, the importer of Skype exports, the
  background sweepers and the operator's tools as one step relation.  Every step keeps the constraints of
  the schema.  Nothing but one staff action and one operator's tool gives anybody rights.
\<close>

section \<open>Requests\<close>

definition keepsHttp :: "(database \<Rightarrow> bool) \<Rightarrow> http_handler \<Rightarrow> bool" where
  "keepsHttp I h \<longleftrightarrow> (\<forall>e r s. I (DB s) \<longrightarrow> I (DB (fst (h e r s))))"

lemma keepsHttpI: "(\<And>e r s. I (DB s) \<Longrightarrow> I (DB (fst (h e r s)))) \<Longrightarrow> keepsHttp I h"
  by (simp add: keepsHttp_def)

lemma keepsHttp_reads [simp]: "keepsHttp I (\<lambda>e r s. (s, h e r s))"
  by (simp add: keepsHttp_def)

lemma keepsHttp_wrap:
  "keepsHttp I h \<Longrightarrow> keepsHttp I (adminIPGate h)" "keepsHttp I h \<Longrightarrow> keepsHttp I (rateLimit h)"
  "keepsHttp I h \<Longrightarrow> keepsHttp I (adminLoginLimit h)"
  by (simp_all add: keepsHttp_def adminIPGate_def rateLimit_def adminLoginLimit_def)

lemma keepsHttp_asAdmin: "(\<And>u. keepsHttp I (f u)) \<Longrightarrow> keepsHttp I (asAdmin f)"
  by (simp add: keepsHttp_def asAdmin_def split: sum.splits)

lemma keepsHttp_asMod: "(\<And>u. keepsHttp I (f u)) \<Longrightarrow> keepsHttp I (asMod m f)"
  by (auto simp: keepsHttp_def asMod_def split: sum.splits)

named_theorems kept_http

context accounts_invariant
begin

lemma http_reads [kept_http]:
  "keepsHttp (holds A) adminMeHandler" "keepsHttp (holds A) adminUsersHandler" "keepsHttp (holds A) (adminStatsHandler x)"
  "keepsHttp (holds A) adminLogsHandler" "keepsHttp (holds A) adminPendingVerificationsHandler"
  "keepsHttp (holds A) adminReportsHandler" "keepsHttp (holds A) adminBannedUsersHandler"
  "keepsHttp (holds A) adminSupportersHandler" "keepsHttp (holds A) adminBMCPaymentsHandler"
  unfolding staff_handler_defs adminUsersHandler_def
  by (intro keepsHttp_asAdmin keepsHttp_asMod, simp add: keepsHttp_def Let_def)+

lemma holds_unblockIP [kept]: "holds A (DB s) \<Longrightarrow> holds A (DB (unblockIP ip s))"
  by (simp add: unblockIP_def holds_tabs)

lemma holds_staffOps [kept]:
  "holds A d \<Longrightarrow> holds A (deleteServerRows sid d)" "holds A d \<Longrightarrow> holds A (setSupporter u d)"
  "holds A d \<Longrightarrow> holds A (insertSupporter now u n m st d)" "holds A d \<Longrightarrow> holds A (setRequestStatus i st d)"
  by (simp_all add: deleteServerRows_def setSupporter_def insertSupporter_def setRequestStatus_def kept holds_tabs)

lemma http_staff [kept_http]:
  "keepsHttp (holds A) adminBroadcastHandler" "keepsHttp (holds A) adminIPBlockHandler" "keepsHttp (holds A) adminGlobalNoticeHandler"
  "keepsHttp (holds A) (adminGeoHandler x)" "keepsHttp (holds A) adminResolveReportHandler" "keepsHttp (holds A) adminServersHandler"
  "keepsHttp (holds A) (adminMessagesHandler x)" "keepsHttp (holds A) (adminDMsHandler x)"
  "keepsHttp (holds A) adminVerifyUserHandler" "keepsHttp (holds A) adminSupporterActionHandler"
  "keepsHttp (holds A) adminGrantSupporterHandler"
  unfolding staff_handler_defs
  by (rule keepsHttp_asAdmin, simp add: keepsHttp_def Let_def kickAddress_def split_beta kept holds_tabs split: option.split)+

lemma holds_createChallenge [kept]:
  "holds A (DB s) \<Longrightarrow> holds A (DB (fst (createDeviceChallenge e u dv t l ip s)))"
  "holds A (DB s) \<Longrightarrow> holds A (DB (fst (issueAdminSessionToken e u s)))"
  by (auto simp: createDeviceChallenge_def issueAdminSessionToken_def split_beta Let_def kept holds_tabs split: option.split)

lemma holds_secondFactor [kept]: "holds A (DB s) \<Longrightarrow> holds A (DB (fst (secondFactor e msg s)))"
  by (simp add: secondFactor_def split_beta Let_def kept)

lemma holds_loginSession [kept]: "holds A (DB s) \<Longrightarrow> holds A (DB (fst (httpLoginSession e r u p s)))"
  by (simp add: httpLoginSession_def split_beta Let_def kept split: option.split)

lemma http_login [kept_http]: "keepsHttp (holds A) httpLoginHandler"
  by (rule keepsHttpI) (simp add: httpLoginHandler_def split_beta Let_def kept split: option.split)

lemma http_adminLogin [kept_http]: "keepsHttp (holds A) adminLoginHandler"
  by (rule keepsHttpI) (simp add: adminLoginHandler_def split_beta Let_def kept split: option.split)

lemma http_account [kept_http]:
  "keepsHttp (holds A) adminLogoutHandler"
  "keepsHttp (holds A) httpVerifyDeviceHandler" "keepsHttp (holds A) httpLogoutHandler" "keepsHttp (holds A) httpMeHandler"
  by (rule keepsHttpI; simp add: adminLogoutHandler_def 
      httpVerifyDeviceHandler_def httpLogoutHandler_def httpMeHandler_def 
      split_beta Let_def kept split: option.split sum.split)+

lemma http_reset [kept_http]:
  "keepsHttp (holds A) resetHandler" "keepsHttp (holds A) verifyEmailHandler"
  by (rule keepsHttpI; simp add: resetHandler_def verifyEmailHandler_def split_beta Let_def kept split: option.split bool.split)+

lemma holds_stories [kept]:
  "holds A d \<Longrightarrow> st_id r = nextID ''stories'' d \<Longrightarrow> holds A ((takeID ''stories'' d)\<lparr>stories := stories d @ [r]\<rparr>)"
  "holds A d \<Longrightarrow> holds A (storiesExpireSweeper now d)"
  by (simp_all add: storiesExpireSweeper_def holds_tabs Let_def)

lemma http_stories [kept_http]: "keepsHttp (holds A) storiesHandler" "keepsHttp (holds A) storiesItemHandler"
  by (rule keepsHttpI; simp add: storiesHandler_def storiesItemHandler_def storiesCreateHandler_def storiesFeedHandler_def storyView_def
      storyReply_def storyDelete_def storyList_def split_beta Let_def kept holds_tabs split: option.split sum.split)+

lemma http_pages [kept_http]:
  "keepsHttp (holds A) profileHandler" "keepsHttp (holds A) configHandler" "keepsHttp (holds A) statsHandler"
  "keepsHttp (holds A) exportHandler" "keepsHttp (holds A) vapidKeyHandler" "keepsHttp (holds A) supportEscalateHandler"
  "keepsHttp (holds A) skypeContactsHandler" "keepsHttp (holds A) skypeMessagesHandler" "keepsHttp (holds A) skypeInviteHandler"
  by (rule keepsHttpI; simp add: profileHandler_def configHandler_def statsHandler_def exportHandler_def vapidKeyHandler_def
      supportEscalateHandler_def skypeContactsHandler_def skypeMessagesHandler_def skypeInviteHandler_def split_beta Let_def kept
      holds_tabs split: option.split sum.split)+

lemma holds_bmcGrant [kept]: "holds A d \<Longrightarrow> holds A (fst (bmcGrantByEmail e m n d))"
  by (simp add: bmcGrantByEmail_def split_beta Let_def kept holds_tabs split: option.split)

lemma http_support [kept_http]: "keepsHttp (holds A) supportRequestHandler" "keepsHttp (holds A) (bmcWebhookHandler x)"
  by (rule keepsHttpI; simp add: supportRequestHandler_def bmcWebhookHandler_def split_beta Let_def kept holds_tabs
      split: option.split sum.split)+

lemma holds_imports [kept]: "holds A d \<Longrightarrow> holds A (fst (fold (importMessage u cv) ms (d, n)))"
  by (induction ms arbitrary: d n) (simp_all add: importMessage_def holds_tabs Let_def del: holds_insert_row)

lemma holds_conversation:
  "holds A (fst acc) \<Longrightarrow> holds A (fst (importConversation u cv acc))"
  by (cases acc) (simp add: importConversation_def split_beta Let_def kept holds_tabs)

lemma holds_files:
  "holds A (fst acc) \<Longrightarrow> holds A (fst (fold (\<lambda>f. fold (importConversation u) (snd f)) fs acc))"
proof (induction fs arbitrary: acc)
  case (Cons f fs)
  have "holds A (fst acc') \<Longrightarrow> holds A (fst (fold (importConversation u) cs acc'))" for cs acc'
    by (induction cs arbitrary: acc') (simp_all add: holds_conversation)
  then show ?case using Cons by simp
qed simp

lemma http_import: "keepsHttp (holds A) (skypeImportHandler form)"
  by (rule keepsHttpI) (simp add: skypeImportHandler_def split_beta Let_def holds_files split: zipUpload.split)

text \<open>Every route but the one for staff actions on an account.\<close>

lemma http_routes:
  assumes "(p, h) \<in> set (adminRoutes x @ openRoutes x)" "h \<noteq> staffRoute adminBanHandler"
  shows "keepsHttp (holds A) h"
proof -
  have "list_all (\<lambda>(p, h). h = staffRoute adminBanHandler \<or> keepsHttp (holds A) h) (adminRoutes x @ openRoutes x)"
    by (simp add: adminRoutes_def openRoutes_def kept_http keepsHttp_wrap)
  then show ?thesis using assms by (auto simp: list_all_iff)
qed

lemma holds_grantTool: "holds A d \<Longrightarrow> grantSupporter now u revoke d = Inr d' \<Longrightarrow> holds A d'"
  by (auto simp: grantSupporter_def kept split: if_splits)

end

section \<open>The constraints alone\<close>

interpretation sch: accounts_invariant "\<lambda>_. True"
  by unfold_locales simp_all

lemma holds_True: "holds (\<lambda>_. True) = schema_ok"
  by (simp add: holds_def fun_eq_iff)

lemma schema_updUser: "schema_ok d \<Longrightarrow> (\<And>u. u_username (f u) = u_username u) \<Longrightarrow> schema_ok (updUser n f d)"
  by (simp add: updUser_def schema_change schema_table uniq_sql_update)

lemma schema_banUser: "schema_ok (DB s) \<Longrightarrow> schema_ok (DB (banUser e v why s))"
  by (simp add: banUser_def Let_def schema_updUser sch.holds_updSession [unfolded holds_True])

lemma schema_staffAction: "keepsHttp schema_ok adminBanHandler"
  unfolding adminBanHandler_def
  by (rule keepsHttp_asAdmin) (simp add: keepsHttp_def Let_def split_beta schema_banUser schema_updUser setRole_def
      sch.holds_deleteAccount [unfolded holds_True] sch.holds_totp [unfolded holds_True] sch.holds_updSession [unfolded holds_True]
      split: option.split)

lemma schema_requests: "keepsHttp schema_ok (serveHTTP x)"
proof (rule keepsHttpI)
  fix e r and s :: NexusServer
  assume ok: "schema_ok (DB s)"
  have "keepsHttp schema_ok h" if "(p, h) \<in> set (adminRoutes x @ openRoutes x)" for p h
    using sch.http_routes [OF that] keepsHttp_wrap schema_staffAction by (auto simp: holds_True)
  then show "schema_ok (DB (fst (serveHTTP x e r s)))"
    using ok by (auto simp: serveHTTP_def keepsHttp_def split: option.split dest!: routeFor_in)
qed

lemma schema_seedTool:
  assumes "schema_ok d" "seedAdmin e u pw m adm d = Inr d'"
  shows "schema_ok d'"
proof -
  have new: "schema_ok (d\<lparr>users := users d @ [r]\<rparr>)" if "userRow u d = None" "u_username r = u" for r
  proof -
    have "\<not> sql_has u_username (u_username r) (users d)"
      using that by (auto simp: userRow_def sql_row_def find_None_iff sql_has_iff)
    then show ?thesis using assms(1) by (simp add: schema_change schema_table)
  qed
  have "u_username (seedUser now u m h) = u" for now h by (simp add: seedUser_def newUser_def)
  then show ?thesis
    using assms new by (auto simp: seedAdmin_def Let_def schema_updUser sch.holds_updSession [unfolded holds_True]
        split: if_splits option.splits)
qed

section \<open>Steps of the whole program\<close>

text \<open>A restart keeps the database and nothing else; the operator's tools write it while the server runs.\<close>

datatype sysEvent =
    Socket event
  | Request env http_request
  | Import env zipUpload http_request
  | ExpireStories time
  | Restart env
  | GrantTool time string bool
  | SeedTool env string string string bool

inductive sysStep :: "services \<Rightarrow> NexusServer \<Rightarrow> sysEvent \<Rightarrow> NexusServer \<Rightarrow> bool" for x where
  socket: "step s ev s' \<Longrightarrow> sysStep x s (Socket ev) s'"
| request: "sysStep x s (Request e r) (fst (serveHTTP x e r s))"
| import_zip: "sysStep x s (Import e form r) (fst (rateLimit (skypeImportHandler form) e r s))"
| expire: "sysStep x s (ExpireStories now) (withDB (storiesExpireSweeper now) s)"
| restart: "sysStep x s (Restart e) (boot e (DB s))"
| grant_tool: "grantSupporter now u revoke (DB s) = Inr d \<Longrightarrow> sysStep x s (GrantTool now u revoke) (s\<lparr>DB := d\<rparr>)"
| seed_tool: "seedAdmin e u pw m adm (DB s) = Inr d \<Longrightarrow> sysStep x s (SeedTool e u pw m adm) (s\<lparr>DB := d\<rparr>)"

inductive sysReachable :: "services \<Rightarrow> NexusServer \<Rightarrow> NexusServer \<Rightarrow> bool" for x s0 where
  sys_start: "sysReachable x s0 s0"
| sys_next: "sysReachable x s0 s \<Longrightarrow> sysStep x s ev s' \<Longrightarrow> sysReachable x s0 s'"

lemma schema_ensure: "schema_ok d \<Longrightarrow> schema_ok (ensureGlobalSpace now d)"
proof -
  assume d: "schema_ok d"
  have "schema_ok (insertServerIgnore r d)" for r using sch.holds_spaces(4) [of d r] d by (simp add: holds_True)
  then have "schema_ok ((insertServerIgnore r d)\<lparr>channels := fold (sql_insert_ignore ch_id) cs (channels (insertServerIgnore r d))\<rparr>)" for r cs
    by (simp add: schema_change schema_table)
  then show ?thesis
    unfolding ensureGlobalSpace_def Let_def
    by (rule sch.holds_fold [unfolded holds_True]) (rule sch.holds_joins(1) [unfolded holds_True])
qed

lemma schema_boot: "schema_ok d \<Longrightarrow> schema_ok (DB (boot e d))"
proof -
  assume d: "schema_ok d"
  have "schema_ok (fold promoteAdmin us d)" for us
    by (rule sch.holds_fold [unfolded holds_True, OF d]) (simp add: promoteAdmin_def schema_updUser)
  then have "schema_ok (initAccounts e d)"
    by (simp add: initAccounts_def backfillRoles_def schema_change schema_table uniq_sql_update)
  then show ?thesis
    using sch.holds_spaces(2) [unfolded holds_True] by (simp add: boot_def loadBlockedIPs_def Let_def schema_ensure)
qed

lemma schema_sysStep: "sysStep x s ev s' \<Longrightarrow> schema_ok (DB s) \<Longrightarrow> schema_ok (DB s')"
proof (induction rule: sysStep.induct)
  case (socket s ev s')
  then show ?case using sch.holds_step [of s ev s'] by (simp add: holds_True)
next
  case (request s e r)
  then show ?case using schema_requests unfolding keepsHttp_def by blast
next
  case (import_zip s e form r)
  then show ?case using keepsHttp_wrap(2) [OF sch.http_import, of form] unfolding keepsHttp_def holds_True by blast
next
  case (expire s now)
  then show ?case using sch.holds_stories(2) [of "DB s" now] by (simp add: holds_True)
next
  case (grant_tool now u revoke s d)
  then show ?case using sch.holds_grantTool [of "DB s" now u revoke d] by (simp add: holds_True)
qed (simp_all add: schema_boot schema_seedTool)


section \<open>Who can give rights\<close>

text \<open>Every account without rights, or with the rights of one of \<open>R\<close>.\<close>

definition onlyStaff :: "(string \<times> string \<times> bool) set \<Rightarrow> user_row list \<Rightarrow> bool" where
  "onlyStaff R t \<longleftrightarrow> list_all (\<lambda>u. plain u \<or> rightsOf u \<in> R) t"

interpretation staff: accounts_invariant "onlyStaff R" for R
proof
  fix t P f assume "onlyStaff R t" and f: "\<And>u. rightsOf (f u) = rightsOf u"
  then show "onlyStaff R (sql_update P f t)"
    unfolding onlyStaff_def sql_update_def list_all_iff by (auto simp del: rightsOf_def) (auto simp: f)
next
  fix t P assume "onlyStaff R t"
  then show "onlyStaff R (sql_delete P t)" by (auto simp: onlyStaff_def sql_delete_def list_all_iff)
next
  fix t r assume "onlyStaff R t" "plain r"
  then show "onlyStaff R (t @ [r])" by (simp add: onlyStaff_def)
qed

definition staffOf :: "NexusServer \<Rightarrow> (string \<times> string \<times> bool) set" where
  "staffOf s = rightsOf ` {u \<in> set (users (DB s)). \<not> plain u}"

lemma holds_onlyStaff: "holds (onlyStaff (staffOf s)) (DB s') \<longleftrightarrow> schema_ok (DB s') \<and> staffOf s' \<subseteq> staffOf s"
  by (auto simp: holds_def onlyStaff_def staffOf_def list_all_iff simp del: rightsOf_def plain_def)

text \<open>What a request may do: the action on an account \<open>t\<close>, by an administrator above its old and its new rank.\<close>

definition promotes :: "env \<Rightarrow> http_request \<Rightarrow> string \<Rightarrow> NexusServer \<Rightarrow> bool" where
  "promotes e r t s \<longleftrightarrow>
     (\<exists>u. u = sessionUsername (e_now e) (staffToken r) (DB s) \<and> userIsAdmin u (DB s) \<and> u \<noteq> t \<and>
        roleRank (userRole t (DB s)) < roleRank (userRole u (DB s)))"

lemma userRow_member: "schema_ok d \<Longrightarrow> b \<in> set (users d) \<Longrightarrow> userRow (u_username b) d = Some b"
  unfolding userRow_def by (rule sql_row_unique) (simp_all add: schema_table)

lemma staff_request:
  assumes "schema_ok (DB s)" "s' = fst (serveHTTP x e r s)" "b \<in> set (users (DB s'))" "\<not> plain b" "rightsOf b \<notin> staffOf s"
  shows "promotes e r (u_username b) s"
proof -
  have bad: "\<not> staffOf s' \<subseteq> staffOf s" using assms(3-5) by (auto simp: staffOf_def simp del: rightsOf_def plain_def)
  then obtain f where f: "routeFor (adminRoutes x @ openRoutes x) (rPath r) = Some f" "s' = fst (f e r s)"
    using assms(2) by (auto simp: serveHTTP_def split: option.splits)
  have "\<not> keepsHttp (holds (onlyStaff (staffOf s))) f"
    using bad f(2) assms(1) unfolding keepsHttp_def by (metis holds_onlyStaff order_refl)
  then have "f = staffRoute adminBanHandler" using staff.http_routes routeFor_in [OF f(1)] by blast
  then have h: "fst (adminBanHandler e r s) = s'"
    using f(2) bad by (auto simp: adminIPGate_def rateLimit_def split: if_splits)
  have s': "schema_ok (DB s')" using schema_requests assms(1,2) unfolding keepsHttp_def by blast
  have row: "userRow (u_username b) (DB s') = Some b" by (rule userRow_member [OF s' assms(3)])
  have "rights (u_username b) (users (DB s')) \<noteq> rights (u_username b) (users (DB s))"
  proof
    assume "rights (u_username b) (users (DB s')) = rights (u_username b) (users (DB s))"
    then obtain a where "userRow (u_username b) (DB s) = Some a" "u_role a = u_role b" "u_is_admin a = u_is_admin b"
      using row by (cases "userRow (u_username b) (DB s)") (auto simp: rights_userRow)
    then have "a \<in> set (users (DB s))" "rightsOf a = rightsOf b" "\<not> plain a"
      using assms(4) by (auto simp: userRow_def sql_row_def find_Some_iff)
    then have "rightsOf b \<in> staffOf s" unfolding staffOf_def by (metis (mono_tags, lifting) image_eqI mem_Collect_eq)
    then show False using assms(5) by blast
  qed
  moreover have "rights (u_username b) (users (DB s')) \<noteq> None" using row by (simp add: rights_userRow)
  ultimately obtain u where "adminFromRequest e r s = Inr u" "u_username b \<noteq> u"
    "roleRank (userRole (u_username b) (DB s)) < roleRank (userRole u (DB s))"
    using adminBanHandler_rights [of e r s s' "snd (adminBanHandler e r s)" "u_username b"] h by (metis prod.collapse)
  then show ?thesis by (auto simp: promotes_def adminFromRequest_Inr)
qed

definition sameRights :: "user_row \<Rightarrow> NexusServer \<Rightarrow> bool" where
  "sameRights b s \<longleftrightarrow>
     (\<exists>a \<in> set (users (DB s)). u_username a = u_username b \<and> u_role a = u_role b \<and> u_is_admin a = u_is_admin b)"

lemma staffOf_sameRights: "rightsOf b \<in> staffOf s \<Longrightarrow> sameRights b s"
  by (auto simp: staffOf_def sameRights_def)

lemma staff_kept:
  fixes s' :: NexusServer
  assumes "holds (onlyStaff (staffOf s)) (DB s')" "b \<in> set (users (DB s'))" "\<not> plain b"
  shows "sameRights b s"
proof -
  have "rightsOf b \<in> staffOf s'" unfolding staffOf_def using assms(2,3) by blast
  then show ?thesis using assms(1) staffOf_sameRights unfolding holds_onlyStaff by blast
qed

lemma staff_boot:
  assumes "schema_ok d" "b \<in> set (users (DB (boot e d)))"
  shows "u_username b \<in> set (adminNames e) \<or> (\<exists>a \<in> set (users d). u_username a = u_username b \<and>
     (u_role a = u_role b \<and> u_is_admin a = u_is_admin b \<or> u_is_admin a \<and> u_role b = ''admin''))"
proof -
  have "userRow (u_username b) (DB (boot e d)) = Some b" by (rule userRow_member [OF schema_boot [OF assms(1)] assms(2)])
  then obtain a where "userRow (u_username b) d = Some a"
    using userRow_cong_users [OF users_boot [of e d]] by (auto simp: initAccounts_def userRow_backfill userRow_promote)
  moreover from boot_admins [OF this, of e] \<open>userRow (u_username b) (DB (boot e d)) = Some b\<close>
  have "u_username b \<in> set (adminNames e) \<or> (u_role a = u_role b \<and> u_is_admin a = u_is_admin b \<or> u_is_admin a \<and> u_role b = ''admin'')"
    by (auto split: if_splits)
  ultimately show ?thesis using userRow_SomeD by blast
qed

lemma seedAdmin_plain:
  assumes "seedAdmin e u pw m False d = Inr d'" "userRow u d' = Some b"
  shows "case userRow u d of None \<Rightarrow> plain b | Some a \<Rightarrow> u_role a = u_role b \<and> u_is_admin a = u_is_admin b"
  using assms by (cases "userRow u d") (auto simp: seedAdmin_def Let_def userRow_updUser userRow_append seedUser_def newUser_def
          split: if_splits option.splits)

lemma staff_seedTool:
  assumes "schema_ok d" "seedAdmin e u pw m adm d = Inr d'" "b \<in> set (users d')" "\<not> plain b" "u_username b \<noteq> u \<or> \<not> adm"
  shows "\<exists>a \<in> set (users d). u_username a = u_username b \<and> u_role a = u_role b \<and> u_is_admin a = u_is_admin b"
proof -
  have b: "userRow (u_username b) d' = Some b" by (rule userRow_member [OF schema_seedTool [OF assms(1,2)] assms(3)])
  show ?thesis
  proof (cases "u_username b = u")
    case False
    then have "userRow (u_username b) d = Some b" using seedAdmin_row(2) [OF assms(2) refl] b by simp
    then show ?thesis using userRow_SomeD by blast
  next
    case True
    then obtain a where "userRow u d = Some a" "u_role a = u_role b" "u_is_admin a = u_is_admin b"
      using assms(2,4,5) b seedAdmin_plain [of e u pw m d d' b] by (auto split: option.splits)
    then show ?thesis using True userRow_SomeD by blast
  qed
qed

text \<open>C7: Nobody gains rights behind the operator's back: an account that has a role or the administrator flag after a
  step of the program had the same rights before, unless the step is a staff request by another
  administrator who outranks the account, the operator's tool asked to make it an administrator, or a restart with
  the account on the operator's list (or an old administrator who is given the role \<^verbatim>\<open>admin\<close>).\<close>

theorem no_escalation:
  assumes "sysStep x s ev s'" "schema_ok (DB s)" "b \<in> set (users (DB s'))" "\<not> plain b" "\<not> sameRights b s"
  shows "(\<exists>e r. ev = Request e r \<and> promotes e r (u_username b) s) \<or> (\<exists>e pw m. ev = SeedTool e (u_username b) pw m True) \<or>
     (\<exists>e. ev = Restart e \<and> (u_username b \<in> set (adminNames e) \<or>
        u_role b = ''admin'' \<and> (\<exists>a \<in> set (users (DB s)). u_username a = u_username b \<and> u_is_admin a)))"
  using assms
proof (induction rule: sysStep.induct)
  case (socket s ev s')
  then show ?case using staff.holds_step [of s ev s' "staffOf s"] staff_kept [of s s' b] by (simp add: holds_onlyStaff)
next
  case (request s e r)
  then show ?case using staff_request [OF request(1) refl request(2)] staffOf_sameRights by blast
next
  case (import_zip s e form r)
  have "holds (onlyStaff (staffOf s)) (DB (fst (rateLimit (skypeImportHandler form) e r s)))"
    using keepsHttp_wrap(2) [OF staff.http_import, of "staffOf s" form] import_zip(1)
    unfolding keepsHttp_def by (simp add: holds_onlyStaff)
  then show ?case using staff_kept import_zip by blast
next
  case (expire s now)
  have "holds (onlyStaff (staffOf s)) (DB (withDB (storiesExpireSweeper now) s))"
    using staff.holds_stories(2) [of "staffOf s" "DB s" now] expire(1) by (simp add: holds_onlyStaff)
  then show ?case using staff_kept expire by blast
next
  case (restart s e)
  then show ?case using staff_boot [OF restart(1,2)] by (auto simp: sameRights_def)
next
  case (grant_tool now u revoke s d)
  have "holds (onlyStaff (staffOf s)) (DB (s\<lparr>DB := d\<rparr>))"
    using staff.holds_grantTool [of "staffOf s" "DB s" now u revoke d] grant_tool(1,2) by (simp add: holds_onlyStaff)
  then show ?case using staff_kept grant_tool by blast
next
  case (seed_tool e u pw m adm s d)
  then show ?case using staff_seedTool [OF seed_tool(2,1), of b] by (auto simp: sameRights_def)
qed

text \<open>Bob makes Eve a helper; a client connects and the server is restarted.\<close>

lemma nexusStaff_schema: "schema_ok (DB nexusStaff)"
  by (simp add: nexusStaff_def schema_defs emptyDB_def seq_ok_def uniq_def newUser_def newSession_def)

theorem no_escalation_witness: "promotes env0 (staffPost ''role'') ''eve'' nexusStaff"
proof -
  define b where "b = (newUser 0 ''eve'' ''e@x'' '''' ''$#x'' ''012345'')\<lparr>u_role := ''helper'', u_is_admin := False\<rparr>"
  let ?s = "withDB (setRole ''eve'' ''helper'') nexusStaff"
  have step: "sysStep services0 nexusStaff (Request env0 (staffPost ''role'')) ?s"
    using sysStep.request [of services0 nexusStaff env0 "staffPost ''role''"] by (simp add: staffPost_role)
  have "b \<in> set (users (DB ?s))" "\<not> plain b" "\<not> sameRights b nexusStaff" "u_username b = ''eve''"
    by (simp_all add: b_def setRole_def updUser_def sql_update_def nexusStaff_def sameRights_def newUser_def roleRank_def aget_def)
  with no_escalation [OF step nexusStaff_schema, of b] show ?thesis by auto
qed


end
