(* ===== verification/Bot.thy ===== *)
theory Bot
  imports Messages "HOL-Library.Multiset"
begin

text \<open>
  The help bot, \<^verbatim>\<open>nova_bot/main.go\<close>: a client of the server that answers messages with a language model.  Its
  state is what it remembers, when it last took up a message of whom, the frames it has written and its
  running goroutines.  A goroutine started for a message goes through three moments, each a step of its
  own that may be interleaved with the others: it takes the message up (rate check, prompt), it has the
  reply of the model (typing indicator), and after a pause it answers.  \<open>ask\<close> is the HTTP call of the model, which gives
  the candidates of the response or \<^verbatim>\<open>None\<close> on an error; \<open>soul\<close> the fixed text the prompt starts with; \<open>uni\<close> the Unicode
  part of \<^verbatim>\<open>strings.ToLower\<close>.  An answer carries the time its message was taken up.  Frames of the server are
  those of \<^verbatim>\<open>Messages\<close>, of which the bot reads a part.
\<close>

section \<open>Memory\<close>

record MemoryEntry =
  en_User :: string
  en_Summary :: string
  en_Timestamp :: time

fun strJoin :: "string \<Rightarrow> string list \<Rightarrow> string" where
  "strJoin sep [] = ''''"
| "strJoin sep [x] = x"
| "strJoin sep (x # y # ys) = x @ sep @ strJoin sep (y # ys)"

text \<open>What the memory file held at the start, \<^const>\<open>None\<close> when it cannot be read.\<close>

definition NewMemory :: "MemoryEntry list option \<Rightarrow> MemoryEntry list" where
  "NewMemory saved = (case saved of Some es \<Rightarrow> es | None \<Rightarrow> [])"

definition memoryAdd :: "time \<Rightarrow> string \<Rightarrow> string \<Rightarrow> MemoryEntry list \<Rightarrow> MemoryEntry list" where
  "memoryAdd now user summary m =
     (let m' = m @ [\<lparr> en_User = user, en_Summary = summary, en_Timestamp = now \<rparr>]
      in if length m' > 500 then drop (length m' - 500) m' else m')"

definition memoryForUser :: "string \<Rightarrow> MemoryEntry list \<Rightarrow> string" where
  "memoryForUser user m =
     (let ls = map en_Summary (filter (\<lambda>x. en_User x = user) m)
      in strJoin [chr 10] (if length ls > 10 then drop (length ls - 10) ls else ls))"

definition memoryRecent :: "nat \<Rightarrow> MemoryEntry list \<Rightarrow> string" where
  "memoryRecent n m = strJoin [chr 10] (map (\<lambda>x. en_User x @ '': '' @ en_Summary x) (drop (length m - n) m))"

section \<open>Replies\<close>

text \<open>\<^verbatim>\<open>strings.ReplaceAll\<close> of a pattern of two bytes by nothing.\<close>

fun removePair :: "char \<Rightarrow> char \<Rightarrow> string \<Rightarrow> string" where
  "removePair a b (x # y # cs) = (if x = a \<and> y = b then removePair a b cs else x # removePair a b (y # cs))"
| "removePair a b cs = cs"

definition truncateText :: "string \<Rightarrow> nat \<Rightarrow> string" where
  "truncateText s n = (if length s \<le> n then s else take n s @ ''...'')"

text \<open>The response of the model: the candidates, each with the texts of its parts.\<close>

definition callGemini :: "(string \<Rightarrow> string list list option) \<Rightarrow> string \<Rightarrow> string option" where
  "callGemini ask prompt =
     (case ask prompt of
        None \<Rightarrow> None
      | Some [] \<Rightarrow> None
      | Some ([] # cs) \<Rightarrow> None
      | Some ((t # ts) # cs) \<Rightarrow> Some (TrimSpace t))"

definition cleanReply :: "string \<Rightarrow> string" where
  "cleanReply reply = removePair CHR ''*'' CHR ''*'' (TrimPrefix (TrimPrefix reply ''Nova: '') ''nova: '')"

definition arrow :: string where "arrow = '' '' @ [chr 226, chr 134, chr 146] @ '' replied: ''"

section \<open>The bot and its goroutines\<close>

text \<open>Where a message that is being answered came from.\<close>

datatype place = InDM | InConvo string | InChannel string string

datatype task =
    Asked time string string place string      \<comment> \<open>taken up at, sender, body, place, prompt\<close>
  | Replied time string string place string    \<comment> \<open>the same with the reply in place of the prompt\<close>

record NovaBot =
  nb_username :: string
  nb_password :: string
  nb_memory :: "MemoryEntry list"
  nb_file :: "MemoryEntry list option"
  nb_lastMsg :: "(string \<times> time) list"
  nb_tasks :: "task list"
  nb_sent :: "(time \<times> string \<times> NexusMessage) list"

definition sendFor :: "time \<Rightarrow> string \<Rightarrow> NexusMessage \<Rightarrow> NovaBot \<Rightarrow> NovaBot" where
  "sendFor t person msg k = k\<lparr>nb_sent := nb_sent k @ [(t, person, msg\<lparr>mSender := nb_username k\<rparr>)]\<rparr>"

definition remember :: "time \<Rightarrow> string \<Rightarrow> string \<Rightarrow> NovaBot \<Rightarrow> NovaBot" where
  "remember now user summary k =
     (let m = memoryAdd now user summary (nb_memory k) in k\<lparr>nb_memory := m, nb_file := Some m\<rparr>)"

definition memoryContext :: "string \<Rightarrow> NovaBot \<Rightarrow> string" where
  "memoryContext sender k =
     (let um = memoryForUser sender (nb_memory k)
      in if um \<noteq> '''' then [chr 10, chr 10] @ ''What you remember about '' @ sender @ '':'' @ [chr 10] @ um else '''')"

definition says :: "place \<Rightarrow> string" where
  "says p = (case p of InChannel _ _ \<Rightarrow> '' says in a group channel: '' | _ \<Rightarrow> '' says: '')"

text \<open>
  The beginning of \<^verbatim>\<open>respond\<close> and of the goroutine for a channel message: the second has no rate limit.
\<close>

definition respond :: "string \<Rightarrow> time \<Rightarrow> string \<Rightarrow> string \<Rightarrow> place \<Rightarrow> NovaBot \<Rightarrow> NovaBot" where
  "respond soul now sender body p k =
     (if (case p of InChannel _ _ \<Rightarrow> False | _ \<Rightarrow> True) \<and>
         (case map_of (nb_lastMsg k) sender of Some t \<Rightarrow> now - t < 3 * second | None \<Rightarrow> False) then k
      else
        let k1 = k\<lparr>nb_lastMsg := aput sender now (nb_lastMsg k)\<rparr>;
            prompt = soul @ memoryContext sender k1 @ [chr 10, chr 10] @ sender @ says p @ body @ [chr 10, chr 10] @ ''Nova:''
        in k1\<lparr>nb_tasks := nb_tasks k1 @ [Asked now sender body p prompt]\<rparr>)"

definition answerFrames :: "place \<Rightarrow> string \<Rightarrow> string \<Rightarrow> NexusMessage list" where
  "answerFrames p sender reply =
     (case p of
        InDM \<Rightarrow> [msg0\<lparr>mType := ''msg'', mRecipient := sender, mBody := reply\<rparr>]
      | InConvo cv \<Rightarrow> if cv \<noteq> '''' then [msg0\<lparr>mType := ''convo_msg'', mConvoID := cv, mBody := reply\<rparr>] else []
      | InChannel sid ch \<Rightarrow> [msg0\<lparr>mType := ''channel_msg'', mServerID := sid, mChannelID := ch, mBody := reply\<rparr>])"

definition asked :: "place \<Rightarrow> string" where
  "asked p = (case p of InChannel _ _ \<Rightarrow> ''asked in channel: '' | _ \<Rightarrow> ''asked: '')"

text \<open>The next moment of the \<open>i\<close>-th goroutine, at the time \<open>now\<close>.\<close>

definition dropTask :: "nat \<Rightarrow> NovaBot \<Rightarrow> NovaBot" where
  "dropTask i k = k\<lparr>nb_tasks := take i (nb_tasks k) @ drop (Suc i) (nb_tasks k)\<rparr>"

definition wake :: "(string \<Rightarrow> string list list option) \<Rightarrow> time \<Rightarrow> nat \<Rightarrow> NovaBot \<Rightarrow> NovaBot" where
  "wake ask now i k =
     (if i \<ge> length (nb_tasks k) then k
      else case nb_tasks k ! i of
        Asked t sender body p prompt \<Rightarrow>
          (case callGemini ask prompt of
             None \<Rightarrow> dropTask i k
           | Some r0 \<Rightarrow>
               let reply = (case p of InChannel _ _ \<Rightarrow> cleanReply r0 | _ \<Rightarrow> removePair CHR ''#'' CHR ''#'' (cleanReply r0))
               in if reply = '''' then dropTask i k
                  else let k1 = k\<lparr>nb_tasks := (nb_tasks k)[i := Replied t sender body p reply]\<rparr>
                       in if p = InDM then sendFor t sender (msg0\<lparr>mType := ''typing'', mRecipient := sender\<rparr>) k1 else k1)
      | Replied t sender body p reply \<Rightarrow>
          remember now sender (asked p @ truncateText body 80 @ arrow @ truncateText reply 80)
            (fold (sendFor t sender) (answerFrames p sender reply) (dropTask i k)))"

section \<open>Connecting and reading\<close>

datatype attempt = DialFails | AuthUnread | AuthReply string string   \<comment> \<open>status and error of the reply\<close>

definition connect :: "time \<Rightarrow> attempt \<Rightarrow> NovaBot \<Rightarrow> (string + unit) \<times> NovaBot" where
  "connect now a k =
     (let k1 = sendFor now '''' (msg0\<lparr>mType := ''auth'', mBody := nb_password k\<rparr>) k
      in case a of
           DialFails \<Rightarrow> (Inl ''dial'', k)
         | AuthUnread \<Rightarrow> (Inl ''auth read'', k1)
         | AuthReply status err \<Rightarrow>
             if status \<noteq> ''ok'' then (Inl (''auth failed: '' @ err), k1)
             else (Inr (), sendFor now '''' (msg0\<lparr>mType := ''server_list''\<rparr>)
                     (sendFor now '''' (msg0\<lparr>mType := ''status_update'', mStatus := ''Online'',
                        mBody := ''here to help '' @ [chr 226, chr 156, chr 140, chr 239, chr 184, chr 143]\<rparr>) k1)))"

text \<open>The loop after a read error: attempts until one succeeds, \<^const>\<open>None\<close> while none has.\<close>

fun reconnect :: "(time \<times> attempt) list \<Rightarrow> NovaBot \<Rightarrow> NovaBot option" where
  "reconnect [] k = None"
| "reconnect ((now, a) # as) k = (case connect now a k of (Inl err, k1) \<Rightarrow> reconnect as k1 | (Inr _, k1) \<Rightarrow> Some k1)"

text \<open>One frame read in \<^verbatim>\<open>run\<close>.\<close>

definition onFrame :: "(string \<Rightarrow> string) \<Rightarrow> string \<Rightarrow> time \<Rightarrow> NexusMessage \<Rightarrow> NovaBot \<Rightarrow> NovaBot" where
  "onFrame uni soul now msg k =
     (let own = (mSender msg = nb_username k \<or> mSender msg = ''''); low = ToLower uni (mBody msg);
          called = (strContains low ''@nova'' \<or> strContains low ''nova'')
      in if mType msg = ''msg'' then (if own then k else respond soul now (mSender msg) (mBody msg) InDM k)
         else if mType msg = ''convo_msg''
         then (if own \<or> \<not> called then k else respond soul now (mSender msg) (mBody msg) (InConvo (mConvoID msg)) k)
         else if mType msg = ''channel_msg'' \<or> mType msg = ''channel_msg_in''
         then (if own \<or> \<not> called then k
               else respond soul now (mSender msg) (mBody msg) (InChannel (mServerID msg) (mChannelID msg)) k)
         else if mType msg = ''friend_request'' then sendFor now (mSender msg) (msg0\<lparr>mType := ''friend_accept'', mRecipient := mSender msg\<rparr>) k
         else k)"

datatype botEvent = Arrives time NexusMessage | Wakes time nat | Redial time attempt

fun eventTime :: "botEvent \<Rightarrow> time" where
  "eventTime (Arrives now msg) = now" | "eventTime (Wakes now i) = now" | "eventTime (Redial now a) = now"

fun botStep :: "(string \<Rightarrow> string) \<Rightarrow> (string \<Rightarrow> string list list option) \<Rightarrow> string \<Rightarrow> botEvent \<Rightarrow> NovaBot \<Rightarrow> NovaBot" where
  "botStep uni ask soul (Arrives now msg) k = onFrame uni soul now msg k"
| "botStep uni ask soul (Wakes now i) k = wake ask now i k"
| "botStep uni ask soul (Redial now a) k = snd (connect now a k)"

definition runBot :: "(string \<Rightarrow> string) \<Rightarrow> (string \<Rightarrow> string list list option) \<Rightarrow> string \<Rightarrow> botEvent list \<Rightarrow> NovaBot \<Rightarrow> NovaBot" where
  "runBot uni ask soul evs k = fold (botStep uni ask soul) evs k"

text \<open>\<^verbatim>\<open>main\<close>: the settings, with their defaults, or the message of \<^verbatim>\<open>log.Fatal\<close>.\<close>

definition novaConfig :: "(string \<Rightarrow> string) \<Rightarrow> MemoryEntry list option \<Rightarrow> string + NovaBot" where
  "novaConfig getenv saved =
     (let username = (if getenv ''NOVA_USERNAME'' = '''' then ''Nova'' else getenv ''NOVA_USERNAME'')
      in if getenv ''NOVA_PASSWORD'' = '''' then Inl ''NOVA_PASSWORD is required''
         else if getenv ''GEMINI_API_KEY'' = '''' then Inl ''GEMINI_API_KEY is required''
         else Inr \<lparr> nb_username = username, nb_password = getenv ''NOVA_PASSWORD'', nb_memory = NewMemory saved, nb_file = saved,
                   nb_lastMsg = [], nb_tasks = [], nb_sent = [] \<rparr>)"

section \<open>The bot is not a spammer\<close>

text \<open>The answers in private and in conversations; the messages that have been or may still be answered.\<close>

definition answers :: "NovaBot \<Rightarrow> (time \<times> string) list" where
  "answers k = map (\<lambda>(t, p, m). (t, p)) (filter (\<lambda>(t, p, m). mType m \<in> {''msg'', ''convo_msg''}) (nb_sent k))"

fun taskKey :: "task \<Rightarrow> (time \<times> string) list" where
  "taskKey (Asked t p b (InChannel s c) r) = []" | "taskKey (Asked t p b InDM r) = [(t, p)]"
| "taskKey (Asked t p b (InConvo v) r) = [(t, p)]" | "taskKey (Replied t p b (InChannel s c) r) = []"
| "taskKey (Replied t p b InDM r) = [(t, p)]" | "taskKey (Replied t p b (InConvo v) r) = [(t, p)]"

definition commits :: "NovaBot \<Rightarrow> (time \<times> string) list" where
  "commits k = concat (map taskKey (nb_tasks k)) @ answers k"

definition far :: "time \<times> string \<Rightarrow> time \<times> string \<Rightarrow> bool" where
  "far x y \<longleftrightarrow> (snd x = snd y \<longrightarrow> 3 * second \<le> \<bar>fst x - fst y\<bar>)"

definition spaced :: "(time \<times> string) list \<Rightarrow> bool" where
  "spaced xs \<longleftrightarrow> distinct xs \<and> pairwise far (set xs)"

definition paced :: "time \<Rightarrow> NovaBot \<Rightarrow> bool" where
  "paced now k \<longleftrightarrow> spaced (commits k) \<and>
     (\<forall>(t, p) \<in> set (commits k). \<exists>l. map_of (nb_lastMsg k) p = Some l \<and> t \<le> l \<and> l \<le> now)"

lemma spaced_sub:
  assumes "spaced xs" "mset ys \<subseteq># mset xs"
  shows "spaced ys"
proof -
  obtain zs where "mset xs = mset (ys @ zs)"
    using assms(2) by (metis mset_subset_eq_exists_conv ex_mset mset_append)
  then have "distinct (ys @ zs)" "set xs = set (ys @ zs)"
    using assms(1) by (metis mset_eq_imp_distinct_iff spaced_def, metis mset_eq_setD)
  then show ?thesis using assms(1) by (auto simp: spaced_def pairwise_def)
qed

lemma paced_sub:
  assumes "paced T k" "mset (commits k') \<subseteq># mset (commits k)" "nb_lastMsg k' = nb_lastMsg k" "T \<le> now"
  shows "paced now k'"
proof -
  have "set (commits k') \<subseteq> set (commits k)" using assms(2) by (metis set_mset_mono set_mset_mset)
  then show ?thesis
    using assms(1,3,4) spaced_sub [OF _ assms(2)] unfolding paced_def by (fastforce intro: order_trans)
qed

lemma answers_sendFor [simp]:
  "answers (sendFor t p msg k) = answers k @ (if mType msg \<in> {''msg'', ''convo_msg''} then [(t, p)] else [])"
  by (simp add: answers_def sendFor_def)

lemma sendFor_frame [simp]:
  "nb_lastMsg (sendFor t p msg k) = nb_lastMsg k" "nb_tasks (sendFor t p msg k) = nb_tasks k"
  "nb_memory (sendFor t p msg k) = nb_memory k" "nb_file (sendFor t p msg k) = nb_file k"
  by (simp_all add: sendFor_def)

lemma bot_frames [simp]:
  "answers (k\<lparr>nb_tasks := ts\<rparr>) = answers k" "answers (k\<lparr>nb_lastMsg := l\<rparr>) = answers k"
  "answers (dropTask i k) = answers k" "answers (remember now u x k) = answers k"
  "nb_lastMsg (dropTask i k) = nb_lastMsg k" "nb_lastMsg (remember now u x k) = nb_lastMsg k"
  "nb_tasks (remember now u x k) = nb_tasks k"
  by (simp_all add: answers_def dropTask_def remember_def Let_def)

lemma commits_send: "mType msg \<notin> {''msg'', ''convo_msg''} \<Longrightarrow> commits (sendFor t p msg k) = commits k"
  by (simp add: commits_def)

lemma paced_send:
  "paced T k \<Longrightarrow> mType msg \<notin> {''msg'', ''convo_msg''} \<Longrightarrow> T \<le> now \<Longrightarrow> paced now (sendFor t p msg k)"
  by (erule paced_sub) (simp_all add: commits_send)

text \<open>A goroutine that goes on may drop its message or answer it, once.\<close>

lemma wake_commits:
  assumes "nb_tasks k = ts @ x # us" "i = length ts"
  shows "mset (commits (wake ask now i k)) \<subseteq># mset (commits k) \<and> nb_lastMsg (wake ask now i k) = nb_lastMsg k"
proof (cases x)
  case (Asked t p b pl r)
  show ?thesis
    by (cases pl) (auto simp: wake_def assms Asked dropTask_def commits_def Let_def nth_append split: option.split)
next
  case (Replied t p b pl r)
  show ?thesis
    by (cases pl) (auto simp: wake_def assms Replied dropTask_def commits_def answerFrames_def Let_def nth_append)
qed

lemma paced_wake:
  assumes "paced T k" "T \<le> now"
  shows "paced now (wake ask t i k)"
proof (cases "i < length (nb_tasks k)")
  case True
  then have "nb_tasks k = take i (nb_tasks k) @ nb_tasks k ! i # drop (Suc i) (nb_tasks k)" "i = length (take i (nb_tasks k))"
    by (simp_all add: id_take_nth_drop)
  from wake_commits [OF this] show ?thesis using paced_sub [OF assms(1) _ _ assms(2)] by blast
next
  case False
  then have "wake ask t i k = k" by (simp add: wake_def)
  then show ?thesis using paced_sub [OF assms(1) _ _ assms(2), of k] by simp
qed

text \<open>A message that is taken up comes three seconds after the last one of the same person.\<close>

lemma paced_respond:
  assumes "paced T k" "T \<le> now"
  shows "paced now (respond soul now p body pl k)"
proof (cases "respond soul now p body pl k = k")
  case True
  then show ?thesis using paced_sub [OF assms(1) _ _ assms(2), of k] by simp
next
  case False
  define ks where "ks = taskKey (Asked now p body pl (soul @ memoryContext p (k\<lparr>nb_lastMsg := aput p now (nb_lastMsg k)\<rparr>) @
    [chr 10, chr 10] @ p @ says pl @ body @ [chr 10, chr 10] @ ''Nova:''))"
  have k': "mset (commits (respond soul now p body pl k)) = mset (ks @ commits k)"
    "nb_lastMsg (respond soul now p body pl k) = aput p now (nb_lastMsg k)"
    using False by (auto simp: respond_def Let_def commits_def ks_def split: if_splits)
  have ks: "ks = [] \<or> ks = [(now, p)]" by (cases pl) (simp_all add: ks_def)
  have old: "\<exists>l. map_of (nb_lastMsg k) q = Some l \<and> t \<le> l \<and> l \<le> T" if "(t, q) \<in> set (commits k)" for t q
    using assms(1) that unfolding paced_def by fastforce
  have gap: "t + 3 * second \<le> now" if c: "(t, p) \<in> set (commits k)" and ne: "ks \<noteq> []" for t
  proof -
    obtain l where "map_of (nb_lastMsg k) p = Some l" "t \<le> l" using old [OF c] by blast
    then show ?thesis using False ne by (cases pl) (auto simp: respond_def ks_def split: if_splits)
  qed
  have "spaced (ks @ commits k)"
    using assms(1) ks gap by (fastforce simp: paced_def spaced_def pairwise_insert far_def second_def)
  then have "spaced (commits (respond soul now p body pl k))" by (rule spaced_sub) (simp add: k')
  moreover have "\<exists>l. map_of (aput p now (nb_lastMsg k)) q = Some l \<and> t \<le> l \<and> l \<le> now" if "(t, q) \<in> set (ks @ commits k)" for t q
  proof (cases "q = p")
    case True
    then show ?thesis using that ks old [of t p] assms(2) by force
  next
    case False
    then have "(t, q) \<in> set (commits k)" using that ks by auto
    then show ?thesis using old [of t q] assms(2) False by fastforce
  qed
  moreover have "set (commits (respond soul now p body pl k)) = set (ks @ commits k)" using k'(1) by (metis mset_eq_setD)
  ultimately show ?thesis unfolding paced_def k'(2) by (auto simp del: map_of_aput)
qed

lemma paced_onFrame:
  assumes "paced T k" "T \<le> now"
  shows "paced now (onFrame uni soul now msg k)"
proof -
  have "paced now k" using paced_sub [OF assms(1) _ _ assms(2), of k] by simp
  then show ?thesis using paced_respond [OF assms] paced_send [OF assms(1) _ assms(2)] by (simp add: onFrame_def Let_def)
qed

lemma paced_connect:
  assumes "paced T k" "T \<le> now"
  shows "paced now (snd (connect now a k))"
proof -
  have auth: "paced now (sendFor now '''' (msg0\<lparr>mType := ''auth'', mBody := nb_password k\<rparr>) k)"
    using paced_send [OF assms(1) _ assms(2)] by simp
  have "paced now (sendFor now '''' (msg0\<lparr>mType := ''server_list''\<rparr>) (sendFor now '''' m
      (sendFor now '''' (msg0\<lparr>mType := ''auth'', mBody := nb_password k\<rparr>) k)))"
    if "mType m = ''status_update''" for m
    using that paced_send [OF paced_send [OF auth _ order_refl] _ order_refl] by simp
  then show ?thesis
    using auth paced_sub [OF assms(1) _ _ assms(2), of k] by (simp add: connect_def Let_def split: attempt.split)
qed

lemma paced_step: "paced T k \<Longrightarrow> T \<le> eventTime ev \<Longrightarrow> paced (eventTime ev) (botStep uni ask soul ev k)"
  by (cases ev) (simp_all add: paced_onFrame paced_wake paced_connect)

lemma paced_run:
  "paced T k \<Longrightarrow> sorted (T # map eventTime evs) \<Longrightarrow> \<exists>T'. paced T' (runBot uni ask soul evs k)"
proof (induction evs arbitrary: T k)
  case (Cons ev evs)
  then have "paced (eventTime ev) (botStep uni ask soul ev k)" by (intro paced_step [of T]) simp_all
  from Cons.IH [OF this] Cons.prems(2) show ?case by (simp add: runBot_def)
qed (auto simp: runBot_def)


text \<open>
  Two questions of one person, two seconds apart: the first is answered.
\<close>

abbreviation novaEnv :: "string \<Rightarrow> string" where "novaEnv n \<equiv> ''k''"

definition novaHi :: NexusMessage where "novaHi = msg0\<lparr>mType := ''msg'', mSender := ''bob'', mBody := ''hi''\<rparr>"

abbreviation novaTalk :: "botEvent list" where
  "novaTalk \<equiv> [Arrives 0 novaHi, Arrives (2 * second) novaHi, Wakes (4 * second) 0, Wakes (5 * second) 0]"


section \<open>Memory and reconnecting\<close>

text \<open>Its own messages and those without a sender get no answer.\<close>

lemma nova_ignores_itself:
  "mSender msg \<in> {nb_username k, ''''} \<Longrightarrow> mType msg \<noteq> ''friend_request'' \<Longrightarrow> onFrame uni soul now msg k = k"
  by (auto simp: onFrame_def Let_def)

lemma memory_bounded: "length m \<le> 500 \<Longrightarrow> length (memoryAdd now u x m) \<le> 500"
  by (simp add: memoryAdd_def Let_def)

text \<open>A bot started again remembers what the one before it did, at any moment of its run.\<close>

definition inSync :: "NovaBot \<Rightarrow> bool" where
  "inSync k \<longleftrightarrow> NewMemory (nb_file k) = nb_memory k"


lemma inSync_step: "inSync k \<Longrightarrow> inSync (botStep uni ask soul ev k)"
proof (cases ev)
  case (Wakes now i)
  assume k: "inSync k"
  have r: "inSync (remember now u x k')" for u x k' by (simp add: inSync_def remember_def NewMemory_def Let_def)
  have d: "inSync (dropTask i k)" "\<And>ts. inSync (k\<lparr>nb_tasks := ts\<rparr>)" "\<And>t p m ts. inSync (sendFor t p m (k\<lparr>nb_tasks := ts\<rparr>))"
    using k by (simp_all add: inSync_def dropTask_def)
  show ?thesis
    by (cases "nb_tasks k ! i") (simp_all add: Wakes wake_def Let_def k r d split: option.split)
qed (auto simp: onFrame_def respond_def connect_def Let_def inSync_def split: attempt.split)

theorem nova_restart:
  assumes "novaConfig getenv saved = Inr k"
  shows "NewMemory (nb_file (runBot uni ask soul evs k)) = nb_memory (runBot uni ask soul evs k)"
proof -
  have "inSync k" using assms by (auto simp: novaConfig_def inSync_def Let_def split: if_splits)
  then have "inSync (runBot uni ask soul evs k)"
    unfolding runBot_def by (induction evs arbitrary: k) (simp_all add: inSync_step)
  then show ?thesis by (simp add: inSync_def)
qed

lemma connect_Inr: "(\<exists>k'. connect now a k = (Inr (), k')) \<longleftrightarrow> (\<exists>err. a = AuthReply ''ok'' err)"
  by (auto simp: connect_def Let_def split: attempt.split)

lemma connect_frame:
  "nb_memory (snd (connect now a k)) = nb_memory k" "nb_tasks (snd (connect now a k)) = nb_tasks k"
  "nb_lastMsg (snd (connect now a k)) = nb_lastMsg k"
  by (simp_all add: connect_def Let_def split: attempt.split)


end
