(* ===== verification/Delivery.thy ===== *)
theory Delivery
  imports HandlersSocial HandlersSpaces
begin

text \<open>
  What happens to a message from the frame that carries it to the screens it reaches: blocking, the
  store-and-forward path of direct messages, fan-out in channels, and who may change a message once
  it is stored.
\<close>

section \<open>Direct messages\<close>

lemma deliveries_DB [simp]: "deliveries e (s\<lparr>DB := d\<rparr>) u m = deliveries e s u m"
  by (simp add: deliveries_def clientsOf_def sendOk_def cong: filter_cong)

lemma sendOk_DB [simp]: "sendOk e (s\<lparr>DB := d\<rparr>) = sendOk e s"
  by (simp add: sendOk_def fun_eq_iff)

definition reachableUser :: "env \<Rightarrow> string \<Rightarrow> NexusServer \<Rightarrow> bool" where
  "reachableUser e u s \<longleftrightarrow> list_ex (sendOk e s) (clientsOf u s)"

lemma deliveries_unreachable: "\<not> reachableUser e u s \<Longrightarrow> deliveries e s u m = []"
  by (simp add: reachableUser_def deliveries_def filter_empty_conv list_ex_iff)

lemma sendOk_pushBoth [simp]: "sendOk e (pushBoth e' r sd p s) = sendOk e s"
  by (simp add: sendOk_def fun_eq_iff)

lemma h_msg_offline:
  assumes "me c s = u" "u \<noteq> ''''" "mRecipient msg = r" "r \<noteq> ''PhazeBot''" "\<not> eitherBlocked u r (DB s)"
    "length (mBody msg) \<le> 65536" "\<not> reachableUser e r s"
  shows "h_msg e c msg s = Send e c (deliveredOffline r)
     (storeOfflineMessage e u r (mBody msg) ''msg'' (mMsgID msg)
        (withDB (persistDM (e_now e) (mMsgID msg) u r (mBody msg)) s))"
  using assms by (simp add: h_msg_def Let_def sendTo_eq deliveries_unreachable)

lemma storeOffline_outbox [simp]: "outbox (storeOfflineMessage e a b x t i s) = outbox s"
  "sendOk e' (storeOfflineMessage e a b x t i s) = sendOk e' s"
  by (simp_all add: storeOfflineMessage_def)

text \<open>C9: A message to or from a blocked user is dropped: nothing is stored, nobody but the sender is
  written to, and the sender's reply is, frame for frame, the one for a recipient who is offline.  The
  disguise has a hole: the length check comes after the block check, so an over-long message is
  answered with an error exactly when neither side has blocked the other.
\<close>
theorem block_hidden:
  assumes "me c s = u" "u \<noteq> ''''" "mRecipient msg = r" "r \<noteq> ''PhazeBot''"
    and blocked: "isBlocked r u (DB s) \<or> isBlocked u r (DB s)"
    and open_db: "\<not> isBlocked r u d" "\<not> isBlocked u r d" and ok: "sendOk e s c"
  shows "h_msg e c msg s = s\<lparr>outbox := outbox s @ [(c, deliveredOffline r)]\<rparr> \<and>
    (length (mBody msg) \<le> 65536 \<and> \<not> reachableUser e r s \<longrightarrow>
       outbox (h_msg e c msg (s\<lparr>DB := d\<rparr>)) = outbox (h_msg e c msg s)) \<and>
    (length (mBody msg) > 65536 \<longrightarrow>
       outbox (h_msg e c msg (s\<lparr>DB := d\<rparr>)) \<noteq> outbox (h_msg e c msg s))"
proof -
  have me': "me c (s\<lparr>DB := d\<rparr>) = u" using assms(1) by (simp add: me_def)
  have eq: "h_msg e c msg s = s\<lparr>outbox := outbox s @ [(c, deliveredOffline r)]\<rparr>"
    using assms by (simp add: h_msg_def Let_def Send_eq eitherBlocked_def)
  moreover have "outbox (h_msg e c msg (s\<lparr>DB := d\<rparr>)) = outbox (h_msg e c msg s)"
    if "length (mBody msg) \<le> 65536" "\<not> reachableUser e r s"
  proof -
    have "\<not> reachableUser e r (s\<lparr>DB := d\<rparr>)" using that(2) by (simp add: reachableUser_def clientsOf_def)
    then show ?thesis
      using eq ok h_msg_offline [OF me' assms(2-4) _ that(1)] open_db by (simp add: Send_eq eitherBlocked_def)
  qed
  moreover have "outbox (h_msg e c msg (s\<lparr>DB := d\<rparr>)) \<noteq> outbox (h_msg e c msg s)" if "length (mBody msg) > 65536"
  proof -
    let ?err = "msg0\<lparr>mType := ''msg_status'', mBody := ''error'', mSender := r, mError := ''message too long''\<rparr>"
    have "mBody ?err \<noteq> mBody (deliveredOffline r)" by (simp add: deliveredOffline_def)
    then have "?err \<noteq> deliveredOffline r" by metis
    moreover have "outbox (h_msg e c msg (s\<lparr>DB := d\<rparr>)) = outbox s @ [(c, ?err)]"
      using that ok me' assms(2-4) open_db by (simp add: h_msg_def Let_def Send_eq eitherBlocked_def)
    ultimately show ?thesis using eq by simp
  qed
  ultimately show ?thesis by blast
qed

definition dbBlock :: database where
  "dbBlock = fst (blockUser 0 ''bob'' ''amy'' emptyDB)"

definition amyOnline :: NexusServer where
  "amyOnline = nexus0\<lparr>DB := dbBlock, conns := (\<lambda>_. (client0 ''1.2.3.4'')\<lparr>cLocalUser := ''amy''\<rparr>),
     Clients := [(''amy'', [1])], live := [1]\<rparr>"

abbreviation hiBob :: NexusMessage where
  "hiBob \<equiv> msg0\<lparr>mType := ''msg'', mRecipient := ''bob'', mBody := ''hi'', mMsgID := ''m1''\<rparr>"

theorem block_hidden_witness:
  "h_msg env0 1 hiBob amyOnline = amyOnline\<lparr>outbox := [(1, deliveredOffline ''bob'')]\<rparr> \<and>
   outbox (h_msg env0 1 hiBob (amyOnline\<lparr>DB := emptyDB\<rparr>)) = outbox (h_msg env0 1 hiBob amyOnline)"
proof -
  have "isBlocked ''bob'' ''amy'' (DB amyOnline)" "\<not> isBlocked ''amy'' ''bob'' emptyDB" "\<not> isBlocked ''bob'' ''amy'' emptyDB"
    by (simp_all add: isBlocked_def amyOnline_def dbBlock_def blockUser_def emptyDB_def sql_row_def
        sql_insert_ignore_def sql_has_def)
  moreover have "\<not> reachableUser env0 ''bob'' amyOnline" "sendOk env0 amyOnline 1" "me 1 amyOnline = ''amy''"
    "outbox amyOnline = []"
    by (simp_all add: reachableUser_def clientsOf_def aget_def amyOnline_def sendOk_def client0_def me_def nexus0_def)
  ultimately show ?thesis
    using block_hidden [of 1 amyOnline "''amy''" hiBob "''bob''" emptyDB env0] by simp
qed

definition offline_ok :: "database \<Rightarrow> bool" where
  "offline_ok d \<longleftrightarrow> uniq of_id (offline_messages d) \<and>
     list_all (\<lambda>r. of_id r \<le> sqlite_sequence d ''offline_messages'') (offline_messages d)"

lemma queueOffline_rows:
  "offline_ok d \<Longrightarrow> uniq of_id (offline_messages (queueOffline now a b x t cv i d))"
  by (auto simp: offline_ok_def queueOffline_def uniq_def nextID_def list_all_iff)

lemma persistDM_offline [simp]:
  "offline_messages (persistDM now i a b x d) = offline_messages d"
  "sqlite_sequence (persistDM now i a b x d) ''offline_messages'' = sqlite_sequence d ''offline_messages''"
  by (simp_all add: persistDM_def)

lemma queueOffline_dm [simp]: "dm_messages (queueOffline now a b x t cv i d) = dm_messages d"
  by (simp add: queueOffline_def)

lemma fetchDMHistory_last:
  assumes "dm_messages d = t @ [r]" and "dmBetween a b 0 r"
  shows "dmView d r \<in> set (fetchDMHistory a b 0 100 d)"
  using assms by (simp add: fetchDMHistory_def sql_last_desc_def Let_def take_Cons')



end
