(* ===== verification/Updates.thy ===== *)
theory Updates
  imports Http
begin

text \<open>
  The update manifest of \<^verbatim>\<open>nexus_server/main.go\<close>: the latest GitHub release with the checksums published
  beside it, one download per platform, kept for five minutes (\<^verbatim>\<open>versionHandler\<close>).  GitHub's answer and the
  download of \<^verbatim>\<open>checksums.txt\<close> are services: \<^verbatim>\<open>None\<close> stands for an error, another status or undecodable JSON.
\<close>

section \<open>Go strings\<close>

text \<open>\<^verbatim>\<open>strings.Fields\<close>; \<open>w\<close> is the field being read, reversed.\<close>

function fieldsFrom :: "string \<Rightarrow> string \<Rightarrow> string list" where
  "fieldsFrom w s =
     (case s of
        [] \<Rightarrow> if w = [] then [] else [rev w]
      | c # cs \<Rightarrow>
          (case find (\<lambda>p. prefix p s) goSpaces of
             Some p \<Rightarrow> (if w = [] then [] else [rev w]) @ fieldsFrom [] (drop (length p) s)
           | None \<Rightarrow> fieldsFrom (c # w) cs))"
  by pat_completeness auto
termination
proof (relation "measure (length \<circ> snd)")
  fix w s :: string and c cs p
  assume s: "s = c # cs" and "find (\<lambda>p. prefix p s) goSpaces = Some p"
  then have "p \<noteq> []" by (metis find_Some_iff nth_mem goSpaces_nonempty)
  with s show "(([], drop (length p) s), w, s) \<in> measure (length \<circ> snd)" by (cases p) auto
qed auto

declare fieldsFrom.simps [simp del]

definition Fields :: "string \<Rightarrow> string list" where
  "Fields s = fieldsFrom [] s"

text \<open>
  \<^verbatim>\<open>strings.EqualFold\<close> against an ASCII text in lower case.  Two other characters fold to ASCII letters:
  the Kelvin sign to k and the long s to s.
\<close>

function foldASCII :: "string \<Rightarrow> string" where
  "foldASCII [] = []"
| "foldASCII (c # cs) =
     (if prefix [chr 226, chr 132, chr 170] (c # cs) then CHR ''k'' # foldASCII (drop 2 cs)
      else if prefix [chr 197, chr 191] (c # cs) then CHR ''s'' # foldASCII (drop 1 cs)
      else asciiLower c # foldASCII cs)"
  by pat_completeness auto
termination by (relation "measure length") auto

section \<open>Releases\<close>

record PlatformAsset =
  pa_URL :: string
  pa_SHA256 :: string
  pa_Size :: int
  pa_Name :: string

record UpdateManifest =
  um_Version :: string
  um_ReleaseURL :: string
  um_ReleaseNotes :: string
  um_PublishedAt :: string
  um_Platforms :: "(string \<times> PlatformAsset) list"
  um_RefreshedAt :: int
  um_Source :: string

record updateCache =
  uc_manifest :: UpdateManifest
  uc_expires :: time

definition updateTTL :: time where "updateTTL = 5 * minute"

definition updates0 :: updateCache where
  "updates0 = \<lparr> uc_manifest = \<lparr> um_Version = '''', um_ReleaseURL = '''', um_ReleaseNotes = '''', um_PublishedAt = '''',
     um_Platforms = [], um_RefreshedAt = 0, um_Source = '''' \<rparr>, uc_expires = zeroTime \<rparr>"

definition classifyAsset :: "env \<Rightarrow> string \<Rightarrow> string" where
  "classifyAsset e name =
     (let low = ToLower (e_uniLower e) name
      in if hasSuffix low ''.exe'' \<or> strContains low ''windows'' then ''windows''
         else if hasSuffix low ''.apk'' then ''android''
         else if hasSuffix low ''.linux'' \<or> strContains low ''linux'' then ''linux''
         else '''')"

text \<open>One line of \<^verbatim>\<open>checksums.txt\<close>: the name and the checksum, if it holds one.\<close>

definition checksumLine :: "env \<Rightarrow> string \<Rightarrow> (string \<times> string) option" where
  "checksumLine e line0 =
     (let line = TrimSpace line0; fs = Fields line
      in if line = '''' \<or> hasPrefix line ''#'' \<or> length fs \<noteq> 2 \<or> length (fs ! 0) \<noteq> 64 then None
         else Some (TrimPrefix (fs ! 1) ''*'', ToLower (e_uniLower e) (fs ! 0)))"

definition parseChecksums :: "env \<Rightarrow> string \<Rightarrow> (string \<times> string) list" where
  "parseChecksums e body =
     fold (\<lambda>line sums. case checksumLine e line of None \<Rightarrow> sums | Some (name, v) \<Rightarrow> aput name v sums)
       (strSplit (chr 10) body) []"

definition fetchChecksums :: "services \<Rightarrow> env \<Rightarrow> string \<Rightarrow> (string \<times> string) list" where
  "fetchChecksums x e url =
     (if url = '''' then []
      else case x_download x url of None \<Rightarrow> [] | Some body \<Rightarrow> parseChecksums e (take (2 ^ 20) body))"

definition checksumsURL :: "ghAsset list \<Rightarrow> string" where
  "checksumsURL as = (case find (\<lambda>a. foldASCII (gaName a) = ''checksums.txt'') as of None \<Rightarrow> '''' | Some a \<Rightarrow> gaURL a)"

definition addPlatform :: "env \<Rightarrow> (string \<times> string) list \<Rightarrow> ghAsset \<Rightarrow> (string \<times> PlatformAsset) list \<Rightarrow>
    (string \<times> PlatformAsset) list" where
  "addPlatform e sums a ps =
     (let plat = classifyAsset e (gaName a)
      in if plat = '''' \<or> map_of ps plat \<noteq> None then ps
         else aput plat \<lparr> pa_URL = gaURL a, pa_SHA256 = aget '''' sums (gaName a), pa_Size = gaSize a, pa_Name = gaName a \<rparr> ps)"

definition refreshUpdateManifest :: "services \<Rightarrow> env \<Rightarrow> string \<Rightarrow> UpdateManifest" where
  "refreshUpdateManifest x e repo =
     (let envVersion = TrimSpace (e_getenv e ''Phaze_LATEST_VERSION'');
          u0 = TrimSpace (e_getenv e ''Phaze_UPDATE_URL'');
          envURL = (if u0 = '''' then ''https://github.com/'' @ repo @ ''/releases/latest'' else u0);
          manifest = \<lparr> um_Version = envVersion, um_ReleaseURL = envURL, um_ReleaseNotes = '''', um_PublishedAt = '''',
            um_Platforms = [], um_RefreshedAt = e_now e div second, um_Source = ''env'' \<rparr>
      in if repo = '''' then manifest
         else case x_github x repo of
                None \<Rightarrow> manifest
              | Some rel \<Rightarrow>
                  let sums = fetchChecksums x e (checksumsURL (grAssets rel)); v = TrimPrefix (grTagName rel) ''v''
                  in \<lparr> um_Version = (if v = '''' then envVersion else v), um_ReleaseURL = grHTMLURL rel,
                       um_ReleaseNotes = grBody rel, um_PublishedAt = grPublishedAt rel,
                       um_Platforms = fold (addPlatform e sums) (grAssets rel) [],
                       um_RefreshedAt = e_now e div second, um_Source = ''github'' \<rparr>)"

text \<open>The reply is the manifest, with its \<^verbatim>\<open>ReleaseURL\<close> once more under the old name \<^verbatim>\<open>url\<close>.\<close>

definition versionHandler :: "services \<Rightarrow> env \<Rightarrow> updateCache \<Rightarrow> updateCache \<times> UpdateManifest" where
  "versionHandler x e c =
     (let r0 = TrimSpace (e_getenv e ''PHAZE_RELEASE_REPO''); repo = (if r0 = '''' then ''jakes1345/phazechat.world'' else r0);
          fresh = (e_now e < uc_expires c \<and> um_RefreshedAt (uc_manifest c) > 0)
      in if fresh then (c, uc_manifest c)
         else let m = refreshUpdateManifest x e repo in (\<lparr> uc_manifest = m, uc_expires = e_now e + updateTTL \<rparr>, m))"

section \<open>The manifest is sound\<close>

lemma parseChecksums_line:
  assumes "map_of (parseChecksums e body) name = Some v"
  shows "\<exists>line \<in> set (strSplit (chr 10) body). checksumLine e line = Some (name, v)"
proof -
  have "\<exists>line \<in> set lines. checksumLine e line = Some (name, v)"
    if "map_of (fold (\<lambda>line sums. case checksumLine e line of None \<Rightarrow> sums | Some (n, w) \<Rightarrow> aput n w sums) lines []) name = Some v"
    for lines using that
  proof (induction lines rule: rev_induct)
    case (snoc line lines)
    then show ?case by (auto split: option.splits if_splits)
  qed simp
  with assms show ?thesis by (simp add: parseChecksums_def)
qed

definition offer :: "(string \<times> string) list \<Rightarrow> ghAsset \<Rightarrow> PlatformAsset" where
  "offer sums a = \<lparr> pa_URL = gaURL a, pa_SHA256 = aget '''' sums (gaName a), pa_Size = gaSize a, pa_Name = gaName a \<rparr>"

lemma map_of_addPlatform:
  "map_of (addPlatform e sums a ps) plat =
     (case map_of ps plat of
        Some q \<Rightarrow> Some q
      | None \<Rightarrow> if classifyAsset e (gaName a) = plat \<and> plat \<noteq> '''' then Some (offer sums a) else None)"
  by (auto simp: addPlatform_def offer_def Let_def split: option.splits)

lemma fold_addPlatform:
  "map_of (fold (addPlatform e sums) as ps) plat =
     (case map_of ps plat of
        Some q \<Rightarrow> Some q
      | None \<Rightarrow> if plat = '''' then None
          else map_option (offer sums) (find (\<lambda>a. classifyAsset e (gaName a) = plat) as))"
  by (induction as arbitrary: ps) (auto simp: map_of_addPlatform split: option.splits)

text \<open>The update manifest is sound: the download offered for a platform is the first file of the release that is
  for that platform, and a checksum offered with it is the one a line of the release's \<^verbatim>\<open>checksums.txt\<close> gives for
  exactly this file.\<close>

theorem update_manifest_sound:
  assumes "map_of (um_Platforms (refreshUpdateManifest x e repo)) plat = Some p"
  shows "\<exists>rel a. x_github x repo = Some rel \<and> find (\<lambda>a. classifyAsset e (gaName a) = plat) (grAssets rel) = Some a \<and>
     pa_URL p = gaURL a \<and> pa_Name p = gaName a \<and> pa_Size p = gaSize a \<and>
     (pa_SHA256 p \<noteq> '''' \<longrightarrow>
        (\<exists>body line. x_download x (checksumsURL (grAssets rel)) = Some body \<and>
           line \<in> set (strSplit (chr 10) (take (2 ^ 20) body)) \<and> checksumLine e line = Some (gaName a, pa_SHA256 p)))"
proof -
  obtain rel where rel: "repo \<noteq> ''''" "x_github x repo = Some rel"
    using assms by (auto simp: refreshUpdateManifest_def Let_def split: if_splits option.splits)
  let ?sums = "fetchChecksums x e (checksumsURL (grAssets rel))"
  have "map_of (fold (addPlatform e ?sums) (grAssets rel) []) plat = Some p"
    using assms rel by (simp add: refreshUpdateManifest_def Let_def)
  then obtain a where a: "find (\<lambda>a. classifyAsset e (gaName a) = plat) (grAssets rel) = Some a" "p = offer ?sums a"
    by (auto simp: fold_addPlatform split: if_splits)
  have "\<exists>body line. x_download x (checksumsURL (grAssets rel)) = Some body \<and>
      line \<in> set (strSplit (chr 10) (take (2 ^ 20) body)) \<and> checksumLine e line = Some (gaName a, pa_SHA256 p)"
    if "pa_SHA256 p \<noteq> ''''"
  proof -
    have "map_of ?sums (gaName a) = Some (pa_SHA256 p)" using that a(2) by (auto simp: offer_def aget_def split: option.splits)
    then obtain body where "x_download x (checksumsURL (grAssets rel)) = Some body"
      "map_of (parseChecksums e (take (2 ^ 20) body)) (gaName a) = Some (pa_SHA256 p)"
      by (auto simp: fetchChecksums_def simp del: One_nat_def split: if_splits option.splits)
    with parseChecksums_line show ?thesis by blast
  qed
  with rel a show ?thesis by (simp add: offer_def)
qed

definition release1 :: ghRelease where
  "release1 = \<lparr> grTagName = ''v2.0'', grBody = '''', grHTMLURL = ''https://x'', grPublishedAt = '''',
     grAssets = [\<lparr> gaName = ''checksums.txt'', gaURL = ''https://x/c'', gaSize = 75 \<rparr>, \<lparr> gaName = ''Phaze.exe'', gaURL = ''https://x/a'', gaSize = 7 \<rparr>, \<lparr> gaName = ''Old.exe'', gaURL = ''https://x/b'', gaSize = 8 \<rparr>] \<rparr>"

definition spaceStart :: "char \<Rightarrow> bool" where
  "spaceStart c \<longleftrightarrow> c \<in> set (map hd goSpaces)"

lemma spaceStart_code: "spaceStart c \<longleftrightarrow> (of_char c :: nat) \<in> {32, 9, 10, 11, 12, 13, 194, 225, 226, 227}"
proof -
  have eq: "c = char_of n \<longleftrightarrow> n mod 256 = of_char c" for n :: nat
    using char_of_eq_iff [of n c] by (auto simp: take_bit_eq_mod)
  show ?thesis by (auto simp: spaceStart_def goSpaces_def eq)
qed

lemma no_space_prefix: "\<not> spaceStart c \<Longrightarrow> find (\<lambda>p. prefix p (c # cs)) goSpaces = None"
  using goSpaces_nonempty by (force simp: spaceStart_def find_None_iff prefix_Cons)

lemma fieldsFrom_word: "\<not> list_ex spaceStart s \<Longrightarrow> fieldsFrom w (s @ t) = fieldsFrom (rev s @ w) t"
proof (induction s arbitrary: w)
  case (Cons c s)
  then have "fieldsFrom w ((c # s) @ t) = fieldsFrom (c # w) (s @ t)"
    by (subst fieldsFrom.simps) (simp add: no_space_prefix)
  with Cons show ?case by simp
qed simp

lemma fieldsFrom_space: "fieldsFrom w (CHR '' '' # t) = (if w = [] then [] else [rev w]) @ fieldsFrom [] t"
proof -
  have "find (\<lambda>p. prefix p (CHR '' '' # t)) goSpaces = Some '' ''"
    by (simp add: goSpaces_def char_of_eq_iff)
  then show ?thesis by (subst fieldsFrom.simps) simp
qed

lemma Fields_pair:
  assumes "\<not> list_ex spaceStart s" "\<not> list_ex spaceStart t" "s \<noteq> []" "t \<noteq> []"
  shows "Fields (s @ ''  '' @ t) = [s, t]"
  using assms fieldsFrom_word [of s "[]" "''  '' @ t"] fieldsFrom_word [of t "[]" "[]"]
  by (simp add: Fields_def fieldsFrom_space fieldsFrom.simps [of _ "[]"])

definition releaseSum :: string where "releaseSum = replicate 64 CHR ''a''"

lemma fields1: "Fields (releaseSum @ ''  '' @ ''Phaze.exe'') = [releaseSum, ''Phaze.exe'']"
proof (rule Fields_pair)
  have "\<not> spaceStart CHR ''a''" by (simp add: spaceStart_code)
  then show "\<not> list_ex spaceStart releaseSum" by (simp add: releaseSum_def list_ex_iff)
  show "\<not> list_ex spaceStart ''Phaze.exe''" by (simp add: spaceStart_code)
qed (simp_all add: releaseSum_def)
definition releaseSums :: string where "releaseSums = releaseSum @ ''  '' @ ''Phaze.exe''"

definition releaseServices :: services where
  "releaseServices = \<lparr> x_sqlInt = ParseInt, x_dbSize = 0, x_hmacSHA256 = (\<lambda>k m. k @ m), x_bmcDecode = (\<lambda>_. None),
     x_gemini = (\<lambda>_ _. Inl ''down''), x_anthropic = (\<lambda>_ _. Inl ''down''), x_geo = (\<lambda>_. None), x_github = (\<lambda>_. Some release1),
     x_download = (\<lambda>_. Some releaseSums), x_blobPut = (\<lambda>_. True), x_detect = (\<lambda>_. ''text/plain''), x_reencode = Some \<rparr>"

lemma checksumLine1: "checksumLine env0 releaseSums = Some (''Phaze.exe'', releaseSum)"
proof -
  have a: "\<not> spaceStart CHR ''a''" by (simp add: spaceStart_code)
  have s: "releaseSums = CHR ''a'' # replicate 63 CHR ''a'' @ ''  Phaze.exe''"
    by (simp add: releaseSums_def releaseSum_def numeral_eq_Suc)
  have "TrimLeft releaseSums = releaseSums" by (subst TrimLeft.simps) (simp add: s no_space_prefix [OF a])
  moreover have "TrimRight releaseSums = releaseSums"
    by (subst TrimRight.simps) (simp add: releaseSums_def goSpaces_def suffix_to_prefix char_of_eq_iff)
  ultimately have t: "TrimSpace releaseSums = releaseSums" by (simp add: TrimSpace_def)
  have "ToLower (e_uniLower env0) releaseSum = releaseSum" "length releaseSum = 64"
    by (simp_all add: releaseSum_def ToLower_def isASCII_def asciiLower_def list_all_iff)
  moreover have "\<not> hasPrefix releaseSums ''#''" "releaseSums \<noteq> ''''" by (simp_all add: hasPrefix_def s)
  moreover have "Fields releaseSums = [releaseSum, ''Phaze.exe'']" using fields1 by (simp add: releaseSums_def)
  ultimately show ?thesis by (simp add: checksumLine_def t TrimPrefix_def)
qed

lemma parseChecksums1: "parseChecksums env0 (take (2 ^ 20) releaseSums) = [(''Phaze.exe'', releaseSum)]"
proof -
  have "length releaseSums = 75" by (simp add: releaseSums_def releaseSum_def)
  then have t: "take (2 ^ 20) releaseSums = releaseSums" by (intro take_all) simp
  have "chr 10 \<notin> set releaseSums" by (simp add: releaseSums_def releaseSum_def char_of_eq_iff)
  then show ?thesis unfolding t by (simp add: parseChecksums_def strSplit_single checksumLine1)
qed

lemma platforms1:
  "map_of (um_Platforms (refreshUpdateManifest releaseServices env0 ''r'')) ''windows'' =
     Some \<lparr> pa_URL = ''https://x/a'', pa_SHA256 = releaseSum, pa_Size = 7, pa_Name = ''Phaze.exe'' \<rparr>"
proof -
  have c: "classifyAsset env0 ''Phaze.exe'' = ''windows''" "classifyAsset env0 ''checksums.txt'' = ''''"
    by (simp_all add: classifyAsset_def ToLower_def isASCII_def asciiLower_def hasSuffix_def suffix_to_prefix strContains_def Let_def sublist_code)
  have "checksumsURL (grAssets release1) = ''https://x/c''"
    by (simp add: checksumsURL_def release1_def char_of_eq_iff asciiLower_def)
  moreover have "fetchChecksums releaseServices env0 ''https://x/c'' = [(''Phaze.exe'', releaseSum)]"
    unfolding fetchChecksums_def using parseChecksums1 by (simp only: releaseServices_def services.simps option.simps list.simps if_False)
  ultimately have s: "fetchChecksums releaseServices env0 (checksumsURL (grAssets release1)) = [(''Phaze.exe'', releaseSum)]"
    by simp
  have "x_github releaseServices ''r'' = Some release1" by (simp add: releaseServices_def)
  then show ?thesis
    by (simp add: refreshUpdateManifest_def fold_addPlatform Let_def s) (simp add: release1_def c offer_def aget_def)
qed

theorem update_manifest_sound_witness:
  "\<exists>a. find (\<lambda>a. classifyAsset env0 (gaName a) = ''windows'') (grAssets release1) = Some a \<and> gaURL a = ''https://x/a''"
  using update_manifest_sound [OF platforms1] by (auto simp: releaseServices_def)

end
