(* ===== verification/Limiter.thy ===== *)
theory Limiter
  imports Turn
begin

text \<open>
  The table of token buckets of \<^verbatim>\<open>nexus_server/netutil.go\<close> (\<^verbatim>\<open>ipLimiter\<close>), one bucket per address or account.
  The buckets are those of \<^verbatim>\<open>golang.org/x/time/rate\<close>, which is not part of the repository: \<open>NewLimiter\<close> makes
  one and \<open>Allow\<close> takes a token at a given time.  Go iterates over a map in an unspecified order; \<open>order\<close>
  is the order in which one eviction loop visits the keys.
\<close>

section \<open>The table\<close>

text \<open>A rate is given as a fraction: \<open>(n, d)\<close> stands for n/d tokens a second.\<close>

type_synonym rate_limit = "int \<times> int"

record 'l limiterEntry =
  le_lim :: 'l
  le_last :: time

record 'l ipLimiter =
  il_entries :: "(string \<times> 'l limiterEntry) list"
  il_r :: rate_limit
  il_burst :: nat
  il_idleTTL :: time
  il_maxSize :: nat
  il_lastGC :: time
  il_gcEvery :: time

definition newIPLimiter :: "rate_limit \<Rightarrow> nat \<Rightarrow> 'l ipLimiter" where
  "newIPLimiter r burst =
     \<lparr> il_entries = [], il_r = r, il_burst = burst, il_idleTTL = 10 * minute, il_maxSize = 50000, il_lastGC = zeroTime,
       il_gcEvery = minute \<rparr>"

fun evictLoop :: "nat \<Rightarrow> string list \<Rightarrow> (string \<times> 'e) list \<Rightarrow> (string \<times> 'e) list" where
  "evictLoop cap [] m = m"
| "evictLoop cap (ip # ips) m = (let m' = adel ip m in if length m' \<le> cap then m' else evictLoop cap ips m')"

definition idleGone :: "time \<Rightarrow> 'l ipLimiter \<Rightarrow> (string \<times> 'l limiterEntry) list" where
  "idleGone now l = filter (\<lambda>p. \<not> le_last (snd p) < now - il_idleTTL l) (il_entries l)"

definition gcLocked :: "string list \<Rightarrow> time \<Rightarrow> 'l ipLimiter \<Rightarrow> 'l ipLimiter" where
  "gcLocked order now l =
     (if now - il_lastGC l < il_gcEvery l \<and> length (il_entries l) < il_maxSize l then l
      else let m = idleGone now l
           in l\<lparr> il_entries := (if length m > il_maxSize l then evictLoop (il_maxSize l * 9 div 10) order m else m),
                 il_lastGC := now \<rparr>)"

definition allow :: "(rate_limit \<Rightarrow> nat \<Rightarrow> 'l) \<Rightarrow> (time \<Rightarrow> 'l \<Rightarrow> 'l \<times> bool) \<Rightarrow> string list \<Rightarrow> time \<Rightarrow> string \<Rightarrow>
    'l ipLimiter \<Rightarrow> 'l ipLimiter \<times> bool" where
  "allow NewLimiter Allow order now ip l0 =
     (let l = gcLocked order now l0;
          b = (case map_of (il_entries l) ip of Some e \<Rightarrow> le_lim e | None \<Rightarrow> NewLimiter (il_r l) (il_burst l));
          (b', ok) = Allow now b
      in (l\<lparr>il_entries := aput ip \<lparr> le_lim = b', le_last = now \<rparr> (il_entries l)\<rparr>, ok))"

text \<open>The tables of the server.\<close>

definition globalLimiter :: "'l ipLimiter" where "globalLimiter = newIPLimiter (10, 1) 30"
definition adminLimiter :: "'l ipLimiter" where "adminLimiter = newIPLimiter (1, 20) 3"
definition resendLimiter :: "'l ipLimiter" where "resendLimiter = newIPLimiter (1, 300) 1"
definition forgotPasswordLimiter :: "'l ipLimiter" where "forgotPasswordLimiter = newIPLimiter (1, 300) 1"
definition remoteLookupLimiter :: "'l ipLimiter" where "remoteLookupLimiter = newIPLimiter (10, 60) 10"
definition uploadLimiter :: "'l ipLimiter" where "uploadLimiter = newIPLimiter (20, 3600) 20"

section \<open>Bounded memory\<close>

inductive limiter_reachable :: "(rate_limit \<Rightarrow> nat \<Rightarrow> 'l) \<Rightarrow> (time \<Rightarrow> 'l \<Rightarrow> 'l \<times> bool) \<Rightarrow> 'l ipLimiter \<Rightarrow> bool"
  for NewLimiter Allow where
  Start: "limiter_reachable NewLimiter Allow (newIPLimiter r burst)"
| Call: "limiter_reachable NewLimiter Allow l \<Longrightarrow> set (akeys (idleGone now l)) \<subseteq> set order \<Longrightarrow>
     limiter_reachable NewLimiter Allow (fst (allow NewLimiter Allow order now ip l))"

lemma length_aput: "length (aput k v m) \<le> Suc (length m)"
  by (induction m) auto

lemma length_evictLoop: "set (akeys m) \<subseteq> set ks \<Longrightarrow> length (evictLoop cap ks m) \<le> cap"
proof (induction ks arbitrary: m)
  case (Cons ip ips)
  have "set (akeys (adel ip m)) \<subseteq> set ips" using Cons.prems by auto
  with Cons.IH show ?case by (auto simp: Let_def)
qed simp

lemma allow_params:
  "il_maxSize (fst (allow NewLimiter Allow order now ip l)) = il_maxSize l"
  "il_idleTTL (fst (allow NewLimiter Allow order now ip l)) = il_idleTTL l"
  "il_r (fst (allow NewLimiter Allow order now ip l)) = il_r l"
  "il_burst (fst (allow NewLimiter Allow order now ip l)) = il_burst l"
  by (simp_all add: allow_def gcLocked_def Let_def split: prod.splits)

lemma length_gcLocked:
  assumes "set (akeys (idleGone now l)) \<subseteq> set order"
  shows "length (il_entries (gcLocked order now l)) \<le> il_maxSize l"
  using length_evictLoop [OF assms, of "il_maxSize l * 9 div 10"]
  by (auto simp: gcLocked_def Let_def not_less)

lemma length_allow:
  assumes "set (akeys (idleGone now l)) \<subseteq> set order"
  shows "length (il_entries (fst (allow NewLimiter Allow order now ip l))) \<le> Suc (il_maxSize l)"
  using le_trans [OF length_aput, of "il_entries (gcLocked order now l)" "Suc (il_maxSize l)"] length_gcLocked [OF assms]
  by (simp add: allow_def Let_def split: prod.splits)

lemma limiter_size: "limiter_reachable NewLimiter Allow l \<Longrightarrow> il_maxSize l = 50000"
  by (induction rule: limiter_reachable.induct) (simp_all add: newIPLimiter_def allow_params)

text \<open>The tables of token buckets stay bounded whatever addresses knock: after any sequence of calls, with any times
  and whatever order the evictions visit the entries in, a table holds at most 50,001 buckets.\<close>

theorem limiter_bounded:
  assumes "limiter_reachable NewLimiter Allow l"
  shows "length (il_entries l) \<le> 50001"
  using assms
proof (induction rule: limiter_reachable.induct)
  case (Start r burst)
  show ?case by (simp add: newIPLimiter_def)
next
  case (Call l now order ip)
  then show ?case using length_allow [OF Call.hyps(2)] limiter_size [OF Call.hyps(1)] by simp
qed

theorem limiter_bounded_witness:
  "length (il_entries (fst (allow (\<lambda>r b. b) (\<lambda>t b. (b - 1, b > 0)) [] 0 ''10.0.0.1'' adminLimiter))) \<le> 50001"
  by (rule limiter_bounded [where NewLimiter = "\<lambda>r b. b" and Allow = "\<lambda>t b. (b - 1, b > 0)"], rule limiter_reachable.Call)
    (simp_all add: adminLimiter_def idleGone_def limiter_reachable.Start newIPLimiter_def [symmetric],
     simp add: newIPLimiter_def)

section \<open>Forgetting buckets\<close>

text \<open>
  The specification: every key has a bucket of its own, which is never forgotten.  \<open>hist\<close> holds the
  earlier calls, \<open>ownTimes\<close> those of one key.
\<close>

fun allowAll :: "(rate_limit \<Rightarrow> nat \<Rightarrow> 'l) \<Rightarrow> (time \<Rightarrow> 'l \<Rightarrow> 'l \<times> bool) \<Rightarrow> (time \<times> string \<times> string list) list \<Rightarrow>
    'l ipLimiter \<Rightarrow> bool list" where
  "allowAll NewLimiter Allow [] l = []"
| "allowAll NewLimiter Allow ((now, ip, order) # cs) l =
     (let (l', ok) = allow NewLimiter Allow order now ip l in ok # allowAll NewLimiter Allow cs l')"

definition ownTimes :: "(time \<times> string) list \<Rightarrow> string \<Rightarrow> time list" where
  "ownTimes hist ip = map fst (filter (\<lambda>h. snd h = ip) hist)"

definition ownBucket :: "(time \<Rightarrow> 'l \<Rightarrow> 'l \<times> bool) \<Rightarrow> 'l \<Rightarrow> time list \<Rightarrow> 'l" where
  "ownBucket Allow fresh ts = fold (\<lambda>t b. fst (Allow t b)) ts fresh"

fun allowSpec :: "(time \<Rightarrow> 'l \<Rightarrow> 'l \<times> bool) \<Rightarrow> 'l \<Rightarrow> (time \<times> string \<times> string list) list \<Rightarrow> (time \<times> string) list \<Rightarrow> bool list" where
  "allowSpec Allow fresh [] hist = []"
| "allowSpec Allow fresh ((now, ip, order) # cs) hist =
     snd (Allow now (ownBucket Allow fresh (ownTimes hist ip))) # allowSpec Allow fresh cs (hist @ [(now, ip)])"

text \<open>What \<^verbatim>\<open>golang.org/x/time/rate\<close> promises of a bucket that refills within ten minutes: after that time it is full.\<close>

definition refillsInTime :: "(time \<Rightarrow> 'l \<Rightarrow> 'l \<times> bool) \<Rightarrow> 'l \<Rightarrow> bool" where
  "refillsInTime Allow fresh \<longleftrightarrow>
     (\<forall>ts t. ts \<noteq> [] \<longrightarrow> sorted ts \<longrightarrow> last ts + 10 * minute < t \<longrightarrow> Allow t (ownBucket Allow fresh ts) = Allow t fresh)"

definition tracked :: "(time \<Rightarrow> 'l \<Rightarrow> 'l \<times> bool) \<Rightarrow> 'l \<Rightarrow> time list \<Rightarrow> time \<Rightarrow> 'l limiterEntry option \<Rightarrow> bool" where
  "tracked Allow fresh ts T entry =
     (case entry of
        Some b \<Rightarrow> ts \<noteq> [] \<and> le_last b = last ts \<and> le_lim b = ownBucket Allow fresh ts
      | None \<Rightarrow> ts = [] \<or> last ts + 10 * minute < T)"

definition tracks :: "(time \<Rightarrow> 'l \<Rightarrow> 'l \<times> bool) \<Rightarrow> 'l \<Rightarrow> (time \<times> string) list \<Rightarrow> time \<Rightarrow> (string \<times> 'l limiterEntry) list \<Rightarrow> bool" where
  "tracks Allow fresh hist T m \<longleftrightarrow>
     distinct (akeys m) \<and> (\<forall>ip. tracked Allow fresh (ownTimes hist ip) T (map_of m ip))"

lemma ownTimes_append: "ownTimes (hist @ [(now, ip)]) ip' = ownTimes hist ip' @ (if ip' = ip then [now] else [])"
  by (simp add: ownTimes_def)

lemma sorted_ownTimes: "sorted (map fst hist) \<Longrightarrow> sorted (ownTimes hist ip)"
  by (simp add: ownTimes_def sorted_filter)

lemma tracks_keys:
  assumes "tracks Allow fresh hist T m"
  shows "set (akeys m) \<subseteq> snd ` set hist"
proof
  fix ip assume "ip \<in> set (akeys m)"
  then obtain b where "map_of m ip = Some b" by (metis map_of_eq_None_iff not_Some_eq set_map)
  moreover have "tracked Allow fresh (ownTimes hist ip) T (map_of m ip)" using assms by (simp add: tracks_def)
  ultimately have "ownTimes hist ip \<noteq> []" by (simp add: tracked_def)
  then show "ip \<in> snd ` set hist" by (force simp: ownTimes_def filter_empty_conv)
qed

lemma tracked_later: "tracked Allow fresh ts T entry \<Longrightarrow> T \<le> now \<Longrightarrow> tracked Allow fresh ts now entry"
  by (auto simp: tracked_def split: option.splits)

lemma tracked_idle:
  "tracked Allow fresh ts T (Some b) \<Longrightarrow> le_last b < now - 10 * minute \<Longrightarrow> tracked Allow fresh ts now None"
  by (auto simp: tracked_def)

lemma tracks_idleGone:
  assumes "tracks Allow fresh hist T (il_entries l)" "T \<le> now" "il_idleTTL l = 10 * minute"
  shows "tracks Allow fresh hist now (idleGone now l)"
proof -
  have d: "distinct (akeys (il_entries l))"
    and t: "tracked Allow fresh (ownTimes hist ip) T (map_of (il_entries l) ip)" for ip
    using assms(1) by (simp_all add: tracks_def)
  have m: "map_of (idleGone now l) ip =
      (case map_of (il_entries l) ip of None \<Rightarrow> None | Some b \<Rightarrow> if \<not> le_last b < now - il_idleTTL l then Some b else None)" for ip
    using map_of_filter_key [OF d, of "\<lambda>_ b. \<not> le_last b < now - il_idleTTL l" ip]
    by (simp add: idleGone_def case_prod_unfold)
  have "tracked Allow fresh (ownTimes hist ip) now (map_of (idleGone now l) ip)" for ip
    using t [of ip] assms(2,3) tracked_idle [of Allow fresh "ownTimes hist ip" T _ now]
    by (auto simp: m split: option.splits intro: tracked_later)
  moreover have "distinct (akeys (idleGone now l))" using d by (simp add: idleGone_def distinct_map_filter)
  ultimately show ?thesis by (simp add: tracks_def)
qed

lemma tracks_gcLocked:
  assumes "tracks Allow fresh hist T (il_entries l)" "T \<le> now" "il_idleTTL l = 10 * minute" "il_maxSize l = 50000"
    and "card (snd ` set hist) \<le> 50000"
  shows "tracks Allow fresh hist now (il_entries (gcLocked order now l))"
proof -
  have g: "tracks Allow fresh hist now (idleGone now l)" by (rule tracks_idleGone [OF assms(1-3)])
  have "length (idleGone now l) = card (set (akeys (idleGone now l)))"
    using g distinct_card [of "akeys (idleGone now l)"] by (simp add: tracks_def)
  also have "\<dots> \<le> card (snd ` set hist)" by (rule card_mono [OF _ tracks_keys [OF g]]) simp
  finally have "\<not> length (idleGone now l) > il_maxSize l" using assms(4,5) by simp
  moreover have "tracks Allow fresh hist now (il_entries l)"
    using assms(1,2) by (auto simp: tracks_def intro: tracked_later)
  ultimately show ?thesis using g by (simp add: gcLocked_def Let_def)
qed

lemma tracks_allow:
  assumes t: "tracks Allow (NewLimiter (il_r l) (il_burst l)) hist T (il_entries l)" and now: "T \<le> now"
    and l: "il_idleTTL l = 10 * minute" "il_maxSize l = 50000" "card (snd ` set hist) \<le> 50000"
    and r: "refillsInTime Allow (NewLimiter (il_r l) (il_burst l))" "sorted (map fst hist)"
  shows "snd (allow NewLimiter Allow order now ip l) =
           snd (Allow now (ownBucket Allow (NewLimiter (il_r l) (il_burst l)) (ownTimes hist ip)))" (is "?same")
    and "tracks Allow (NewLimiter (il_r l) (il_burst l)) (hist @ [(now, ip)]) now
           (il_entries (fst (allow NewLimiter Allow order now ip l)))" (is "?tracks")
proof -
  let ?F = "NewLimiter (il_r l) (il_burst l)" and ?g = "gcLocked order now l"
  define b where "b = (case map_of (il_entries ?g) ip of Some e \<Rightarrow> le_lim e | None \<Rightarrow> ?F)"
  have g: "tracks Allow ?F hist now (il_entries ?g)" by (rule tracks_gcLocked [OF t now l])
  have p: "il_r ?g = il_r l" "il_burst ?g = il_burst l" by (simp_all add: gcLocked_def Let_def)
  have "tracked Allow ?F (ownTimes hist ip) now (map_of (il_entries ?g) ip)" using g by (simp add: tracks_def)
  then have b: "Allow now b = Allow now (ownBucket Allow ?F (ownTimes hist ip))"
    using r(1) sorted_ownTimes [OF r(2)]
    by (cases "ownTimes hist ip = []") (auto simp: tracked_def b_def refillsInTime_def ownBucket_def split: option.splits)
  have a: "allow NewLimiter Allow order now ip l =
      (?g\<lparr>il_entries := aput ip \<lparr> le_lim = fst (Allow now b), le_last = now \<rparr> (il_entries ?g)\<rparr>, snd (Allow now b))"
    unfolding allow_def Let_def b_def p by (simp add: case_prod_unfold)
  show ?same by (simp add: a b)
  have "tracked Allow ?F (ownTimes (hist @ [(now, ip)]) i) now
      (if i = ip then Some \<lparr> le_lim = fst (Allow now b), le_last = now \<rparr> else map_of (il_entries ?g) i)" for i
    using g b by (simp add: tracks_def) (simp add: tracked_def ownTimes_append ownBucket_def)
  with g show ?tracks by (simp add: a tracks_def distinct_aput)
qed

lemma allowAll_spec:
  assumes "tracks Allow (NewLimiter (il_r l) (il_burst l)) hist T (il_entries l)" "sorted (map fst hist)"
    and "list_all (\<lambda>h. fst h \<le> T) hist" "sorted (T # map fst cs)"
    and "il_idleTTL l = 10 * minute" "il_maxSize l = 50000" "card (snd ` set hist \<union> fst ` snd ` set cs) \<le> 50000"
    and r: "refillsInTime Allow (NewLimiter (il_r l) (il_burst l))"
  shows "allowAll NewLimiter Allow cs l = allowSpec Allow (NewLimiter (il_r l) (il_burst l)) cs hist"
  using assms
proof (induction cs arbitrary: l hist T)
  case (Cons c cs)
  obtain now ip order where c: "c = (now, ip, order)" by (cases c)
  let ?l = "fst (allow NewLimiter Allow order now ip l)"
  have "snd ` set hist \<subseteq> snd ` set hist \<union> fst ` snd ` set (c # cs)" by blast
  then have "card (snd ` set hist) \<le> card (snd ` set hist \<union> fst ` snd ` set (c # cs))" by (intro card_mono) simp_all
  then have k: "card (snd ` set hist) \<le> 50000" using Cons.prems(7) by linarith
  have now: "T \<le> now" using Cons.prems(4) by (simp add: c)
  note step = tracks_allow [where NewLimiter = NewLimiter and ip = ip and order = order,
      OF Cons.prems(1) now Cons.prems(5,6) k Cons.prems(8,2)]
  have u: "snd ` set (hist @ [(now, ip)]) \<union> fst ` snd ` set cs = snd ` set hist \<union> fst ` snd ` set (c # cs)"
    by (auto simp: c)
  have "sorted (map fst (hist @ [(now, ip)]))" "list_all (\<lambda>h. fst h \<le> now) (hist @ [(now, ip)])" "sorted (now # map fst cs)"
    using Cons.prems(2,3,4) now by (auto simp: c sorted_append list_all_iff intro: order_trans)
  then have "allowAll NewLimiter Allow cs ?l = allowSpec Allow (NewLimiter (il_r l) (il_burst l)) cs (hist @ [(now, ip)])"
    using Cons.IH [of ?l "hist @ [(now, ip)]" now] step(2) Cons.prems(5-8) by (simp only: allow_params u)
  then show ?case using step(1) by (simp add: c case_prod_unfold Let_def)
qed simp


definition everyFiveMinutes :: "time \<Rightarrow> time option \<Rightarrow> time option \<times> bool" where
  "everyFiveMinutes t b = (case b of Some l \<Rightarrow> if l + 5 * minute \<le> t then (Some t, True) else (b, False) | None \<Rightarrow> (Some t, True))"

lemma everyFiveMinutes_bucket:
  "sorted ts \<Longrightarrow> ts \<noteq> [] \<Longrightarrow> \<exists>l \<le> last ts. ownBucket everyFiveMinutes None ts = Some l"
proof (induction ts rule: rev_induct)
  case (snoc t ts)
  show ?case
  proof (cases "ts = []")
    case False
    with snoc obtain l where "l \<le> last ts" "ownBucket everyFiveMinutes None ts = Some l" by (auto simp: sorted_append)
    moreover have "last ts \<le> t" using snoc.prems False by (simp add: sorted_append)
    ultimately show ?thesis by (simp add: ownBucket_def everyFiveMinutes_def)
  qed (simp add: ownBucket_def everyFiveMinutes_def)
qed simp

lemma everyFiveMinutes_refills: "refillsInTime everyFiveMinutes None"
  unfolding refillsInTime_def
proof (intro allI impI)
  fix ts :: "time list" and t assume ts: "ts \<noteq> []" "sorted ts" "last ts + 10 * minute < t"
  obtain l where "l \<le> last ts" "ownBucket everyFiveMinutes None ts = Some l" using everyFiveMinutes_bucket ts by blast
  then show "everyFiveMinutes t (ownBucket everyFiveMinutes None ts) = everyFiveMinutes t None"
    using ts(3) by (simp add: everyFiveMinutes_def minute_def second_def)
qed


text \<open>
  A bucket that takes longer than ten minutes to refill is refilled early by being dropped.  The one for
  uploads, \<^const>\<open>uploadLimiter\<close>, needs an hour: an account that pauses for ten minutes starts anew.
\<close>

theorem limiter_forgets:
  assumes "il_gcEvery l \<le> now - il_lastGC l" "distinct (akeys (il_entries l))"
    and "map_of (il_entries l) ip = Some b" "le_last b < now - il_idleTTL l"
  shows "snd (allow NewLimiter Allow order now ip l) = snd (Allow now (NewLimiter (il_r l) (il_burst l)))"
proof -
  have gone: "map_of (idleGone now l) ip = None"
    using map_of_filter_key [OF assms(2), of "\<lambda>_ b. \<not> le_last b < now - il_idleTTL l" ip] assms(3,4)
    by (simp add: idleGone_def case_prod_unfold)
  have evict: "map_of m k = None \<Longrightarrow> map_of (evictLoop cap ks m) k = None" for cap ks k and m :: "(string \<times> 'c) list"
    by (induction ks arbitrary: m) (simp_all add: Let_def)
  have "map_of (il_entries (gcLocked order now l)) ip = None"
    using assms(1) gone evict [OF gone] by (simp add: gcLocked_def Let_def)
  moreover have "il_r (gcLocked order now l) = il_r l" "il_burst (gcLocked order now l) = il_burst l"
    by (simp_all add: gcLocked_def Let_def)
  ultimately show ?thesis by (simp add: allow_def Let_def case_prod_unfold)
qed

end
