(* ===== verification/Mail.thy ===== *)
theory Mail
  imports Http
begin

text \<open>
  Mail: the HTML templates of \<^verbatim>\<open>email_templates.go\<close>, word for word, and the transports of \<^verbatim>\<open>email.go\<close>.  A mail of the
  server's log (\<^typ>\<open>mail\<close>) becomes an address, a subject and a body by \<open>letter\<close>, and \<open>sendEmail\<close> says what is
  transmitted for them and what the caller is told.  The services at the other end are the parameter
  \<open>mailServers\<close>.  The theorems: no value a user chose can add markup to a templated mail or a header to an SMTP
  message, escaping loses nothing, and a mail is only written to the log instead of being sent exactly when
  \<^verbatim>\<open>mailConfigured\<close> says that there is no transport.
\<close>

section \<open>Escaping\<close>

text \<open>Go's \<^verbatim>\<open>html.EscapeString\<close>.\<close>

definition escapeChar :: "char \<Rightarrow> string" where
  "escapeChar c =
     (if c = CHR ''&'' then ''&amp;'' else if c = CHR 0x27 then ''&#39;'' else if c = CHR ''<'' then ''&lt;''
      else if c = CHR ''>'' then ''&gt;'' else if c = CHR 0x22 then ''&#34;'' else [c])"

definition EscapeString :: "string \<Rightarrow> string" where
  "EscapeString s = concat (map escapeChar s)"

text \<open>The characters that open or close a tag or an attribute value.\<close>

definition isMarkup :: "char \<Rightarrow> bool" where
  "isMarkup c \<longleftrightarrow> c \<in> {CHR ''<'', CHR ''>'', CHR 0x22, CHR 0x27}"

lemma escapeChar_plain: "filter isMarkup (escapeChar c) = []"
  by (simp add: escapeChar_def isMarkup_def)

lemma EscapeString_plain [simp]: "filter isMarkup (EscapeString s) = []"
  by (induction s) (simp_all add: EscapeString_def escapeChar_plain)

text \<open>How a reader of HTML decodes the five character references.\<close>

definition htmlEntities :: "(string \<times> char) list" where
  "htmlEntities = [(''&amp;'', CHR ''&''), (''&#39;'', CHR 0x27), (''&lt;'', CHR ''<''), (''&gt;'', CHR ''>''),
               (''&#34;'', CHR 0x22)]"

lemma htmlEntities_nonempty: "find P htmlEntities = Some y \<Longrightarrow> 0 < length (fst y)"
  by (auto simp: htmlEntities_def split: if_splits)

function unescape :: "string \<Rightarrow> string" where
  "unescape s =
     (case s of
        [] \<Rightarrow> []
      | x # xs \<Rightarrow>
          (case find (\<lambda>(n, c). prefix n s) htmlEntities of
             Some (n, c) \<Rightarrow> c # unescape (drop (length n) s)
           | None \<Rightarrow> x # unescape xs))"
  by pat_completeness auto
termination
  by (relation "measure length") (auto dest: htmlEntities_nonempty)

declare unescape.simps [simp del]

lemma unescape_escapeChar: "unescape (escapeChar c @ s) = c # unescape s"
proof (cases "c \<in> {CHR ''&'', CHR ''<'', CHR ''>'', CHR 0x22, CHR 0x27}")
  case True
  then show ?thesis
    by (auto simp: escapeChar_def htmlEntities_def unescape.simps [of "_ # _"])
next
  case False
  then have "escapeChar c = [c]" and "find (\<lambda>(n, d). prefix n (c # s)) htmlEntities = None"
    by (auto simp: escapeChar_def htmlEntities_def)
  then show ?thesis by (simp add: unescape.simps [of "c # s"])
qed

lemma unescape_EscapeString: "unescape (EscapeString s) = s"
  by (induction s) (simp_all add: EscapeString_def unescape_escapeChar unescape.simps [of "[]"])

section \<open>Templates\<close>

definition emailBase :: "string \<Rightarrow> string \<Rightarrow> string" where
  "emailBase preheader content =
     ''<!DOCTYPE html>'' @ [CHR 0x0A] @ ''<html lang='' @ [CHR 0x22] @ ''en'' @ [CHR 0x22] @ ''>'' @ [CHR 0x0A] @ ''<head>'' @ [CHR 0x0A] @ ''<meta charset='' @ [CHR 0x22] @
     ''utf-8'' @ [CHR 0x22] @ ''>'' @ [CHR 0x0A] @ ''<meta name='' @ [CHR 0x22] @ ''viewport'' @ [CHR 0x22] @ '' content='' @ [CHR 0x22] @ ''width=device-width,initial-scale=1'' @
     [CHR 0x22] @ ''>'' @ [CHR 0x0A] @ ''<meta name='' @ [CHR 0x22] @ ''color-scheme'' @ [CHR 0x22] @ '' content='' @ [CHR 0x22] @ ''dark'' @ [CHR 0x22] @ ''>'' @ [CHR 0x0A] @
     ''<title>Phaze</title>'' @ [CHR 0x0A] @ ''</head>'' @ [CHR 0x0A] @ ''<body style='' @ [CHR 0x22] @
     ''margin:0;padding:0;background:#0a0a0a;font-family:-apple-system,BlinkMacSystemFont,'' @ [CHR 0x27] @ ''Segoe UI'' @ [CHR 0x27] @
     '',Helvetica,Arial,sans-serif;color:#f5f5f7'' @ [CHR 0x22] @ ''>'' @ [CHR 0x0A] @ ''<span style='' @ [CHR 0x22] @ ''display:none;max-height:0;overflow:hidden'' @
     [CHR 0x22] @ ''>'' @ EscapeString preheader @ ''</span>'' @ [CHR 0x0A] @ ''<table width='' @ [CHR 0x22] @ ''100%'' @ [CHR 0x22] @ '' cellpadding='' @ [CHR 0x22] @ ''0'' @
     [CHR 0x22] @ '' cellspacing='' @ [CHR 0x22] @ ''0'' @ [CHR 0x22] @ '' style='' @ [CHR 0x22] @ ''background:#0a0a0a;padding:40px 16px'' @ [CHR 0x22] @ ''>'' @ [CHR 0x0A] @
     ''  <tr><td align='' @ [CHR 0x22] @ ''center'' @ [CHR 0x22] @ ''>'' @ [CHR 0x0A] @ ''    <table width='' @ [CHR 0x22] @ ''560'' @ [CHR 0x22] @ '' cellpadding='' @ [CHR 0x22] @
     ''0'' @ [CHR 0x22] @ '' cellspacing='' @ [CHR 0x22] @ ''0'' @ [CHR 0x22] @ '' style='' @ [CHR 0x22] @ ''max-width:560px;width:100%'' @ [CHR 0x22] @ ''>'' @ [CHR 0x0A, CHR 0x0A] @
     ''      <!-- Logo -->'' @ [CHR 0x0A] @ ''      <tr><td style='' @ [CHR 0x22] @ ''padding-bottom:32px;text-align:center'' @ [CHR 0x22] @ ''>'' @ [CHR 0x0A] @
     ''        <span style='' @ [CHR 0x22] @ ''font-size:22px;font-weight:800;letter-spacing:-0.04em;color:#f5f5f7'' @ [CHR 0x22] @ ''>'' @ [CHR 0x0A] @
     ''          pha<span style='' @ [CHR 0x22] @ ''color:#a677ff'' @ [CHR 0x22] @ ''>ze</span>'' @ [CHR 0x0A] @ ''        </span>'' @ [CHR 0x0A] @ ''      </td></tr>'' @
     [CHR 0x0A, CHR 0x0A] @ ''      <!-- Card -->'' @ [CHR 0x0A] @ ''      <tr><td style='' @ [CHR 0x22] @
     ''background:#111;border:1px solid #1c1c1e;border-radius:20px;padding:40px 40px 36px'' @ [CHR 0x22] @ ''>'' @ [CHR 0x0A] @ ''        '' @ content @ [CHR 0x0A] @
     ''      </td></tr>'' @ [CHR 0x0A, CHR 0x0A] @ ''      <!-- Footer -->'' @ [CHR 0x0A] @ ''      <tr><td style='' @ [CHR 0x22] @
     ''padding-top:28px;text-align:center;font-size:12px;color:#48484a;line-height:1.6'' @ [CHR 0x22] @ ''>'' @ [CHR 0x0A] @ ''        Phaze &nbsp;'' @ [CHR 0xC2, CHR 0xB7] @
     ''&nbsp; <a href='' @ [CHR 0x22] @ ''https://phazechat.world'' @ [CHR 0x22] @ '' style='' @ [CHR 0x22] @ ''color:#636366;text-decoration:none'' @ [CHR 0x22] @
     ''>phazechat.world</a><br>'' @ [CHR 0x0A] @ ''        You'' @ [CHR 0x27] @ ''re receiving this because you have a Phaze account.'' @ [CHR 0x0A] @ ''      </td></tr>'' @
     [CHR 0x0A, CHR 0x0A] @ ''    </table>'' @ [CHR 0x0A] @ ''  </td></tr>'' @ [CHR 0x0A] @ ''</table>'' @ [CHR 0x0A] @ ''</body>'' @ [CHR 0x0A] @ ''</html>''"

definition primaryBtn :: "string \<Rightarrow> string \<Rightarrow> string" where
  "primaryBtn label href =
     ''<a href='' @ [CHR 0x22] @ EscapeString href @ [CHR 0x22] @ '' style='' @ [CHR 0x22] @
     ''display:inline-block;background:#a677ff;color:#fff;text-decoration:none;font-weight:700;font-size:15px;padding:14px 32px;border-radius:12px;letter-spacing:-0.01em'' @
     [CHR 0x22] @ ''>'' @ EscapeString label @ ''</a>''"

definition mutedText :: "string \<Rightarrow> string" where
  "mutedText s =
     ''<p style='' @ [CHR 0x22] @ ''margin:16px 0 0;font-size:13px;color:#636366;line-height:1.6'' @ [CHR 0x22] @ ''>'' @ s @ ''</p>''"

definition codeBlock :: "string \<Rightarrow> string" where
  "codeBlock code =
     ''<div style='' @ [CHR 0x22] @ ''margin:24px 0;background:#0a0a0a;border:1px solid #2c2c2e;border-radius:12px;padding:20px;text-align:center'' @ [CHR 0x22] @ ''>'' @
     [CHR 0x0A] @ ''    <span style='' @ [CHR 0x22] @ ''font-family:'' @ [CHR 0x27] @ ''JetBrains Mono'' @ [CHR 0x27] @ '','' @ [CHR 0x27] @ ''Courier New'' @ [CHR 0x27] @
     '',monospace;font-size:28px;font-weight:700;letter-spacing:0.15em;color:#a677ff'' @ [CHR 0x22] @ ''>'' @ EscapeString code @ ''</span>'' @ [CHR 0x0A] @ ''  </div>''"

definition emailVerification :: "string \<Rightarrow> string \<Rightarrow> string \<Rightarrow> string" where
  "emailVerification username verifyLink code =
     (let content =
            ''<h1 style='' @ [CHR 0x22] @ ''margin:0 0 8px;font-size:24px;font-weight:800;letter-spacing:-0.03em;color:#f5f5f7'' @ [CHR 0x22] @
            ''>Verify your account</h1>'' @ [CHR 0x0A] @ ''    <p style='' @ [CHR 0x22] @ ''margin:0 0 28px;font-size:15px;color:#98989d;line-height:1.6'' @ [CHR 0x22] @
            ''>Hey '' @ EscapeString username @ '', welcome to Phaze. Tap the button to activate your account.</p>'' @ [CHR 0x0A] @ ''    <div style='' @ [CHR 0x22] @
            ''text-align:center;margin:0 0 28px'' @ [CHR 0x22] @ ''>'' @ primaryBtn ''Activate Account'' verifyLink @ ''</div>'' @
            mutedText ''Or enter this code in the app:'' @ codeBlock code @
            mutedText (''This link expires in 24 hours. If you didn'' @ [CHR 0x27] @ ''t create a Phaze account, you can ignore this email.'')
      in
        emailBase (''Activate your Phaze account '' @ [CHR 0xE2, CHR 0x80, CHR 0x94] @ '' one click and you'' @ [CHR 0x27] @ ''re in.'') content)"

definition emailResendCode :: "string \<Rightarrow> string" where
  "emailResendCode code =
     (let content =
            ''<h1 style='' @ [CHR 0x22] @ ''margin:0 0 8px;font-size:24px;font-weight:800;letter-spacing:-0.03em;color:#f5f5f7'' @ [CHR 0x22] @
            ''>New activation code</h1>'' @ [CHR 0x0A] @ ''    <p style='' @ [CHR 0x22] @ ''margin:0 0 4px;font-size:15px;color:#98989d;line-height:1.6'' @ [CHR 0x22] @
            ''>Here'' @ [CHR 0x27] @ ''s your new code:</p>'' @ codeBlock code @ mutedText ''Enter this in the Phaze app to verify your account. Expires in 24 hours.''
      in
        emailBase ''Your new Phaze activation code.'' content)"

definition emailPasswordReset :: "string \<Rightarrow> string \<Rightarrow> string" where
  "emailPasswordReset username resetLink =
     (let content =
            ''<h1 style='' @ [CHR 0x22] @ ''margin:0 0 8px;font-size:24px;font-weight:800;letter-spacing:-0.03em;color:#f5f5f7'' @ [CHR 0x22] @
            ''>Reset your password</h1>'' @ [CHR 0x0A] @ ''    <p style='' @ [CHR 0x22] @ ''margin:0 0 28px;font-size:15px;color:#98989d;line-height:1.6'' @ [CHR 0x22] @
            ''>Hey '' @ EscapeString username @ '', we got a request to reset your Phaze password. Tap the button '' @ [CHR 0xE2, CHR 0x80, CHR 0x94] @
            '' this link is valid for <strong style='' @ [CHR 0x22] @ ''color:#f5f5f7'' @ [CHR 0x22] @ ''>1 hour</strong>.</p>'' @ [CHR 0x0A] @ ''    <div style='' @
            [CHR 0x22] @ ''text-align:center;margin:0 0 28px'' @ [CHR 0x22] @ ''>'' @ primaryBtn ''Reset Password'' resetLink @ ''</div>'' @
            mutedText (''Didn'' @ [CHR 0x27] @ ''t request this? Your password is still safe '' @ [CHR 0xE2, CHR 0x80, CHR 0x94] @ '' just ignore this email. If you'' @ [CHR 0x27] @ ''re concerned, <a href='' @ [CHR 0x22] @ ''https://phazechat.world'' @ [CHR 0x22] @ '' style='' @ [CHR 0x22] @ ''color:#a677ff;text-decoration:none'' @ [CHR 0x22] @ ''>contact us</a>.'')
      in
        emailBase ''Reset your Phaze password.'' content)"

definition emailInvite :: "string \<Rightarrow> string \<Rightarrow> string" where
  "emailInvite inviterUsername joinLink =
     (let display =
            EscapeString (TrimSpace inviterUsername);
          safeLink =
            EscapeString joinLink;
          content =
            ''<h1 style='' @ [CHR 0x22] @ ''margin:0 0 8px;font-size:24px;font-weight:800;letter-spacing:-0.03em;color:#f5f5f7'' @ [CHR 0x22] @ ''>You'' @ [CHR 0x27] @
            ''ve been invited</h1>'' @ [CHR 0x0A] @ ''    <p style='' @ [CHR 0x22] @ ''margin:0 0 28px;font-size:15px;color:#98989d;line-height:1.6'' @ [CHR 0x22] @
            ''><strong style='' @ [CHR 0x22] @ ''color:#f5f5f7'' @ [CHR 0x22] @ ''>'' @ display @ ''</strong> wants to connect with you on Phaze '' @
            [CHR 0xE2, CHR 0x80, CHR 0x94] @ '' encrypted messaging, voice &amp; video calls, and more. It'' @ [CHR 0x27] @ ''s free.</p>'' @ [CHR 0x0A] @ ''    <div style='' @
            [CHR 0x22] @ ''text-align:center;margin:0 0 28px'' @ [CHR 0x22] @ ''>'' @ primaryBtn ''Join Phaze'' joinLink @ ''</div>'' @
            mutedText (''Or paste this link in your browser: <a href='' @ [CHR 0x22] @ safeLink @ [CHR 0x22] @ '' style='' @ [CHR 0x22] @ ''color:#a677ff;text-decoration:none'' @ [CHR 0x22] @ ''>'' @ safeLink @ ''</a>'')
      in
        emailBase (TrimSpace inviterUsername @ '' invited you to Phaze.'') content)"

definition emailSupporterThankYou :: "string \<Rightarrow> string" where
  "emailSupporterThankYou name =
     (let content =
            ''<h1 style='' @ [CHR 0x22] @ ''margin:0 0 8px;font-size:24px;font-weight:800;letter-spacing:-0.03em;color:#f5f5f7'' @ [CHR 0x22] @ ''>Thank you '' @
            [CHR 0xF0, CHR 0x9F, CHR 0x92, CHR 0x9C] @ ''</h1>'' @ [CHR 0x0A] @ ''    <p style='' @ [CHR 0x22] @
            ''margin:0 0 20px;font-size:15px;color:#98989d;line-height:1.6'' @ [CHR 0x22] @ ''>Hey '' @ EscapeString name @
            '', your support means everything to us. Once your contribution is confirmed, your supporter badge will show up on your Phaze profile automatically.</p>'' @
            [CHR 0x0A] @ ''    <div style='' @ [CHR 0x22] @ ''background:#1a0a2e;border:1px solid #2d1a4a;border-radius:12px;padding:20px 24px;margin:0 0 20px'' @ [CHR 0x22] @
            ''>'' @ [CHR 0x0A] @ ''      <span style='' @ [CHR 0x22] @ ''font-size:13px;font-weight:700;text-transform:uppercase;letter-spacing:0.08em;color:#a677ff'' @
            [CHR 0x22] @ ''>What happens next</span>'' @ [CHR 0x0A] @ ''      <p style='' @ [CHR 0x22] @ ''margin:8px 0 0;font-size:14px;color:#98989d;line-height:1.6'' @
            [CHR 0x22] @ ''>We'' @ [CHR 0x27] @ ''ll match your payment and grant the <strong style='' @ [CHR 0x22] @ ''color:#f5f5f7'' @ [CHR 0x22] @ ''>'' @
            [CHR 0xF0, CHR 0x9F, CHR 0x92, CHR 0x9C] @
            '' Supporter</strong> badge to your account. If you donated under a different name or email, just reply to this email so we can sort it out.</p>'' @
            [CHR 0x0A] @ ''    </div>'' @ mutedText (''Thanks again for keeping Phaze alive. '' @ [CHR 0xE2, CHR 0x80, CHR 0x94] @ '' The Phaze team'')
      in
        emailBase ''Thanks for supporting Phaze.'' content)"

section \<open>Letters\<close>

text \<open>
  The address, subject and body the callers of \<^verbatim>\<open>sendEmail\<close> pass for each mail; \<open>stamp\<close> is the formatted time.  The
  code for a new device goes out as plain text, not through a template.
\<close>

abbreviation crlf :: string where
  "crlf \<equiv> [CHR 0x0D, CHR 0x0A]"

definition deviceBody :: "string \<Rightarrow> string \<Rightarrow> string \<Rightarrow> string \<Rightarrow> string" where
  "deviceBody stamp label ip code =
     ''Someone just signed in to your Phaze account from a device we haven'' @ [CHR 0x27] @ ''t seen before.'' @ crlf @ crlf @
     ''Device: '' @ label @ crlf @
     ''IP address: '' @ ip @ crlf @
     ''Time: '' @ stamp @ crlf @ crlf @
     ''If this was you, enter this code to finish signing in:'' @ crlf @ crlf @ ''    '' @ code @ crlf @ crlf @
     ''The code expires in 15 minutes.'' @ crlf @ crlf @
     ''If this wasn'' @ [CHR 0x27] @ ''t you, ignore this email '' @ [CHR 0xE2, CHR 0x80, CHR 0x94] @
     '' the sign-in stays blocked '' @ [CHR 0xE2, CHR 0x80, CHR 0x94] @ '' and '' @
     ''change your password. Your existing sessions have not been affected.'' @ crlf"

fun letter :: "string \<Rightarrow> mail \<Rightarrow> (string \<times> string \<times> string) option" where
  "letter stamp (MailVerification addr u link code) =
     Some (addr, ''Activate your Phaze account'', emailVerification u link code)"
| "letter stamp (MailResendCode addr code) = Some (addr, ''Your Phaze activation code'', emailResendCode code)"
| "letter stamp (MailPasswordReset addr u link) =
     Some (addr, ''Reset your Phaze password'', emailPasswordReset u link)"
| "letter stamp (MailInvite addr u link) = Some (addr, u @ '' invited you to Phaze'', emailInvite u link)"
| "letter stamp (MailDeviceCode addr label ip code) =
     Some (addr, ''Approve the new sign-in to your Phaze account'', deviceBody stamp label ip code)"
| "letter stamp (MailSupporter addr name) =
     Some (addr, ''Thanks for supporting Phaze '' @ [CHR 0xF0, CHR 0x9F, CHR 0x92, CHR 0x9C], emailSupporterThankYou name)"
| "letter stamp (SMSCode number code) = None"
| "letter stamp (TwilioCall number) = None"

section \<open>Transports\<close>

text \<open>
  \<open>post\<close> answers an HTTP request: an error before there is a response (no connection, a URL that does not parse), or a
  status and a body.  \<open>smtp\<close> is the dialogue with the mail server: its error, if it has one.
\<close>

record mailServers =
  post :: "string \<Rightarrow> (string \<times> string) list \<Rightarrow> json \<Rightarrow> string + nat \<times> string"
  smtp :: "string \<Rightarrow> string \<Rightarrow> string \<Rightarrow> string \<Rightarrow> string list \<Rightarrow> string \<Rightarrow> string option"

text \<open>What leaves the process: a request, a message to an SMTP server, or only a line of the server's log.\<close>

datatype transmission =
    Post string "(string \<times> string) list" json
  | Smtp string string string "string list" string
  | MailSim string string string

text \<open>The end all three HTTP transports share: only a status of the 200s is success.\<close>

definition posted :: "string \<Rightarrow> mailServers \<Rightarrow> string \<Rightarrow> (string \<times> string) list \<Rightarrow> json \<Rightarrow> transmission \<times> string option" where
  "posted name n url headers payload =
     (Post url headers payload,
      case post n url headers payload of
        Inl err \<Rightarrow> Some err
      | Inr (status, body) \<Rightarrow>
          if 200 \<le> status \<and> status < 300 then None
          else Some (name @ '' '' @ Itoa (int status) @ '': '' @ TrimSpace (take 2048 body)))"

definition sendEmailRelay :: "mailServers \<Rightarrow> string \<Rightarrow> string \<Rightarrow> string \<Rightarrow> string \<Rightarrow> transmission \<times> string option" where
  "sendEmailRelay n relay to subject body =
     posted ''mail relay'' n relay [(''Content-Type'', ''application/json'')]
       (JObj [(''html'', JStr body), (''subject'', JStr subject), (''to'', JStr to)])"

definition sendEmailResend ::
  "env \<Rightarrow> mailServers \<Rightarrow> string \<Rightarrow> string \<Rightarrow> string \<Rightarrow> string \<Rightarrow> transmission \<times> string option" where
  "sendEmailResend e n apiKey to subject body =
     (let from = (if e_getenv e ''RESEND_SENDER'' = '''' then ''Phaze <onboarding@resend.dev>''
                  else e_getenv e ''RESEND_SENDER'')
      in posted ''resend api'' n ''https://api.resend.com/emails''
           [(''Authorization'', ''Bearer '' @ apiKey), (''Content-Type'', ''application/json'')]
           (JObj [(''from'', JStr from), (''html'', JStr body), (''subject'', JStr subject), (''to'', JList [JStr to])]))"

definition sendEmailBrevo ::
  "env \<Rightarrow> mailServers \<Rightarrow> string \<Rightarrow> string \<Rightarrow> string \<Rightarrow> string \<Rightarrow> transmission \<times> string option" where
  "sendEmailBrevo e n apiKey to subject body =
     (let sender = e_getenv e ''BREVO_SENDER_EMAIL'';
          sender = (if sender = '''' then e_getenv e ''SMTP_FROM'' else sender);
          fromEmail = (if sender = '''' then ''noreply@phazechat.world'' else sender);
          fromName = (if e_getenv e ''BREVO_SENDER_NAME'' = '''' then ''Phaze'' else e_getenv e ''BREVO_SENDER_NAME'')
      in posted ''brevo api'' n ''https://api.brevo.com/v3/smtp/email''
           [(''Api-Key'', apiKey), (''Content-Type'', ''application/json''), (''Accept'', ''application/json'')]
           (JObj [(''htmlContent'', JStr body),
                  (''sender'', JObj [(''email'', JStr fromEmail), (''name'', JStr fromName)]),
                  (''subject'', JStr subject), (''to'', JList [JObj [(''email'', JStr to)]])]))"

definition sanitizeHeader :: "string \<Rightarrow> string" where
  "sanitizeHeader s = filter (\<lambda>c. c \<noteq> CHR 0x0D \<and> c \<noteq> CHR 0x0A) s"

definition smtpMessage :: "string \<Rightarrow> string \<Rightarrow> string \<Rightarrow> string \<Rightarrow> string" where
  "smtpMessage from to subject body =
     ''From: Phaze <'' @ sanitizeHeader from @ ''>'' @ crlf @
     ''To: '' @ sanitizeHeader to @ crlf @
     ''Subject: '' @ sanitizeHeader subject @ crlf @
     ''MIME-version: 1.0'' @ crlf @ ''Content-Type: text/html; charset='' @ [CHR 0x22] @ ''UTF-8'' @ [CHR 0x22] @ crlf @
     crlf @
     body @ crlf"

text \<open>Go's \<^verbatim>\<open>smtp.SendMail\<close> refuses a sender or recipient with a line break before it connects.\<close>

definition SendMail :: "mailServers \<Rightarrow> string \<Rightarrow> string \<Rightarrow> string \<Rightarrow> string \<Rightarrow> string list \<Rightarrow> string \<Rightarrow> transmission \<times> string option" where
  "SendMail n addr user pass from to msg =
     (Smtp addr user from to msg,
      if list_ex (\<lambda>x. CHR 0x0D \<in> set x \<or> CHR 0x0A \<in> set x) (from # to)
      then Some ''smtp: A line must not contain CR or LF''
      else smtp n addr user pass from to msg)"

definition sendEmailSMTP :: "env \<Rightarrow> mailServers \<Rightarrow> string \<Rightarrow> string \<Rightarrow> string \<Rightarrow> transmission \<times> string option" where
  "sendEmailSMTP e n to subject body =
     (let host = e_getenv e ''SMTP_HOST''; port = e_getenv e ''SMTP_PORT'';
          user = e_getenv e ''SMTP_USER''; pass = e_getenv e ''SMTP_PASS''
      in if host = '''' \<or> user = '''' \<or> pass = '''' then (MailSim to subject body, None)
         else let from = (if e_getenv e ''SMTP_FROM'' = '''' then user else e_getenv e ''SMTP_FROM'');
                  addr = (if port = '''' then host @ '':587'' else host @ '':'' @ port)
              in SendMail n addr user pass user [to] (smtpMessage from to subject body))"

definition sendEmail :: "env \<Rightarrow> mailServers \<Rightarrow> string \<Rightarrow> string \<Rightarrow> string \<Rightarrow> transmission \<times> string option" where
  "sendEmail e n to subject body =
     (if mailRelayURL e \<noteq> '''' then sendEmailRelay n (mailRelayURL e) to subject body
      else if e_getenv e ''RESEND_API_KEY'' \<noteq> '''' then sendEmailResend e n (e_getenv e ''RESEND_API_KEY'') to subject body
      else if e_getenv e ''BREVO_API_KEY'' \<noteq> '''' then sendEmailBrevo e n (e_getenv e ''BREVO_API_KEY'') to subject body
      else sendEmailSMTP e n to subject body)"

text \<open>The line the caller of a background send leaves in the log, when there is one.\<close>

definition sendEmailLogged :: "env \<Rightarrow> mailServers \<Rightarrow> string \<Rightarrow> string \<Rightarrow> string \<Rightarrow> transmission \<times> string option" where
  "sendEmailLogged e n to subject body =
     (let (t, err) = sendEmail e n to subject body
      in (t, map_option (\<lambda>x. ''[mail] send to '' @ to @ '' subject '' @ subject @ '' failed: '' @ x) err))"

section \<open>What a reader of the mail sees\<close>

text \<open>
  A mail client reads header lines up to the first empty one.  This reader ends a line at a carriage return, a line
  feed or both, the most generous there is.
\<close>

definition isEOL :: "char \<Rightarrow> bool" where
  "isEOL c \<longleftrightarrow> c = CHR 0x0D \<or> c = CHR 0x0A"

definition skipEOL :: "string \<Rightarrow> string" where
  "skipEOL s = (if prefix crlf s then drop 2 s else drop 1 s)"

definition lineOf :: "string \<Rightarrow> string \<times> string" where
  "lineOf s = (takeWhile (\<lambda>c. \<not> isEOL c) s, skipEOL (dropWhile (\<lambda>c. \<not> isEOL c) s))"

lemma lineOf_shorter: "fst (lineOf s) \<noteq> [] \<Longrightarrow> length (snd (lineOf s)) < length s"
proof (cases s)
  case (Cons c cs)
  assume "fst (lineOf s) \<noteq> []"
  then have "snd (lineOf s) = skipEOL (dropWhile (\<lambda>c. \<not> isEOL c) cs)"
    by (auto simp: lineOf_def Cons split: if_splits)
  also have "length \<dots> \<le> length (dropWhile (\<lambda>c. \<not> isEOL c) cs)" by (simp add: skipEOL_def)
  also have "\<dots> < length s" using length_dropWhile_le [of _ cs] by (simp add: Cons le_imp_less_Suc)
  finally show ?thesis .
qed (simp add: lineOf_def)

function readMessage :: "string \<Rightarrow> string list \<times> string" where
  "readMessage s =
     (if fst (lineOf s) = [] then ([], snd (lineOf s))
      else (fst (lineOf s) # fst (readMessage (snd (lineOf s))), snd (readMessage (snd (lineOf s)))))"
  by pat_completeness auto
termination
  by (relation "measure length") (simp_all add: lineOf_shorter)

declare readMessage.simps [simp del]

lemma lineOf_line: "\<forall>c \<in> set l. \<not> isEOL c \<Longrightarrow> lineOf (l @ crlf @ s) = (l, s)"
  by (simp add: lineOf_def skipEOL_def isEOL_def takeWhile_append2 dropWhile_append2)

lemma readMessage_line:
  "l \<noteq> [] \<Longrightarrow> \<forall>c \<in> set l. \<not> isEOL c \<Longrightarrow> readMessage (l @ crlf @ s) = (l # fst (readMessage s), snd (readMessage s))"
  by (subst readMessage.simps) (simp only: lineOf_line, simp)

lemma readMessage_end: "readMessage (crlf @ s) = ([], s)"
  by (subst readMessage.simps) (use lineOf_line [of "[]"] in simp)

lemma sanitizeHeader_line [simp]: "c \<in> set (sanitizeHeader s) \<Longrightarrow> \<not> isEOL c"
  by (simp add: sanitizeHeader_def isEOL_def)

definition smtpHeaders :: "string \<Rightarrow> string \<Rightarrow> string \<Rightarrow> string list" where
  "smtpHeaders from to subject =
     [''From: Phaze <'' @ sanitizeHeader from @ ''>'', ''To: '' @ sanitizeHeader to, ''Subject: '' @ sanitizeHeader subject,
      ''MIME-version: 1.0'', ''Content-Type: text/html; charset='' @ [CHR 0x22] @ ''UTF-8'' @ [CHR 0x22]]"

lemma readMessage_headers:
  assumes "\<forall>l \<in> set ls. l \<noteq> [] \<and> (\<forall>c \<in> set l. \<not> isEOL c)"
  shows "readMessage (concat (map (\<lambda>l. l @ crlf) ls) @ crlf @ body) = (ls, body)"
  using assms by (induction ls) (simp_all add: readMessage_end [simplified] readMessage_line [simplified])

text \<open>C17: No mail the server sends over SMTP can be made to carry a header of someone else's choosing.  Whatever the
  sender setting, the recipient, the subject and the body are, line breaks and all, a mail client that ends lines at
  any carriage return or line feed reads exactly the five headers the server writes, with the line breaks gone from
  their values, and then exactly the body.\<close>

theorem smtp_headers_fixed:
  "readMessage (smtpMessage from to subject body) = (smtpHeaders from to subject, body @ crlf)"
proof -
  have "smtpMessage from to subject body =
      concat (map (\<lambda>l. l @ crlf) (smtpHeaders from to subject)) @ crlf @ body @ crlf"
    by (simp add: smtpMessage_def smtpHeaders_def)
  moreover have "\<forall>l \<in> set (smtpHeaders from to subject). l \<noteq> [] \<and> (\<forall>c \<in> set l. \<not> isEOL c)"
    by (auto simp: smtpHeaders_def) (auto simp: isEOL_def)
  ultimately show ?thesis by (simp only: readMessage_headers)
qed

text \<open>C22: A mail made from a template has the tags of its template and no others.  The characters that open and close
  tags and attribute values occur in the verification, resend, reset, invitation and thank-you mails in an order
  that does not depend on the user name, link, code or display name put into them; and what the reader decodes from
  an escaped value is that value again.  The mail with the code for a new device, which is sent as HTML like the
  others, keeps every such character of the device label it is given.\<close>

theorem template_markup_fixed:
  "filter isMarkup (emailVerification u link code) = filter isMarkup (emailVerification '''' '''' '''') \<and>
   filter isMarkup (emailResendCode code) = filter isMarkup (emailResendCode '''') \<and>
   filter isMarkup (emailPasswordReset u link) = filter isMarkup (emailPasswordReset '''' '''') \<and>
   filter isMarkup (emailInvite u link) = filter isMarkup (emailInvite '''' '''') \<and>
   filter isMarkup (emailSupporterThankYou u) = filter isMarkup (emailSupporterThankYou '''') \<and>
   unescape (EscapeString u) = u \<and>
   filter isMarkup (deviceBody stamp label ip code) =
     [CHR 0x27] @ filter isMarkup label @ filter isMarkup ip @ filter isMarkup stamp @ filter isMarkup code @ [CHR 0x27]"
proof (intro conjI)
  show "filter isMarkup (deviceBody stamp label ip code) =
     [CHR 0x27] @ filter isMarkup label @ filter isMarkup ip @ filter isMarkup stamp @ filter isMarkup code @ [CHR 0x27]"
    by (simp add: deviceBody_def isMarkup_def)
qed (simp_all only: emailVerification_def emailResendCode_def emailPasswordReset_def emailInvite_def
      emailSupporterThankYou_def emailBase_def primaryBtn_def mutedText_def codeBlock_def Let_def
      filter_append EscapeString_plain unescape_EscapeString simp_thms)

section \<open>Sent or only logged\<close>

fun accepted :: "mailServers \<Rightarrow> string \<Rightarrow> transmission \<Rightarrow> bool" where
  "accepted n pass (Post url headers payload) \<longleftrightarrow>
     (case post n url headers payload of Inl _ \<Rightarrow> False | Inr (status, _) \<Rightarrow> 200 \<le> status \<and> status < 300)"
| "accepted n pass (Smtp addr user from to msg) \<longleftrightarrow>
     smtp n addr user pass from to msg = None \<and> (\<forall>x \<in> set to. \<forall>c \<in> set x. \<not> isEOL c)"
| "accepted n pass (MailSim to subject body) \<longleftrightarrow> False"

definition really_sent :: "mailServers \<Rightarrow> string \<Rightarrow> transmission \<times> string option \<Rightarrow> bool" where
  "really_sent n pass r \<longleftrightarrow> (\<forall>a b c. fst r \<noteq> MailSim a b c) \<and> (snd r = None \<longrightarrow> accepted n pass (fst r))"

lemma really_sent_posted: "really_sent n pass (posted name n url h p)"
  by (auto simp: really_sent_def posted_def split: sum.splits if_splits)

lemma really_sent_http:
  "really_sent n pass (sendEmailRelay n relay to subject body)"
  "really_sent n pass (sendEmailResend e n key to subject body)"
  "really_sent n pass (sendEmailBrevo e n key to subject body)"
  by (simp_all only: sendEmailRelay_def sendEmailResend_def sendEmailBrevo_def Let_def really_sent_posted)

lemma really_sent_smtp: "really_sent n pass (SendMail n addr user pass from rcpt msg)"
  by (auto simp: really_sent_def SendMail_def isEOL_def list_ex_iff split: if_splits)

text \<open>A mail is only written to the server's log instead of being sent exactly when \<open>mailConfigured\<close> is false, and
  then the caller is told of no error.  So a caller that must not lock a user out has to ask \<open>mailConfigured\<close>, and one
  that has asked is told of success only when the mail was taken: by the HTTP service with a status of the 200s, or
  by the SMTP server, and then to an address without line breaks.\<close>

theorem mail_simulated_iff:
  "(fst (sendEmail e n to subject body) = MailSim to subject body \<longleftrightarrow> \<not> mailConfigured e) \<and>
   (\<not> mailConfigured e \<longrightarrow> snd (sendEmail e n to subject body) = None) \<and>
   (mailConfigured e \<and> snd (sendEmail e n to subject body) = None \<longrightarrow>
      accepted n (e_getenv e ''SMTP_PASS'') (fst (sendEmail e n to subject body)))"
proof (cases "mailConfigured e")
  case True
  then have "really_sent n (e_getenv e ''SMTP_PASS'') (sendEmail e n to subject body)"
    by (auto simp only: mailConfigured_def sendEmail_def sendEmailSMTP_def Let_def really_sent_http really_sent_smtp
        simp_thms split: if_split)
  with True show ?thesis by (simp add: really_sent_def)
next
  case False
  then have "sendEmail e n to subject body = (MailSim to subject body, None)"
    unfolding mailConfigured_def sendEmail_def sendEmailSMTP_def Let_def by simp
  with False show ?thesis by simp
qed

definition servers0 :: mailServers where
  "servers0 = \<lparr>post = \<lambda>_ _ _. Inr (200, ''ok''), smtp = \<lambda>_ _ _ _ _ _. None\<rparr>"

lemma mail_simulated_iff_witness:
  "mailConfigured env0 \<and> snd (sendEmail env0 servers0 ''a@x'' ''s'' ''b'') = None \<and>
   accepted servers0 '''' (fst (sendEmail env0 servers0 ''a@x'' ''s'' ''b''))"
proof -
  have "snd (sendEmail env0 servers0 ''a@x'' ''s'' ''b'') = None"
    by (simp add: sendEmail_def sendEmailRelay_def sendEmailResend_def posted_def servers0_def)
  then show ?thesis using mail_simulated_iff [of env0 servers0 "''a@x''" "''s''" "''b''"] by simp
qed

end
