(* ===== verification/Outside.thy ===== *)
theory Outside
  imports Portal Turn
begin

text \<open>
  The server's own HTTP clients other than mail: the two providers of the support assistant (\<^verbatim>\<open>support.go\<close>), text messages
  and phone calls through Twilio (\<^verbatim>\<open>main.go\<close>) and the fetch of TURN credentials (\<^verbatim>\<open>cfturn.go\<close>).  The services at the
  other end, and the decoding of what they answer, are the parameter \<open>outside\<close>; with \<open>supportServices\<close> the handler of
  theory \<open>Portal\<close> runs on these definitions.  The theorem is about an error path: the text of a failed request
  reaches the user, and with it the key the request carried.
\<close>

section \<open>Requests\<close>

text \<open>
  A request ends with the cause of a failure or with a status and a body.  What the decoders find: the parts of each
  candidate (Gemini), an error or the typed pieces of the answer (Anthropic), the ICE servers (Cloudflare).
\<close>

record outside =
  o_post :: "string \<Rightarrow> (string \<times> string) list \<Rightarrow> json \<Rightarrow> string + nat \<times> string"
  o_form :: "string \<Rightarrow> string \<times> string \<Rightarrow> (string \<times> string) list \<Rightarrow> string + nat \<times> string"
  o_geminiDecode :: "string \<Rightarrow> string + string list list"
  o_anthropicDecode :: "string \<Rightarrow> string + (string \<times> string) option \<times> (string \<times> string) list"
  o_iceDecode :: "string \<Rightarrow> string + cfICEServer list"
  o_pathEscape :: "string \<Rightarrow> string"

text \<open>The error of Go's \<^verbatim>\<open>http.Client\<close> names the method and the whole URL, quoted, before the cause.\<close>

definition clientDo :: "string \<Rightarrow> string + nat \<times> string \<Rightarrow> string + nat \<times> string" where
  "clientDo url r =
     (case r of Inl cause \<Rightarrow> Inl (''Post '' @ [CHR 0x22] @ url @ [CHR 0x22] @ '': '' @ cause) | Inr a \<Rightarrow> Inr a)"

section \<open>The support assistant's providers\<close>

definition geminiURL :: "string \<Rightarrow> string" where
  "geminiURL apiKey = ''https://generativelanguage.googleapis.com/v1beta/models/gemini-2.5-flash:generateContent?key='' @ apiKey"

definition geminiPayload :: "string \<Rightarrow> (string \<times> string) list \<Rightarrow> json" where
  "geminiPayload system contents =
     JObj [(''contents'', JList (map (\<lambda>(role, text). JObj [(''role'', JStr role), (''parts'', JList [JObj [(''text'', JStr text)]])]) contents)),
           (''system_instruction'', JObj [(''parts'', JList [JObj [(''text'', JStr system)]])]),
           (''generationConfig'', JObj [(''maxOutputTokens'', JInt 600), (''temperature'', JQuot 2 5)])]"

definition geminiCall :: "outside \<Rightarrow> string \<Rightarrow> string \<Rightarrow> (string \<times> string) list \<Rightarrow> string + string" where
  "geminiCall x apiKey system contents =
     (case clientDo (geminiURL apiKey)
             (o_post x (geminiURL apiKey) [(''Content-Type'', ''application/json'')] (geminiPayload system contents)) of
        Inl err \<Rightarrow> Inl err
      | Inr (status, raw) \<Rightarrow>
          let body = take (256 * 1024) raw
          in if status < 200 \<or> 300 \<le> status
             then Inl (''gemini '' @ Itoa (int status) @ '': '' @ TrimSpace body)
             else (case o_geminiDecode x body of Inl err \<Rightarrow> Inl err | Inr candidates \<Rightarrow> Inr (concat (concat candidates))))"

definition anthropicPayload :: "string \<Rightarrow> (string \<times> string) list \<Rightarrow> json" where
  "anthropicPayload system msgs =
     JObj [(''model'', JStr ''claude-haiku-4-5-20251001''), (''system'', JStr system), (''max_tokens'', JInt 600),
           (''messages'', JList (map (\<lambda>(role, text). JObj [(''role'', JStr role), (''content'', JStr text)]) msgs))]"

definition anthropicCall :: "outside \<Rightarrow> string \<Rightarrow> string \<Rightarrow> (string \<times> string) list \<Rightarrow> string + string" where
  "anthropicCall x apiKey system msgs =
     (let url = ''https://api.anthropic.com/v1/messages''
      in case clientDo url
                (o_post x url [(''Content-Type'', ''application/json''), (''X-Api-Key'', apiKey), (''Anthropic-Version'', ''2023-06-01'')]
                   (anthropicPayload system msgs)) of
           Inl err \<Rightarrow> Inl err
         | Inr (status, raw) \<Rightarrow>
             (case o_anthropicDecode x (take (256 * 1024) raw) of
                Inl err \<Rightarrow> Inl (''decode anthropic: '' @ err)
              | Inr (Some (kind, text), _) \<Rightarrow> Inl (''anthropic '' @ kind @ '': '' @ text)
              | Inr (None, pieces) \<Rightarrow> Inr (concat (map snd (filter (\<lambda>p. fst p = ''text'') pieces)))))"

definition supportServices :: "outside \<Rightarrow> env \<Rightarrow> services \<Rightarrow> services" where
  "supportServices x e sv =
     sv\<lparr>x_gemini := geminiCall x (e_getenv e ''GEMINI_API_KEY''), x_anthropic := anthropicCall x (e_getenv e ''ANTHROPIC_API_KEY'')\<rparr>"

section \<open>Twilio\<close>

text \<open>\<open>None\<close> when the message or the call is only logged, else the request and its error.  The response's status is not read.\<close>

definition twilio :: "outside \<Rightarrow> string \<Rightarrow> string \<Rightarrow> string \<Rightarrow> (string \<times> string) list \<Rightarrow> string option" where
  "twilio x sid token url fs = (case clientDo url (o_form x url (sid, token) fs) of Inl err \<Rightarrow> Some err | Inr _ \<Rightarrow> None)"

definition sendSMS :: "outside \<Rightarrow> env \<Rightarrow> string \<Rightarrow> string \<Rightarrow> string option option" where
  "sendSMS x e to body =
     (let sid = e_getenv e ''TWILIO_SID''; token = e_getenv e ''TWILIO_TOKEN''; from = e_getenv e ''TWILIO_FROM''
      in if sid = '''' \<or> token = '''' \<or> from = '''' then None
         else Some (twilio x sid token (''https://api.twilio.com/2010-04-01/Accounts/'' @ sid @ ''/Messages.json'')
                      [(''To'', to), (''From'', from), (''Body'', body)]))"

definition initiateTwilioCall :: "outside \<Rightarrow> env \<Rightarrow> string \<Rightarrow> string option option" where
  "initiateTwilioCall x e to =
     (let sid = e_getenv e ''TWILIO_SID''; token = e_getenv e ''TWILIO_TOKEN''; from = e_getenv e ''TWILIO_FROM'';
          appURL = e_getenv e ''Phaze_APP_URL''
      in if sid = '''' \<or> token = '''' \<or> from = '''' \<or> appURL = '''' then None
         else Some (twilio x sid token (''https://api.twilio.com/2010-04-01/Accounts/'' @ sid @ ''/Calls.json'')
                      [(''To'', to), (''From'', from), (''Url'', appURL @ ''/twiml/outbound'')]))"

section \<open>TURN credentials\<close>

definition cfFetch :: "outside \<Rightarrow> string \<Rightarrow> string \<Rightarrow> string + TurnConfig" where
  "cfFetch x keyID apiToken =
     (let url = ''https://rtc.live.cloudflare.com/v1/turn/keys/'' @ o_pathEscape x keyID @ ''/credentials/generate-ice-servers''
      in case clientDo url (o_post x url [(''Authorization'', ''Bearer '' @ apiToken), (''Content-Type'', ''application/json'')]
                              (JObj [(''ttl'', JInt (cfTURNTTL div second))])) of
           Inl err \<Rightarrow> Inl err
         | Inr (status, body) \<Rightarrow>
             let raw = take (64 * 1024) body
             in if status \<noteq> 201 \<and> status \<noteq> 200 then Inl (''HTTP '' @ Itoa (int status) @ '': '' @ TrimSpace raw)
                else (case o_iceDecode x raw of
                        Inl err \<Rightarrow> Inl (''decoding response: '' @ err)
                      | Inr svs \<Rightarrow>
                          (case turnConfigFromICE svs of None \<Rightarrow> Inl ''no TURN server in response'' | Some cfg \<Rightarrow> Inr cfg)))"

lemma cfFetch_answer: "cfFetch x k t = Inr cfg \<Longrightarrow> \<exists>svs. turnConfigFromICE svs = Some cfg"
  by (auto simp: cfFetch_def Let_def split: sum.splits if_splits option.splits)

text \<open>A refused text message counts as sent: only a request without any response is an error.\<close>

lemma sendSMS_refused:
  assumes "\<And>url auth fs. \<exists>a. o_form x url auth fs = Inr a"
  shows "sendSMS x e to body \<in> {None, Some None}"
proof -
  have "twilio x sid token url fs = None" for sid token url fs
    using assms [of url "(sid, token)" fs] by (auto simp: twilio_def clientDo_def)
  then show ?thesis by (simp add: sendSMS_def Let_def)
qed

section \<open>What the user is shown when a provider fails\<close>

text \<open>
  The second provider is asked exactly when the first gave no text, and the user gets the first text there is, or else
  the last error.
\<close>

definition supportOutcome :: "outside \<Rightarrow> string \<Rightarrow> string \<Rightarrow> string \<Rightarrow> (string \<times> string) list \<Rightarrow> string + string" where
  "supportOutcome x gKey aKey sys msgs =
     (let first = (if gKey = '''' then Inr '''' else geminiCall x gKey sys (map geminiRole msgs))
      in if aKey = '''' then first
         else case first of
                Inr (c # text) \<Rightarrow> first
              | _ \<Rightarrow> anthropicCall x aKey sys msgs)"

lemma supportChat_outcome:
  assumes "rMethod r = ''POST''" and "ms \<noteq> []"
    and "e_getenv e ''GEMINI_API_KEY'' \<noteq> '''' \<or> e_getenv e ''ANTHROPIC_API_KEY'' \<noteq> ''''"
  shows "supportChatHandler (supportServices x e sv) prompt (Some ms) e r s =
    (s, case supportOutcome x (e_getenv e ''GEMINI_API_KEY'') (e_getenv e ''ANTHROPIC_API_KEY'') (supportSystem e r prompt s) (clipTranscript ms) of
          Inl err \<Rightarrow> httpError (''support bot unavailable: '' @ err) 502
        | Inr [] \<Rightarrow> httpError ''support bot returned empty reply'' 502
        | Inr (c # text) \<Rightarrow> okJSON [(''reply'', JStr (c # text))])"
  using assms unfolding supportChatHandler_def supportServices_def supportOutcome_def Let_def
  by (auto split: sum.splits list.splits)

text \<open>C24: A provider's failure discloses a secret.  When only the first provider of the support assistant is configured and
  its request ends without a response, for which a timeout is enough, whoever asked the assistant, signed in or
  not, is sent a 502 whose text contains the server's API key for that provider: the key is part of the URL, the
  error of a failed request quotes the URL, and the handler appends the error to its answer.\<close>

theorem gemini_key_disclosed:
  assumes "rMethod r = ''POST''" and "ms \<noteq> []" and "e_getenv e ''GEMINI_API_KEY'' = gKey" and "gKey \<noteq> ''''"
    and "e_getenv e ''ANTHROPIC_API_KEY'' = ''''" and "\<And>url headers payload. \<exists>cause. o_post x url headers payload = Inl cause"
  shows "\<exists>body. supportChatHandler (supportServices x e sv) prompt (Some ms) e r s = (s, httpError body 502) \<and> sublist gKey body"
proof -
  let ?sys = "supportSystem e r prompt s" and ?contents = "map geminiRole (clipTranscript ms)"
  obtain cause where "o_post x (geminiURL gKey) [(''Content-Type'', ''application/json'')] (geminiPayload ?sys ?contents) = Inl cause"
    using assms(6) by blast
  then have "geminiCall x gKey ?sys ?contents = Inl (''Post '' @ [CHR 0x22] @ geminiURL gKey @ [CHR 0x22] @ '': '' @ cause)"
    by (simp add: geminiCall_def clientDo_def)
  then have "supportChatHandler (supportServices x e sv) prompt (Some ms) e r s =
      (s, httpError (''support bot unavailable: '' @ ''Post '' @ [CHR 0x22] @ geminiURL gKey @ [CHR 0x22] @ '': '' @ cause) 502)"
    using assms(1-5) by (subst supportChat_outcome) (simp_all add: supportOutcome_def)
  moreover have "sublist gKey (pre @ geminiURL gKey @ post)" for pre post
    unfolding geminiURL_def by (metis append.assoc sublist_appendI)
  ultimately show ?thesis by (metis append.assoc)
qed

definition outside0 :: outside where
  "outside0 = \<lparr>o_post = (\<lambda>_ _ _. Inl ''timeout''), o_form = (\<lambda>_ _ _. Inl ''timeout''), o_geminiDecode = (\<lambda>_. Inr []),
     o_anthropicDecode = (\<lambda>_. Inr (None, [])), o_iceDecode = (\<lambda>_. Inr []), o_pathEscape = (\<lambda>s. s)\<rparr>"

definition envGemini :: env where
  "envGemini = env0\<lparr>e_getenv := (\<lambda>k. if k = ''GEMINI_API_KEY'' then ''sesame'' else '''')\<rparr>"

lemma gemini_key_disclosed_witness:
  "\<exists>body. supportChatHandler (supportServices outside0 envGemini services0) ''help'' (Some [(''user'', ''hi'')]) envGemini
      (request0\<lparr>rMethod := ''POST''\<rparr>) nexus0 = (nexus0, httpError body 502) \<and> sublist ''sesame'' body"
  by (rule gemini_key_disclosed) (simp_all add: envGemini_def outside0_def)

end
