(* ===== verification/Blobs.thy ===== *)
theory Blobs
  imports Files
begin

text \<open>
  The two stores behind \<^verbatim>\<open>blobStore\<close> (\<^verbatim>\<open>nexus_server/blobstore.go\<close>).  The disk store is modelled down to its system
  calls: each may fail, a copy may stop half way, and the states the directory goes through are all kept, so
  that what a concurrent reader sees, and what a crash leaves, can be stated.  The contract of the interface is the
  locale \<open>blob_store\<close>, an extension of \<open>blob_access\<close>; the disk store is an interpretation of the first and the map from
  keys to contents that the handlers of theory \<open>Files\<close> work on is one of the second.  The S3 store passes its
  calls on to a client library, which is a parameter.
\<close>

section \<open>The disk store\<close>

text \<open>A file is named by its directory, as the configuration writes it, and its name in there.\<close>

type_synonym files = "string \<times> string \<Rightarrow> string option"

datatype blobError = BadKey | BlobNotFound | IOError

text \<open>What the system calls of one operation answer: \<open>tempName\<close> is the random part of the name \<^verbatim>\<open>os.CreateTemp\<close> picked,
  \<open>copied\<close> how many bytes were written before \<^verbatim>\<open>io.Copy\<close> failed.\<close>

record ioOutcome =
  mkdirOk :: bool
  tempName :: "string option"
  copied :: "nat option"
  closeOk :: bool
  renameOk :: bool
  removeOk :: bool
  openOk :: bool
  statOk :: bool

definition tempFile :: "string \<Rightarrow> string \<Rightarrow> string \<times> string" where
  "tempFile dir n = (dir, ''.tmp-'' @ n)"

definition discard :: "ioOutcome \<Rightarrow> string \<times> string \<Rightarrow> files \<Rightarrow> files list" where
  "discard f tmp fs = (if removeOk f then [fs, fs(tmp := None)] else [fs])"

definition writing :: "nat \<Rightarrow> string \<times> string \<Rightarrow> string \<Rightarrow> files \<Rightarrow> files list" where
  "writing n tmp content fs = map (\<lambda>i. fs(tmp \<mapsto> take i content)) [0..<Suc n]"

text \<open>The states of the disk during a \<^verbatim>\<open>Put\<close>, the last one when it returns, and whether it succeeded.\<close>

definition putTrace :: "env \<Rightarrow> ioOutcome \<Rightarrow> string \<Rightarrow> string \<Rightarrow> files \<Rightarrow> files list \<times> bool" where
  "putTrace e f key content fs =
     (case diskPath e key of
        None \<Rightarrow> ([fs], False)
      | Some (dir, name) \<Rightarrow>
          if \<not> mkdirOk f then ([fs], False)
          else (case tempName f of
            None \<Rightarrow> ([fs], False)
          | Some n \<Rightarrow>
              let tmp = tempFile dir n; full = fs(tmp \<mapsto> content)
              in case copied f of
                   Some k \<Rightarrow> ([fs] @ writing k tmp content fs @ discard f tmp (fs(tmp \<mapsto> take k content)), False)
                 | None \<Rightarrow>
                     if \<not> closeOk f then ([fs] @ writing (length content) tmp content fs @ discard f tmp full, False)
                     else if \<not> renameOk f then ([fs] @ writing (length content) tmp content fs, False)
                     else ([fs] @ writing (length content) tmp content fs @ [full(tmp := None, (dir, name) \<mapsto> content)], True)))"

definition diskPut :: "env \<Rightarrow> ioOutcome \<Rightarrow> string \<Rightarrow> string \<Rightarrow> files \<Rightarrow> files \<times> bool" where
  "diskPut e f key content fs = (last (fst (putTrace e f key content fs)), snd (putTrace e f key content fs))"

definition diskOpen :: "env \<Rightarrow> ioOutcome \<Rightarrow> string \<Rightarrow> files \<Rightarrow> blobError + string" where
  "diskOpen e f key fs =
     (case diskPath e key of
        None \<Rightarrow> Inl BlobNotFound
      | Some p \<Rightarrow>
          (case fs p of
             None \<Rightarrow> Inl BlobNotFound
           | Some content \<Rightarrow> if openOk f \<and> statOk f then Inr content else Inl IOError))"

definition diskDelete :: "env \<Rightarrow> ioOutcome \<Rightarrow> string \<Rightarrow> files \<Rightarrow> files \<times> bool" where
  "diskDelete e f key fs =
     (case diskPath e key of
        None \<Rightarrow> (fs, False)
      | Some p \<Rightarrow> if fs p = None then (fs, True) else if removeOk f then (fs(p := None), True) else (fs, False))"

section \<open>The S3 store\<close>

text \<open>What the client library does with a request, on a bucket of any kind.  \<open>statObject\<close> is the response to the first
  request of a read: an HTTP status that is an error, or the object.\<close>

record 'b minio =
  putObject :: "string \<Rightarrow> string \<Rightarrow> string \<Rightarrow> 'b \<Rightarrow> 'b \<times> bool"
  statObject :: "string \<Rightarrow> 'b \<Rightarrow> nat + string"
  removeObject :: "string \<Rightarrow> 'b \<Rightarrow> 'b \<times> bool"

definition s3Put :: "'b minio \<Rightarrow> string \<Rightarrow> string \<Rightarrow> string \<Rightarrow> 'b \<Rightarrow> 'b \<times> bool" where
  "s3Put m key content contentType b =
     putObject m key (if contentType = '''' then ''application/octet-stream'' else contentType) content b"

definition s3Open :: "'b minio \<Rightarrow> string \<Rightarrow> 'b \<Rightarrow> blobError + string" where
  "s3Open m key b =
     (case statObject m key b of
        Inl status \<Rightarrow> Inl (if status = 404 then BlobNotFound else IOError)
      | Inr content \<Rightarrow> Inr content)"

definition s3Delete :: "'b minio \<Rightarrow> string \<Rightarrow> 'b \<Rightarrow> 'b \<times> bool" where
  "s3Delete m key b = removeObject m key b"

record s3Config =
  s3Host :: string
  s3Secure :: bool
  s3Region :: string
  s3Bucket :: string

text \<open>\<open>parse\<close> is \<^verbatim>\<open>url.Parse\<close>: the scheme and the host; \<open>accept\<close> says whether the client library takes the options.\<close>

definition newS3BlobStore ::
  "(string \<Rightarrow> (string \<times> string) option) \<Rightarrow> (s3Config \<Rightarrow> bool) \<Rightarrow> string \<Rightarrow> string \<Rightarrow> string \<Rightarrow> string \<Rightarrow> string \<Rightarrow> string + s3Config" where
  "newS3BlobStore parse accept endpoint region bucket accessKey secretKey =
     (if bucket = '''' \<or> endpoint = '''' \<or> accessKey = '''' \<or> secretKey = ''''
      then Inl ''s3 blob store needs BUCKET_NAME, AWS_ENDPOINT_URL_S3, AWS_ACCESS_KEY_ID and AWS_SECRET_ACCESS_KEY''
      else case parse endpoint of
             None \<Rightarrow> Inl (''bad AWS_ENDPOINT_URL_S3 '' @ endpoint)
           | Some (scheme, host) \<Rightarrow>
               if host = '''' then Inl (''bad AWS_ENDPOINT_URL_S3 '' @ endpoint)
               else let cfg = \<lparr>s3Host = host, s3Secure = (scheme \<noteq> ''http''), s3Region = region, s3Bucket = bucket\<rparr>
                    in if accept cfg then Inr cfg else Inl ''client'')"

section \<open>The contract\<close>

text \<open>
  \<open>view\<close> is what a store holds: contents by key, for the keys in \<open>good\<close>.  A read says what is there, a write or a
  deletion that reports success has taken effect and one that reports failure has changed nothing.
\<close>

locale blob_access =
  fixes view :: "'s \<Rightarrow> string \<Rightarrow> string option"
    and good :: "string \<Rightarrow> bool"
    and put :: "'f \<Rightarrow> string \<Rightarrow> string \<Rightarrow> 's \<Rightarrow> 's \<times> bool"
    and get :: "'f \<Rightarrow> string \<Rightarrow> 's \<Rightarrow> blobError + string"
  assumes view_good: "view s k = Some c \<Longrightarrow> good k"
    and put_view: "good k \<Longrightarrow> view (fst (put f k c s)) = (if snd (put f k c s) then (view s)(k \<mapsto> c) else view s)"
    and get_found: "good k \<Longrightarrow> get f k s = Inr c \<Longrightarrow> view s k = Some c"
    and get_missing: "good k \<Longrightarrow> get f k s = Inl BlobNotFound \<longleftrightarrow> view s k = None"
begin

lemma put_get: "good k \<Longrightarrow> put f k c s = (s', True) \<Longrightarrow> get g k s' = Inr d \<Longrightarrow> d = c"
  using put_view [of k f c s] get_found [of k g s' d] by simp

lemma put_present: "good k \<Longrightarrow> put f k c s = (s', True) \<Longrightarrow> get g k s' \<noteq> Inl BlobNotFound"
  using put_view [of k f c s] get_missing [of k g s'] by simp

lemma put_other: "good k \<Longrightarrow> good k' \<Longrightarrow> k' \<noteq> k \<Longrightarrow> get g k' (fst (put f k c s)) = Inr d \<Longrightarrow> view s k' = Some d"
  using put_view [of k f c s] get_found [of k' g "fst (put f k c s)" d] by (auto split: if_splits)

end

text \<open>A client's writes and deletions, and what they make of a map when the failed ones are left out.\<close>

datatype blobOp = PutBlob string string | DeleteBlob string

fun blobEffect :: "blobOp \<times> bool \<Rightarrow> (string \<Rightarrow> string option) \<Rightarrow> string \<Rightarrow> string option" where
  "blobEffect (PutBlob k c, ok) m = (if ok then m(k \<mapsto> c) else m)"
| "blobEffect (DeleteBlob k, ok) m = (if ok then m(k := None) else m)"

fun blobKey :: "blobOp \<Rightarrow> string" where
  "blobKey (PutBlob k c) = k"
| "blobKey (DeleteBlob k) = k"

fun runBlobs :: "('f \<Rightarrow> string \<Rightarrow> string \<Rightarrow> 's \<Rightarrow> 's \<times> bool) \<Rightarrow> ('f \<Rightarrow> string \<Rightarrow> 's \<Rightarrow> 's \<times> bool) \<Rightarrow>
    ('f \<times> blobOp) list \<Rightarrow> 's \<Rightarrow> (blobOp \<times> bool) list \<times> 's" where
  "runBlobs put del [] s = ([], s)"
| "runBlobs put del ((f, p) # ps) s =
     (let r = (case p of PutBlob k c \<Rightarrow> put f k c s | DeleteBlob k \<Rightarrow> del f k s); t = runBlobs put del ps (fst r)
      in ((p, snd r) # fst t, snd t))"

locale blob_store = blob_access view good put get
  for view :: "'s \<Rightarrow> string \<Rightarrow> string option" and good and put :: "'f \<Rightarrow> string \<Rightarrow> string \<Rightarrow> 's \<Rightarrow> 's \<times> bool" and get +
  fixes del :: "'f \<Rightarrow> string \<Rightarrow> 's \<Rightarrow> 's \<times> bool"
  assumes del_view: "good k \<Longrightarrow> view (fst (del f k s)) = (if snd (del f k s) then (view s)(k := None) else view s)"
begin

lemma run_view:
  "\<forall>(f, p) \<in> set ps. good (blobKey p) \<Longrightarrow>
   view (snd (runBlobs put del ps s)) = fold blobEffect (fst (runBlobs put del ps s)) (view s)"
proof (induction ps arbitrary: s)
  case (Cons q ps)
  obtain f p where q: "q = (f, p)" by (cases q)
  let ?r = "case p of PutBlob k c \<Rightarrow> put f k c s | DeleteBlob k \<Rightarrow> del f k s"
  have "view (fst ?r) = blobEffect (p, snd ?r) (view s)"
    using Cons.prems by (cases p) (auto simp: q put_view del_view)
  with Cons show ?case by (simp add: q Let_def)
qed simp

lemma del_missing: "good k \<Longrightarrow> del f k s = (s', True) \<Longrightarrow> get g k s' = Inl BlobNotFound"
  using del_view [of k f s] get_missing [of k g s'] by simp

end

section \<open>The disk store keeps it\<close>

text \<open>
  The keys the server uses on disk: an upload or a profile picture, not a temporary file.  Two keys are two files unless
  the upload directory is the one for pictures.
\<close>

definition diskGood :: "env \<Rightarrow> string \<Rightarrow> bool" where
  "diskGood e key \<longleftrightarrow> uploadDir e \<noteq> ''avatars'' \<and> takeWhile (\<lambda>c. c \<noteq> CHR ''/'') key \<in> {''uploads'', ''avatars''} \<and>
     (case diskPath e key of None \<Rightarrow> False | Some (dir, name) \<Rightarrow> \<not> prefix ''.tmp-'' name)"

definition diskView :: "env \<Rightarrow> files \<Rightarrow> string \<Rightarrow> string option" where
  "diskView e fs key = (if diskGood e key then fs (the (diskPath e key)) else None)"

lemma key_split: "CHR ''/'' \<in> set key \<Longrightarrow>
    key = takeWhile (\<lambda>c. c \<noteq> CHR ''/'') key @ CHR ''/'' # drop (Suc (length (takeWhile (\<lambda>c. c \<noteq> CHR ''/'') key))) key"
  by (induction key) auto

lemma diskGood_path: "diskGood e key \<Longrightarrow> \<exists>dir name. diskPath e key = Some (dir, name) \<and> \<not> prefix ''.tmp-'' name"
  by (auto simp: diskGood_def split: option.splits)

lemma diskPath_inj:
  assumes "diskGood e key" and "diskGood e key'" and "diskPath e key = diskPath e key'"
  shows "key = key'"
proof -
  let ?pre = "takeWhile (\<lambda>c. c \<noteq> CHR ''/'')"
  have p: "diskPath e k = Some (dirFor e (?pre k), drop (Suc (length (?pre k))) k) \<and> CHR ''/'' \<in> set k" if "diskGood e k" for k
    using that by (auto simp: diskGood_def diskPath_def Let_def split: option.splits if_splits)
  have "?pre key = ?pre key'"
    using assms p [OF assms(1)] p [OF assms(2)] by (auto simp: diskGood_def dirFor_def split: if_splits)
  with assms p [OF assms(1)] p [OF assms(2)] show ?thesis
    using key_split [of key] key_split [of key'] by (metis option.inject prod.inject)
qed

lemma diskView_upd:
  assumes "diskGood e key" and "diskPath e key = Some p"
  shows "diskView e (fs(p := v)) = (diskView e fs)(key := v)"
proof
  fix k
  show "diskView e (fs(p := v)) k = ((diskView e fs)(key := v)) k"
  proof (cases "k = key \<or> \<not> diskGood e k")
    case True
    with assms show ?thesis by (auto simp: diskView_def)
  next
    case False
    then obtain q where q: "diskPath e k = Some q" using diskGood_path by blast
    with False assms diskPath_inj [OF assms(1), of k] have "q \<noteq> p" by auto
    with False q show ?thesis by (simp add: diskView_def)
  qed
qed

lemma diskView_tmp: "diskView e (fs(tempFile dir n := v)) = diskView e fs"
  by (rule ext) (auto simp: diskView_def tempFile_def dest: diskGood_path)

lemma diskView_writing: "g \<in> set (writing n (tempFile dir t) content fs) \<Longrightarrow> diskView e g = diskView e fs"
  unfolding writing_def by (auto simp: diskView_tmp simp del: upt_Suc)

lemma diskView_discard: "g \<in> set (discard f (tempFile dir t) fs) \<Longrightarrow> diskView e g = diskView e fs"
  by (auto simp: discard_def diskView_tmp split: if_splits)

lemma putTrace_nonempty: "fst (putTrace e f key content fs) \<noteq> []"
  by (auto simp: putTrace_def Let_def split: option.split)

lemma diskView_renamed:
  assumes "diskGood e key" and "diskPath e key = Some (dir, name)"
  shows "diskView e (fs(tempFile dir n \<mapsto> content, tempFile dir n := None, (dir, name) \<mapsto> content)) = (diskView e fs)(key \<mapsto> content)"
  by (simp only: diskView_upd [OF assms] diskView_tmp)

lemma diskView_putTrace:
  assumes "diskGood e key" and "g \<in> set (fst (putTrace e f key content fs))"
  shows "diskView e g = diskView e fs \<or>
    g = last (fst (putTrace e f key content fs)) \<and> snd (putTrace e f key content fs) \<and> diskView e g = (diskView e fs)(key \<mapsto> content)"
proof -
  obtain dir name where p: "diskPath e key = Some (dir, name)" using diskGood_path [OF assms(1)] by blast
  with assms(2) p show ?thesis
    using diskView_renamed [OF assms(1) p]
    by (auto simp: putTrace_def Let_def diskView_tmp simp del: fun_upd_upd split: option.splits if_splits
        dest!: diskView_writing [where e = e] diskView_discard [where e = e])
qed

text \<open>The \<open>diskPut\<close> of a good key: done or nothing.\<close>

lemma diskView_put:
  assumes "diskGood e key"
  shows "diskView e (fst (diskPut e f key content fs)) =
    (if snd (diskPut e f key content fs) then (diskView e fs)(key \<mapsto> content) else diskView e fs)"
proof -
  obtain dir name where p: "diskPath e key = Some (dir, name)" using diskGood_path [OF assms] by blast
  have "snd (putTrace e f key content fs) \<Longrightarrow> diskView e (last (fst (putTrace e f key content fs))) = (diskView e fs)(key \<mapsto> content)"
    using p diskView_renamed [OF assms p] by (auto simp: putTrace_def Let_def simp del: fun_upd_upd split: option.splits if_splits)
  moreover have "last (fst (putTrace e f key content fs)) \<in> set (fst (putTrace e f key content fs))"
    by (rule last_in_set) (rule putTrace_nonempty)
  ultimately show ?thesis using diskView_putTrace [OF assms] by (auto simp: diskPut_def)
qed

interpretation disk: blob_store "diskView e" "diskGood e" "diskPut e" "diskOpen e" "diskDelete e" for e
proof
  fix s k c f
  show "diskView e s k = Some c \<Longrightarrow> diskGood e k" by (simp add: diskView_def split: if_splits)
  show "diskGood e k \<Longrightarrow> diskView e (fst (diskPut e f k c s)) = (if snd (diskPut e f k c s) then (diskView e s)(k \<mapsto> c) else diskView e s)"
    by (rule diskView_put)
  show "diskGood e k \<Longrightarrow> diskOpen e f k s = Inr c \<Longrightarrow> diskView e s k = Some c"
    by (auto simp: diskOpen_def diskView_def split: option.splits if_splits)
  show "diskGood e k \<Longrightarrow> diskOpen e f k s = Inl BlobNotFound \<longleftrightarrow> diskView e s k = None"
    by (auto simp: diskOpen_def diskView_def dest: diskGood_path split: option.splits if_splits)
  show "diskGood e k \<Longrightarrow> diskView e (fst (diskDelete e f k s)) = (if snd (diskDelete e f k s) then (diskView e s)(k := None) else diskView e s)"
    by (auto simp: diskDelete_def diskView_upd split: option.splits dest: diskGood_path)
      (auto simp: diskView_def fun_eq_iff)
qed

text \<open>What the handlers work on is such a store too: \<open>blobPut\<close> and \<open>blobOpen\<close> of theory \<open>Files\<close>.\<close>

interpretation handlerBlobs: blob_access "\<lambda>b k. if keyOk e k then map_of b k else None" "keyOk e" "blobPut e"
  "\<lambda>_ k b. case blobOpen e k b of None \<Rightarrow> Inl BlobNotFound | Some c \<Rightarrow> Inr c" for e
proof
  fix b :: blobs and k c :: string and x
  show "(if keyOk e k then map_of b k else None) = Some c \<Longrightarrow> keyOk e k" by (simp split: if_splits)
  show "keyOk e k \<Longrightarrow> (\<lambda>j. if keyOk e j then map_of (fst (blobPut e x k c b)) j else None) =
      (if snd (blobPut e x k c b) then (\<lambda>j. if keyOk e j then map_of b j else None)(k \<mapsto> c)
       else (\<lambda>j. if keyOk e j then map_of b j else None))"
    by (auto simp: blobPut_def fun_eq_iff)
qed (auto simp: blobOpen_def split: option.splits)

text \<open>C13: The disk store is atomic.  While a file is being stored, whatever system call fails and wherever the copy stops,
  in every state the disk goes through, and so after a crash at any point, every upload and picture reads as it
  did before, except that at the very end, and only when success is then reported, the stored key has its new content.
  Over any sequence of writes and deletions with any failures the store holds what the successful ones alone make
  of its contents, in their order.\<close>

theorem disk_store_atomic:
  "(\<forall>g \<in> set (fst (putTrace e f key content fs)). diskGood e key \<longrightarrow>
      diskView e g = diskView e fs \<or>
      g = fst (diskPut e f key content fs) \<and> snd (diskPut e f key content fs) \<and> diskView e g = (diskView e fs)(key \<mapsto> content)) \<and>
   ((\<forall>(h, p) \<in> set ps. diskGood e (blobKey p)) \<longrightarrow>
      diskView e (snd (runBlobs (diskPut e) (diskDelete e) ps fs)) =
        fold blobEffect (fst (runBlobs (diskPut e) (diskDelete e) ps fs)) (diskView e fs))"
  using diskView_putTrace disk.run_view [of ps e fs] by (auto simp: diskPut_def)

definition io0 :: ioOutcome where
  "io0 = \<lparr>mkdirOk = True, tempName = Some ''1'', copied = None, closeOk = True, renameOk = True, removeOk = True,
          openOk = True, statOk = True\<rparr>"

lemma diskGood_env0: "diskGood env0 ''uploads/a''"
  using diskPath_name [of "''uploads''" "''a''" env0] by (simp add: diskGood_def uploadDir_def dirFor_def)

lemma disk_store_atomic_witness:
  "diskGood env0 ''uploads/a'' \<and>
   diskView env0 (Map.empty(tempFile ''public/uploads'' ''1'' \<mapsto> ''x'')) ''uploads/a'' \<in> {None, Some ''xy''} \<and>
   diskView env0 (snd (runBlobs (diskPut env0) (diskDelete env0) [(io0, PutBlob ''uploads/a'' ''xy'')] Map.empty)) =
     fold blobEffect (fst (runBlobs (diskPut env0) (diskDelete env0) [(io0, PutBlob ''uploads/a'' ''xy'')] Map.empty))
       (diskView env0 Map.empty)"
proof (intro conjI)
  let ?g = "Map.empty(tempFile ''public/uploads'' ''1'' \<mapsto> ''x'')"
  have "diskPath env0 ''uploads/a'' = Some (''public/uploads'', ''a'')"
    using diskPath_name [of "''uploads''" "''a''" env0] by (simp add: uploadDir_def dirFor_def)
  then have "?g \<in> set (fst (putTrace env0 (io0\<lparr>copied := Some 1\<rparr>) ''uploads/a'' ''xy'' Map.empty))"
    by (simp add: putTrace_def io0_def writing_def Let_def)
  then have "diskView env0 ?g = diskView env0 Map.empty \<or> diskView env0 ?g = (diskView env0 Map.empty)(''uploads/a'' \<mapsto> ''xy'')"
    using disk_store_atomic [of env0 "io0\<lparr>copied := Some 1\<rparr>" "''uploads/a''" "''xy''" Map.empty "[]"] diskGood_env0 by blast
  moreover have "diskView env0 Map.empty ''uploads/a'' = None" by (simp add: diskView_def)
  ultimately show "diskView env0 ?g ''uploads/a'' \<in> {None, Some ''xy''}" by auto
next
  show "diskView env0 (snd (runBlobs (diskPut env0) (diskDelete env0) [(io0, PutBlob ''uploads/a'' ''xy'')] Map.empty)) =
     fold blobEffect (fst (runBlobs (diskPut env0) (diskDelete env0) [(io0, PutBlob ''uploads/a'' ''xy'')] Map.empty))
       (diskView env0 Map.empty)"
    using disk_store_atomic [of env0 io0 "''uploads/a''" "''xy''" Map.empty "[(io0, PutBlob ''uploads/a'' ''xy'')]"] diskGood_env0
    by simp
qed (rule diskGood_env0)

end
