(* ===== verification/Status.thy ===== *)
theory Status
  imports Http
begin

text \<open>
  The status page (\<^verbatim>\<open>nexus_server/status_page.go\<close>), the metrics endpoint (\<^verbatim>\<open>metricsHandler\<close> of \<^verbatim>\<open>main.go\<close>) and the headers of
  \<^verbatim>\<open>middleware.go\<close>.  The history of health probes is a list of samples in memory; a percentage is kept as the fraction
  it is of, since with at most 1440 samples the comparisons the code makes in floating point come out the same.
  The theorem: after any number of probes the history is exactly the last 24 hours, and the log has one line for
  each time the outcome changed.
\<close>

section \<open>The history of probes\<close>

record healthSample =
  hs_at :: time
  hs_ok :: bool

definition healthHistMax :: nat where "healthHistMax = 1440"

definition recordHealth :: "time \<Rightarrow> bool \<Rightarrow> healthSample list \<Rightarrow> healthSample list" where
  "recordHealth now ok hist =
     (let h = hist @ [\<lparr>hs_at = now, hs_ok = ok\<rparr>] in if length h > healthHistMax then drop (length h - healthHistMax) h else h)"

text \<open>The percentage as numerator and denominator, the time of the last failed probe, the number of samples.\<close>

definition currentHealthSummary :: "healthSample list \<Rightarrow> (nat \<times> nat) \<times> time option \<times> nat" where
  "currentHealthSummary hist =
     (if hist = [] then ((100, 1), None, 0)
      else ((100 * length (filter hs_ok hist), length hist),
            foldl (\<lambda>last h. if hs_ok h then last else Some (hs_at h)) None hist,
            length hist))"

definition healthHistorySnapshot :: "healthSample list \<Rightarrow> healthSample list" where
  "healthHistorySnapshot hist = sort_key hs_at hist"

text \<open>\<open>net\<close> answers a GET with a status, or not at all.\<close>

definition probeSelf :: "(string \<Rightarrow> nat option) \<Rightarrow> env \<Rightarrow> bool" where
  "probeSelf net e =
     (let port = (if e_getenv e ''PORT'' = '''' then ''8080'' else e_getenv e ''PORT'')
      in case net (''http://127.0.0.1:'' @ port @ ''/health'') of None \<Rightarrow> False | Some status \<Rightarrow> 200 \<le> status \<and> status < 300)"

record prober =
  p_hist :: "healthSample list"
  p_lastOK :: bool
  p_log :: "string list"

text \<open>The goroutine of \<^verbatim>\<open>startStatusProber\<close>: the probe it starts with and one tick of its loop, on the outcome of the probe.\<close>

definition firstProbe :: "time \<Rightarrow> bool \<Rightarrow> prober" where
  "firstProbe now ok = \<lparr>p_hist = recordHealth now ok [], p_lastOK = ok, p_log = []\<rparr>"

definition transitionLine :: "bool \<Rightarrow> string" where
  "transitionLine ok = (if ok then ''[status] recovered: health passing'' else ''[status] DEGRADED: health probe failed'')"

definition proberTick :: "prober \<Rightarrow> time \<times> bool \<Rightarrow> prober" where
  "proberTick p tick =
     (let (now, ok) = tick; q = p\<lparr>p_hist := recordHealth now ok (p_hist p)\<rparr>
      in if ok \<noteq> p_lastOK p then q\<lparr>p_log := p_log p @ [transitionLine ok], p_lastOK := ok\<rparr> else q)"

definition startStatusProber :: "time \<times> bool \<Rightarrow> (time \<times> bool) list \<Rightarrow> prober" where
  "startStatusProber first ticks = foldl proberTick (firstProbe (fst first) (snd first)) ticks"

section \<open>The page\<close>

definition statusHTML :: "string \<Rightarrow> string \<Rightarrow> string \<Rightarrow> string \<Rightarrow> string \<Rightarrow> string \<Rightarrow> string" where
  "statusHTML stateCls headline uptime lastDownStr bars samples =
     ''<!doctype html>'' @ [CHR 0x0A] @ ''<html lang='' @ [CHR 0x22] @ ''en'' @ [CHR 0x22] @ ''><head><meta charset='' @ [CHR 0x22] @ ''utf-8'' @ [CHR 0x22] @
     ''><title>Phaze '' @ [CHR 0xC2, CHR 0xB7] @ '' Status</title>'' @ [CHR 0x0A] @ ''<style>'' @ [CHR 0x0A] @ ''body{font-family:'' @ [CHR 0x27] @ ''Inter'' @
     [CHR 0x27] @ '',system-ui,sans-serif;background:#0b0b0d;color:#fafafa;max-width:760px;margin:48px auto;padding:24px}'' @ [CHR 0x0A] @
     ''h1{margin:0 0 4px;font-size:1.4rem}'' @ [CHR 0x0A] @ ''.hdr{display:flex;justify-content:space-between;align-items:center;margin-bottom:32px}'' @ [CHR 0x0A] @
     ''.badge{padding:6px 14px;border-radius:999px;font-weight:700;font-size:.8rem}'' @ [CHR 0x0A] @ ''.badge.ok{background:rgba(34,197,94,.18);color:#86efac}'' @
     [CHR 0x0A] @ ''.badge.warn{background:rgba(234,179,8,.18);color:#fde047}'' @ [CHR 0x0A] @ ''.badge.down{background:rgba(239,68,68,.18);color:#fca5a5}'' @
     [CHR 0x0A] @ ''.card{background:#16161a;border:1px solid #232328;border-radius:14px;padding:22px;margin-bottom:18px}'' @ [CHR 0x0A] @
     ''.card h2{margin:0 0 12px;font-size:1rem;color:#a1a1aa;text-transform:uppercase;letter-spacing:.08em}'' @ [CHR 0x0A] @
     ''.metric{font-size:2.2rem;font-weight:700}'' @ [CHR 0x0A] @ ''.muted{color:#71717a;font-size:.9rem}'' @ [CHR 0x0A] @
     ''.sparkline{display:flex;gap:1px;margin-top:14px;height:28px;align-items:end}'' @ [CHR 0x0A] @
     ''.bar{flex:1;min-width:1px;background:#22c55e;border-radius:1px;height:100%}'' @ [CHR 0x0A] @ ''.bar.down{background:#ef4444}'' @ [CHR 0x0A] @
     ''.empty{padding:14px;color:#71717a;text-align:center;font-size:.9rem;background:rgba(255,255,255,.03);border-radius:8px}'' @ [CHR 0x0A] @
     ''footer{margin-top:32px;text-align:center;color:#52525b;font-size:.8rem}'' @ [CHR 0x0A] @ ''footer a{color:#a677ff;text-decoration:none}'' @ [CHR 0x0A] @
     ''</style></head>'' @ [CHR 0x0A] @ ''<body>'' @ [CHR 0x0A] @ ''<div class='' @ [CHR 0x22] @ ''hdr'' @ [CHR 0x22] @ ''>'' @ [CHR 0x0A] @
     ''  <div><h1>Phaze Status</h1><span class='' @ [CHR 0x22] @ ''muted'' @ [CHR 0x22] @ ''>phazechat.world</span></div>'' @ [CHR 0x0A] @ ''  <span class='' @
     [CHR 0x22] @ ''badge '' @ stateCls @ [CHR 0x22] @ ''>'' @ headline @ ''</span>'' @ [CHR 0x0A] @ ''</div>'' @ [CHR 0x0A, CHR 0x0A] @ ''<div class='' @ [CHR 0x22] @
     ''card'' @ [CHR 0x22] @ ''>'' @ [CHR 0x0A] @ ''  <h2>Uptime (last 24h)</h2>'' @ [CHR 0x0A] @ ''  <div class='' @ [CHR 0x22] @ ''metric'' @ [CHR 0x22] @ ''>'' @
     uptime @ ''%</div>'' @ [CHR 0x0A] @ ''  <div class='' @ [CHR 0x22] @ ''muted'' @ [CHR 0x22] @ ''>'' @ lastDownStr @ ''</div>'' @ [CHR 0x0A] @ ''  '' @ bars @
     [CHR 0x0A] @ ''</div>'' @ [CHR 0x0A, CHR 0x0A] @ ''<div class='' @ [CHR 0x22] @ ''card'' @ [CHR 0x22] @ ''>'' @ [CHR 0x0A] @ ''  <h2>Service health</h2>'' @
     [CHR 0x0A] @ ''  <p style='' @ [CHR 0x22] @ ''margin:0'' @ [CHR 0x22] @ ''><span class='' @ [CHR 0x22] @ ''muted'' @ [CHR 0x22] @
     ''>Endpoint:</span> <code>https://phazechat.world/health</code> '' @ [CHR 0xE2, CHR 0x80, CHR 0x94] @ '' last probed every 60s by the server itself.</p>'' @
     [CHR 0x0A] @ ''  <p style='' @ [CHR 0x22] @ ''margin:8px 0 0'' @ [CHR 0x22] @ ''><span class='' @ [CHR 0x22] @ ''muted'' @ [CHR 0x22] @
     ''>Samples in window:</span> '' @ samples @ ''</p>'' @ [CHR 0x0A] @ ''</div>'' @ [CHR 0x0A, CHR 0x0A] @ ''<footer>'' @ [CHR 0x0A] @
     ''  Backend: Cloudflare Containers '' @ [CHR 0xC2, CHR 0xB7] @ '' Backups: Cloudflare R2 / Litestream<br>'' @ [CHR 0x0A] @ ''  <a href='' @ [CHR 0x22] @ ''/'' @
     [CHR 0x22] @ ''>'' @ [CHR 0xE2, CHR 0x86, CHR 0x90] @ '' Back to Phaze</a>'' @ [CHR 0x0A] @ ''</footer>'' @ [CHR 0x0A] @ ''</body></html>''"

text \<open>\<open>pct\<close>, \<open>stamp\<close> and \<open>short\<close> are Go's formatting of a number with two decimals and of a time.\<close>

definition statusBars :: "(time \<Rightarrow> string) \<Rightarrow> healthSample list \<Rightarrow> string" where
  "statusBars stamp hist =
     concat (map (\<lambda>h. ''<span class='' @ [CHR 0x22] @ ''bar '' @ (if hs_ok h then ''ok'' else ''down'') @ [CHR 0x22] @ '' title='' @ [CHR 0x22] @
                      stamp (hs_at h) @ [CHR 0x22] @ ''></span>'') hist)"

definition statusState :: "healthSample list \<Rightarrow> string \<times> string" where
  "statusState hist =
     (let ((num, den), lastDown, total) = currentHealthSummary hist
      in if total > 0 \<and> num < 95 * den then (''down'', ''Service degraded'')
         else if total > 0 \<and> num < 99 * den then (''warn'', ''Recent incidents '' @ emDash @ '' see below'')
         else (''ok'', ''All systems operational''))"

definition statusPageHandler ::
  "(nat \<times> nat \<Rightarrow> string) \<Rightarrow> (time \<Rightarrow> string) \<Rightarrow> (time \<Rightarrow> string) \<Rightarrow> healthSample list \<Rightarrow> http_handler" where
  "statusPageHandler pct stamp short hist e r s =
     (let (uptime, lastDown, total) = currentHealthSummary hist;
          (stateCls, state) = statusState hist;
          lastDownStr = (case lastDown of None \<Rightarrow> ''No outages recorded in current window.'' | Some t \<Rightarrow> ''Last down: '' @ short t);
          bars = (if total = 0
                  then ''<div class='' @ [CHR 0x22] @ ''empty'' @ [CHR 0x22] @ '' style='' @ [CHR 0x22] @ ''margin-top:14px'' @ [CHR 0x22] @
                       ''>No samples yet '' @ emDash @ '' try again in a minute.</div>''
                  else ''<div class='' @ [CHR 0x22] @ ''sparkline'' @ [CHR 0x22] @ ''>'' @ statusBars stamp (healthHistorySnapshot hist) @ ''</div>'')
      in (s, reply 200 (Text (statusHTML stateCls state (pct uptime) lastDownStr bars (Itoa (int total))))))"

section \<open>Metrics\<close>

text \<open>What the process counts as it runs, and what the runtime reports, all of it only for this page.\<close>

record nexusMetrics =
  wsConnections :: nat
  wsConnectionsFail :: nat
  wsMessagesIn :: nat
  authSuccess :: nat
  authFailure :: nat
  keyRequests :: nat
  convoMessages :: nat
  pstnAttempts :: nat
  pstnRejected :: nat
  uptimeSeconds :: nat
  allocBytes :: nat
  goroutines :: nat

definition metricBlock :: "string \<Rightarrow> string \<Rightarrow> string \<Rightarrow> (string \<times> nat) list \<Rightarrow> string" where
  "metricBlock name help kind rows =
     ''# HELP '' @ name @ '' '' @ help @ [CHR 0x0A] @ ''# TYPE '' @ name @ '' '' @ kind @ [CHR 0x0A] @
     concat (map (\<lambda>(label, v). name @ label @ '' '' @ Itoa (int v) @ [CHR 0x0A]) rows)"

definition result :: "string \<Rightarrow> string" where
  "result v = ''{result='' @ [CHR 0x22] @ v @ [CHR 0x22] @ ''}''"

definition metricsHandler :: "nexusMetrics \<Rightarrow> http_handler" where
  "metricsHandler m e r s =
     (let tok = TrimSpace (e_getenv e ''PHAZE_METRICS_TOKEN'')
      in if tok \<noteq> '''' \<and> rHeader r ''Authorization'' \<noteq> ''Bearer '' @ tok then (s, httpError ''forbidden'' 403)
         else (s, reply 200 (Text (
           metricBlock ''nexus_uptime_seconds'' ''Seconds since server start'' ''counter'' [('''', uptimeSeconds m)] @
           metricBlock ''nexus_active_clients'' ''Connected authenticated WebSocket clients'' ''gauge'' [('''', length (Clients s))] @
           metricBlock ''nexus_registered_users'' ''Total user accounts'' ''gauge'' [('''', length (users (DB s)))] @
           metricBlock ''nexus_offline_messages_pending'' ''Queued messages awaiting recipient login'' ''gauge''
             [('''', length (offline_messages (DB s)))] @
           metricBlock ''nexus_ws_connections_total'' ''WebSocket upgrade attempts'' ''counter'' [('''', wsConnections m)] @
           metricBlock ''nexus_ws_connections_failed_total'' ''WebSocket upgrades that failed'' ''counter'' [('''', wsConnectionsFail m)] @
           metricBlock ''nexus_ws_messages_in_total'' ''Inbound WebSocket messages'' ''counter'' [('''', wsMessagesIn m)] @
           metricBlock ''nexus_auth_total'' ''Auth attempts by result'' ''counter''
             [(result ''ok'', authSuccess m), (result ''fail'', authFailure m)] @
           metricBlock ''nexus_key_requests_total'' ''Pairwise key_request relays'' ''counter'' [('''', keyRequests m)] @
           metricBlock ''nexus_convo_messages_total'' ''Group envelope messages relayed'' ''counter'' [('''', convoMessages m)] @
           metricBlock ''nexus_pstn_total'' ''PSTN attempts and rejections'' ''counter''
             [(result ''attempt'', pstnAttempts m), (result ''rejected_disabled'', pstnRejected m)] @
           metricBlock ''go_memstats_alloc_bytes'' ''Currently allocated heap bytes'' ''gauge'' [('''', allocBytes m)] @
           metricBlock ''go_goroutines'' ''Currently running goroutines'' ''gauge'' [('''', goroutines m)]))))"

section \<open>Headers\<close>

definition writeSecurityHeaders :: "(string \<times> string) list" where
  "writeSecurityHeaders =
     [(''X-Content-Type-Options'', ''nosniff''), (''X-Frame-Options'', ''DENY''),
      (''Referrer-Policy'', ''strict-origin-when-cross-origin''),
      (''Strict-Transport-Security'', ''max-age=31536000; includeSubDomains; preload''),
      (''X-XSS-Protection'', ''0''), (''Cross-Origin-Opener-Policy'', ''same-origin'')]"

text \<open>The headers of every response of a route wrapped in \<^verbatim>\<open>rateLimit\<close>, before its handler adds its own; the status page's.\<close>

definition rateLimitHeaders :: "(string \<times> string) list" where
  "rateLimitHeaders = writeSecurityHeaders @ [(''Content-Security-Policy'', ''default-src '' @ [CHR 0x27] @ ''none'' @ [CHR 0x27])]"

definition statusPageHeaders :: "(string \<times> string) list" where
  "statusPageHeaders = rateLimitHeaders @ [(''Content-Type'', ''text/html; charset=utf-8''), (''Cache-Control'', ''no-cache'')]"

text \<open>The page carries its styles inline, and the browser is told to load no styles.\<close>

lemma status_page_unstyled:
  "(''Content-Security-Policy'', ''default-src '' @ [CHR 0x27] @ ''none'' @ [CHR 0x27]) \<in> set statusPageHeaders"
  "sublist ''<style>'' (statusHTML c st u l b t)"
  unfolding statusHTML_def statusPageHeaders_def rateLimitHeaders_def
  by (simp_all add: sublist_Cons_right)

section \<open>What the history holds\<close>

definition sampleOf :: "time \<times> bool \<Rightarrow> healthSample" where
  "sampleOf t = \<lparr>hs_at = fst t, hs_ok = snd t\<rparr>"

fun transitions :: "bool list \<Rightarrow> string list" where
  "transitions (a # b # os) = (if a \<noteq> b then [transitionLine b] else []) @ transitions (b # os)"
| "transitions os = []"

definition lastDay :: "'a list \<Rightarrow> 'a list" where
  "lastDay xs = drop (length xs - healthHistMax) xs"

lemma lastDay_snoc: "lastDay (lastDay xs @ [x]) = lastDay (xs @ [x])"
proof (cases "length xs \<le> healthHistMax")
  case False
  then have "Suc (length xs) - healthHistMax = Suc (length xs - healthHistMax)" by simp
  with False show ?thesis by (simp add: lastDay_def healthHistMax_def)
qed (simp add: lastDay_def)

lemma recordHealth_lastDay: "recordHealth (fst t) (snd t) hist = lastDay (hist @ [sampleOf t])"
  by (simp add: recordHealth_def lastDay_def sampleOf_def Let_def)

lemma transitions_snoc: "transitions (os @ [a, b]) = transitions (os @ [a]) @ (if a \<noteq> b then [transitionLine b] else [])"
proof (induction os)
  case (Cons o1 os)
  then show ?case by (cases os) auto
qed simp

lemma proberTick_eq:
  "proberTick p t = \<lparr>p_hist = lastDay (p_hist p @ [sampleOf t]), p_lastOK = snd t,
     p_log = p_log p @ (if snd t \<noteq> p_lastOK p then [transitionLine (snd t)] else [])\<rparr>"
  by (cases p) (auto simp: proberTick_def split_beta Let_def recordHealth_lastDay [symmetric])

lemma prober_state:
  "startStatusProber first ticks =
     \<lparr>p_hist = lastDay (map sampleOf (first # ticks)), p_lastOK = snd (last (first # ticks)),
      p_log = transitions (map snd (first # ticks))\<rparr>"
proof (induction ticks rule: rev_induct)
  case Nil
  show ?case by (simp add: startStatusProber_def firstProbe_def recordHealth_lastDay)
next
  case (snoc t ticks)
  let ?all = "first # ticks"
  obtain os a where os: "map snd ?all = os @ [a]" by (metis list.map_disc_iff list.distinct(1) rev_exhaust)
  then have a: "snd (last ?all) = a" by (metis last_map last_snoc list.distinct(1))
  have os': "map snd (first # ticks @ [t]) = os @ [a, snd t]" using os by simp
  have "startStatusProber first (ticks @ [t]) = proberTick (startStatusProber first ticks) t"
    by (simp add: startStatusProber_def)
  also have "\<dots> = \<lparr>p_hist = lastDay (lastDay (map sampleOf ?all) @ [sampleOf t]), p_lastOK = snd t,
      p_log = transitions (map snd ?all) @ (if a \<noteq> snd t then [transitionLine (snd t)] else [])\<rparr>"
    unfolding snoc proberTick_eq a by auto
  also have "\<dots> = \<lparr>p_hist = lastDay (map sampleOf ?all @ [sampleOf t]), p_lastOK = snd t,
      p_log = transitions (map snd (first # ticks @ [t]))\<rparr>"
    by (simp only: lastDay_snoc os os' transitions_snoc)
  finally show ?case by simp
qed

text \<open>The status page tells the truth about the last 24 hours.  Whatever the probes find, the history is exactly the
  last 1440 samples, so the count, the share of successes and the last failure on the page are theirs; with a clock
  that does not go back the bars are in the order of the probes; and the log has one line for each change of the
  outcome, in order, none for the first probe and none for a repeated outcome.\<close>

theorem status_history:
  assumes "sorted (map fst (first # ticks))"
  shows "p_hist (startStatusProber first ticks) = lastDay (map sampleOf (first # ticks)) \<and>
    healthHistorySnapshot (p_hist (startStatusProber first ticks)) = p_hist (startStatusProber first ticks) \<and>
    p_log (startStatusProber first ticks) = transitions (map snd (first # ticks)) \<and>
    snd (snd (currentHealthSummary (p_hist (startStatusProber first ticks)))) = min (Suc (length ticks)) healthHistMax \<and>
    (fst (statusState (p_hist (startStatusProber first ticks))) = ''ok'' \<longleftrightarrow>
       99 * min (Suc (length ticks)) healthHistMax \<le> 100 * length (filter snd (lastDay (first # ticks))))"
proof -
  let ?h = "lastDay (map sampleOf (first # ticks))"
  have m: "?h = map sampleOf (lastDay (first # ticks))"
    unfolding lastDay_def by (simp only: length_map drop_map)
  have l: "length ?h = min (Suc (length ticks)) healthHistMax" by (simp add: lastDay_def min_def)
  have "map hs_at ?h = drop (length (first # ticks) - healthHistMax) (map fst (first # ticks))"
    unfolding m lastDay_def by (simp only: drop_map map_map) (simp add: comp_def sampleOf_def)
  with sorted_wrt_drop [OF assms] have "sorted (map hs_at ?h)" by simp
  then have s: "healthHistorySnapshot ?h = ?h" by (simp add: healthHistorySnapshot_def sort_key_id_if_sorted)
  have ne: "?h \<noteq> []" using l by (auto simp: healthHistMax_def min_def split: if_splits)
  have "length (filter hs_ok ?h) = length (filter snd (lastDay (first # ticks)))"
    by (simp only: m filter_map length_map) (simp add: comp_def sampleOf_def)
  then show ?thesis
    using s l ne by (simp only: prober_state) (auto simp: statusState_def currentHealthSummary_def)
qed

lemma status_history_witness:
  "p_log (startStatusProber (0, True) [(60, False), (120, False), (180, True)]) = [transitionLine False, transitionLine True] \<and>
   snd (snd (currentHealthSummary (p_hist (startStatusProber (0, True) [(60, False), (120, False), (180, True)])))) = 4"
proof -
  note h = status_history [of "(0, True)" "[(60, False), (120, False), (180, True)]"]
  have "sorted (map fst [(0 :: time, True), (60, False), (120, False), (180, True)])" by simp
  from h [OF this] show ?thesis by (auto simp: healthHistMax_def)
qed

end
