(* ===== verification/Floats.thy ===== *)
theory Floats
  imports Complex_Main Prelude
begin

text \<open>
  Go's \<^verbatim>\<open>float64\<close> as the two build-time generators use it: a value is a real number, and every operation and every constant
  is the exact one followed by rounding.  The rounding, and the standard library's sine and cosine, are the parameter
  \<open>floats\<close>; numbers too large for the format and not-a-number do not occur in these programs.  \<open>ieee\<close> lists what the
  proofs use of the rounding: it keeps order and sign and leaves whole numbers up to 2 to the 53rd alone.
\<close>

record floats =
  rnd :: "real \<Rightarrow> real"
  sinF :: "real \<Rightarrow> real"
  cosF :: "real \<Rightarrow> real"

definition fadd :: "floats \<Rightarrow> real \<Rightarrow> real \<Rightarrow> real" where "fadd F x y = rnd F (x + y)"
definition fsub :: "floats \<Rightarrow> real \<Rightarrow> real \<Rightarrow> real" where "fsub F x y = rnd F (x - y)"
definition fmul :: "floats \<Rightarrow> real \<Rightarrow> real \<Rightarrow> real" where "fmul F x y = rnd F (x * y)"
definition fdiv :: "floats \<Rightarrow> real \<Rightarrow> real \<Rightarrow> real" where "fdiv F x y = rnd F (x / y)"

text \<open>The conversion \<^verbatim>\<open>int(x)\<close> drops the fraction.\<close>

definition ftrunc :: "real \<Rightarrow> int" where
  "ftrunc x = (if x < 0 then - \<lfloor>- x\<rfloor> else \<lfloor>x\<rfloor>)"

definition ieee :: "floats \<Rightarrow> bool" where
  "ieee F \<longleftrightarrow> (\<forall>x y. x \<le> y \<longrightarrow> rnd F x \<le> rnd F y) \<and> (\<forall>x. rnd F (- x) = - rnd F x) \<and>
     (\<forall>n. \<bar>n\<bar> \<le> 2 ^ 53 \<longrightarrow> rnd F (of_int n) = of_int n)"

lemma ieee_mono: "ieee F \<Longrightarrow> x \<le> y \<Longrightarrow> rnd F x \<le> rnd F y"
  by (simp add: ieee_def)

lemma ieee_int: "ieee F \<Longrightarrow> \<bar>n\<bar> \<le> 2 ^ 53 \<Longrightarrow> rnd F (of_int n) = of_int n"
  unfolding ieee_def by blast

lemma ieee_abs: "ieee F \<Longrightarrow> rnd F \<bar>x\<bar> = \<bar>rnd F x\<bar>"
proof -
  assume F: "ieee F"
  have z: "rnd F 0 = 0" using ieee_int [OF F, of 0] by simp
  show ?thesis
  proof (cases "0 \<le> x")
    case True
    then show ?thesis using ieee_mono [OF F True] z by simp
  next
    case False
    then show ?thesis using ieee_mono [OF F, of x 0] z F by (simp add: ieee_def)
  qed
qed

text \<open>Rounding does not leave a bound that is a whole number.\<close>

lemma ieee_bound: "ieee F \<Longrightarrow> \<bar>x\<bar> \<le> of_int n \<Longrightarrow> \<bar>n\<bar> \<le> 2 ^ 53 \<Longrightarrow> \<bar>rnd F x\<bar> \<le> of_int n"
  using ieee_mono [of F "\<bar>x\<bar>" "of_int n"] ieee_int [of F n] ieee_abs [of F x] by simp

lemma ftrunc_abs: "\<bar>ftrunc x\<bar> = \<lfloor>\<bar>x\<bar>\<rfloor>"
  by (cases "x < 0") (simp_all add: ftrunc_def abs_of_nonneg)

lemma ftrunc_bound: "\<bar>x\<bar> < of_int n + 1 \<Longrightarrow> \<bar>ftrunc x\<bar> \<le> n"
  by (simp add: ftrunc_abs floor_le_iff)

lemma ieee_exact: "ieee \<lparr>rnd = (\<lambda>x. x), sinF = sin, cosF = cos\<rparr>"
  by (simp add: ieee_def)

end
