(* ===== verification/Sound.thy ===== *)
theory Sound
  imports Floats "HOL-Library.Word"
begin

text \<open>
  The sound generator, \<^verbatim>\<open>nexus_server/cmd/soundgen\<close>: tones added into a buffer of samples, and the buffer written as a WAV
  file of 16-bit samples.  A file is the list of its bytes.  An index below zero is a panic, \<open>None\<close>.  The theorem: no sound
  panics, and a reader of WAV files gets back from each file the rate and exactly the samples, none of which has
  overflowed its 16 bits.
\<close>

section \<open>Tones\<close>

definition sampleRate :: int where "sampleRate = 44100"

record tone =
  tn_freq :: real
  tn_start :: real
  tn_dur :: real
  tn_vol :: real
  tn_smooth :: bool

text \<open>A tone whose numbers are constants of the source.\<close>

definition toneOf :: "floats \<Rightarrow> real \<Rightarrow> real \<Rightarrow> real \<Rightarrow> real \<Rightarrow> bool \<Rightarrow> tone" where
  "toneOf F freq start dur vol smooth =
     \<lparr> tn_freq = rnd F freq, tn_start = rnd F start, tn_dur = rnd F dur, tn_vol = rnd F vol, tn_smooth = smooth \<rparr>"

definition envelope :: "floats \<Rightarrow> real \<Rightarrow> int \<Rightarrow> int \<Rightarrow> real" where
  "envelope F durSec i numSamples =
     (let pos = fdiv F (of_int i) (of_int numSamples);
          attackPos = fdiv F (rnd F (2 / 100)) durSec;
          releaseStart = fsub F 1 (fdiv F (rnd F (5 / 100)) durSec)
      in if pos < attackPos then fdiv F pos attackPos
         else if pos > releaseStart then fdiv F (fsub F 1 pos) (fsub F 1 releaseStart)
         else 1)"

definition toneSample :: "floats \<Rightarrow> tone \<Rightarrow> int \<Rightarrow> int \<Rightarrow> real" where
  "toneSample F n i numSamples =
     (let t = fdiv F (of_int i) (of_int sampleRate);
          s = fmul F (sinF F (fmul F (fmul F (rnd F (2 * pi)) (tn_freq n)) t)) (tn_vol n)
      in if tn_smooth n then fmul F s (envelope F (tn_dur n) i numSamples) else s)"

definition addTone :: "floats \<Rightarrow> tone \<Rightarrow> real list \<Rightarrow> real list option" where
  "addTone F n buf =
     (let startSample = ftrunc (fmul F (tn_start n) (of_int sampleRate));
          numSamples = ftrunc (fmul F (tn_dur n) (of_int sampleRate))
      in if startSample < 0 \<and> 0 < numSamples then None
         else Some (map (\<lambda>k. let i = int k - startSample
                             in if 0 \<le> i \<and> i < numSamples then fadd F (buf ! k) (toneSample F n i numSamples) else buf ! k)
                      [0..<length buf]))"

section \<open>Sounds\<close>

definition makeSound :: "floats \<Rightarrow> real \<Rightarrow> tone list \<Rightarrow> real list option" where
  "makeSound F dur ns =
     foldl (\<lambda>b n. Option.bind b (addTone F n)) (Some (replicate (nat (ftrunc (fmul F (rnd F dur) (of_int sampleRate)))) 0)) ns"

definition messageOutgoingSound :: "floats \<Rightarrow> real list option" where
  "messageOutgoingSound F = makeSound F (35 / 100)
     [toneOf F (131851 / 100) 0 (10 / 100) (35 / 100) True, toneOf F (156798 / 100) (8 / 100) (18 / 100) (40 / 100) True]"

definition friendOnlineSound :: "floats \<Rightarrow> real list option" where
  "friendOnlineSound F = makeSound F (55 / 100)
     [toneOf F (65925 / 100) 0 (18 / 100) (40 / 100) True, toneOf F (98777 / 100) (18 / 100) (30 / 100) (45 / 100) True]"

definition echoGreetingSound :: "floats \<Rightarrow> real list option" where
  "echoGreetingSound F = makeSound F (16 / 10)
     [toneOf F (52325 / 100) 0 (40 / 100) (45 / 100) True, toneOf F (65925 / 100) (40 / 100) (40 / 100) (50 / 100) True,
      toneOf F (78399 / 100) (80 / 100) (70 / 100) (55 / 100) True]"

definition beepSound :: "floats \<Rightarrow> real list option" where
  "beepSound F = makeSound F (25 / 100) [toneOf F 1000 0 (22 / 100) (55 / 100) True]"

definition loginSound :: "floats \<Rightarrow> real list option" where
  "loginSound F = makeSound F (18 / 10)
     [toneOf F (52325 / 100) 0 (25 / 100) (5 / 10) True, toneOf F (58733 / 100) (2 / 10) (25 / 100) (55 / 100) True,
      toneOf F (65925 / 100) (4 / 10) (25 / 100) (6 / 10) True, toneOf F (78399 / 100) (6 / 10) (25 / 100) (65 / 100) True,
      toneOf F (104650 / 100) (8 / 10) (8 / 10) (7 / 10) True]"

definition messageReceivedSound :: "floats \<Rightarrow> real list option" where
  "messageReceivedSound F = makeSound F (6 / 10)
     [toneOf F 880 0 (2 / 10) (4 / 10) True, toneOf F (110873 / 100) (15 / 100) (35 / 100) (45 / 100) True]"

text \<open>A tone that starts a constant after an offset.\<close>

definition toneAt :: "floats \<Rightarrow> real \<Rightarrow> real \<Rightarrow> real \<Rightarrow> real \<Rightarrow> real \<Rightarrow> tone" where
  "toneAt F offset freq start dur vol = (toneOf F freq 0 dur vol True)\<lparr>tn_start := fadd F offset (rnd F start)\<rparr>"

definition callIncomingSound :: "floats \<Rightarrow> real list option" where
  "callIncomingSound F = makeSound F 4 (concat (map (\<lambda>rep.
     let offset = fmul F (of_nat rep) 1
     in [toneAt F offset 440 0 (15 / 100) (5 / 10), toneAt F offset (55437 / 100) (5 / 100) (15 / 100) (4 / 10),
         toneAt F offset (65925 / 100) (2 / 10) (25 / 100) (6 / 10), toneAt F offset 880 (25 / 100) (25 / 100) (5 / 10),
         toneAt F offset 440 (55 / 100) (15 / 100) (5 / 10), toneAt F offset (55437 / 100) (6 / 10) (15 / 100) (4 / 10),
         toneAt F offset (65925 / 100) (75 / 100) (2 / 10) (6 / 10)]) [0..<4]))"

definition callOutgoingSound :: "floats \<Rightarrow> real list option" where
  "callOutgoingSound F = makeSound F 4 (concat (map (\<lambda>rep.
     let offset = fmul F (of_nat rep) 2
     in [(toneOf F 440 0 1 (3 / 10) True)\<lparr>tn_start := offset\<rparr>, (toneOf F 480 0 1 (3 / 10) True)\<lparr>tn_start := offset\<rparr>]) [0..<2]))"

definition callEndSound :: "floats \<Rightarrow> real list option" where
  "callEndSound F = makeSound F (8 / 10)
     [toneOf F 880 0 (3 / 10) (5 / 10) True, toneOf F (65925 / 100) (2 / 10) (3 / 10) (45 / 100) True,
      toneOf F 440 (4 / 10) (4 / 10) (4 / 10) True]"

definition callErrorSound :: "floats \<Rightarrow> real list option" where
  "callErrorSound F = makeSound F (5 / 10)
     [toneOf F 200 0 (2 / 10) (5 / 10) False, toneOf F 150 (2 / 10) (3 / 10) (4 / 10) False]"

section \<open>WAV files\<close>

definition le16 :: "16 word \<Rightarrow> 8 word list" where
  "le16 w = [ucast w, ucast (drop_bit 8 w)]"

definition le32 :: "32 word \<Rightarrow> 8 word list" where
  "le32 w = [ucast w, ucast (drop_bit 8 w), ucast (drop_bit 16 w), ucast (drop_bit 24 w)]"

definition ascii :: "string \<Rightarrow> 8 word list" where
  "ascii s = map (\<lambda>c. of_nat (of_char c)) s"

definition maxAbs :: "real list \<Rightarrow> real" where
  "maxAbs samples = foldl (\<lambda>m s. if \<bar>s\<bar> > m then \<bar>s\<bar> else m) 0 samples"

definition normalize :: "floats \<Rightarrow> real list \<Rightarrow> real list" where
  "normalize F samples = (if maxAbs samples > 0 then map (\<lambda>s. fdiv F s (maxAbs samples)) samples else samples)"

definition level :: "floats \<Rightarrow> real \<Rightarrow> int" where
  "level F s = ftrunc (fmul F (fmul F s 32767) (rnd F (8 / 10)))"

definition wavBytes :: "16 word list \<Rightarrow> 8 word list" where
  "wavBytes vals =
     (let dataSize = of_nat (2 * length vals)
      in ascii ''RIFF'' @ le32 (36 + dataSize) @ ascii ''WAVE'' @
         ascii ''fmt '' @ le32 16 @ le16 1 @ le16 1 @ le32 (word_of_int sampleRate) @ le32 (word_of_int (sampleRate * 2)) @ le16 2 @ le16 16 @
         ascii ''data'' @ le32 dataSize @ concat (map le16 vals))"

text \<open>The bytes \<^verbatim>\<open>generate\<close> writes.\<close>

definition generate :: "floats \<Rightarrow> real list \<Rightarrow> 8 word list" where
  "generate F samples = wavBytes (map (\<lambda>s. word_of_int (level F s)) (normalize F samples))"

text \<open>\<^verbatim>\<open>main\<close>: the files and their sounds.\<close>

definition soundFiles :: "floats \<Rightarrow> (string \<times> real list option) list" where
  "soundFiles F =
     [(''Login.wav'', loginSound F), (''login.wav'', loginSound F), (''MessageReceived.wav'', messageReceivedSound F),
      (''message.wav'', messageReceivedSound F), (''incoming.wav'', messageReceivedSound F),
      (''CallIncoming.wav'', callIncomingSound F), (''CallOutgoing.wav'', callOutgoingSound F), (''CallEnd.wav'', callEndSound F),
      (''CallError.wav'', callErrorSound F), (''MessageOutgoing.wav'', messageOutgoingSound F),
      (''MessageIncoming.wav'', messageReceivedSound F), (''FriendOnline.wav'', friendOnlineSound F),
      (''CallHangup.wav'', callEndSound F), (''EchoGreeting.wav'', echoGreetingSound F), (''Beep.wav'', beepSound F)]"

definition soundsDir :: "string list \<Rightarrow> string" where
  "soundsDir args = (if length args > 1 \<and> args ! 1 \<noteq> '''' then args ! 1 else ''assets/sounds'')"

text \<open>A sound that panics and a file that cannot be created both end the program; the files before stay.\<close>

fun generateAll :: "floats \<Rightarrow> (string \<Rightarrow> bool) \<Rightarrow> (string \<times> real list option) list \<Rightarrow> (string \<times> 8 word list) list \<times> bool" where
  "generateAll F writable [] = ([], True)"
| "generateAll F writable ((name, sound) # fs) =
     (case sound of
        None \<Rightarrow> ([], False)
      | Some buf \<Rightarrow>
          if writable name then (case generateAll F writable fs of (ws, ok) \<Rightarrow> ((name, generate F buf) # ws, ok))
          else ([], False))"

definition soundMain :: "floats \<Rightarrow> bool \<Rightarrow> (string \<Rightarrow> bool) \<Rightarrow> (string \<times> 8 word list) list \<times> bool" where
  "soundMain F dirMade writable = (if dirMade then generateAll F writable (soundFiles F) else ([], False))"

section \<open>Reading a file back\<close>

definition rd16 :: "8 word list \<Rightarrow> 16 word" where
  "rd16 bs = or (ucast (bs ! 0)) (push_bit 8 (ucast (bs ! 1)))"

definition rd32 :: "8 word list \<Rightarrow> 32 word" where
  "rd32 bs = or (or (ucast (bs ! 0)) (push_bit 8 (ucast (bs ! 1)))) (or (push_bit 16 (ucast (bs ! 2))) (push_bit 24 (ucast (bs ! 3))))"

fun rdSamples :: "8 word list \<Rightarrow> 16 word list" where
  "rdSamples (a # b # bs) = rd16 [a, b] # rdSamples bs"
| "rdSamples bs = []"

text \<open>A player's view: the two chunk sizes fit the file, the format is mono PCM with 16 bits, and then the rate and the samples.\<close>

definition readWav :: "8 word list \<Rightarrow> (nat \<times> 16 word list) option" where
  "readWav bs =
     (let body = drop 44 bs; rate = rd32 (take 4 (drop 24 bs))
      in if take 4 bs = ascii ''RIFF'' \<and> unat (rd32 (take 4 (drop 4 bs))) + 8 = length bs \<and> take 8 (drop 8 bs) = ascii ''WAVEfmt '' \<and>
            rd32 (take 4 (drop 16 bs)) = 16 \<and> rd16 (take 2 (drop 20 bs)) = 1 \<and> rd16 (take 2 (drop 22 bs)) = 1 \<and>
            rd32 (take 4 (drop 28 bs)) = 2 * rate \<and> rd16 (take 2 (drop 32 bs)) = 2 \<and> rd16 (take 2 (drop 34 bs)) = 16 \<and>
            take 4 (drop 36 bs) = ascii ''data'' \<and> unat (rd32 (take 4 (drop 40 bs))) = length body
         then Some (unat rate, rdSamples body) else None)"

lemma rd16_le16 [simp]: "rd16 [ucast w, ucast (drop_bit 8 w)] = w"
  by (rule bit_word_eqI) (auto simp: rd16_def bit_simps)

lemma rd32_le32 [simp]: "rd32 [ucast w, ucast (drop_bit 8 w), ucast (drop_bit 16 w), ucast (drop_bit 24 w)] = w"
proof (rule bit_word_eqI)
  fix n
  show "bit (rd32 [ucast w, ucast (drop_bit 8 w), ucast (drop_bit 16 w), ucast (drop_bit 24 w)]) n = bit w n" if "n < LENGTH(32)"
    using that by (cases "n < 16"; cases "n < 24") (auto simp: rd32_def bit_simps)
qed

lemma rdSamples_le16 [simp]: "rdSamples (concat (map le16 vals)) = vals"
  by (induction vals) (simp_all add: le16_def)

lemma length_samples [simp]: "length (concat (map le16 vals)) = 2 * length vals"
  by (induction vals) (simp_all add: le16_def)

lemma length_ascii [simp]: "length (ascii s) = length s"
  by (simp add: ascii_def)

lemma header_words:
  "rd32 [16, 0, 0, 0] = 16" "rd16 [1, 0] = 1" "rd16 [2, 0] = 2" "rd16 [16, 0] = 16" "rd32 [44100, 172, 0, 0] = 44100"
  "rd32 [88200, 344, 1, 0] = 88200"
  by (simp_all add: rd32_def rd16_def)

lemma readWav_bytes:
  assumes "length vals < 2 ^ 30"
  shows "readWav (wavBytes vals) = Some (44100, vals)"
proof -
  define N where "N = 2 * length vals"
  then have N: "N < 2 ^ 31" using assms by simp
  have u: "unat (of_nat N :: 32 word) = N" "unat (36 + of_nat N :: 32 word) = 36 + N"
    using N unat_of_nat [where ?'a = 32, of "36 + N"] by (simp_all add: unat_of_nat)
  show ?thesis
    by (simp add: readWav_def wavBytes_def Let_def ascii_def le32_def le16_def [of 1] le16_def [of 2] le16_def [of 16] sampleRate_def
        header_words u N_def [symmetric])
qed

section \<open>Levels\<close>

lemma maxAbs_ge: "\<bar>s\<bar> \<le> maxAbs samples" if "s \<in> set samples"
proof -
  have "m \<le> foldl (\<lambda>m s. if \<bar>s\<bar> > m then \<bar>s\<bar> else m) m xs \<and>
      (\<forall>s \<in> set xs. \<bar>s\<bar> \<le> foldl (\<lambda>m s. if \<bar>s\<bar> > m then \<bar>s\<bar> else m) m xs)" for m :: real and xs
  proof (induction xs arbitrary: m)
    case (Cons x xs)
    then show ?case using Cons [of "\<bar>x\<bar>"] Cons [of m] by (auto simp: not_less intro: order_trans [OF less_imp_le] order_trans)
  qed simp
  with that show ?thesis by (simp add: maxAbs_def)
qed

lemma normalize_bound: "ieee F \<Longrightarrow> s \<in> set (normalize F samples) \<Longrightarrow> \<bar>s\<bar> \<le> 1"
proof (cases "maxAbs samples > 0")
  case True
  assume F: "ieee F" and "s \<in> set (normalize F samples)"
  then obtain r where r: "r \<in> set samples" "s = fdiv F r (maxAbs samples)" using True by (auto simp: normalize_def)
  have "\<bar>r / maxAbs samples\<bar> \<le> 1" using maxAbs_ge [OF r(1)] True by simp
  then show ?thesis using ieee_bound [OF F, of "r / maxAbs samples" 1] by (simp add: r(2) fdiv_def)
next
  case False
  assume "s \<in> set (normalize F samples)"
  then show ?thesis using False maxAbs_ge [of s samples] by (simp add: normalize_def)
qed

lemma level_bound:
  assumes "ieee F" and "\<bar>s\<bar> \<le> 1"
  shows "\<bar>level F s\<bar> \<le> 32767"
proof -
  have a: "\<bar>fmul F s 32767\<bar> \<le> 32767"
    using ieee_bound [OF assms(1), of "s * 32767" 32767] assms(2) by (simp add: fmul_def abs_mult)
  have b: "\<bar>rnd F (8 / 10)\<bar> \<le> 1" using ieee_bound [OF assms(1), of "8 / 10" 1] by simp
  have "\<bar>fmul F s 32767 * rnd F (8 / 10)\<bar> \<le> 32767 * 1"
    unfolding abs_mult by (rule mult_mono) (use a b in auto)
  then have "\<bar>fmul F (fmul F s 32767) (rnd F (8 / 10))\<bar> \<le> 32767"
    using ieee_bound [OF assms(1), of "fmul F s 32767 * rnd F (8 / 10)" 32767] by (simp add: fmul_def)
  then show ?thesis unfolding level_def by (intro ftrunc_bound) simp
qed

lemma sint_level: "\<bar>v\<bar> \<le> 32767 \<Longrightarrow> sint (word_of_int v :: 16 word) = v"
  by (simp add: signed_of_int signed_take_bit_int_eq_self abs_le_iff)

section \<open>Buffers\<close>

lemma ftrunc_nonneg: "0 \<le> x \<Longrightarrow> 0 \<le> ftrunc x"
  by (simp add: ftrunc_def)

lemma fmul_nonneg: "ieee F \<Longrightarrow> 0 \<le> x \<Longrightarrow> 0 \<le> y \<Longrightarrow> 0 \<le> fmul F x y"
  using ieee_mono [of F 0 "x * y"] ieee_int [of F 0] by (simp add: fmul_def)

lemma rnd_nonneg: "ieee F \<Longrightarrow> 0 \<le> x \<Longrightarrow> 0 \<le> rnd F x"
  using ieee_mono [of F 0 x] ieee_int [of F 0] by simp

lemma addTone_ok: "ieee F \<Longrightarrow> 0 \<le> tn_start n \<Longrightarrow> \<exists>b. addTone F n buf = Some b \<and> length b = length buf"
  using ftrunc_nonneg [OF fmul_nonneg [of F "tn_start n" "of_int sampleRate"]]
  by (auto simp: addTone_def Let_def sampleRate_def)

lemma makeSound_ok:
  assumes "ieee F" and "0 \<le> dur" and "dur \<le> 4" and "\<forall>n \<in> set ns. 0 \<le> tn_start n"
  shows "\<exists>b. makeSound F dur ns = Some b \<and> length b \<le> 176400"
proof -
  have "\<exists>b. foldl (\<lambda>b n. Option.bind b (addTone F n)) (Some b0) ns = Some b \<and> length b = length b0" for b0
    using assms(4)
  proof (induction ns arbitrary: b0)
    case (Cons n ns)
    then obtain b1 where "addTone F n b0 = Some b1" "length b1 = length b0" using addTone_ok [OF assms(1), of n b0] by auto
    with Cons.IH [of b1] Cons.prems show ?case by simp
  qed simp
  moreover have "rnd F dur * of_int sampleRate \<le> of_int 176400"
    using ieee_mono [OF assms(1,3)] ieee_int [OF assms(1), of 4] by (simp add: sampleRate_def)
  then have "fmul F (rnd F dur) (of_int sampleRate) \<le> of_int 176400"
    using ieee_mono [OF assms(1)] ieee_int [OF assms(1), of 176400] unfolding fmul_def by fastforce
  then have "ftrunc (fmul F (rnd F dur) (of_int sampleRate)) \<le> 176400"
    using fmul_nonneg [OF assms(1) rnd_nonneg [OF assms(1,2)], of "of_int sampleRate"]
    by (simp add: ftrunc_def sampleRate_def floor_le_iff)
  ultimately show ?thesis unfolding makeSound_def by (metis length_replicate nat_le_iff of_nat_numeral)
qed

lemma toneOf_start: "ieee F \<Longrightarrow> 0 \<le> start \<Longrightarrow> 0 \<le> tn_start (toneOf F freq start dur vol sm)"
  by (simp add: toneOf_def rnd_nonneg)

lemma toneAt_start: "ieee F \<Longrightarrow> 0 \<le> offset \<Longrightarrow> 0 \<le> start \<Longrightarrow> 0 \<le> tn_start (toneAt F offset freq start dur vol)"
  by (simp add: toneAt_def fadd_def rnd_nonneg)

lemmas sound_defs = loginSound_def messageReceivedSound_def callIncomingSound_def callOutgoingSound_def callEndSound_def
  callErrorSound_def messageOutgoingSound_def friendOnlineSound_def echoGreetingSound_def beepSound_def

lemma sound_ok:
  assumes F: "ieee F" and "(name, snd') \<in> set (soundFiles F)"
  shows "\<exists>b. snd' = Some b \<and> length b \<le> 176400"
proof -
  note ok = makeSound_ok [OF F]
  note st = toneOf_start [OF F] toneAt_start [OF F] fmul_nonneg [OF F] rnd_nonneg [OF F]
  have "\<exists>b. loginSound F = Some b \<and> length b \<le> 176400" "\<exists>b. messageReceivedSound F = Some b \<and> length b \<le> 176400"
    "\<exists>b. callEndSound F = Some b \<and> length b \<le> 176400" "\<exists>b. callErrorSound F = Some b \<and> length b \<le> 176400"
    "\<exists>b. messageOutgoingSound F = Some b \<and> length b \<le> 176400" "\<exists>b. friendOnlineSound F = Some b \<and> length b \<le> 176400"
    "\<exists>b. echoGreetingSound F = Some b \<and> length b \<le> 176400" "\<exists>b. beepSound F = Some b \<and> length b \<le> 176400"
    unfolding sound_defs by (rule ok; simp add: st)+
  moreover have "\<exists>b. callIncomingSound F = Some b \<and> length b \<le> 176400" "\<exists>b. callOutgoingSound F = Some b \<and> length b \<le> 176400"
    unfolding sound_defs by (rule ok; auto simp: st Let_def)+
  ultimately show ?thesis using assms(2) unfolding soundFiles_def by auto
qed

text \<open>C39: Every sound file is written and can be played.  With arithmetic that rounds as the standard says, no sound of the
  generator panics, and a reader of each file finds consistent chunk sizes, the rate of 44100, as many samples as
  the buffer has, and in each sample the level the generator computed: none wraps around in its 16 bits.\<close>

theorem sound_files_readable:
  assumes "ieee F" and "(name, sound) \<in> set (soundFiles F)"
  shows "\<exists>buf vals. sound = Some buf \<and> readWav (generate F buf) = Some (44100, vals) \<and>
    map sint vals = map (level F) (normalize F buf) \<and> length vals = length buf"
proof -
  obtain buf where buf: "sound = Some buf" "length buf \<le> 176400" using sound_ok [OF assms] by blast
  let ?vals = "map (\<lambda>s. word_of_int (level F s)) (normalize F buf) :: 16 word list"
  have l: "length ?vals = length buf" by (simp add: normalize_def)
  then have "readWav (generate F buf) = Some (44100, ?vals)"
    unfolding generate_def using buf(2) by (intro readWav_bytes) simp
  moreover have "map sint ?vals = map (level F) (normalize F buf)"
    using sint_level [OF level_bound [OF assms(1) normalize_bound [OF assms(1)]]] by simp
  ultimately show ?thesis using buf(1) l by blast
qed

lemma sound_files_readable_witness:
  "\<exists>buf vals. loginSound \<lparr>rnd = (\<lambda>x. x), sinF = sin, cosF = cos\<rparr> = Some buf \<and>
     readWav (generate \<lparr>rnd = (\<lambda>x. x), sinF = sin, cosF = cos\<rparr> buf) = Some (44100, vals) \<and> length vals = length buf"
  using sound_files_readable [OF ieee_exact, of "''Login.wav''" "loginSound \<lparr>rnd = (\<lambda>x. x), sinF = sin, cosF = cos\<rparr>"]
  by (auto simp: soundFiles_def)

text \<open>When every file can be created the generator runs to its end and has written all of them, in order.\<close>

lemma generateAll_complete:
  assumes "\<And>name sound. (name, sound) \<in> set fs \<Longrightarrow> sound \<noteq> None \<and> writable name"
  shows "generateAll F writable fs = (map (\<lambda>(name, sound). (name, generate F (the sound))) fs, True)"
  using assms
proof (induction fs)
  case (Cons f fs)
  obtain name buf where f: "f = (name, Some buf)" "writable name" using Cons.prems [of "fst f" "snd f"] by (cases f) auto
  have "generateAll F writable fs = (map (\<lambda>(name, sound). (name, generate F (the sound))) fs, True)"
    using Cons.prems by (intro Cons.IH) auto
  then show ?case using f by simp
qed simp

lemma soundMain_complete:
  assumes "ieee F" "\<And>name. writable name"
  shows "soundMain F True writable = (map (\<lambda>(name, sound). (name, generate F (the sound))) (soundFiles F), True)"
  unfolding soundMain_def using sound_ok [OF assms(1)] assms(2) by (subst generateAll_complete) auto

end
