(* ===== verification/Draw.thy ===== *)
theory Draw
  imports Floats "HOL-Library.Word"
begin

text \<open>
  The drawing half of the emoticon generator, \<^verbatim>\<open>nexus_server/cmd/emoticongen/draw.go\<close>.  An image is its size and the colour of
  every pixel; a drawing operation is a function on images.  Coordinates are integers, as small as the pictures,
  colours are four bytes, angles are floating-point numbers of theory \<open>Floats\<close>.  The loop of \<^verbatim>\<open>drawLine\<close> has no bound in
  the code: it is a partial function here, and the theorem shows that it ends, for all end points, after as many steps as
  the longer side of the line has pixels, on the end point, without a gap.
\<close>

section \<open>Images\<close>

datatype NRGBA = RGBA "8 word" "8 word" "8 word" "8 word"

record image =
  imW :: int
  imH :: int
  imPix :: "int \<times> int \<Rightarrow> NRGBA"

definition cell :: int where "cell = 40"

definition newImage :: "int \<Rightarrow> int \<Rightarrow> image" where
  "newImage w h = \<lparr> imW = w, imH = h, imPix = (\<lambda>_. RGBA 0 0 0 0) \<rparr>"

definition inBounds :: "image \<Rightarrow> int \<Rightarrow> int \<Rightarrow> bool" where
  "inBounds img x y \<longleftrightarrow> x \<ge> 0 \<and> x < imW img \<and> y \<ge> 0 \<and> y < imH img"

definition setPix :: "NRGBA \<Rightarrow> int \<times> int \<Rightarrow> image \<Rightarrow> image" where
  "setPix c p img = (if inBounds img (fst p) (snd p) then img\<lparr>imPix := (imPix img)(p := c)\<rparr> else img)"

definition plot :: "NRGBA \<Rightarrow> (int \<times> int) list \<Rightarrow> image \<Rightarrow> image" where
  "plot c ps img = fold (setPix c) ps img"

definition fill :: "NRGBA \<Rightarrow> image \<Rightarrow> image" where
  "fill c img = img\<lparr>imPix := (\<lambda>p. if inBounds img (fst p) (snd p) then c else imPix img p)\<rparr>"

text \<open>FNV-1a with 32 bits, of which the remainder modulo 200 is kept.\<close>

definition fnv32a :: "string \<Rightarrow> 32 word" where
  "fnv32a s = foldl (\<lambda>h c. (xor h (of_nat (of_char c))) * 16777619) 2166136261 s"

definition hashHue :: "string \<Rightarrow> 8 word" where
  "hashHue s = ucast (fnv32a s mod 200)"

section \<open>Shapes\<close>

definition filledCircle :: "int \<Rightarrow> int \<Rightarrow> int \<Rightarrow> NRGBA \<Rightarrow> image \<Rightarrow> image" where
  "filledCircle cx cy r c =
     plot c (concat (map (\<lambda>y. map (\<lambda>x. (cx + x, cy + y)) (filter (\<lambda>x. x * x + y * y \<le> r * r) [- r..r])) [- r..r]))"

text \<open>The pixel at \<open>t\<close> degrees on a circle.\<close>

definition onCircle :: "floats \<Rightarrow> int \<Rightarrow> int \<Rightarrow> int \<Rightarrow> int \<Rightarrow> int \<times> int" where
  "onCircle F cx cy r t =
     (let a = fdiv F (fmul F (of_int t) (rnd F pi)) 180
      in (ftrunc (fadd F (of_int cx) (fmul F (of_int r) (cosF F a))), ftrunc (fadd F (of_int cy) (fmul F (of_int r) (sinF F a)))))"

definition drawCircleOutline :: "floats \<Rightarrow> int \<Rightarrow> int \<Rightarrow> int \<Rightarrow> NRGBA \<Rightarrow> image \<Rightarrow> image" where
  "drawCircleOutline F cx cy r c = plot c (map (\<lambda>k. onCircle F cx cy r (6 * int k)) [0..<60])"

definition drawRect :: "int \<Rightarrow> int \<Rightarrow> int \<Rightarrow> int \<Rightarrow> NRGBA \<Rightarrow> image \<Rightarrow> image" where
  "drawRect x0 y0 x1 y1 c = plot c (concat (map (\<lambda>y. map (\<lambda>x. (x, y)) [x0..x1]) [y0..y1]))"

text \<open>One turn of the loop of \<^verbatim>\<open>drawLine\<close> after the test for the end point, and the points the loop visits.\<close>

definition lineStep :: "int \<Rightarrow> int \<Rightarrow> int \<Rightarrow> int \<Rightarrow> int \<times> int \<times> int \<Rightarrow> int \<times> int \<times> int" where
  "lineStep dx dy sx sy s =
     (let (x, y, err) = s; e2 = 2 * err;
          (x, err) = (if e2 > - dy then (x + sx, err - dy) else (x, err));
          (y, err) = (if e2 < dx then (y + sy, err + dx) else (y, err))
      in (x, y, err))"

partial_function (option) lineLoop ::
  "int \<Rightarrow> int \<Rightarrow> int \<Rightarrow> int \<Rightarrow> int \<Rightarrow> int \<Rightarrow> int \<times> int \<times> int \<Rightarrow> (int \<times> int) list option" where
  "lineLoop dx dy sx sy x1 y1 s =
     (if fst s = x1 \<and> fst (snd s) = y1 then Some [(fst s, fst (snd s))]
      else Option.bind (lineLoop dx dy sx sy x1 y1 (lineStep dx dy sx sy s)) (\<lambda>ps. Some ((fst s, fst (snd s)) # ps)))"

definition linePoints :: "int \<Rightarrow> int \<Rightarrow> int \<Rightarrow> int \<Rightarrow> (int \<times> int) list option" where
  "linePoints x0 y0 x1 y1 =
     (let dx = \<bar>x1 - x0\<bar>; dy = \<bar>y1 - y0\<bar>; sx = (if x0 > x1 then - 1 else 1); sy = (if y0 > y1 then - 1 else 1)
      in lineLoop dx dy sx sy x1 y1 (x0, y0, dx - dy))"

text \<open>A line that never ended would be \<open>None\<close>; \<open>line_drawn\<close> below rules it out.\<close>

definition drawLine :: "int \<Rightarrow> int \<Rightarrow> int \<Rightarrow> int \<Rightarrow> NRGBA \<Rightarrow> image \<Rightarrow> image" where
  "drawLine x0 y0 x1 y1 c img = (case linePoints x0 y0 x1 y1 of None \<Rightarrow> img | Some ps \<Rightarrow> plot c ps img)"

definition drawArcHigh :: "floats \<Rightarrow> int \<Rightarrow> int \<Rightarrow> int \<Rightarrow> NRGBA \<Rightarrow> image \<Rightarrow> image" where
  "drawArcHigh F cx cy r c = plot c (map (\<lambda>k. onCircle F cx cy r (200 + 4 * int k)) [0..<36])"

definition drawArcLow :: "floats \<Rightarrow> int \<Rightarrow> int \<Rightarrow> int \<Rightarrow> NRGBA \<Rightarrow> image \<Rightarrow> image" where
  "drawArcLow F cx cy r c = plot c (map (\<lambda>k. onCircle F cx cy r (20 + 4 * int k)) [0..<36])"

definition drawArc :: "floats \<Rightarrow> int \<Rightarrow> int \<Rightarrow> int \<Rightarrow> NRGBA \<Rightarrow> image \<Rightarrow> image" where
  "drawArc F cx cy r c = drawCircleOutline F cx cy r c"

text \<open>Operations one after the other.\<close>

definition paint :: "(image \<Rightarrow> image) list \<Rightarrow> image \<Rightarrow> image" where
  "paint ops img = fold (\<lambda>f. f) ops img"

definition drawHeartAt :: "int \<Rightarrow> int \<Rightarrow> int \<Rightarrow> NRGBA \<Rightarrow> image \<Rightarrow> image" where
  "drawHeartAt cx cy r0 c =
     (let r = (if r0 < 3 then 3 else r0)
      in paint [filledCircle (cx - r div 2) cy (r * 2 div 3) c, filledCircle (cx + r div 2) cy (r * 2 div 3) c,
                plot c (concat (map (\<lambda>y. let w = max 0 ((y - cy) * (r div 2 + 1) div (r div 2 + 2))
                                         in map (\<lambda>x. (x, y)) [cx - w..cx + w]) [cy..cy + r]))])"

definition drawHeart :: "NRGBA \<Rightarrow> image \<Rightarrow> image" where
  "drawHeart c = drawHeartAt 20 18 12 c"

definition drawRing :: "floats \<Rightarrow> int \<Rightarrow> int \<Rightarrow> int \<Rightarrow> NRGBA \<Rightarrow> image \<Rightarrow> image" where
  "drawRing F cx cy r c = paint [drawCircleOutline F cx cy r c, drawCircleOutline F cx cy (r - 2) (RGBA 245 247 250 255)]"

definition drawMug :: "NRGBA \<Rightarrow> image \<Rightarrow> image" where
  "drawMug c = paint [drawRect 12 14 28 30 c, drawRect 28 18 34 24 c, filledCircle 18 20 3 (RGBA 240 240 250 200)]"

definition drawGlass :: "NRGBA \<Rightarrow> image \<Rightarrow> image" where
  "drawGlass c = paint [drawRect 14 10 26 30 c, drawLine 14 10 26 10 (RGBA 200 220 255 255)]"

definition drawTriangle :: "NRGBA \<Rightarrow> image \<Rightarrow> image" where
  "drawTriangle c =
     plot c (concat (map (\<lambda>y. let w = (y - 14) * 14 div 16 in map (\<lambda>x. (x, y)) [20 - w..20 + w]) [14..30]))"

definition ray :: "floats \<Rightarrow> int \<Rightarrow> int \<Rightarrow> real \<Rightarrow> int \<Rightarrow> NRGBA \<Rightarrow> image \<Rightarrow> image" where
  "ray F cx cy ang len c =
     plot c (map (\<lambda>t. (ftrunc (fadd F (of_int cx) (fmul F (of_int t) (cosF F ang))),
                       ftrunc (fadd F (of_int cy) (fmul F (of_int t) (sinF F ang))))) [2..len - 1])"

text \<open>The angle \<^verbatim>\<open>float64(k)*2*math.Pi/5\<close>.\<close>

definition petal :: "floats \<Rightarrow> int \<Rightarrow> real" where
  "petal F k = fdiv F (fmul F (fmul F (of_int k) 2) (rnd F pi)) 5"

definition drawStar :: "floats \<Rightarrow> int \<Rightarrow> int \<Rightarrow> int \<Rightarrow> NRGBA \<Rightarrow> image \<Rightarrow> image" where
  "drawStar F cx cy r c =
     paint (map (\<lambda>k.
       let a0 = fsub F (petal F k) (rnd F (pi / 2)); a1 = fsub F (petal F (k + 1)) (rnd F (pi / 2))
       in drawLine (ftrunc (fadd F (of_int cx) (fmul F (of_int r) (cosF F a0)))) (ftrunc (fadd F (of_int cy) (fmul F (of_int r) (sinF F a0))))
            (ftrunc (fadd F (of_int cx) (fmul F (of_int (r div 2)) (cosF F a1))))
            (ftrunc (fadd F (of_int cy) (fmul F (of_int (r div 2)) (sinF F a1)))) c) [0, 1, 2, 3, 4])"

definition drawNote :: "image \<Rightarrow> image" where
  "drawNote = paint [drawRect 14 8 20 26 (RGBA 40 40 50 255), drawRect 18 10 28 14 (RGBA 40 40 50 255)]"

definition drawHands :: "bool \<Rightarrow> image \<Rightarrow> image" where
  "drawHands clap =
     paint ([filledCircle 14 22 8 (RGBA 255 210 170 255), filledCircle 26 22 8 (RGBA 255 210 170 255)] @
            (if clap then [drawLine 14 14 26 14 (RGBA 200 200 200 255)] else []))"

definition drawThumb :: "bool \<Rightarrow> image \<Rightarrow> image" where
  "drawThumb up =
     paint [drawRect 18 10 24 28 (RGBA 255 210 170 255),
            if up then drawRect 16 8 22 14 (RGBA 255 210 170 255) else drawRect 16 24 22 30 (RGBA 255 210 170 255)]"

definition drawCurveHug :: "floats \<Rightarrow> image \<Rightarrow> image" where
  "drawCurveHug F = paint [drawArc F 14 24 10 (RGBA 255 200 160 255), drawArc F 26 24 10 (RGBA 255 200 160 255)]"

text \<open>A block per letter, for the first two (labels are ASCII, one byte per letter).\<close>

definition drawMiniText :: "string \<Rightarrow> NRGBA \<Rightarrow> image \<Rightarrow> image" where
  "drawMiniText s c =
     paint (map (\<lambda>i. let ox = 14 + int i * 10 in drawRect ox 14 (ox + 6) 24 c) [0..<min 2 (length s)])"

definition drawBadge :: "string \<Rightarrow> NRGBA \<Rightarrow> image \<Rightarrow> image" where
  "drawBadge label bg =
     (let l = (if label = '''' then ''?'' else label)
      in paint [filledCircle 20 20 16 bg, drawMiniText (take 2 l) (RGBA 255 255 255 255)])"

definition drawBug :: "image \<Rightarrow> image" where
  "drawBug = paint [drawLine 10 20 30 20 (RGBA 60 60 40 255), filledCircle 8 18 3 (RGBA 40 40 40 255), filledCircle 32 18 3 (RGBA 40 40 40 255)]"

definition drawSpiral :: "floats \<Rightarrow> int \<Rightarrow> image \<Rightarrow> image" where
  "drawSpiral F frame =
     plot (RGBA 120 100 180 255) (map (\<lambda>t.
       let a = fdiv F (of_int (t + frame * 4)) 8; r = fdiv F (of_int t) 15
       in (ftrunc (fadd F 20 (fmul F r (cosF F a))), ftrunc (fadd F 20 (fmul F r (sinF F a))))) [0..119])"

definition drawConfetti :: "int \<Rightarrow> image \<Rightarrow> image" where
  "drawConfetti frame =
     paint (fill (RGBA 40 44 60 255) # map (\<lambda>i.
       let x = (i * 7 + frame * 3) mod 36; y = (i * 5 + frame) mod 36
       in drawRect (2 + x) (2 + y) (4 + x) (5 + y)
            (RGBA (word_of_int (100 + i * 10)) (word_of_int (200 - i * 8)) (word_of_int (150 + i * 5)) 255)) [0..11])"

definition drawStickDance :: "int \<Rightarrow> image \<Rightarrow> image" where
  "drawStickDance frame =
     (let d = frame mod 4
      in paint [drawLine 20 10 20 26 (RGBA 60 60 80 255), drawLine 20 16 (12 + d * 2) 20 (RGBA 60 60 80 255),
                drawLine 20 16 (28 - d * 2) 20 (RGBA 60 60 80 255)])"

definition drawArrow :: "int \<Rightarrow> int \<Rightarrow> int \<Rightarrow> int \<Rightarrow> NRGBA \<Rightarrow> image \<Rightarrow> image" where
  "drawArrow x0 y0 x1 y1 c = drawLine x0 y0 x1 y1 c"

definition drawClock :: "floats \<Rightarrow> int \<Rightarrow> NRGBA \<Rightarrow> image \<Rightarrow> image" where
  "drawClock F frame c =
     (let a = fmul F (fmul F (fdiv F (of_int (frame mod 60)) 60) 2) (rnd F pi)
      in paint [drawCircleOutline F 20 20 14 c,
                drawLine 20 20 (20 + ftrunc (fmul F 9 (sinF F a))) (20 - ftrunc (fmul F 9 (cosF F a))) (RGBA 200 80 80 255)])"

definition drawBulb :: "image \<Rightarrow> image" where
  "drawBulb = paint [filledCircle 20 14 10 (RGBA 255 240 160 255), drawRect 16 22 24 32 (RGBA 160 160 170 255)]"

definition drawAnimal :: "string \<Rightarrow> NRGBA \<Rightarrow> image \<Rightarrow> image" where
  "drawAnimal letter fur = paint [filledCircle 20 22 12 fur, drawMiniText letter (RGBA 40 40 50 255)]"

definition drawHair :: "NRGBA \<Rightarrow> image \<Rightarrow> image" where
  "drawHair c = paint (map (\<lambda>x. drawLine x 8 (x + 4) 22 c) [8..31])"

definition drawSkull :: "image \<Rightarrow> image" where
  "drawSkull = paint [filledCircle 20 20 12 (RGBA 240 240 240 255), filledCircle 16 18 2 (RGBA 40 40 40 255),
     filledCircle 24 18 2 (RGBA 40 40 40 255), drawLine 16 26 24 26 (RGBA 40 40 40 255)]"

definition drawGhost :: "image \<Rightarrow> image" where
  "drawGhost = paint (filledCircle 20 16 10 (RGBA 240 240 250 255) #
     map (\<lambda>x. drawLine x 22 (x + 2) 34 (RGBA 230 230 245 255)) [10, 14, 18, 22, 26])"

section \<open>Faces and stems\<close>

definition mouthOps :: "floats \<Rightarrow> int \<Rightarrow> (image \<Rightarrow> image) list" where
  "mouthOps F mouth =
     (if mouth = 0 \<or> mouth = 7 then [drawLine 14 24 26 24 (RGBA 80 40 40 255)]
      else if mouth = 1 then [drawArcLow F 20 22 8 (RGBA 80 40 40 255)]
      else if mouth = 2 then [drawArcHigh F 20 20 10 (RGBA 120 40 40 255)]
      else if mouth = 3 then [drawLine 18 24 24 24 (RGBA 200 80 120 255)]
      else if mouth = 4 then [drawArcHigh F 20 18 8 (RGBA 80 40 40 255), filledCircle 20 28 4 (RGBA 255 100 140 255)]
      else if mouth = 5 then [drawCircleOutline F 20 24 5 (RGBA 60 40 40 255)]
      else if mouth = 6 then [drawLine 12 14 18 18 (RGBA 60 40 40 255), drawLine 28 14 22 18 (RGBA 60 40 40 255),
                              drawLine 14 26 26 26 (RGBA 80 40 40 255)]
      else if mouth = 8 then [drawLine 15 24 27 22 (RGBA 80 40 40 255)]
      else if mouth = 9 then [drawHeartAt 14 14 4 (RGBA 230 60 90 255), drawHeartAt 26 14 4 (RGBA 230 60 90 255),
                              drawArcHigh F 20 20 8 (RGBA 120 40 40 255)]
      else [drawArcHigh F 20 20 8 (RGBA 120 40 40 255)])"

definition drawFace :: "floats \<Rightarrow> NRGBA \<Rightarrow> bool \<Rightarrow> bool \<Rightarrow> int \<Rightarrow> int \<Rightarrow> image \<Rightarrow> image" where
  "drawFace F skin eyesOpen tear dx mouth =
     (let eyeL = 14 + dx; eyeR = 26 + dx
      in paint ([filledCircle 20 20 16 skin] @
                (if eyesOpen then [filledCircle eyeL 16 2 (RGBA 40 40 50 255), filledCircle eyeR 16 2 (RGBA 40 40 50 255)]
                 else [drawLine (eyeL - 2) 16 (eyeL + 2) 16 (RGBA 40 40 50 255), drawLine (eyeR - 2) 16 (eyeR + 2) 16 (RGBA 40 40 50 255)]) @
                (if tear then [filledCircle eyeL 20 2 (RGBA 100 160 255 200)] else []) @
                mouthOps F mouth))"

text \<open>The cases of the switch in \<^verbatim>\<open>drawStem\<close>, in two halves.\<close>

definition stemOpsA :: "floats \<Rightarrow> string \<Rightarrow> int \<Rightarrow> (image \<Rightarrow> image) list option" where
  "stemOpsA F stem frame =
     (let dx = frame mod 3 - 1
      in if stem = ''smile'' then Some ([drawFace F (RGBA 255 220 140 255) True False (1 + dx) 0])
         else if stem = ''sad'' then Some ([drawFace F (RGBA 255 210 160 255) False True dx 0])
         else if stem = ''laugh'' then Some ([drawFace F (RGBA 255 230 150 255) True False dx 2])
         else if stem = ''wink'' then Some ([drawFace F (RGBA 255 220 140 255) True False dx 1])
         else if stem = ''heart'' then Some ([drawHeart (RGBA 230 40 60 255)])
         else if stem = ''kiss'' then Some ([drawFace F (RGBA 255 200 200 255) True False dx 3])
         else if stem = ''cool''
           then Some ([drawFace F (RGBA 255 210 150 255) True False dx 0, drawRect 6 10 34 18 (RGBA 20 20 80 220)])
         else if stem = ''tongue'' then Some ([drawFace F (RGBA 255 220 140 255) True False dx 4])
         else if stem \<in> {''surprised'', ''speechless''} then Some ([drawFace F (RGBA 255 220 140 255) True False dx 5])
         else if stem = ''angry'' then Some ([drawFace F (RGBA 255 180 150 255) True False dx 6])
         else if stem \<in> {''cry'', ''crying''}
           then Some ([drawFace F (RGBA 200 220 255 255) True True dx 1] @ map (\<lambda>i. filledCircle (14 + i * 6) 28 1 (RGBA 80 140 255 200)) [0, 1, 2])
         else if stem \<in> {''bored'', ''dull''} then Some ([drawFace F (RGBA 220 220 220 255) True False dx 7])
         else if stem \<in> {''confused'', ''thinking'', ''typing''}
           then Some ([drawFace F (RGBA 255 225 180 255) True False dx 8])
         else if stem = ''wonder'' then Some ([drawFace F (RGBA 255 235 200 255) True False dx 5])
         else if stem = ''embarrassed''
           then Some ([drawFace F (RGBA 255 190 190 255) True False dx 0] @ map (\<lambda>x. filledCircle x 16 2 (RGBA 255 80 80 120)) [10, 14, 18, 22, 26])
         else if stem = ''blush''
           then Some ([drawFace F (RGBA 255 200 200 255) True False dx 0, filledCircle 10 22 5 (RGBA 255 120 140 140), filledCircle 30 22 5 (RGBA 255 120 140 140)])
         else if stem = ''devil''
           then Some ([drawFace F (RGBA 255 160 160 255) True False dx 6, filledCircle 8 6 3 (RGBA 40 40 40 255), filledCircle 32 6 3 (RGBA 40 40 40 255)])
         else if stem = ''angel''
           then Some ([drawFace F (RGBA 255 240 220 255) True False dx 1, drawRing F 20 6 14 (RGBA 255 255 200 200)])
         else if stem = ''coffee'' then Some ([drawMug (RGBA 90 60 40 255)])
         else if stem = ''pizza'' then Some ([drawTriangle (RGBA 240 180 60 255), filledCircle 20 22 6 (RGBA 220 60 40 255)])
         else if stem = ''beer'' then Some ([drawGlass (RGBA 240 200 80 255)])
         else if stem = ''drink'' then Some ([drawGlass (RGBA 180 220 255 255)])
         else if stem = ''cake''
           then Some ([drawRect 10 18 30 32 (RGBA 250 200 160 255), filledCircle 20 14 8 (RGBA 255 80 120 255)])
         else if stem = ''sun''
           then Some (map (\<lambda>a. ray F 20 20 (fdiv F (fmul F (of_int a) (rnd F pi)) 4) 18 (RGBA 255 210 40 255)) [0, 1, 2, 3, 4, 5, 6, 7] @ [filledCircle 20 20 10 (RGBA 255 230 60 255)])
         else if stem = ''moon''
           then Some ([filledCircle 18 16 12 (RGBA 240 240 200 255), filledCircle 24 14 12 (RGBA 245 247 250 255)])
         else if stem = ''star'' then Some ([drawStar F 20 20 14 (RGBA 255 210 40 255)])
         else if stem = ''rain''
           then Some (map (\<lambda>i. drawLine (4 + i * 8) (8 + i * 2) (10 + i * 8) 32 (RGBA 80 140 255 200)) [0, 1, 2, 3, 4])
         else if stem = ''snow''
           then Some (map (\<lambda>i. filledCircle (8 + i * 6) (10 + (i mod 3) * 8) 2 (RGBA 220 240 255 255)) [0, 1, 2, 3, 4, 5])
         else if stem = ''phone''
           then Some ([drawRect 14 8 26 32 (RGBA 40 40 50 255), filledCircle 20 28 2 (RGBA 100 255 120 255)])
         else if stem = ''music'' then Some ([drawNote])
         else if stem = ''movie'' then Some ([drawRect 8 12 32 28 (RGBA 30 30 35 255), filledCircle 16 22 3 (RGBA 255 80 80 255)])
         else if stem = ''flower''
           then Some (map (\<lambda>a. filledCircle (20 + ftrunc (fmul F 8 (cosF F (petal F a)))) (20 + ftrunc (fmul F 8 (sinF F (petal F a)))) 4 (RGBA 255 120 200 255)) [0, 1, 2, 3, 4] @ [filledCircle 20 20 4 (RGBA 255 220 80 255)])
         else if stem = ''rose''
           then Some ([drawRect 18 14 22 34 (RGBA 40 120 60 255), filledCircle 20 12 8 (RGBA 220 40 80 255)])
         else if stem = ''brokenheart'' then Some ([drawHeart (RGBA 80 80 90 255), drawLine 12 12 28 28 (RGBA 200 40 40 255)])
         else if stem = ''clap'' then Some ([drawHands True])
         else if stem = ''handshake'' then Some ([drawHands False])
         else if stem \<in> {''muscle'', ''flex''}
           then Some ([drawRect 14 10 26 30 (RGBA 255 200 160 255), drawLine 10 16 30 12 (RGBA 60 60 60 255)])
         else if stem = ''thumbsup'' then Some ([drawThumb True])
         else if stem = ''thumbsdown'' then Some ([drawThumb False])
         else if stem = ''bow'' then Some ([drawArc F 20 22 16 (RGBA 60 60 80 255)])
         else None)"

definition stemOpsB :: "floats \<Rightarrow> string \<Rightarrow> int \<Rightarrow> (image \<Rightarrow> image) list option" where
  "stemOpsB F stem frame =
     (let dx = frame mod 3 - 1
      in if stem = ''wave''
           then Some ([drawLine 8 24 32 10 (RGBA 255 200 140 255), drawLine 8 20 32 8 (RGBA 255 200 140 255)])
         else if stem = ''hug'' then Some ([drawCurveHug F])
         else if stem \<in> {''finger'', ''toivo'', ''tmi'', ''fubar'', ''wtf''} then Some ([drawBadge stem (RGBA 200 40 40 255)])
         else if stem = ''rock'' then Some ([drawStar F 20 20 10 (RGBA 200 100 240 255)])
         else if stem = ''poolparty'' then Some ([fill (RGBA 120 200 255 255), filledCircle 20 22 10 (RGBA 255 220 100 255)])
         else if stem = ''mooning'' then Some ([drawBadge ''!'' (RGBA 255 200 120 255)])
         else if stem = ''bug'' then Some ([drawBug])
         else if stem = ''drunk'' then Some ([drawSpiral F frame])
         else if stem = ''bandit''
           then Some ([drawRect 8 14 32 26 (RGBA 40 40 40 255), drawRect 10 18 30 8 (RGBA 255 255 255 200)])
         else if stem = ''sweat''
           then Some ([drawFace F (RGBA 255 220 140 255) True False dx 0, drawLine 28 8 24 18 (RGBA 80 160 255 200)])
         else if stem = ''cheeky'' then Some ([drawFace F (RGBA 255 220 140 255) True False dx 4])
         else if stem \<in> {''sleepy'', ''yawn''}
           then Some ([drawFace F (RGBA 230 230 250 255) True False dx 7, drawLine 14 26 26 26 (RGBA 80 80 120 255)])
         else if stem = ''inlove'' then Some ([drawFace F (RGBA 255 200 210 255) True False dx 9])
         else if stem \<in> {''evilgrin'', ''egrin''} then Some ([drawFace F (RGBA 200 240 200 255) True False dx 2])
         else if stem = ''party'' then Some ([drawConfetti frame])
         else if stem = ''dance'' then Some ([drawStickDance frame])
         else if stem = ''punch'' then Some ([drawLine 10 20 30 12 (RGBA 180 80 40 255)])
         else if stem = ''highfive'' then Some ([drawLine 8 28 32 8 (RGBA 255 180 100 255)])
         else if stem = ''nod'' then Some ([drawArrow 20 12 20 28 (RGBA 60 160 80 255)])
         else if stem = ''shake'' then Some ([drawArrow 20 28 20 12 (RGBA 200 80 60 255)])
         else if stem = ''wait'' then Some ([drawClock F frame (RGBA 100 100 120 255)])
         else if stem \<in> {''mail'', ''e''}
           then Some ([drawRect 10 12 30 26 (RGBA 240 240 245 255), drawLine 14 18 26 18 (RGBA 60 60 80 255)])
         else if stem \<in> {''idea'', ''i''} then Some ([drawBulb])
         else if stem \<in> {''time'', ''clock''} then Some ([drawClock F frame (RGBA 60 60 80 255)])
         else if stem \<in> {''laptop'', ''computer'', ''work''}
           then Some ([drawRect 8 14 32 26 (RGBA 70 75 90 255), drawRect 10 16 28 18 (RGBA 180 200 255 255)])
         else if stem = ''cat'' then Some ([drawAnimal ''C'' (RGBA 200 200 210 255)])
         else if stem = ''dog'' then Some ([drawAnimal ''D'' (RGBA 210 170 120 255)])
         else if stem = ''snail'' then Some ([drawSpiral F frame])
         else if stem = ''cash''
           then Some ([drawRect 12 14 28 26 (RGBA 60 140 80 255), drawLine 22 16 22 28 (RGBA 255 240 200 255), drawLine 18 20 26 20 (RGBA 255 240 200 255)])
         else if stem = ''bank''
           then Some ([drawRect 8 16 32 28 (RGBA 100 100 120 255), drawRect 12 20 24 8 (RGBA 255 220 120 255)])
         else if stem = ''pig'' then Some ([drawAnimal ''P'' (RGBA 255 180 210 255)])
         else if stem = ''bike''
           then Some ([drawCircleOutline F 12 24 6 (RGBA 60 60 60 255), drawCircleOutline F 28 24 6 (RGBA 60 60 60 255), drawLine 12 24 28 24 (RGBA 80 80 120 255)])
         else if stem = ''car''
           then Some ([drawRect 8 18 32 28 (RGBA 80 120 200 255), filledCircle 12 28 3 (RGBA 40 40 40 255), filledCircle 28 28 3 (RGBA 40 40 40 255)])
         else if stem = ''plane''
           then Some ([drawLine 8 20 32 16 (RGBA 120 160 220 255), drawLine 20 12 20 26 (RGBA 120 160 220 255)])
         else if stem \<in> {''gift'', ''present''}
           then Some ([drawRect 12 14 28 30 (RGBA 220 80 80 255), drawRect 8 18 32 8 (RGBA 255 220 100 255)])
         else if stem = ''monkey'' then Some ([drawAnimal ''M'' (RGBA 180 140 100 255)])
         else if stem = ''ninja''
           then Some ([drawRect 10 12 30 22 (RGBA 40 40 50 255), drawLine 8 14 32 10 (RGBA 200 200 200 255)])
         else if stem = ''emo'' then Some ([drawHair (RGBA 40 40 50 255)])
         else if stem = ''headbang'' then Some ([drawLine 20 8 (20 + (dx * 2)) 30 (RGBA 120 80 60 255)])
         else if stem \<in> {''whew'', ''rofl'', ''giggle'', ''chuckle''}
           then Some ([drawFace F (RGBA 255 230 180 255) True False dx 2])
         else if stem \<in> {''puke'', ''sick''}
           then Some ([fill (RGBA 220 255 200 255), drawFace F (RGBA 200 240 200 255) True False dx 5])
         else if stem = ''doh''
           then Some ([drawFace F (RGBA 255 220 160 255) True False dx 6, drawLine 10 8 30 12 (RGBA 60 60 60 255)])
         else if stem = ''bomb'' then Some ([filledCircle 22 18 10 (RGBA 40 40 40 255), drawLine 22 8 26 4 (RGBA 255 200 80 255)])
         else if stem = ''skull'' then Some ([drawSkull])
         else if stem = ''ghost'' then Some ([drawGhost])
         else if stem = ''rainbow''
           then Some (map (\<lambda>i. drawRect (4 + i * 5) 12 (9 + i * 5) 28 (RGBA (word_of_int (255 - i * 30)) (word_of_int (60 + i * 25)) (word_of_int (200 - i * 20)) 255)) [0, 1, 2, 3, 4, 5, 6])
         else if stem = ''phaze_logo_small'' then Some ([fill (RGBA 0 175 240 255), drawRect 10 12 30 28 (RGBA 255 255 255 255)])
         else None)"

definition stemDefault :: "string \<Rightarrow> (image \<Rightarrow> image) list" where
  "stemDefault stem =
     (let h = hashHue stem
      in [fill (RGBA h (200 - h div 2) (240 - h) 255), filledCircle 20 20 12 (RGBA 255 255 255 220),
          drawMiniText (take 2 stem) (RGBA 40 40 60 255)])"

definition drawStem :: "floats \<Rightarrow> string \<Rightarrow> int \<Rightarrow> image \<Rightarrow> image" where
  "drawStem F stem frame img =
     paint (fill (RGBA 245 247 250 255) #
            (case stemOpsA F stem frame of
               Some ops \<Rightarrow> ops
             | None \<Rightarrow> (case stemOpsB F stem frame of Some ops \<Rightarrow> ops | None \<Rightarrow> stemDefault stem))) img"

section \<open>Lines\<close>

text \<open>
  The state of the loop with \<open>n\<close> steps to go along the longer axis, here the first: \<open>j\<close> steps have been made along the
  other one, and the error term stays in a range in which the longer axis always advances.
\<close>

definition alongFirst :: "int \<Rightarrow> int \<Rightarrow> int \<Rightarrow> int \<Rightarrow> int \<Rightarrow> int \<Rightarrow> nat \<Rightarrow> int \<times> int \<times> int \<Rightarrow> bool" where
  "alongFirst dx dy sx sy x1 y1 n s =
     (case s of (x, y, err) \<Rightarrow> \<exists>j. x1 = x + sx * int n \<and> y1 = y + sy * (dy - j) \<and>
        err = dx * (j + 1) - dy * (dx - int n + 1) \<and> - dy < 2 * err \<and> 2 * err < 3 * dx - 2 * dy)"

lemma alongFirst_init:
  "0 < dx \<Longrightarrow> dy \<le> dx \<Longrightarrow> alongFirst dx dy sx sy (x + sx * dx) (y + sy * dy) (nat dx) (x, y, dx - dy)"
  by (auto simp: alongFirst_def algebra_simps intro!: exI [of _ 0])

lemma alongFirst_step:
  assumes "alongFirst dx dy sx sy x1 y1 (Suc n) s" "0 \<le> dy" "dy \<le> dx" "sx \<noteq> 0"
  shows "\<not> (fst s = x1 \<and> fst (snd s) = y1) \<and> alongFirst dx dy sx sy x1 y1 n (lineStep dx dy sx sy s)"
proof -
  obtain x y err where s: "s = (x, y, err)" by (cases s) auto
  obtain j where x: "x1 = x + sx * int (Suc n)" and y: "y1 = y + sy * (dy - j)"
    and e: "err = dx * (j + 1) - dy * (dx - int (Suc n) + 1)" and lo: "- dy < 2 * err" and hi: "2 * err < 3 * dx - 2 * dy"
    using assms(1) unfolding alongFirst_def s prod.case by blast
  have "x \<noteq> x1" using x assms(4) by simp
  moreover have "alongFirst dx dy sx sy x1 y1 n (lineStep dx dy sx sy s)"
  proof (cases "2 * err < dx")
    case True
    then have "lineStep dx dy sx sy s = (x + sx, y + sy, err - dy + dx)" using lo by (simp add: lineStep_def s)
    then show ?thesis using x y e lo True assms(2,3)
      by (auto simp: alongFirst_def algebra_simps intro!: exI [of _ "j + 1"])
  next
    case False
    then have "lineStep dx dy sx sy s = (x + sx, y, err - dy)" using lo by (simp add: lineStep_def s)
    then show ?thesis using x y e hi False assms(2,3)
      by (auto simp: alongFirst_def algebra_simps intro!: exI [of _ j])
  qed
  ultimately show ?thesis by (simp add: s)
qed

lemma alongFirst_end:
  assumes "alongFirst dx dy sx sy x1 y1 0 s" "0 \<le> dy" "0 < dx"
  shows "fst s = x1 \<and> fst (snd s) = y1"
proof -
  obtain x y err where s: "s = (x, y, err)" by (cases s) auto
  obtain j where x: "x1 = x + sx * int 0" and y: "y1 = y + sy * (dy - j)"
    and e: "err = dx * (j + 1) - dy * (dx - int 0 + 1)" and lo: "- dy < 2 * err" and hi: "2 * err < 3 * dx - 2 * dy"
    using assms(1) unfolding alongFirst_def s prod.case by blast
  have "0 < dx * (2 * (j + 1 - dy))" using e lo assms(2) by (simp add: algebra_simps)
  then have a: "0 < 2 * (j + 1 - dy)" using assms(3) by (simp only: zero_less_mult_pos)
  have "dx * (2 * (j + 1 - dy)) < dx * 3" using e hi by (simp add: algebra_simps)
  then have "2 * (j + 1 - dy) < 3" using assms(3) by (simp only: mult_less_cancel_left_pos)
  with a have "j = dy" by presburger
  then show ?thesis using x y by (simp add: s)
qed

text \<open>The two axes have the same part in the loop, with the error term negated.\<close>

definition swapAxes :: "int \<times> int \<times> int \<Rightarrow> int \<times> int \<times> int" where
  "swapAxes s = (case s of (x, y, err) \<Rightarrow> (y, x, - err))"

lemma lineStep_swap: "swapAxes (lineStep dx dy sx sy s) = lineStep dy dx sy sx (swapAxes s)"
  by (cases s) (auto simp: swapAxes_def lineStep_def)

lemma fst_swapAxes: "fst (swapAxes s) = fst (snd s)" "fst (snd (swapAxes s)) = fst s"
  by (cases s; simp add: swapAxes_def)+

text \<open>Neighbouring points of a line touch, at a side or at a corner.\<close>

definition gapless :: "(int \<times> int) list \<Rightarrow> bool" where
  "gapless ps = successively (\<lambda>p q. \<bar>fst q - fst p\<bar> \<le> 1 \<and> \<bar>snd q - snd p\<bar> \<le> 1) ps"

lemma lineLoop_ends:
  assumes step: "\<And>n s. I (Suc n) s \<Longrightarrow> \<not> (fst s = x1 \<and> fst (snd s) = y1) \<and> I n (lineStep dx dy sx sy s)"
    and stop: "\<And>s. I 0 s \<Longrightarrow> fst s = x1 \<and> fst (snd s) = y1"
    and unit: "\<bar>sx\<bar> \<le> 1" "\<bar>sy\<bar> \<le> 1" and init: "I n s"
  shows "\<exists>ps. lineLoop dx dy sx sy x1 y1 s = Some ps \<and> length ps = Suc n \<and> hd ps = (fst s, fst (snd s)) \<and>
    last ps = (x1, y1) \<and> gapless ps"
  using init
proof (induction n arbitrary: s)
  case 0
  then show ?case using stop [of s] by (simp add: lineLoop.simps gapless_def)
next
  case (Suc n)
  let ?t = "lineStep dx dy sx sy s"
  from step [OF Suc.prems] obtain ps where ps: "lineLoop dx dy sx sy x1 y1 ?t = Some ps" "length ps = Suc n"
    "hd ps = (fst ?t, fst (snd ?t))" "last ps = (x1, y1)" "gapless ps" using Suc.IH by blast
  have "lineLoop dx dy sx sy x1 y1 s = Some ((fst s, fst (snd s)) # ps)"
    using step [OF Suc.prems] ps(1) by (subst lineLoop.simps) auto
  moreover have "\<bar>fst ?t - fst s\<bar> \<le> 1 \<and> \<bar>fst (snd ?t) - fst (snd s)\<bar> \<le> 1"
    using unit by (cases s) (auto simp: lineStep_def Let_def)
  ultimately show ?case using ps by (cases ps) (auto simp: gapless_def)
qed


section \<open>What is painted\<close>

text \<open>The points of a rectangle whose lower edge lies above its upper one: there are none, and nothing is drawn.\<close>

lemma drawRect_upside_down: "y1 < y0 \<Longrightarrow> drawRect x0 y0 x1 y1 c img = img"
  by (simp add: drawRect_def plot_def)

lemma imSize_setPix [simp]: "imW (setPix c p img) = imW img" "imH (setPix c p img) = imH img"
  by (simp_all add: setPix_def)

lemma imSize_plot [simp]: "imW (plot c ps img) = imW img" "imH (plot c ps img) = imH img"
  unfolding plot_def by (induction ps arbitrary: img) simp_all

lemma inBounds_setPix [simp]: "inBounds (setPix c p img) x y = inBounds img x y"
  by (simp add: inBounds_def)

lemma imPix_plot:
  "imPix (plot c ps img) q = (if q \<in> set ps \<and> inBounds img (fst q) (snd q) then c else imPix img q)"
  unfolding plot_def by (induction ps arbitrary: img) (auto simp: setPix_def inBounds_def)

lemma imPix_drawRect:
  "imPix (drawRect x0 y0 x1 y1 c img) (x, y) =
     (if x0 \<le> x \<and> x \<le> x1 \<and> y0 \<le> y \<and> y \<le> y1 \<and> inBounds img x y then c else imPix img (x, y))"
  by (auto simp: drawRect_def imPix_plot image_iff)

lemma imPix_filledCircle:
  "imPix (filledCircle cx cy r c img) (x, y) =
     (if (x - cx) * (x - cx) + (y - cy) * (y - cy) \<le> r * r \<and> \<bar>x - cx\<bar> \<le> r \<and> \<bar>y - cy\<bar> \<le> r \<and> inBounds img x y then c
      else imPix img (x, y))"
proof -
  have "(x, y) \<in> set (concat (map (\<lambda>y. map (\<lambda>x. (cx + x, cy + y)) (filter (\<lambda>x. x * x + y * y \<le> r * r) [- r..r])) [- r..r])) \<longleftrightarrow>
    (x - cx) * (x - cx) + (y - cy) * (y - cy) \<le> r * r \<and> \<bar>x - cx\<bar> \<le> r \<and> \<bar>y - cy\<bar> \<le> r" (is "?L \<longleftrightarrow> ?R")
  proof
    assume ?L then show ?R by auto
  next
    assume ?R then show ?L by (force intro!: bexI [of _ "y - cy"] image_eqI [of _ _ "x - cx"])
  qed
  then show ?thesis by (simp add: filledCircle_def imPix_plot)
qed

text \<open>
  Rows are counted from the top of the picture.  With exact arithmetic the arc of \<^verbatim>\<open>drawArcHigh\<close> lies above its centre and
  that of \<^verbatim>\<open>drawArcLow\<close> below: the mouth the code calls a big smile has its corners down, and the one it calls sad has them up.
\<close>

abbreviation exactF :: floats where "exactF \<equiv> \<lparr>rnd = (\<lambda>x. x), sinF = sin, cosF = cos\<rparr>"

lemma onCircle_high: "180 \<le> t \<Longrightarrow> t < 360 \<Longrightarrow> 0 \<le> r \<Longrightarrow> 0 \<le> cy \<Longrightarrow> snd (onCircle exactF cx cy r t) \<le> cy"
proof -
  assume a: "180 \<le> t" "t < 360" "0 \<le> r" "0 \<le> cy"
  have "sin (of_int t * pi / 180) \<le> 0" using a(1,2) by (intro sin_le_zero) (simp_all add: field_simps)
  then have "of_int r * sin (of_int t * pi / 180) \<le> 0" using a(3) by (simp add: mult_nonneg_nonpos)
  then show ?thesis using a(4) by (auto simp: onCircle_def ftrunc_def fadd_def fmul_def fdiv_def Let_def) linarith+
qed

lemma onCircle_low: "0 \<le> t \<Longrightarrow> t \<le> 180 \<Longrightarrow> 0 \<le> r \<Longrightarrow> 0 \<le> cy \<Longrightarrow> cy \<le> snd (onCircle exactF cx cy r t)"
proof -
  assume a: "0 \<le> t" "t \<le> 180" "0 \<le> r" "0 \<le> cy"
  have "0 \<le> sin (of_int t * pi / 180)" using a(1,2) by (intro sin_ge_zero) (simp_all add: field_simps)
  then have "0 \<le> of_int r * sin (of_int t * pi / 180)" using a(3) by simp
  then show ?thesis using a(4) by (auto simp: onCircle_def ftrunc_def fadd_def fmul_def fdiv_def Let_def)
qed

lemma arcHigh_above:
  assumes "0 \<le> r" "0 \<le> cy" "cy < y"
  shows "imPix (drawArcHigh exactF cx cy r c img) (x, y) = imPix img (x, y)"
proof -
  have "(x, y) \<noteq> onCircle exactF cx cy r (200 + 4 * int k)" if "k < 36" for k
    using onCircle_high [of "200 + 4 * int k" r cy cx] assms that by (cases "onCircle exactF cx cy r (200 + 4 * int k)") auto
  then show ?thesis by (simp add: drawArcHigh_def imPix_plot image_iff)
qed

lemma arcLow_below:
  assumes "0 \<le> r" "0 \<le> cy" "y < cy"
  shows "imPix (drawArcLow exactF cx cy r c img) (x, y) = imPix img (x, y)"
proof -
  have "(x, y) \<noteq> onCircle exactF cx cy r (20 + 4 * int k)" if "k < 36" for k
    using onCircle_low [of "20 + 4 * int k" r cy cx] assms that by (cases "onCircle exactF cx cy r (20 + 4 * int k)") auto
  then show ?thesis by (simp add: drawArcLow_def imPix_plot image_iff)
qed

section \<open>Sizes\<close>

text \<open>No drawing operation changes the size of the picture.\<close>

definition sized :: "(image \<Rightarrow> image) \<Rightarrow> bool" where
  "sized f \<longleftrightarrow> (\<forall>img. imW (f img) = imW img \<and> imH (f img) = imH img)"

lemma sized_shapes [simp]:
  "sized (plot c ps)" "sized (fill c)" "sized (filledCircle cx cy r c)" "sized (drawRect x0 y0 x1 y1 c)"
  "sized (drawLine x0 y0 x1 y1 c)" "sized (drawCircleOutline F cx cy r c)" "sized (drawArcHigh F cx cy r c)"
  "sized (drawArcLow F cx cy r c)" "sized (drawArc F cx cy r c)" "sized (drawTriangle c)" "sized (ray F cx cy a n c)"
  "sized (drawSpiral F frame)"
  by (auto simp: sized_def fill_def filledCircle_def drawRect_def drawLine_def drawCircleOutline_def drawArcHigh_def
    drawArcLow_def drawArc_def drawTriangle_def ray_def drawSpiral_def split: option.split)

lemma sized_paint: "\<forall>f \<in> set ops. sized f \<Longrightarrow> sized (paint ops)"
  unfolding paint_def sized_def by (induction ops) simp_all

lemma sized_figures [simp]:
  "sized (drawHeartAt cx cy r c)" "sized (drawHeart c)" "sized (drawRing F cx cy r c)" "sized (drawMug c)" "sized (drawGlass c)"
  "sized (drawStar F cx cy r c)" "sized drawNote" "sized (drawHands b)" "sized (drawThumb b)" "sized (drawCurveHug F)"
  "sized (drawMiniText s c)" "sized drawBug" "sized (drawConfetti frame)" "sized (drawStickDance frame)"
  "sized (drawArrow x0 y0 x1 y1 c)" "sized (drawClock F frame c)" "sized drawBulb" "sized (drawHair c)" "sized drawSkull"
  "sized drawGhost"
  by (auto simp: drawHeartAt_def drawHeart_def drawRing_def drawMug_def drawGlass_def drawStar_def drawNote_def drawHands_def
    drawThumb_def drawCurveHug_def drawMiniText_def drawBug_def drawConfetti_def drawStickDance_def drawArrow_def drawClock_def
    drawBulb_def drawHair_def drawSkull_def drawGhost_def Let_def intro!: sized_paint)

lemma sized_badges [simp]: "sized (drawBadge s c)" "sized (drawAnimal s c)"
  by (auto simp: drawBadge_def drawAnimal_def Let_def intro!: sized_paint)

lemma sized_drawFace [simp]: "sized (drawFace F skin b t dx m)"
  by (auto simp: drawFace_def mouthOps_def Let_def intro!: sized_paint)

text \<open>The switch is a chain of alternatives: it is enough to look at each of them on its own.\<close>

definition sizedOps :: "(image \<Rightarrow> image) list option \<Rightarrow> bool" where
  "sizedOps r \<longleftrightarrow> (case r of None \<Rightarrow> True | Some ops \<Rightarrow> (\<forall>f \<in> set ops. sized f))"

lemma sizedOps_if: "sizedOps a \<Longrightarrow> sizedOps b \<Longrightarrow> sizedOps (if c then a else b)"
  by simp

lemma sizedOps_stemOpsA: "sizedOps (stemOpsA F stem frame)"
  unfolding stemOpsA_def Let_def by (intro sizedOps_if; simp add: sizedOps_def)

lemma sizedOps_stemOpsB: "sizedOps (stemOpsB F stem frame)"
  unfolding stemOpsB_def Let_def by (intro sizedOps_if; simp add: sizedOps_def)

lemma sized_drawStem: "sized (drawStem F stem frame)"
proof -
  have *: "sized (paint (fill (RGBA 245 247 250 255) # ops))" if "\<forall>f \<in> set ops. sized f" for ops
    using that by (intro sized_paint) simp
  have "drawStem F stem frame = paint (fill (RGBA 245 247 250 255) #
            (case stemOpsA F stem frame of
               Some ops \<Rightarrow> ops
             | None \<Rightarrow> (case stemOpsB F stem frame of Some ops \<Rightarrow> ops | None \<Rightarrow> stemDefault stem)))"
    by (rule ext) (simp add: drawStem_def)
  moreover have "\<forall>f \<in> set (stemDefault stem). sized f" by (simp add: stemDefault_def Let_def)
  ultimately show ?thesis using sizedOps_stemOpsA [of F stem frame] sizedOps_stemOpsB [of F stem frame]
    by (auto simp: sizedOps_def intro!: * split: option.splits)
qed

end
