(* ===== verification/Emoticons.thy ===== *)
theory Emoticons
  imports Draw
begin

text \<open>
  The emoticon generator's \<^verbatim>\<open>nexus_server/cmd/emoticongen/main.go\<close>: one picture per emoticon, the branding pictures and the sprite
  sheet of the animated ones, with the order in which they are written and what happens when a file cannot be.  A file's
  contents are the picture; the PNG encoding of the standard library is lossless and not repeated here.
\<close>

section \<open>Tables\<close>

record sheetEntry =
  ekey :: string
  ex :: int
  ey :: int
  eframes :: nat

definition entry :: "string \<Rightarrow> int \<Rightarrow> int \<Rightarrow> nat \<Rightarrow> sheetEntry" where
  "entry k x y n = \<lparr> ekey = k, ex = x, ey = y, eframes = n \<rparr>"

definition sheetLayout :: "sheetEntry list" where
  "sheetLayout =
     [entry ''(smile)'' 0 0 32, entry ''(sad)'' 40 0 32, entry ''(wink)'' 80 0 32, entry ''(laugh)'' 120 0 32,
      entry ''(cool)'' 160 0 32, entry ''(surprised)'' 200 0 32, entry ''(crying)'' 280 0 32, entry ''(sweat)'' 320 0 32,
      entry ''(kiss)'' 360 0 32, entry ''(cheeky)'' 400 0 32, entry ''(blush)'' 440 0 32, entry ''(sleepy)'' 480 0 32,
      entry ''(dull)'' 520 0 32, entry ''(inlove)'' 560 0 32, entry ''(egrin)'' 600 0 32, entry ''(party)'' 640 0 32,
      entry ''(beer)'' 680 40 1, entry ''(dance)'' 720 0 32, entry ''(rock)'' 760 0 32, entry ''(punch)'' 800 0 32,
      entry ''(flex)'' 840 0 32, entry ''(highfive)'' 880 0 32]"

definition sheetStem :: "(string \<times> string) list" where
  "sheetStem =
     [(''(smile)'', ''smile''), (''(sad)'', ''sad''), (''(wink)'', ''wink''), (''(laugh)'', ''laugh''),
      (''(cool)'', ''cool''), (''(surprised)'', ''surprised''), (''(crying)'', ''cry''), (''(sweat)'', ''sweat''),
      (''(kiss)'', ''kiss''), (''(cheeky)'', ''cheeky''), (''(blush)'', ''blush''), (''(sleepy)'', ''sleepy''),
      (''(dull)'', ''bored''), (''(inlove)'', ''inlove''), (''(egrin)'', ''evilgrin''), (''(party)'', ''party''),
      (''(beer)'', ''beer''), (''(dance)'', ''dance''), (''(rock)'', ''rock''), (''(punch)'', ''punch''),
      (''(flex)'', ''muscle''), (''(highfive)'', ''highfive'')]"

definition allStems :: "string list" where
  "allStems =
     [''angel'', ''angry'', ''bandit'', ''bank'', ''beer'', ''bike'', ''bomb'', ''bow'', ''brokenheart'',
      ''bug'', ''car'', ''cash'', ''cat'', ''cheeky'', ''chuckle'', ''clap'', ''coffee'', ''cake'', ''confused'',
      ''cry'', ''cool'', ''dance'', ''devil'', ''dog'', ''doh'', ''drink'', ''drunk'', ''embarrassed'', ''emo'',
      ''evilgrin'', ''finger'', ''flower'', ''fubar'', ''ghost'', ''giggle'', ''gift'', ''handshake'', ''headbang'',
      ''heart'', ''highfive'', ''hug'', ''idea'', ''inlove'', ''kiss'', ''laugh'', ''laptop'', ''mail'', ''monkey'',
      ''moon'', ''mooning'', ''movie'', ''music'', ''muscle'', ''ninja'', ''nod'', ''party'', ''phaze_logo_small'',
      ''pig'', ''plane'', ''poolparty'', ''punch'', ''puke'', ''rain'', ''rainbow'', ''rock'', ''rose'', ''rofl'',
      ''sad'', ''shake'', ''sick'', ''skull'', ''sleepy'', ''smile'', ''snail'', ''snow'', ''speechless'', ''star'',
      ''sun'', ''surprised'', ''sweat'', ''thinking'', ''thumbsdown'', ''thumbsup'', ''time'', ''tmi'', ''toivo'',
      ''tongue'', ''wait'', ''wave'', ''whew'', ''wink'', ''wonder'', ''wtf'', ''yawn'']"

fun uniqueFrom :: "string list \<Rightarrow> string list \<Rightarrow> string list" where
  "uniqueFrom seen [] = []"
| "uniqueFrom seen (s # ss) =
     (if s = '''' then uniqueFrom seen ss else if s \<in> set seen then uniqueFrom seen ss else s # uniqueFrom (s # seen) ss)"

definition uniqueStems :: "string list" where
  "uniqueStems = uniqueFrom [] allStems"

definition stemFilename :: "string \<Rightarrow> string" where
  "stemFilename stem = (if stem = ''phaze_logo_small'' then ''phaze_logo_small.png'' else ''emoticon_'' @ stem @ ''.png'')"

section \<open>The sprite sheet\<close>

text \<open>
  Copying a picture goes through colours of 16 bits multiplied by their alpha, as the library's \<^verbatim>\<open>draw.Draw\<close> does for this
  kind of picture: opaque pixels come out as they were.
\<close>

definition channelCopy :: "8 word \<Rightarrow> 8 word \<Rightarrow> 8 word" where
  "channelCopy c a =
     (let p = unat c * 257 * unat a div 255;
          u = (if a = 0 \<or> a = 255 then p else p * 65535 div (unat a * 257))
      in of_nat (u div 256))"

fun pixelCopy :: "NRGBA \<Rightarrow> NRGBA" where
  "pixelCopy (RGBA r g b a) = RGBA (channelCopy r a) (channelCopy g a) (channelCopy b a) a"

text \<open>\<^verbatim>\<open>draw.Draw(dst, r, src, image.Point{}, draw.Src)\<close> for a source as large as the rectangle whose corner is given.\<close>

definition blit :: "int \<Rightarrow> int \<Rightarrow> image \<Rightarrow> image \<Rightarrow> image" where
  "blit x0 y0 src dst =
     dst\<lparr>imPix := (\<lambda>(x, y). if inBounds dst x y \<and> inBounds src (x - x0) (y - y0) then pixelCopy (imPix src (x - x0, y - y0))
                              else imPix dst (x, y))\<rparr>"

definition stemOf :: "string \<Rightarrow> string" where
  "stemOf k = (case map_of sheetStem k of None \<Rightarrow> ''smile'' | Some stem \<Rightarrow> if stem = '''' then ''smile'' else stem)"

definition tile :: "floats \<Rightarrow> string \<Rightarrow> int \<Rightarrow> image" where
  "tile F stem frame = drawStem F stem frame (newImage cell cell)"

definition sheetCells :: "(sheetEntry \<times> nat) list" where
  "sheetCells = concat (map (\<lambda>e. map (\<lambda>f. (e, f)) [0..<eframes e]) sheetLayout)"

definition putCell :: "floats \<Rightarrow> sheetEntry \<times> nat \<Rightarrow> image \<Rightarrow> image" where
  "putCell F c = (case c of (e, f) \<Rightarrow> blit (ex e) (ey e + int f * cell) (tile F (stemOf (ekey e)) (int f)))"

definition buildMasterSheet :: "floats \<Rightarrow> image" where
  "buildMasterSheet F = fold (putCell F) sheetCells (fill (RGBA 52 56 64 255) (newImage 960 1400))"

section \<open>The files\<close>

definition brandIcon :: image where
  "brandIcon = paint [fill (RGBA 0 175 240 255), drawRect 32 32 96 96 (RGBA 255 255 255 255)] (newImage 128 128)"

definition brandLogo :: image where
  "brandLogo =
     paint (fill (RGBA 0 175 240 255) # map (\<lambda>x. drawRect x 18 (x + 28) 38 (RGBA 255 255 255 220)) [16, 56, 96, 136, 176, 216])
       (newImage 240 56)"

definition defaultAvatar :: image where
  "defaultAvatar =
     paint [fill (RGBA 210 220 230 255), filledCircle 64 48 28 (RGBA 255 210 180 255), filledCircle 64 100 40 (RGBA 180 200 220 255)]
       (newImage 128 128)"

definition writeBranding :: "(string \<times> image) list" where
  "writeBranding = [(''Icon.png'', brandIcon), (''phaze_logo.png'', brandLogo), (''default_avatar.png'', defaultAvatar)]"

text \<open>The files of \<^verbatim>\<open>main\<close>, below the root directory, in the order they are written.\<close>

definition emoticonFiles :: "floats \<Rightarrow> (string \<times> image) list" where
  "emoticonFiles F =
     map (\<lambda>s. (''emoticons/'' @ stemFilename s, tile F s 0)) uniqueStems @ writeBranding @
     [(''ui_master_spritesheet.png'', buildMasterSheet F)]"

definition assetsRoot :: "string list \<Rightarrow> string" where
  "assetsRoot args = (if length args > 1 \<and> args ! 1 \<noteq> '''' then args ! 1 else ''assets'')"

text \<open>\<^verbatim>\<open>mustWritePNG\<close> panics at the first file that cannot be written; the files before it stay.\<close>

fun mustWriteAll :: "(string \<Rightarrow> bool) \<Rightarrow> (string \<times> image) list \<Rightarrow> (string \<times> image) list \<times> bool" where
  "mustWriteAll writable [] = ([], True)"
| "mustWriteAll writable (f # fs) =
     (if writable (fst f) then (case mustWriteAll writable fs of (done', ok) \<Rightarrow> (f # done', ok)) else ([], False))"

definition emoticonMain :: "floats \<Rightarrow> bool \<Rightarrow> (string \<Rightarrow> bool) \<Rightarrow> (string \<times> image) list \<times> bool" where
  "emoticonMain F dirMade writable = (if dirMade then mustWriteAll writable (emoticonFiles F) else ([], False))"

section \<open>The sheet holds every frame\<close>

lemma pixelCopy_opaque [simp]: "pixelCopy (RGBA r g b 255) = RGBA r g b 255"
proof -
  have "channelCopy c 255 = c" for c :: "8 word"
  proof -
    have "unat c < 256" using unsigned_less [of c] by simp
    moreover have "257 * unat c = unat c + unat c * 256" by simp
    ultimately have "257 * unat c div 256 = unat c" by simp
    then show ?thesis by (simp add: channelCopy_def)
  qed
  then show ?thesis by simp
qed

definition covers :: "sheetEntry \<times> nat \<Rightarrow> int \<times> int \<Rightarrow> bool" where
  "covers c p = (case c of (e, f) \<Rightarrow>
     ex e \<le> fst p \<and> fst p < ex e + cell \<and> ey e + int f * cell \<le> snd p \<and> snd p < ey e + int f * cell + cell)"

lemma imSize_blit [simp]: "imW (blit x y src dst) = imW dst" "imH (blit x y src dst) = imH dst"
  by (simp_all add: blit_def)

lemma imSize_tile [simp]: "imW (tile F stem n) = cell" "imH (tile F stem n) = cell"
  using sized_drawStem [of F stem n] by (simp_all add: tile_def sized_def newImage_def)

lemma imSize_cells [simp]: "imW (fold (putCell F) cs img) = imW img" "imH (fold (putCell F) cs img) = imH img"
  by (induction cs arbitrary: img) (auto simp: putCell_def)

lemma imPix_putCell:
  "imPix (putCell F (e, f) img) (x, y) =
     (if inBounds img x y \<and> covers (e, f) (x, y)
      then pixelCopy (imPix (tile F (stemOf (ekey e)) (int f)) (x - ex e, y - (ey e + int f * cell))) else imPix img (x, y))"
  by (auto simp: putCell_def blit_def inBounds_def covers_def)

text \<open>A pixel that only one cell covers shows that cell, whichever order the cells were drawn in.\<close>

lemma cells_untouched: "(\<And>c. c \<in> set cs \<Longrightarrow> \<not> covers c p) \<Longrightarrow> imPix (fold (putCell F) cs img) p = imPix img p"
proof (induction cs arbitrary: img)
  case (Cons c cs)
  then show ?case by (cases c; cases p) (simp add: imPix_putCell)
qed simp

lemma cells_shown:
  assumes "c \<in> set cs" "covers c (x, y)" "inBounds img x y" "\<And>c'. c' \<in> set cs \<Longrightarrow> covers c' (x, y) \<Longrightarrow> c' = c"
  shows "imPix (fold (putCell F) cs img) (x, y) = imPix (putCell F c img) (x, y)"
  using assms
proof (induction cs rule: rev_induct)
  case (snoc d cs)
  show ?case
  proof (cases "d = c")
    case True
    then show ?thesis using snoc.prems by (cases c) (simp add: imPix_putCell inBounds_def)
  next
    case False
    then have "\<not> covers d (x, y)" using snoc.prems(4) [of d] by auto
    moreover have "imPix (fold (putCell F) cs img) (x, y) = imPix (putCell F c img) (x, y)"
      using snoc.IH [OF _ snoc.prems(2,3)] snoc.prems(1,4) False by simp
    ultimately show ?thesis by (cases d) (simp add: imPix_putCell)
  qed
qed simp

lemma layout_columns:
  "e \<in> set sheetLayout \<Longrightarrow> 0 \<le> ex e \<and> ex e \<le> 920 \<and> 0 \<le> ey e \<and> ey e + int (eframes e) * 40 \<le> 1400 \<and> ex e mod 40 = 0"
  by (auto simp: sheetLayout_def entry_def)

lemma layout_inj: "inj_on ex (set sheetLayout)"
  unfolding sheetLayout_def entry_def by (simp add: inj_on_def)

lemma sheetCells_iff: "(e, f) \<in> set sheetCells \<longleftrightarrow> e \<in> set sheetLayout \<and> f < eframes e"
  by (auto simp: sheetCells_def image_iff)

lemma cells_disjoint:
  assumes "c \<in> set sheetCells" "c' \<in> set sheetCells" "covers c p" "covers c' p"
  shows "c' = c"
proof -
  obtain e f e' f' where c: "c = (e, f)" "c' = (e', f')" by (cases c, cases c') auto
  have l: "e \<in> set sheetLayout" "e' \<in> set sheetLayout" using assms c by (simp_all add: sheetCells_iff)
  have "ex e mod 40 = 0" "ex e' mod 40 = 0" "\<bar>ex e - ex e'\<bar> < 40"
    using layout_columns [OF l(1)] layout_columns [OF l(2)] assms(3,4) by (auto simp: covers_def c cell_def)
  then have "ex e = ex e'" by presburger
  then have e: "e = e'" using layout_inj l by (simp add: inj_on_eq_iff)
  then have "\<bar>int f * 40 - int f' * 40\<bar> < 40" using assms(3,4) by (auto simp: covers_def c cell_def)
  then show ?thesis using e c by simp
qed

text \<open>C40: the sprite sheet holds every frame of every animated emoticon: frame \<open>f\<close> of an entry of the layout is drawn, pixel for pixel,
  in the cell 40 \<open>f\<close> rows below the entry's corner, inside the sheet, and no other cell is drawn over it.
\<close>

theorem sheet_cells:
  assumes "e \<in> set sheetLayout" "f < eframes e" "0 \<le> i" "i < cell" "0 \<le> j" "j < cell"
  shows "inBounds (buildMasterSheet F) (ex e + i) (ey e + int f * cell + j) \<and>
    imPix (buildMasterSheet F) (ex e + i, ey e + int f * cell + j) = pixelCopy (imPix (tile F (stemOf (ekey e)) (int f)) (i, j))"
proof -
  have f: "int f * 40 + 40 \<le> int (eframes e) * 40" using assms(2) by simp
  have inb: "inBounds (fill (RGBA 52 56 64 255) (newImage 960 1400)) (ex e + i) (ey e + int f * cell + j)"
    using layout_columns [OF assms(1)] f assms(3-6) by (simp add: inBounds_def newImage_def fill_def cell_def)
  have "covers (e, f) (ex e + i, ey e + int f * cell + j)" using assms(3-6) by (simp add: covers_def)
  then show ?thesis
    using inb cells_shown [of "(e, f)" sheetCells "ex e + i" "ey e + int f * cell + j"
        "fill (RGBA 52 56 64 255) (newImage 960 1400)" F] cells_disjoint [of "(e, f)"] assms(1,2)
    by (simp add: buildMasterSheet_def sheetCells_iff imPix_putCell inBounds_def)
qed

theorem sheet_cells_witness:
  "imPix (buildMasterSheet exactF) (203, 125) = pixelCopy (imPix (tile exactF ''surprised'' 3) (3, 5))"
  using sheet_cells [of "entry ''(surprised)'' 200 0 32" 3 3 5 exactF]
  by (simp add: sheetLayout_def entry_def cell_def stemOf_def sheetStem_def)

text \<open>Outside the cells the sheet has its background.\<close>

lemma sheet_background:
  assumes "inBounds (buildMasterSheet F) x y" "\<And>c. c \<in> set sheetCells \<Longrightarrow> \<not> covers c (x, y)"
  shows "imPix (buildMasterSheet F) (x, y) = RGBA 52 56 64 255"
  using assms(1) cells_untouched [of sheetCells "(x, y)" F, OF assms(2)] by (simp add: buildMasterSheet_def fill_def inBounds_def)

section \<open>The written files\<close>

lemma uniqueStems_eq: "uniqueStems = allStems"
  by code_simp

lemma distinct_allStems: "distinct allStems"
  by code_simp

lemma stemFilename_inj: "inj_on stemFilename (set allStems)"
proof (rule inj_onI)
  fix s t assume "stemFilename s = stemFilename t"
  then show "s = t" by (auto simp: stemFilename_def split: if_splits)
qed

text \<open>No file is written twice, so none overwrites another.\<close>

lemma emoticonFiles_distinct: "distinct (map fst (emoticonFiles F))"
proof -
  have "distinct (map (\<lambda>s. ''emoticons/'' @ stemFilename s) allStems)"
    using distinct_allStems stemFilename_inj by (auto simp: distinct_map inj_on_def)
  then show ?thesis by (auto simp: emoticonFiles_def uniqueStems_eq writeBranding_def o_def)
qed

lemma mustWriteAll_prefix:
  "mustWriteAll writable fs = (ws, ok) \<Longrightarrow> \<exists>rest. fs = ws @ rest \<and> (ok \<longleftrightarrow> rest = []) \<and> (\<forall>f \<in> set ws. writable (fst f))"
  by (induction fs arbitrary: ws) (auto split: if_splits prod.splits)

text \<open>Of the stems the sheet uses, two have no picture of their own.\<close>

lemma sheet_stems_without_file: "filter (\<lambda>s. s \<notin> set allStems) (map (\<lambda>e. stemOf (ekey e)) sheetLayout) = [''blush'', ''bored'']"
  by code_simp

end
