(* ===== verification/Desktop.thy ===== *)
theory Desktop
  imports Prelude "HOL-Library.Word"
begin

text \<open>
  The desktop shell, \<^verbatim>\<open>desktop/app.go\<close>, \<^verbatim>\<open>desktop/main.go\<close> and the two tray files: the window's controls, the tray's menu, the
  hooks the shell gives to its window library, and the counter of unread messages.  The libraries are outside the repository:
  calls to them are recorded in order, and the one reply the shell's behaviour depends on, whether the application ends when
  the closing hook has answered, is the parameter \<open>ends\<close>.  The library's manual says that the hook is asked
  for the window's close button and for \<^verbatim>\<open>runtime.Quit\<close> alike, and that the answer \<open>True\<close> lets the application continue.
\<close>

section \<open>State\<close>

datatype platform = Linux | Darwin | Windows

text \<open>The calls that leave the program.\<close>

datatype shellCall =
    WindowShow | WindowUnminimise | WindowSetAlwaysOnTop bool | WindowMinimiseCall | WindowToggleMaximiseCall | WindowHide
  | RuntimeQuit | TraySetIcon | TraySetTitle string | TrayAddMenuItem string string | TrayAddSeparator | TrayQuitCall
  | BeeepNotify string string

record shell =
  unread :: "32 word"
  running :: bool
  trayLoop :: bool
  outward :: "shellCall list"

definition NewApp :: shell where
  "NewApp = \<lparr> unread = 0, running = True, trayLoop = False, outward = [] \<rparr>"

definition emit :: "shellCall list \<Rightarrow> shell \<Rightarrow> shell" where
  "emit cs a = a\<lparr>outward := outward a @ cs\<rparr>"

section \<open>The tray, on Linux and elsewhere\<close>

definition startTray :: "platform \<Rightarrow> shell \<Rightarrow> shell" where
  "startTray p a =
     (if p = Linux then a
      else emit ([TraySetIcon] @ (if p = Darwin then [TraySetTitle ''Phaze''] else []) @
                 [TrayAddMenuItem ''Open Phaze'' ''Show the Phaze window'', TrayAddSeparator, TrayAddMenuItem ''Quit'' ''Quit Phaze''])
             (a\<lparr>trayLoop := True\<rparr>))"

definition stopTray :: "platform \<Rightarrow> shell \<Rightarrow> shell" where
  "stopTray p a = (if p = Linux then a else emit [TrayQuitCall] (a\<lparr>trayLoop := False\<rparr>))"

definition hideOnClose :: "platform \<Rightarrow> shell \<Rightarrow> shell \<times> bool" where
  "hideOnClose p a = (if p = Linux then (a, False) else (emit [WindowHide] a, True))"

definition updateTrayUnread :: "platform \<Rightarrow> int \<Rightarrow> shell \<Rightarrow> shell" where
  "updateTrayUnread p count a = a"

section \<open>The application\<close>

definition startup :: "platform \<Rightarrow> shell \<Rightarrow> shell" where
  "startup p a = startTray p a"

definition shutdown :: "platform \<Rightarrow> shell \<Rightarrow> shell" where
  "shutdown p a = stopTray p a"

definition beforeClose :: "platform \<Rightarrow> shell \<Rightarrow> shell \<times> bool" where
  "beforeClose p a = hideOnClose p a"

definition showWindow :: "shell \<Rightarrow> shell" where
  "showWindow a = emit [WindowShow, WindowUnminimise, WindowSetAlwaysOnTop True, WindowSetAlwaysOnTop False] a"

text \<open>The library's side of closing: the hook is asked, and then the application ends, with its shutdown hook, or goes on.\<close>

definition closeAsked :: "(bool \<Rightarrow> bool) \<Rightarrow> platform \<Rightarrow> shell \<Rightarrow> shell" where
  "closeAsked ends p a =
     (case beforeClose p a of (a1, prevent) \<Rightarrow> if ends prevent then (shutdown p a1)\<lparr>running := False\<rparr> else a1)"

definition WindowClose :: "(bool \<Rightarrow> bool) \<Rightarrow> platform \<Rightarrow> shell \<Rightarrow> shell" where
  "WindowClose ends p a =
     (case hideOnClose p a of (a1, hidden) \<Rightarrow> if hidden then a1 else closeAsked ends p (emit [RuntimeQuit] a1))"

definition WindowMinimise :: "shell \<Rightarrow> shell" where
  "WindowMinimise a = emit [WindowMinimiseCall] a"

definition WindowToggleMaximise :: "shell \<Rightarrow> shell" where
  "WindowToggleMaximise a = emit [WindowToggleMaximiseCall] a"

definition Notify :: "string \<Rightarrow> string \<Rightarrow> shell \<Rightarrow> shell" where
  "Notify title body a = emit [BeeepNotify title body] a"

definition SetUnread :: "platform \<Rightarrow> int \<Rightarrow> shell \<Rightarrow> shell" where
  "SetUnread p count a = updateTrayUnread p count (a\<lparr>unread := word_of_int count\<rparr>)"

text \<open>The tray's menu entries, served by the loop \<^verbatim>\<open>startTray\<close> leaves behind.\<close>

definition trayOpen :: "shell \<Rightarrow> shell" where
  "trayOpen a = showWindow a"

definition trayQuit :: "(bool \<Rightarrow> bool) \<Rightarrow> platform \<Rightarrow> shell \<Rightarrow> shell" where
  "trayQuit ends p a = closeAsked ends p (emit [TrayQuitCall, RuntimeQuit] (a\<lparr>trayLoop := False\<rparr>))"

section \<open>Events\<close>

inductive shellStep :: "(bool \<Rightarrow> bool) \<Rightarrow> platform \<Rightarrow> shell \<Rightarrow> shell \<Rightarrow> bool" for ends p where
  osClose: "running a \<Longrightarrow> shellStep ends p a (closeAsked ends p a)"
| titleClose: "running a \<Longrightarrow> shellStep ends p a (WindowClose ends p a)"
| titleMinimise: "running a \<Longrightarrow> shellStep ends p a (WindowMinimise a)"
| titleMaximise: "running a \<Longrightarrow> shellStep ends p a (WindowToggleMaximise a)"
| secondInstance: "running a \<Longrightarrow> shellStep ends p a (showWindow a)"
| menuOpen: "running a \<Longrightarrow> trayLoop a \<Longrightarrow> shellStep ends p a (trayOpen a)"
| menuQuit: "running a \<Longrightarrow> trayLoop a \<Longrightarrow> shellStep ends p a (trayQuit ends p a)"
| notified: "running a \<Longrightarrow> shellStep ends p a (Notify title body a)"
| counted: "running a \<Longrightarrow> shellStep ends p a (SetUnread p count a)"

inductive_cases shellStepE: "shellStep ends p a b"

inductive shellRun :: "(bool \<Rightarrow> bool) \<Rightarrow> platform \<Rightarrow> shell \<Rightarrow> bool" for ends p where
  begun: "shellRun ends p (startup p NewApp)"
| stepped: "shellRun ends p a \<Longrightarrow> shellStep ends p a b \<Longrightarrow> shellRun ends p b"

lemmas shell_defs = closeAsked_def WindowClose_def WindowMinimise_def WindowToggleMaximise_def showWindow_def trayOpen_def trayQuit_def
  Notify_def SetUnread_def updateTrayUnread_def beforeClose_def hideOnClose_def shutdown_def stopTray_def startup_def startTray_def
  NewApp_def emit_def

text \<open>The manual's promise about the hook: the application ends exactly when the hook does not prevent it.\<close>

definition hookRespected :: "(bool \<Rightarrow> bool) \<Rightarrow> bool" where
  "hookRespected ends \<longleftrightarrow> (\<forall>prevent. ends prevent \<longleftrightarrow> \<not> prevent)"

lemma linux_no_tray: "shellRun ends Linux a \<Longrightarrow> \<not> trayLoop a"
  by (induction rule: shellRun.induct) (auto elim!: shellStepE simp: shell_defs split: if_splits)

lemma hidden_never_ends:
  "hookRespected ends \<Longrightarrow> p \<noteq> Linux \<Longrightarrow> shellStep ends p a b \<Longrightarrow> running b"
  by (erule shellStepE) (auto simp: shell_defs hookRespected_def)



section \<open>Numbers\<close>

text \<open>
  \<^verbatim>\<open>itoa\<close> writes digits from the end of a buffer of 20 bytes; an index below zero would be a panic (\<open>None\<close>).  The function
  is not called by the shell.
\<close>

function itoaLoop :: "int \<Rightarrow> nat \<Rightarrow> string \<Rightarrow> string option" where
  "itoaLoop n pos buf =
     (if n > 0 then (if pos = 0 then None else itoaLoop (n div 10) (pos - 1) (buf[pos - 1 := char_of (48 + n mod 10)]))
      else Some (drop pos buf))"
  by pat_completeness auto

termination
  by (relation "measure (\<lambda>(n, pos, buf). nat n)") auto

declare itoaLoop.simps [simp del]

definition itoa :: "int \<Rightarrow> string option" where
  "itoa n = (if n = 0 then Some ''0'' else itoaLoop n 20 (replicate 20 (CHR 0x00)))"

definition readDigits :: "string \<Rightarrow> int" where
  "readDigits s = foldl (\<lambda>v c. v * 10 + (of_char c - 48)) 0 s"

lemma itoaLoop_reads:
  "0 \<le> n \<Longrightarrow> n < 10 ^ pos \<Longrightarrow> pos \<le> length buf \<Longrightarrow>
     \<exists>ds. itoaLoop n pos buf = Some (ds @ drop pos buf) \<and> readDigits ds = n"
proof (induction n pos buf rule: itoaLoop.induct)
  case (1 n pos buf)
  show ?case
  proof (cases "n > 0")
    case False
    then show ?thesis using "1.prems" by (intro exI [of _ "[]"]) (auto simp: itoaLoop.simps [of n] itoaLoop.simps [of 0] readDigits_def)
  next
    case True
    then obtain k where k: "pos = Suc k" using "1.prems" by (cases pos) auto
    let ?c = "char_of (48 + n mod 10)"
    have "0 \<le> n div 10" "n div 10 < 10 ^ k" using "1.prems"(2) k True by (auto simp: pos_imp_zdiv_nonneg_iff)
    then obtain ds where ds: "itoaLoop (n div 10) k (buf[k := ?c]) = Some (ds @ drop k (buf[k := ?c]))" "readDigits ds = n div 10"
      using "1.IH" [OF True] "1.prems" k True by auto
    have "drop k (buf[k := ?c]) = ?c # drop pos buf" using "1.prems"(3) k by (simp add: Cons_nth_drop_Suc [symmetric])
    moreover have "(of_char ?c :: int) = 48 + n mod 10"
      using pos_mod_bound [of 10 n] pos_mod_sign [of 10 n] by (simp add: of_char_of)
    ultimately show ?thesis using ds k True
      by (intro exI [of _ "ds @ [?c]"]) (simp add: itoaLoop.simps [of n] readDigits_def)
  qed
qed

lemma itoa_reads: "0 \<le> n \<Longrightarrow> n < 2 ^ 63 \<Longrightarrow> \<exists>ds. itoa n = Some ds \<and> readDigits ds = n"
  using itoaLoop_reads [of n 20 "replicate 20 (CHR 0x00)"] by (auto simp: itoa_def readDigits_def)

lemma itoa_negative: "n < 0 \<Longrightarrow> itoa n = Some ''''"
  by (simp add: itoa_def itoaLoop.simps [of n])

end
