(* ===== verification/Spec2Isabelle.thy ===== *)
theory Spec2Isabelle
  imports System Bot Delivery Updates Limiter Mail Outside Blobs Status Sound Emoticons Desktop
begin

text \<open>
  PhazeChat's server, its tools, its help bot and its desktop shell: a model of \<^verbatim>\<open>src/nexus_server\<close>, \<^verbatim>\<open>src/nova_bot\<close> and
  \<^verbatim>\<open>src/desktop\<close> and the theorems about them.

  \<^bold>\<open>The program.\<close>  One Go process serves WebSocket clients and an HTTP API over one SQLite database.  A
  connection is accepted (\<^verbatim>\<open>handleConnections\<close>), may be signed in by its cookie or by an \<^verbatim>\<open>auth\<close> message, and then
  sends messages, each dispatched by a switch on its type.  What the process keeps in memory is the registry
  of connections by user (\<^verbatim>\<open>clients.go\<close>), voice rooms, live streams, remote-control codes, counters of failed
  logins (\<^verbatim>\<open>authtracker.go\<close>), blocked addresses and a few caches; everything else is in the database.
  HTTP handlers (\<^verbatim>\<open>main.go\<close>, \<^verbatim>\<open>auth_http.go\<close>, \<^verbatim>\<open>stories.go\<close>, \<^verbatim>\<open>supporters.go\<close> and others) share that state.

  \<^bold>\<open>How it is modelled.\<close>  The state is one record, \<^typ>\<open>NexusServer\<close>: the in-memory fields, the database \<open>DB\<close> with
  one list of rows per table, and logs of what leaves the process (\<open>outbox\<close> frames per connection, \<open>pushes\<close>,
  \<open>mails\<close>).  An operation takes the state and returns the new one, with an error value or a reply where the
  code has one.  SQL statements are functions on lists of rows (\<open>sql_update\<close>, \<open>sql_delete\<close>, \<open>sql_insert\<close>, \<dots>) with
  the unique keys of the schema.  Code outside the repository is a parameter: the record \<^typ>\<open>env\<close> (clock, random
  source, bcrypt, TOTP, mail, push, DNS, environment variables, rate limiters) and the record \<^typ>\<open>services\<close>
  of the HTTP endpoints.  Concurrency is the interleaving of critical sections: a run is a sequence of steps.

  \<^bold>\<open>Theories\<close>, in the order of their imports:

    \<^item> \<open>Prelude\<close>: time, Go's string functions, SQL on lists, Go maps as association lists, with the simp rules
      (\<open>sql_simps\<close>) every component uses.  \<open>Interfaces\<close>: the contracts several components share, as locales:
      credentials that work at most once (\<open>one_shot\<close>: resets, backup codes, device codes, crates), groups
      refined to a set of pairs (\<open>membership\<close>: conversations, voice rooms, spaces) and step functions with an
      invariant (\<open>invariant_machine\<close>: friendships, shards); \<open>AuthTracker\<close> adds \<open>attempt_window\<close>, interpreted
      four times.  The interpretations stand in the components.
    \<^item> \<open>Messages\<close>, \<open>Store\<close>: the structs of the wire protocol and the schema.  \<open>Nexus\<close>: the process state and the
      registry of connections.
    \<^item> \<open>AuthTracker\<close>, \<open>SignupChecks\<close>, \<open>Turn\<close>, \<open>Limiter\<close>: failed-login counters, e-mail and address checks at
      registration, TURN credentials, the table of token buckets.
    \<^item> \<open>Accounts\<close>, \<open>Sessions\<close>: registration, passwords, roles, erasure; session tokens, password resets, QR
      logins, device challenges, TOTP.
    \<^item> \<open>Social\<close>, \<open>Messaging\<close>, \<open>Rewards\<close>, \<open>Spaces\<close>, \<open>Rooms\<close>, \<open>Retention\<close>: friends, blocks, presence; direct
      messages, the offline queue, conversations; crates and referrals; spaces and channels; whiteboards,
      voice, streams; the background sweepers.
    \<^item> \<open>HandlersAuth\<close>, \<open>HandlersSocial\<close>, \<open>HandlersSpaces\<close>, \<open>Calls\<close>: one definition \<open>h_\<dots>\<close> per case of the message
      switch.  \<open>Dispatch\<close>: the switch, accepting and closing connections, the transition relation \<open>step\<close> and
      \<open>reachable\<close>.
    \<^item> \<open>Http\<close>, \<open>LoginHttp\<close>, \<open>Admin\<close>, \<open>Supporters\<close>, \<open>Stories\<close>, \<open>Files\<close>, \<open>Portal\<close>, \<open>Updates\<close>, \<open>Router\<close>: requests,
      middleware and staff authentication; the web login; the staff interface; supporter badges and the
      payment webhook; stories; uploads and avatars; profiles, export, the support assistant, the Skype
      import; the update manifest; the route table.
    \<^item> \<open>Connections\<close>, \<open>Safety\<close>, \<open>Delivery\<close>: properties of whole runs and of a message's way through the server.
    \<^item> \<open>Mail\<close>, \<open>Outside\<close>: what leaves the process for other services: the mail templates word for word and the four
      transports; the language-model providers of the support assistant, Twilio and the TURN interface.
    \<^item> \<open>Blobs\<close>: the disk store under \<open>Files\<close>, down to its system calls, and the S3 store; the contract of the Go
      interface \<^verbatim>\<open>blobStore\<close> is the locale \<open>blob_store\<close> (an extension of \<open>blob_access\<close>), interpreted on the disk store, the
      smaller one also on what the handlers use.
    \<^item> \<open>Status\<close>: the status page with its prober, the metrics, the security headers.  \<open>Startup\<close>: settings, the accounts
      at a start, the pages of the site.  \<open>Tools\<close>: the commands \<^verbatim>\<open>seed-admin\<close>, \<^verbatim>\<open>grant-supporter\<close> and \<^verbatim>\<open>fetch-seed\<close>.
    \<^item> \<open>Bot\<close>: the help bot, a process of its own, with its goroutines as interleaved tasks.
    \<^item> \<open>Floats\<close>, \<open>Sound\<close>, \<open>Draw\<close>, \<open>Emoticons\<close>: the two build-time generators, \<^verbatim>\<open>cmd/soundgen\<close> and \<^verbatim>\<open>cmd/emoticongen\<close>.  Floating-point
      numbers are reals with a rounding that is a parameter; a WAV file is its bytes, a picture the colours of its pixels.
    \<^item> \<open>Desktop\<close>: the desktop shell as a step relation, with the calls to its window library recorded in order.
    \<^item> \<open>Schema\<close>, \<open>System\<close>: the keys of the schema as a predicate; the locale \<open>accounts_invariant\<close> proves once, for any
      condition on the table of accounts that three kinds of change keep, that every operation and message handler
      keeps it; \<open>System\<close> adds requests, start-up and tools as one transition relation \<open>sysStep\<close> and interprets the locale
      twice, with no condition (the schema) and with a bound on who has rights.

  \<^bold>\<open>What is proved.\<close>  The claims are numbered C1 to C40.

    \<^item> Who speaks for whom: a connection's user changes only through a valid credential (C1); the web login gives a
      session only for right credentials and holds it back on a new device (C2, C12, C14); a frame from a
      connection that is not signed in changes nothing (C4); the staff interface acts only for staff from allowed
      addresses (C5), roles are changed only by those of higher rank (C10), rights are gained only so, by the operator's
      tool or at a restart (C7), a ban takes effect at once (C15).
    \<^item> The database: its keys and ids hold in every reachable state of the whole system (C6).
    \<^item> Credentials: resets work at most once (C11), registration and its errors
      (C30, C31), failed-login thresholds exactly as documented
      (C28), sweeping unobservable (C29), erasure (C33).
    \<^item> Messages: a message to an offline user arrives (C8), blocks hide (C9), history is complete
      (C26), stored messages are changed only by their senders (C27), friendships
      need consent (C16).
    \<^item> Bounds and resources: connections per address (C3), token buckets faithful to their specification
      (C19), TURN credentials fresh (C23), pity counters (C25), stories
      (C36), retention (C34), the pace of the bot (C18) and the end of its reconnect loop
      (C32).
    \<^item> Files: no request leaves the two directories (C20), attachments come back unchanged
      (C35), the disk store is atomic (C13), so is the import of a database
      (C21).
    \<^item> Mail and outgoing requests: headers (C17) and markup (C22) cannot be injected
      through the templates, and an error path shows a key to a user (C24).
    \<^item> Generators and shell: lines end and have no gap (C37), every frame is in its cell of the sprite sheet
      (C40), sound files read back without overflow (C39), and the shell cannot be quit from its
      tray (C38).

  Further theorems carry no number: once-only backup codes, replayed TOTP codes, QR logins, crates and shards,
  conversations and voice rooms as sets of pairs (\<open>conversation_membership\<close>, \<open>voice_rooms\<close>), the status page
  (\<open>status_history\<close>), the accounts after a start (\<open>boot_admins\<close>) and after \<^verbatim>\<open>seed-admin\<close> (\<open>seed_admin_recovers\<close>), the size of
  the tables of buckets (\<open>limiter_bounded\<close>), the update manifest (\<open>update_manifest_sound\<close>), mails that are only logged
  (\<open>mail_simulated_iff\<close>); and theorems that record a defect of the code:
  \<open>expired_challenge_approvable\<close>, \<open>qr_approve_invalid_leaves_session\<close>, \<open>sms_without_login\<close>, \<open>reauth_ghost\<close>,
  \<open>craft_race\<close>, \<open>unsigned_payment_accepted\<close>, \<open>limiter_forgets\<close>, \<open>status_page_unstyled\<close>, \<open>verification_file_missing\<close>,
  \<open>sendSMS_refused\<close>, \<open>drawRect_upside_down\<close>, \<open>arcHigh_above\<close>.

  \<^bold>\<open>Bounds.\<close>  No definition uses fuel; every recursion is structural or has a measure, except the loop
  of \<^verbatim>\<open>drawLine\<close>, a partial function that C37 shows to be total.  Times are integers in
  nanoseconds; SQLite's timestamps are whole seconds, and the textual comparisons of the queries are modelled as
  such.  Ids are integers: \<^verbatim>\<open>AUTOINCREMENT\<close> does not wrap in the life of a database.

  \<^bold>\<open>Not modelled.\<close>  Errors of the database driver (a statement on an open database succeeds or violates a
  constraint); JSON encoding and decoding, given as parameters; log lines; goroutines of the server started with
  \<^verbatim>\<open>go\<close> run at once; the portal's HTML page (\<^verbatim>\<open>admin_portal.go\<close>, one string constant with no logic of the server's); PNG
  encoding and image decoding, which are the standard library's; fused multiply-add, which Go may use on some processors
  in the generators; and the web and Android clients, which are programs in other languages.
\<close>

end
